(* ===== verification/RustStr.thy ===== *)
theory RustStr
  imports Prelude
begin

text \<open>
  The operations of Rust's \<open>str\<close>, \<open>String\<close> and unsigned integers that the five binaries
  call, on UTF-8 byte strings: white space (\<open>trim\<close>, \<open>split_whitespace\<close>), lines, searching
  and splitting, parsing and printing of unsigned numbers, and joining.
\<close>

section \<open>White space\<close>

text \<open>
  The number of bytes of the white space character (\<open>char::is_whitespace\<close>) a string starts
  with, 0 if it starts with none: the ASCII ones, U+0085, U+00A0, U+1680, U+2000 to U+200A,
  U+2028, U+2029, U+202F, U+205F and U+3000.
\<close>

fun ws_codes :: "nat list \<Rightarrow> nat" where
  "ws_codes [] = 0"
| "ws_codes (a # rest) =
     (if 9 \<le> a \<and> a \<le> 13 \<or> a = 32 then 1
      else case rest of
        [] \<Rightarrow> 0
      | b # rest' \<Rightarrow>
          if a = 194 \<and> (b = 133 \<or> b = 160) then 2
          else (case rest' of
            [] \<Rightarrow> 0
          | c # _ \<Rightarrow>
              if a = 225 \<and> b = 154 \<and> c = 128
                 \<or> a = 226 \<and> b = 128 \<and> (128 \<le> c \<and> c \<le> 138 \<or> c = 168 \<or> c = 169 \<or> c = 175)
                 \<or> a = 226 \<and> b = 129 \<and> c = 159
                 \<or> a = 227 \<and> b = 128 \<and> c = 128
              then 3 else 0))"

definition ws_len :: "string \<Rightarrow> nat" where
  "ws_len s = ws_codes (map code_of (take 3 s))"

text \<open>The same at the end of a string, given reversed.\<close>

definition ws_len_end :: "string \<Rightarrow> nat" where
  "ws_len_end r =
     (if ws_len (take 1 r) = 1 then 1
      else if ws_len (rev (take 2 r)) = 2 then 2
      else if ws_len (rev (take 3 r)) = 3 then 3 else 0)"

definition is_space :: "char \<Rightarrow> bool" where
  "is_space c \<longleftrightarrow> 9 \<le> code_of c \<and> code_of c \<le> 13 \<or> code_of c = 32"

lemma ws_len_Nil [simp]: "ws_len [] = 0"
  by (simp add: ws_len_def)

lemma ws_len_Cons_space [simp]: "is_space c \<Longrightarrow> ws_len (c # s) = 1"
  by (auto simp: ws_len_def is_space_def)

lemma ws_len_Cons_ascii: "code_of c < 128 \<Longrightarrow> \<not> is_space c \<Longrightarrow> ws_len (c # s) = 0"
  by (auto simp: ws_len_def is_space_def split: list.splits)

lemma ws_codes_le: "ws_codes cs \<le> length cs"
  by (cases cs rule: ws_codes.cases) (auto split: list.splits)

lemma ws_len_le: "ws_len s \<le> length s"
  using ws_codes_le [of "map code_of (take 3 s)"] by (simp add: ws_len_def)

lemma ws_len_nonempty: "0 < ws_len s \<Longrightarrow> s \<noteq> []"
  by auto

function trim_start :: "string \<Rightarrow> string" where
  "trim_start s = (if ws_len s = 0 then s else trim_start (drop (ws_len s) s))"
  by pat_completeness auto
termination
  by (relation "measure length") (auto simp: ws_len_nonempty)

declare trim_start.simps [simp del]

function trim_end_rev :: "string \<Rightarrow> string" where
  "trim_end_rev r = (if r = [] \<or> ws_len_end r = 0 then r else trim_end_rev (drop (ws_len_end r) r))"
  by pat_completeness auto
termination
  by (relation "measure length") auto

declare trim_end_rev.simps [simp del]

definition trim_end :: "string \<Rightarrow> string" where
  "trim_end s = rev (trim_end_rev (rev s))"

definition trim :: "string \<Rightarrow> string" where
  "trim s = trim_end (trim_start s)"

text \<open>\<open>split_whitespace\<close>: the maximal runs without white space.\<close>

function split_ws_aux :: "string \<Rightarrow> string \<Rightarrow> string list" where
  "split_ws_aux acc s =
     (if s = [] then (if acc = [] then [] else [acc])
      else if ws_len s = 0 then split_ws_aux (acc @ [hd s]) (tl s)
      else (if acc = [] then [] else [acc]) @ split_ws_aux [] (drop (ws_len s) s))"
  by pat_completeness auto
termination
  by (relation "measure (\<lambda>(acc, s). length s)") auto

declare split_ws_aux.simps [simp del]

definition split_whitespace :: "string \<Rightarrow> string list" where
  "split_whitespace s = split_ws_aux [] s"

lemma trim_start_Nil [simp]: "trim_start [] = []"
  by (simp add: trim_start.simps)

lemma trim_start_noop: "ws_len s = 0 \<Longrightarrow> trim_start s = s"
  by (simp add: trim_start.simps)

lemma trim_end_rev_Nil [simp]: "trim_end_rev [] = []"
  by (simp add: trim_end_rev.simps)

lemma trim_end_rev_noop: "ws_len_end r = 0 \<Longrightarrow> trim_end_rev r = r"
  by (simp add: trim_end_rev.simps)

lemma trim_Nil [simp]: "trim [] = []"
  by (simp add: trim_def trim_end_def)

text \<open>A string whose bytes are all ASCII and no space is left alone.\<close>

definition plain_char :: "char \<Rightarrow> bool" where
  "plain_char c \<longleftrightarrow> code_of c < 128 \<and> \<not> is_space c"

lemma ws_len_plain: "plain_char c \<Longrightarrow> ws_len (c # s) = 0"
  by (simp add: plain_char_def ws_len_Cons_ascii)

lemma ws_codes_eq2: "ws_codes cs = 2 \<Longrightarrow> length cs \<ge> 2 \<and> 128 \<le> cs ! 1"
  by (cases cs rule: ws_codes.cases) (auto split: list.splits if_splits)

lemma ws_codes_eq3: "ws_codes cs = 3 \<Longrightarrow> length cs \<ge> 3 \<and> 128 \<le> cs ! 2"
  by (cases cs rule: ws_codes.cases) (auto split: list.splits if_splits)

lemma ws_len_end_plain:
  assumes "plain_char c"
  shows "ws_len_end (c # r) = 0"
proof -
  have c: "code_of c < 128" "ws_len [c] = 0"
    using assms by (auto simp: plain_char_def ws_len_Cons_ascii)
  have 2: "ws_len (rev (take 2 (c # r))) \<noteq> 2"
    using ws_codes_eq2 [of "map code_of (rev (take 2 (c # r)))"] c(1)
    by (cases r) (auto simp: ws_len_def numeral_2_eq_2)
  have 3: "ws_len (rev (take 3 (c # r))) \<noteq> 3"
    using ws_codes_eq3 [of "map code_of (rev (take 3 (c # r)))"] c(1)
    by (cases r; cases "tl r") (auto simp: ws_len_def numeral_3_eq_3)
  show ?thesis using c(2) 2 3 by (simp add: ws_len_end_def)
qed

lemma trim_start_plain: "plain_char c \<Longrightarrow> trim_start (c # s) = c # s"
  by (simp add: trim_start_noop ws_len_plain)

lemma trim_end_plain: "plain_char c \<Longrightarrow> trim_end (s @ [c]) = s @ [c]"
  by (simp add: trim_end_def trim_end_rev_noop ws_len_end_plain)

lemma trim_plain:
  assumes "list_all plain_char s"
  shows "trim s = s"
proof (cases s)
  case Nil
  then show ?thesis by simp
next
  case (Cons c t)
  then have start: "trim_start s = s" using assms by (simp add: trim_start_plain)
  obtain u d where s: "s = u @ [d]" using Cons by (metis list.distinct(1) rev_exhaust)
  then have "trim_end s = s" using assms by (simp add: trim_end_plain)
  with start show ?thesis by (simp add: trim_def)
qed

lemma split_ws_aux_plain:
  "list_all plain_char s \<Longrightarrow> split_ws_aux acc s = (if acc @ s = [] then [] else [acc @ s])"
proof (induction s arbitrary: acc)
  case Nil
  then show ?case by (simp add: split_ws_aux.simps)
next
  case (Cons c s)
  then show ?case by (simp add: split_ws_aux.simps [of acc] ws_len_plain)
qed

lemma split_whitespace_plain:
  "list_all plain_char s \<Longrightarrow> s \<noteq> [] \<Longrightarrow> split_whitespace s = [s]"
  by (simp add: split_whitespace_def split_ws_aux_plain)


section \<open>Searching and splitting\<close>

definition starts_with :: "string \<Rightarrow> string \<Rightarrow> bool" where
  "starts_with p s = (take (length p) s = p)"

definition ends_with :: "string \<Rightarrow> string \<Rightarrow> bool" where
  "ends_with p s = starts_with (rev p) (rev s)"

definition strip_prefix :: "string \<Rightarrow> string \<Rightarrow> string option" where
  "strip_prefix p s = (if starts_with p s then Some (drop (length p) s) else None)"

fun str_contains :: "string \<Rightarrow> string \<Rightarrow> bool" where
  "str_contains p [] = (p = [])"
| "str_contains p (c # s) = (starts_with p (c # s) \<or> str_contains p s)"

lemma starts_with_append [simp]: "starts_with p (p @ s)"
  by (simp add: starts_with_def)

lemma starts_with_iff: "starts_with p s \<longleftrightarrow> (\<exists>t. s = p @ t)"
  by (metis append_eq_conv_conj append_take_drop_id starts_with_def)

lemma starts_with_Nil [simp]: "starts_with [] s"
  by (simp add: starts_with_def)

lemma starts_with_Cons [simp]:
  "starts_with (c # p) [] = False"
  "starts_with (c # p) (d # s) = (c = d \<and> starts_with p s)"
  by (auto simp: starts_with_def)

lemma strip_prefix_Some_iff [simp]: "strip_prefix p s = Some t \<longleftrightarrow> s = p @ t"
  by (auto simp: strip_prefix_def starts_with_iff)

lemma ends_with_iff: "ends_with p s \<longleftrightarrow> (\<exists>t. s = t @ p)"
  by (simp add: ends_with_def starts_with_iff) (metis rev_append rev_rev_ident)

lemma ends_with_append [simp]: "ends_with p (s @ p)"
  by (auto simp: ends_with_iff)

lemma str_contains_iff: "str_contains p s \<longleftrightarrow> (\<exists>u v. s = u @ p @ v)"
proof (induction s)
  case Nil
  then show ?case by auto
next
  case (Cons c s)
  show ?case
  proof
    assume "str_contains p (c # s)"
    then consider "starts_with p (c # s)" | "str_contains p s" by auto
    then show "\<exists>u v. c # s = u @ p @ v"
    proof cases
      case 1
      then show ?thesis by (metis append_Nil starts_with_iff)
    next
      case 2
      then show ?thesis using Cons.IH by (metis append_Cons)
    qed
  next
    assume "\<exists>u v. c # s = u @ p @ v"
    then obtain u v where uv: "c # s = u @ p @ v" by blast
    show "str_contains p (c # s)"
    proof (cases u)
      case Nil
      then have "starts_with p (c # s)" using uv by (simp add: starts_with_iff)
      then show ?thesis by simp
    next
      case (Cons d u')
      then show ?thesis using uv Cons.IH by auto
    qed
  qed
qed

lemma str_contains_append: "str_contains p s \<Longrightarrow> str_contains p (s @ t)"
  by (auto simp: str_contains_iff) (metis append.assoc)

lemma str_contains_char: "str_contains [c] s \<longleftrightarrow> c \<in> set s"
  by (auto simp: str_contains_iff in_set_conv_decomp)

text \<open>\<open>split_once\<close> at the first occurrence of a byte.\<close>

fun split_once :: "char \<Rightarrow> string \<Rightarrow> (string \<times> string) option" where
  "split_once d [] = None"
| "split_once d (c # s) =
     (if c = d then Some ([], s)
      else case split_once d s of None \<Rightarrow> None | Some (l, r) \<Rightarrow> Some (c # l, r))"

lemma split_once_append [simp]: "d \<notin> set l \<Longrightarrow> split_once d (l @ d # r) = Some (l, r)"
  by (induction l) auto

lemma split_once_SomeD: "split_once d s = Some (l, r) \<Longrightarrow> s = l @ d # r \<and> d \<notin> set l"
proof (induction s arbitrary: l)
  case (Cons c s)
  show ?case
  proof (cases "c = d")
    case True
    then show ?thesis using Cons.prems by simp
  next
    case False
    then obtain l' where "split_once d s = Some (l', r)" "l = c # l'"
      using Cons.prems by (auto split: option.splits)
    then show ?thesis using Cons.IH [of l'] False by simp
  qed
qed simp

lemma split_once_Some_iff: "split_once d s = Some (l, r) \<longleftrightarrow> s = l @ d # r \<and> d \<notin> set l"
  using split_once_SomeD by auto

lemma split_once_None_iff: "split_once d s = None \<longleftrightarrow> d \<notin> set s"
  by (induction s) (auto split: option.split)

text \<open>\<open>split\<close> at every occurrence of a byte; there is always at least one part.\<close>

fun split_char :: "char \<Rightarrow> string \<Rightarrow> string list" where
  "split_char d [] = [[]]"
| "split_char d (c # s) =
     (if c = d then [] # split_char d s
      else case split_char d s of [] \<Rightarrow> [[c]] | p # ps \<Rightarrow> (c # p) # ps)"

lemma split_char_nonempty [simp]: "split_char d s \<noteq> []"
  by (induction s) (auto split: list.splits)

lemma split_char_parts: "p \<in> set (split_char d s) \<Longrightarrow> d \<notin> set p \<and> set p \<subseteq> set s"
proof (induction s arbitrary: p)
  case (Cons c s)
  then show ?case by (cases "split_char d s") (force split: if_splits)+
qed simp

lemma split_char_sep: "split_char d (a @ d # b) = split_char d a @ split_char d b"
proof (induction a)
  case (Cons c a)
  then show ?case by (cases "split_char d a") auto
qed simp

text \<open>\<open>splitn(n, c)\<close>: at most \<open>n\<close> parts, the last one the rest.\<close>

fun splitn :: "nat \<Rightarrow> char \<Rightarrow> string \<Rightarrow> string list" where
  "splitn 0 d s = []"
| "splitn (Suc 0) d s = [s]"
| "splitn (Suc (Suc n)) d s =
     (case split_once d s of None \<Rightarrow> [s] | Some (l, r) \<Rightarrow> l # splitn (Suc n) d r)"

lemma length_splitn_le: "length (splitn n d s) \<le> n"
  by (induction n d s rule: splitn.induct) (auto split: option.splits)

section \<open>Joining and replacing\<close>

fun str_join :: "string \<Rightarrow> string list \<Rightarrow> string" where
  "str_join sep [] = []"
| "str_join sep [x] = x"
| "str_join sep (x # y # xs) = x @ sep @ str_join sep (y # xs)"

lemma str_join_Cons: "str_join sep (x # xs) = (if xs = [] then x else x @ sep @ str_join sep xs)"
  by (cases xs) auto

lemma str_join_split_char: "str_join [d] (split_char d s) = s"
  by (induction s) (auto simp: str_join_Cons split: list.splits if_splits)

lemma split_char_noop: "d \<notin> set s \<Longrightarrow> split_char d s = [s]"
  by (induction s) auto

lemma split_char_append: "d \<notin> set s \<Longrightarrow> split_char d (s @ d # t) = s # split_char d t"
  by (induction s) auto

lemma split_char_str_join:
  "xs \<noteq> [] \<Longrightarrow> \<forall>x \<in> set xs. d \<notin> set x \<Longrightarrow> split_char d (str_join [d] xs) = xs"
  by (induction xs rule: induct_list012) (auto simp: split_char_noop split_char_append)

text \<open>\<open>str::replace\<close> for a non-empty pattern: left to right, without overlaps.\<close>

function str_replace :: "string \<Rightarrow> string \<Rightarrow> string \<Rightarrow> string" where
  "str_replace p q s =
     (if s = [] \<or> p = [] then s
      else if starts_with p s then q @ str_replace p q (drop (length p) s)
      else hd s # str_replace p q (tl s))"
  by pat_completeness auto
termination
  by (relation "measure (\<lambda>(p, q, s). length s)") auto

declare str_replace.simps [simp del]

section \<open>Lines\<close>

text \<open>
  \<open>str::lines\<close>: the pieces ended by a line feed, which is dropped together with one
  carriage return before it; a last piece without a line feed is kept as it is, unless it
  is empty.
\<close>

definition strip_cr :: "string \<Rightarrow> string" where
  "strip_cr l = (if l \<noteq> [] \<and> last l = CR then butlast l else l)"

function rust_lines :: "string \<Rightarrow> string list" where
  "rust_lines s =
     (case split_once LF s of
        None \<Rightarrow> if s = [] then [] else [s]
      | Some (l, r) \<Rightarrow> strip_cr l # rust_lines r)"
  by pat_completeness auto
termination
  by (relation "measure length") (auto simp: split_once_Some_iff)

declare rust_lines.simps [simp del]

lemma rust_lines_Nil [simp]: "rust_lines [] = []"
  by (simp add: rust_lines.simps)

lemma rust_lines_line: "LF \<notin> set l \<Longrightarrow> rust_lines (l @ LF # s) = strip_cr l # rust_lines s"
proof -
  assume "LF \<notin> set l"
  then have "split_once LF (l @ LF # s) = Some (l, s)" by (simp add: split_once_Some_iff)
  then show ?thesis by (simp add: rust_lines.simps [of "l @ LF # s"])
qed

lemma rust_lines_last: "LF \<notin> set l \<Longrightarrow> l \<noteq> [] \<Longrightarrow> rust_lines l = [l]"
  using split_once_None_iff [of LF l] by (simp add: rust_lines.simps)

lemma strip_cr_noop: "CR \<notin> set l \<Longrightarrow> strip_cr l = l"
  by (metis last_in_set strip_cr_def)

lemma set_strip_cr: "set (strip_cr l) \<subseteq> set l"
  by (auto simp: strip_cr_def dest: in_set_butlastD)

lemma rust_lines_no_LF: "l \<in> set (rust_lines s) \<Longrightarrow> LF \<notin> set l"
proof (induction s rule: rust_lines.induct)
  case (1 s)
  show ?case
  proof (cases "split_once LF s")
    case None
    then have "LF \<notin> set s" by (simp add: split_once_None_iff)
    then show ?thesis using "1.prems" None
      by (simp add: rust_lines.simps [of s] split: if_splits)
  next
    case (Some lr)
    obtain a b where lr: "lr = (a, b)" by fastforce
    have "LF \<notin> set (strip_cr a)" using Some lr set_strip_cr by (auto simp: split_once_Some_iff)
    then show ?thesis using Some lr "1.IH" "1.prems" by (auto simp: rust_lines.simps [of s])
  qed
qed

definition clean_line :: "string \<Rightarrow> bool" where
  "clean_line l \<longleftrightarrow> LF \<notin> set l \<and> strip_cr l = l"

text \<open>Every line followed by a line feed, as the writers of the configuration files do.\<close>

definition unlines :: "string list \<Rightarrow> string" where
  "unlines ls = concat (map (\<lambda>l. l @ [LF]) ls)"

lemma unlines_simps [simp]:
  "unlines [] = []"
  "unlines (l # ls) = l @ LF # unlines ls"
  "unlines (ls @ ms) = unlines ls @ unlines ms"
  by (simp_all add: unlines_def)

lemma rust_lines_unlines: "\<forall>l \<in> set ls. clean_line l \<Longrightarrow> rust_lines (unlines ls) = ls"
  by (induction ls) (auto simp: rust_lines_line clean_line_def)

lemma rust_lines_unlines_append:
  "\<forall>l \<in> set ls. clean_line l \<Longrightarrow> rust_lines (unlines ls @ s) = ls @ rust_lines s"
  by (induction ls) (auto simp: rust_lines_line clean_line_def)

lemma rust_lines_unlines_raw:
  "\<forall>l \<in> set ls. LF \<notin> set l \<Longrightarrow> rust_lines (unlines ls) = map strip_cr ls"
  by (induction ls) (auto simp: rust_lines_line)

lemma rust_lines_set: "l \<in> set (rust_lines s) \<Longrightarrow> set l \<subseteq> set s"
proof (induction s rule: rust_lines.induct)
  case (1 s)
  show ?case
  proof (cases "split_once LF s")
    case None
    then show ?thesis using "1.prems" by (simp add: rust_lines.simps [of s] split: if_splits)
  next
    case (Some lr)
    obtain a b where lr: "lr = (a, b)" by fastforce
    then have s: "s = a @ LF # b" using Some by (simp add: split_once_Some_iff)
    have "l = strip_cr a \<or> l \<in> set (rust_lines b)"
      using Some lr "1.prems" by (simp add: rust_lines.simps [of s])
    then show ?thesis using Some lr "1.IH" set_strip_cr [of a] s by fastforce
  qed
qed

lemma rust_lines_clean: "CR \<notin> set s \<Longrightarrow> l \<in> set (rust_lines s) \<Longrightarrow> clean_line l"
  using rust_lines_set [of l s] rust_lines_no_LF [of l s]
  by (auto simp: clean_line_def intro: strip_cr_noop)

lemma set_unlines: "set (unlines ls) = (\<Union>l \<in> set ls. insert LF (set l))"
  by (auto simp: unlines_def)

lemma str_join_LF_unlines: "str_join [LF] ls @ (if ls = [] then [] else [LF]) = unlines ls"
  by (induction ls rule: induct_list012) auto

text \<open>\<open>trim_trailing_newlines\<close>, the same function in two of the binaries.\<close>

definition trim_trailing_newlines :: "string \<Rightarrow> string" where
  "trim_trailing_newlines s = rev (dropWhile (\<lambda>c. c = LF \<or> c = CR) (rev s))"

lemma trim_trailing_newlines_end:
  "trim_trailing_newlines s = [] \<or> last (trim_trailing_newlines s) \<notin> {LF, CR}"
proof -
  let ?p = "\<lambda>c. c = LF \<or> c = CR" and ?d = "dropWhile (\<lambda>c. c = LF \<or> c = CR) (rev s)"
  have "?d = [] \<or> \<not> ?p (hd ?d)" using hd_dropWhile [of ?p "rev s"] by blast
  then show ?thesis by (auto simp: trim_trailing_newlines_def last_rev)
qed

lemma trim_trailing_newlines_prefix: "\<exists>t. s = trim_trailing_newlines s @ t \<and> set t \<subseteq> {LF, CR}"
proof -
  let ?p = "\<lambda>c. c = LF \<or> c = CR"
  have "rev (rev s) = rev (takeWhile ?p (rev s) @ dropWhile ?p (rev s))"
    by (simp only: takeWhile_dropWhile_id)
  then have "s = trim_trailing_newlines s @ rev (takeWhile ?p (rev s))"
    by (simp only: rev_append rev_rev_ident trim_trailing_newlines_def)
  moreover have "set (rev (takeWhile ?p (rev s))) \<subseteq> {LF, CR}"
    by (auto dest: set_takeWhileD)
  ultimately show ?thesis by blast
qed

section \<open>Words separated by spaces\<close>

lemma split_ws_aux_word:
  "list_all plain_char w \<Longrightarrow> is_space c \<Longrightarrow>
     split_ws_aux acc (w @ c # s) = (if acc @ w = [] then [] else [acc @ w]) @ split_ws_aux [] s"
proof (induction w arbitrary: acc)
  case Nil
  then show ?case by (simp add: split_ws_aux.simps [of acc])
next
  case (Cons d w)
  then show ?case by (simp add: split_ws_aux.simps [of acc] ws_len_plain)
qed

lemma is_space_space [simp]: "is_space (CHR '' '')"
  by (simp add: is_space_def code_of_def)

lemma split_whitespace_word:
  "list_all plain_char w \<Longrightarrow> w \<noteq> [] \<Longrightarrow> is_space c \<Longrightarrow>
     split_whitespace (w @ c # s) = w # split_whitespace s"
  by (simp add: split_whitespace_def split_ws_aux_word)

definition word :: "string \<Rightarrow> bool" where
  "word w \<longleftrightarrow> w \<noteq> [] \<and> list_all plain_char w"

lemma split_whitespace_join:
  "\<forall>w \<in> set ws. word w \<Longrightarrow> split_whitespace (str_join '' '' ws) = ws"
proof (induction ws rule: induct_list012)
  case 1
  then show ?case by (simp add: split_whitespace_def split_ws_aux.simps)
next
  case (2 w)
  then show ?case by (simp add: word_def split_whitespace_plain)
next
  case (3 w x ws)
  then show ?case by (simp add: word_def split_whitespace_word)
qed

lemma plain_char_not_eol: "plain_char c \<Longrightarrow> c \<noteq> LF \<and> c \<noteq> CR"
  by (auto simp: plain_char_def is_space_def code_of_def)

lemma word_no_eol: "word w \<Longrightarrow> LF \<notin> set w \<and> CR \<notin> set w"
  using plain_char_not_eol by (auto simp: word_def list_all_iff)

lemma word_clean: "word w \<Longrightarrow> clean_line w"
  by (simp add: clean_line_def strip_cr_noop word_no_eol)

lemma set_str_join: "set (str_join sep ws) \<subseteq> set sep \<union> (\<Union>w \<in> set ws. set w)"
  by (induction ws rule: induct_list012) auto

lemma words_clean: "\<forall>w \<in> set ws. word w \<Longrightarrow> clean_line (str_join '' '' ws)"
proof -
  assume "\<forall>w \<in> set ws. word w"
  then have "LF \<notin> set (str_join '' '' ws)" "CR \<notin> set (str_join '' '' ws)"
    using set_str_join [of "'' ''" ws] word_no_eol by auto
  then show ?thesis by (simp add: clean_line_def strip_cr_noop)
qed

section \<open>Numbers\<close>

definition digit_val :: "char \<Rightarrow> nat" where
  "digit_val c = code_of c - 48"

definition digits_value :: "string \<Rightarrow> nat" where
  "digits_value s = foldl (\<lambda>n c. 10 * n + digit_val c) 0 s"

text \<open>\<open>str::parse\<close> to an unsigned integer below \<open>bound\<close>; one leading \<open>+\<close> is accepted.\<close>

definition parse_uint :: "nat \<Rightarrow> string \<Rightarrow> nat option" where
  "parse_uint bound s =
     (let ds = (case s of [] \<Rightarrow> [] | c # t \<Rightarrow> if c = CHR ''+'' then t else s)
      in if ds = [] \<or> \<not> list_all is_digit ds then None
         else if digits_value ds < bound then Some (digits_value ds) else None)"

abbreviation U8_BOUND :: nat where "U8_BOUND \<equiv> 256"
abbreviation U32_BOUND :: nat where "U32_BOUND \<equiv> 4294967296"
abbreviation U64_BOUND :: nat where "U64_BOUND \<equiv> 18446744073709551616"

definition digit_char :: "nat \<Rightarrow> char" where
  "digit_char d = char_of (48 + d)"

fun show_nat :: "nat \<Rightarrow> string" where
  "show_nat n = (if n < 10 then [digit_char n] else show_nat (n div 10) @ [digit_char (n mod 10)])"

declare show_nat.simps [simp del]

definition show_int :: "int \<Rightarrow> string" where
  "show_int i = (if i < 0 then CHR ''-'' # show_nat (nat (- i)) else show_nat (nat i))"

lemma code_of_digit_char: "d < 10 \<Longrightarrow> code_of (digit_char d) = 48 + d"
  by (simp add: code_of_def digit_char_def)

lemma is_digit_digit_char: "d < 10 \<Longrightarrow> is_digit (digit_char d)"
  by (simp add: is_digit_def code_of_digit_char)

lemma show_nat_nonempty [simp]: "show_nat n \<noteq> []"
  by (subst show_nat.simps) simp

lemma show_nat_digits: "list_all is_digit (show_nat n)"
proof (induction n rule: show_nat.induct)
  case (1 n)
  then show ?case by (subst show_nat.simps) (auto simp: is_digit_digit_char)
qed

lemma digits_value_show_nat: "digits_value (show_nat n) = n"
proof (induction n rule: show_nat.induct)
  case (1 n)
  show ?case
  proof (cases "n < 10")
    case True
    then show ?thesis
      by (subst show_nat.simps) (simp add: digits_value_def digit_val_def code_of_digit_char)
  next
    case False
    with 1 have "digits_value (show_nat (n div 10)) = n div 10" by simp
    with False show ?thesis
      by (subst show_nat.simps)
        (simp add: digits_value_def digit_val_def code_of_digit_char)
  qed
qed

lemma is_digit_not_plus: "is_digit c \<Longrightarrow> c \<noteq> CHR ''+''"
  by (auto simp: is_digit_def code_of_def)

lemma parse_uint_show_nat: "n < b \<Longrightarrow> parse_uint b (show_nat n) = Some n"
  using show_nat_digits [of n] digits_value_show_nat [of n] is_digit_not_plus
  by (cases "show_nat n") (auto simp: parse_uint_def Let_def)

lemma parse_uint_bound: "parse_uint b s = Some n \<Longrightarrow> n < b"
  by (auto simp: parse_uint_def Let_def split: if_splits)

lemma show_nat_no_char: "\<not> is_digit c \<Longrightarrow> c \<notin> set (show_nat n)"
  using show_nat_digits [of n] by (auto simp: list_all_iff)

lemma plain_char_digit: "is_digit c \<Longrightarrow> plain_char c"
  by (auto simp: is_digit_def plain_char_def is_space_def)

section \<open>UTF-8\<close>

text \<open>\<open>str::from_utf8\<close> succeeds: well-formed sequences of one to four bytes.\<close>

definition is_cont :: "nat \<Rightarrow> bool" where
  "is_cont b \<longleftrightarrow> 128 \<le> b \<and> b < 192"

function utf8_codes :: "nat list \<Rightarrow> bool" where
  "utf8_codes cs =
     (case cs of
        [] \<Rightarrow> True
      | a # r \<Rightarrow>
          if a < 128 then utf8_codes r
          else if 194 \<le> a \<and> a < 224
          then r \<noteq> [] \<and> is_cont (hd r) \<and> utf8_codes (drop 1 r)
          else if 224 \<le> a \<and> a < 240
          then length r \<ge> 2 \<and> list_all is_cont (take 2 r) \<and> (a = 224 \<longrightarrow> 160 \<le> hd r)
            \<and> (a = 237 \<longrightarrow> hd r < 160) \<and> utf8_codes (drop 2 r)
          else if 240 \<le> a \<and> a < 245
          then length r \<ge> 3 \<and> list_all is_cont (take 3 r) \<and> (a = 240 \<longrightarrow> 144 \<le> hd r)
            \<and> (a = 244 \<longrightarrow> hd r < 144) \<and> utf8_codes (drop 3 r)
          else False)"
  by pat_completeness auto
termination
  by (relation "measure length") auto

declare utf8_codes.simps [simp del]

definition is_utf8 :: "string \<Rightarrow> bool" where
  "is_utf8 s = utf8_codes (map code_of s)"

lemma is_utf8_ascii: "\<forall>c \<in> set s. code_of c < 128 \<Longrightarrow> is_utf8 s"
  unfolding is_utf8_def
  by (induction s) (subst utf8_codes.simps, simp)+

end
