(* ===== verification/Paths.thy ===== *)
theory Paths
  imports RustStr
begin

text \<open>
  Rust's \<open>Path\<close> and \<open>PathBuf\<close> on Unix, as the binaries use them: a path is the byte string
  it was made from, \<open>components\<close> its parsed form, and comparisons (\<open>==\<close>, \<open>starts_with\<close>,
  \<open>strip_prefix\<close>) work on components. Then the path functions of \<open>achost-lxc-runtime\<close> that
  keep a container import inside its root file system.
\<close>

section \<open>Paths of the standard library\<close>

datatype path_component = RootDir | CurDir | ParentDir | Normal string

fun comp_parts :: "string list \<Rightarrow> path_component list" where
  "comp_parts [] = []"
| "comp_parts (p # ps) =
     (if p = [] \<or> p = ''.'' then comp_parts ps
      else if p = ''..'' then ParentDir # comp_parts ps
      else Normal p # comp_parts ps)"

definition is_absolute :: "string \<Rightarrow> bool" where
  "is_absolute p = starts_with ''/'' p"

definition components :: "string \<Rightarrow> path_component list" where
  "components p =
     (let parts = split_char (CHR ''/'') p
      in if is_absolute p then RootDir # comp_parts parts
         else if hd parts = ''.'' then CurDir # comp_parts parts
         else comp_parts parts)"

definition path_join :: "string \<Rightarrow> string \<Rightarrow> string" where
  "path_join base p =
     (if is_absolute p then p
      else if base = [] \<or> ends_with ''/'' base then base @ p
      else base @ ''/'' @ p)"

definition path_eq :: "string \<Rightarrow> string \<Rightarrow> bool" where
  "path_eq p q \<longleftrightarrow> components p = components q"

definition path_starts_with :: "string \<Rightarrow> string \<Rightarrow> bool" where
  "path_starts_with p base \<longleftrightarrow> prefix (components base) (components p)"

text \<open>\<open>Path::strip_prefix\<close>, with the components of the rest.\<close>

definition path_strip_prefix :: "string \<Rightarrow> string \<Rightarrow> path_component list option" where
  "path_strip_prefix p base =
     (if path_starts_with p base then Some (drop (length (components base)) (components p)) else None)"

definition path_parent :: "path_component list \<Rightarrow> path_component list option" where
  "path_parent cs = (if cs = [] \<or> last cs = RootDir then None else Some (butlast cs))"

text \<open>\<open>file_name\<close>: the last component, if it is a normal one.\<close>

definition file_name :: "string \<Rightarrow> string option" where
  "file_name p = (case rev (components p) of Normal n # _ \<Rightarrow> Some n | _ \<Rightarrow> None)"

text \<open>\<open>extension\<close>: after the last dot of the file name, unless that dot starts it.\<close>

definition extension :: "string \<Rightarrow> string option" where
  "extension p =
     (case file_name p of
        None \<Rightarrow> None
      | Some n \<Rightarrow>
          (case split_once (CHR ''.'') (rev n) of
             Some (e, b) \<Rightarrow> if b = [] then None else Some (rev e)
           | None \<Rightarrow> None))"

text \<open>\<open>with_extension\<close>, for a path that ends with its file name.\<close>

definition with_extension :: "string \<Rightarrow> string \<Rightarrow> string" where
  "with_extension p ext =
     (case extension p of
        None \<Rightarrow> p @ ''.'' @ ext
      | Some e \<Rightarrow> take (length p - length e) p @ ext)"

text \<open>\<open>to_str\<close> of a path that must be UTF-8.\<close>

definition path_str :: "string \<Rightarrow> string result" where
  "path_str path = (if is_utf8 path then Inr path else Inl (''non-utf8 path: '' @ path))"

text \<open>A relative path made of normal components only, as \<open>PathBuf::push\<close> builds it.\<close>

definition names_path :: "string list \<Rightarrow> string" where
  "names_path ns = str_join ''/'' ns"

definition good_name :: "string \<Rightarrow> bool" where
  "good_name n \<longleftrightarrow> n \<noteq> [] \<and> n \<noteq> ''.'' \<and> n \<noteq> ''..'' \<and> CHR ''/'' \<notin> set n"

lemma comp_parts_append: "comp_parts (ps @ qs) = comp_parts ps @ comp_parts qs"
  by (induction ps) auto

lemma comp_parts_good: "\<forall>n \<in> set ns. good_name n \<Longrightarrow> comp_parts ns = map Normal ns"
  by (induction ns) (auto simp: good_name_def)

lemma comp_parts_shape:
  "c \<in> set (comp_parts ps) \<Longrightarrow>
     c = ParentDir \<or> (\<exists>n \<in> set ps. c = Normal n \<and> n \<noteq> [] \<and> n \<noteq> ''.'' \<and> n \<noteq> ''..'')"
  by (induction ps) (auto split: if_splits)

lemma components_Normal_good: "Normal n \<in> set (components p) \<Longrightarrow> good_name n"
  using comp_parts_shape [of "Normal n" "split_char (CHR ''/'') p"] split_char_parts
  by (auto simp: components_def Let_def good_name_def split: if_splits)

lemma is_absolute_Cons: "is_absolute (c # s) \<longleftrightarrow> c = CHR ''/''"
  by (auto simp: is_absolute_def)

lemma not_is_absolute_Nil [simp]: "\<not> is_absolute []"
  by (simp add: is_absolute_def)

lemma names_path_components:
  assumes "\<forall>n \<in> set ns. good_name n"
  shows "components (names_path ns) = map Normal ns"
proof (cases ns)
  case Nil
  then show ?thesis by (simp add: names_path_def components_def)
next
  case (Cons n ms)
  have parts: "split_char (CHR ''/'') (names_path ns) = ns"
    unfolding names_path_def
    by (rule split_char_str_join) (use assms Cons in \<open>simp_all add: good_name_def\<close>)
  have "\<not> is_absolute (names_path ns)"
    using assms Cons
    by (cases n) (auto simp: names_path_def str_join_Cons is_absolute_Cons good_name_def)
  moreover have "hd ns \<noteq> ''.''" using assms Cons by (auto simp: good_name_def)
  ultimately show ?thesis by (simp add: components_def parts comp_parts_good [OF assms])
qed

lemma is_absolute_append: "p \<noteq> [] \<Longrightarrow> is_absolute (p @ q) = is_absolute p"
  by (cases p) (auto simp: is_absolute_Cons)

lemma split_char_hd_append: "hd (split_char d (a @ d # b)) = hd (split_char d a)"
  by (simp add: split_char_sep)

text \<open>Joining a relative path appends its components, but for a leading dot.\<close>

definition drop_cur :: "path_component list \<Rightarrow> path_component list" where
  "drop_cur cs = (case cs of CurDir # rest \<Rightarrow> rest | _ \<Rightarrow> cs)"

lemma components_slash: "p \<noteq> [] \<Longrightarrow> components (p @ CHR ''/'' # q) = components p @ comp_parts (split_char (CHR ''/'') q)"
  by (cases p)
    (auto simp: components_def Let_def is_absolute_Cons split_char_sep comp_parts_append
      split: list.splits)

lemma components_drop_cur:
  "\<not> is_absolute q \<Longrightarrow> drop_cur (components q) = comp_parts (split_char (CHR ''/'') q)"
proof -
  assume "\<not> is_absolute q"
  moreover have nocur: "CurDir \<notin> set (comp_parts ps)" for ps
    using comp_parts_shape by fastforce
  have "drop_cur (comp_parts ps) = comp_parts ps" for ps
    using nocur [of ps] by (auto simp: drop_cur_def split: list.splits path_component.splits)
  moreover have "hd ps = ''.'' \<Longrightarrow> ps \<noteq> [] \<Longrightarrow> drop_cur (CurDir # comp_parts ps) = comp_parts ps" for ps
    by (simp add: drop_cur_def)
  ultimately show ?thesis by (simp add: components_def Let_def)
qed

lemma components_join:
  assumes "p \<noteq> []" "\<not> is_absolute q"
  shows "components (path_join p q) = components p @ drop_cur (components q)"
proof (cases "ends_with ''/'' p")
  case True
  then obtain b where p: "p = b @ ''/''" by (auto simp: ends_with_iff)
  show ?thesis
  proof (cases b)
    case Nil
    then show ?thesis
      using assms components_drop_cur [of q]
      by (simp add: p path_join_def ends_with_def components_def is_absolute_Cons)
  next
    case (Cons c b')
    then have "components p = components b @ comp_parts [[]]"
      using components_slash [of b "[]"] p by simp
    then show ?thesis
      using assms Cons components_slash [of b q] components_drop_cur [of q]
      by (simp add: p path_join_def ends_with_def)
  qed
next
  case False
  then show ?thesis
    using assms components_slash [of p q] components_drop_cur [of q] by (simp add: path_join_def)
qed

lemma components_good_name: "good_name n \<Longrightarrow> components n = [Normal n]"
  using names_path_components [of "[n]"] by (simp add: names_path_def)

lemma good_name_relative: "good_name n \<Longrightarrow> \<not> is_absolute n"
  by (cases n) (auto simp: good_name_def is_absolute_Cons)

lemma components_join_name:
  "p \<noteq> [] \<Longrightarrow> good_name n \<Longrightarrow> components (path_join p n) = components p @ [Normal n]"
  by (simp add: components_join good_name_relative components_good_name drop_cur_def)

lemma path_strip_prefix_join:
  "p \<noteq> [] \<Longrightarrow> good_name n \<Longrightarrow> path_strip_prefix (path_join p n) p = Some [Normal n]"
  by (simp add: path_strip_prefix_def path_starts_with_def components_join_name)

section \<open>The path functions of the LXC runtime\<close>

fun safe_relative_comps :: "path_component list \<Rightarrow> string list option" where
  "safe_relative_comps [] = Some []"
| "safe_relative_comps (CurDir # cs) = safe_relative_comps cs"
| "safe_relative_comps (Normal v # cs) = map_option ((#) v) (safe_relative_comps cs)"
| "safe_relative_comps (ParentDir # cs) = None"
| "safe_relative_comps (RootDir # cs) = None"

definition safe_relative_path :: "string \<Rightarrow> string list option" where
  "safe_relative_path path = safe_relative_comps (components path)"

text \<open>
  The loop of \<open>normalize_link_target\<close> over the components of the candidate, with the
  normalized path built so far.
\<close>

fun normalize_comps :: "string list \<Rightarrow> path_component list \<Rightarrow> string list option" where
  "normalize_comps normalized [] = Some normalized"
| "normalize_comps normalized (CurDir # cs) = normalize_comps normalized cs"
| "normalize_comps normalized (Normal v # cs) = normalize_comps (normalized @ [v]) cs"
| "normalize_comps normalized (ParentDir # cs) =
     (if normalized = [] then None else normalize_comps (butlast normalized) cs)"
| "normalize_comps normalized (RootDir # cs) = None"

definition normalize_link_target :: "string \<Rightarrow> string \<Rightarrow> string list option" where
  "normalize_link_target parent target =
     (if is_absolute target
      then (case path_strip_prefix target ''/'' of
              None \<Rightarrow> None | Some candidate \<Rightarrow> normalize_comps [] candidate)
      else normalize_comps [] (components (path_join parent target)))"

definition ensure_child_path :: "string \<Rightarrow> string \<Rightarrow> unit result" where
  "ensure_child_path root child =
     (case path_strip_prefix child root of
        None \<Rightarrow> Inl (''path escaped root: '' @ child)
      | Some relative \<Rightarrow>
          if safe_relative_comps relative = None then Inl (''unsafe child path: '' @ child)
          else Inr ())"

lemma safe_relative_comps_iff:
  "safe_relative_comps cs = Some ns \<longleftrightarrow>
     filter (\<lambda>c. c \<noteq> CurDir) cs = map Normal ns"
  by (induction cs arbitrary: ns rule: safe_relative_comps.induct)
    (auto simp: Cons_eq_map_conv filter_eq_Cons_iff)

lemma safe_relative_comps_None_iff:
  "safe_relative_comps cs = None \<longleftrightarrow> ParentDir \<in> set cs \<or> RootDir \<in> set cs"
  by (induction cs rule: safe_relative_comps.induct) auto

lemma safe_relative_path_names:
  "safe_relative_path p = Some ns \<Longrightarrow> \<forall>n \<in> set ns. good_name n"
proof
  fix n assume "safe_relative_path p = Some ns" "n \<in> set ns"
  then have "Normal n \<in> set (filter (\<lambda>c. c \<noteq> CurDir) (components p))"
    by (simp add: safe_relative_path_def safe_relative_comps_iff)
  then show "good_name n" by (auto intro: components_Normal_good)
qed

text \<open>How far below its start a path has come after some components.\<close>

fun depth_change :: "path_component \<Rightarrow> int" where
  "depth_change (Normal v) = 1"
| "depth_change ParentDir = -1"
| "depth_change _ = 0"

definition depth :: "path_component list \<Rightarrow> int" where
  "depth cs = sum_list (map depth_change cs)"

definition stays_below :: "path_component list \<Rightarrow> bool" where
  "stays_below cs \<longleftrightarrow> RootDir \<notin> set cs \<and> (\<forall>i \<le> length cs. 0 \<le> depth (take i cs))"

fun stays_from :: "int \<Rightarrow> path_component list \<Rightarrow> bool" where
  "stays_from d [] = (0 \<le> d)"
| "stays_from d (c # cs) = (0 \<le> d \<and> c \<noteq> RootDir \<and> stays_from (d + depth_change c) cs)"

lemma stays_from_iff:
  "stays_from d cs \<longleftrightarrow> RootDir \<notin> set cs \<and> (\<forall>i \<le> length cs. 0 \<le> d + depth (take i cs))"
proof (induction cs arbitrary: d)
  case Nil
  then show ?case by (simp add: depth_def)
next
  case (Cons c cs)
  have "(\<forall>i \<le> length (c # cs). 0 \<le> d + depth (take i (c # cs))) \<longleftrightarrow>
      0 \<le> d \<and> (\<forall>i \<le> length cs. 0 \<le> d + depth_change c + depth (take i cs))"
    by (auto simp: depth_def all_conj_distrib less_Suc_eq_le[symmetric] All_less_Suc2 add.assoc)
  then show ?case by (auto simp: Cons.IH)
qed

lemma stays_from_neg: "d < 0 \<Longrightarrow> \<not> stays_from d cs"
  by (cases cs) auto

lemma normalize_comps_Some_iff:
  "(\<exists>ns. normalize_comps base cs = Some ns) \<longleftrightarrow> stays_from (int (length base)) cs"
proof (induction base cs rule: normalize_comps.induct)
  case (4 normalized cs)
  then show ?case by (cases normalized rule: rev_cases) (auto simp: of_nat_diff stays_from_neg)
qed (auto simp: add.commute)

lemma normalize_comps_names:
  "normalize_comps base cs = Some ns \<Longrightarrow> set ns \<subseteq> set base \<union> {n. Normal n \<in> set cs}"
proof (induction base cs rule: normalize_comps.induct)
  case (4 normalized cs)
  then show ?case by (fastforce split: if_splits dest: in_set_butlastD)
qed auto

lemma normalize_comps_length:
  "normalize_comps base cs = Some ns \<Longrightarrow> int (length ns) = int (length base) + depth cs"
proof (induction base cs rule: normalize_comps.induct)
  case (4 normalized cs)
  then show ?case by (cases normalized rule: rev_cases) (auto simp: depth_def)
qed (auto simp: depth_def)

lemma ensure_child_path_join:
  "root \<noteq> [] \<Longrightarrow> good_name n \<Longrightarrow> ensure_child_path root (path_join root n) = Inr ()"
  by (simp add: ensure_child_path_def path_strip_prefix_join)

lemma ensure_child_path_ok:
  "ensure_child_path root child = Inr () \<Longrightarrow>
     \<exists>cs. components child = components root @ cs \<and> ParentDir \<notin> set cs \<and> RootDir \<notin> set cs"
  by (auto simp: ensure_child_path_def path_strip_prefix_def path_starts_with_def prefix_def
      safe_relative_comps_None_iff split: option.splits if_splits)

lemma drop_cur_names: "drop_cur (map Normal ns) = map Normal ns"
  by (cases ns) (simp_all add: drop_cur_def)

lemma stays_below_from: "stays_below cs \<longleftrightarrow> stays_from 0 cs"
  by (simp add: stays_from_iff stays_below_def)

section \<open>Properties\<close>

text \<open>
  C4. A tar member path the importer accepts stays inside the directory it is joined to:
  the joined path has the components of the root followed by ordinary names, so no member
  of an archive can be written outside the root file system; and it is refused exactly
  when the path is absolute or has a \<open>..\<close> component.
\<close>

theorem safe_relative_path_contained:
  assumes "root \<noteq> []"
  shows "(safe_relative_path path = None \<longleftrightarrow> is_absolute path \<or> ParentDir \<in> set (components path))
    \<and> (safe_relative_path path = Some ns \<longrightarrow>
         components (path_join root (names_path ns)) = components root @ map Normal ns
         \<and> ensure_child_path root (path_join root (names_path ns)) = Inr ())"
proof -
  have root: "RootDir \<in> set (components path) \<longleftrightarrow> is_absolute path"
    using comp_parts_shape [of RootDir "split_char (CHR ''/'') path"]
    by (auto simp: components_def Let_def)
  have comps: "components (path_join root (names_path ns)) = components root @ map Normal ns"
    if "safe_relative_path path = Some ns"
  proof -
    have good: "\<forall>n \<in> set ns. good_name n" using safe_relative_path_names [OF that] .
    then have "\<not> is_absolute (names_path ns)"
      using good_name_relative is_absolute_append
      by (cases ns) (auto simp: names_path_def str_join_Cons good_name_def)
    then show ?thesis
      using assms names_path_components [OF good] by (simp add: components_join drop_cur_names)
  qed
  have "ensure_child_path root (path_join root (names_path ns)) = Inr ()"
    if "safe_relative_path path = Some ns"
    using comps [OF that]
    by (auto simp: ensure_child_path_def path_strip_prefix_def path_starts_with_def
        safe_relative_comps_None_iff)
  with comps show ?thesis
    by (auto simp: safe_relative_path_def safe_relative_comps_None_iff root)
qed

theorem safe_relative_path_contained_witness:
  "components (path_join ''/r'' (names_path [''etc'', ''passwd''])) =
     [RootDir, Normal ''r'', Normal ''etc'', Normal ''passwd'']
   \<and> safe_relative_path ''a/../../etc'' = None"
proof -
  have "safe_relative_path ''./etc//passwd'' = Some [''etc'', ''passwd'']" by code_simp
  moreover have "ParentDir \<in> set (components ''a/../../etc'')" by code_simp
  moreover have "components ''/r'' = [RootDir, Normal ''r'']" by code_simp
  ultimately show ?thesis
    using safe_relative_path_contained [of "''/r''" "''./etc//passwd''" "[''etc'', ''passwd'']"]
      safe_relative_path_contained [of "''/r''" "''a/../../etc''" "[]"] by simp
qed

text \<open>
  C5. The target of a relative symbolic or hard link is accepted exactly when walking it
  from the link's directory, one component after the other, never climbs above the root of
  the import; the accepted result is made of ordinary names only, as many as the depth the
  walk ends at.
\<close>

theorem normalize_link_target_contained:
  assumes "\<not> is_absolute target"
  shows "((\<exists>ns. normalize_link_target parent target = Some ns)
        \<longleftrightarrow> stays_below (components (path_join parent target)))
    \<and> (normalize_link_target parent target = Some ns \<longrightarrow>
        (\<forall>n \<in> set ns. good_name n)
        \<and> int (length ns) = depth (components (path_join parent target)))"
proof -
  have eq: "normalize_link_target parent target
      = normalize_comps [] (components (path_join parent target))"
    using assms by (simp add: normalize_link_target_def)
  show ?thesis
    using normalize_comps_names [of "[]" "components (path_join parent target)" ns]
      normalize_comps_length [of "[]" "components (path_join parent target)" ns]
    by (auto simp: eq normalize_comps_Some_iff stays_below_from dest: components_Normal_good)
qed

theorem normalize_link_target_contained_witness:
  "(\<exists>ns. normalize_link_target ''usr/lib'' ''../../etc'' = Some ns)
   \<and> normalize_link_target ''usr'' ''../../etc'' = None"
proof -
  have r: "\<not> is_absolute ''../../etc''" by code_simp
  have "stays_from 0 (components (path_join ''usr/lib'' ''../../etc''))"
    "\<not> stays_from 0 (components (path_join ''usr'' ''../../etc''))"
    by code_simp+
  then show ?thesis
    using normalize_link_target_contained [OF r, of "''usr/lib''"]
      normalize_link_target_contained [OF r, of "''usr''"]
    by (simp add: stays_below_from)
qed

end
