(* ===== verification/Effects.thy ===== *)
theory Effects
  imports Paths
begin

text \<open>
  Effectful code. A function of the program that talks to the system becomes a value of
  \<open>'a prog\<close>: a tree whose nodes are the calls it makes (file operations, tests, reads,
  listings, commands, archive reads, system calls, output) and whose branches are indexed
  by the answers the system may give, so the model fixes what the program does for every
  answer and nothing about the system itself. \<open>then_do\<close> is sequencing, \<open>try_do\<close> the
  \<open>?\<close> operator.

  \<open>exec p t = Some r\<close> says that \<open>t\<close> is a complete record of calls and answers of \<open>p\<close>
  and that \<open>p\<close> returned \<open>r\<close>; \<open>emits P p\<close> that every call \<open>p\<close> may make satisfies \<open>P\<close>,
  whatever the answers; \<open>holds Q p\<close> that every record and result of \<open>p\<close> satisfies \<open>Q\<close>.
  \<open>run\<close> runs a program against a system given as functions on a state. A program is a
  finite tree along every branch, so \<open>run\<close> is total: what is modelled without fuel
  returns whatever the system answers.
\<close>

section \<open>Calls and answers\<close>

datatype io_error = NotFound | Os nat string | Io string

fun show_io :: "io_error \<Rightarrow> string" where
  "show_io NotFound = ''No such file or directory (os error 2)''"
| "show_io (Os n s) = s"
| "show_io (Io s) = s"

text \<open>\<open>raw_os_error\<close>; 2 is \<open>ENOENT\<close>.\<close>

fun errno_of :: "io_error \<Rightarrow> nat option" where
  "errno_of NotFound = Some 2"
| "errno_of (Os n s) = Some n"
| "errno_of (Io s) = None"

type_synonym 'a io = "io_error + 'a"

text \<open>Operations that only succeed or fail.\<close>

datatype act =
    CreateDirAll string
  | OpenForRead string
  | StatFile string
  | StatLink string
  | WriteFile string string
  | AppendFile string string
  | TruncateFile string
  | RemoveFile string
  | RemoveDirAll string
  | RenameFile string string
  | MakeSymlink string string
  | MakeHardLink string string
  | CopyPermissions string string
  | ChownLike string string
  | UnpackEntry nat string
  | KillPid nat nat
  | MountFs "string option" string "string option" int "string option"
  | Unmount string int
  | SpawnDaemon string "string list" "(string \<times> string) list" "string option"
  | SetMode string int
  | InstallHandlers
  | InstallHandler nat
  | SetSignal nat nat
  | SendSignal int nat
  | RemoveDir string
  | ChangeDir string
  | Unshare int
  | PivotRoot string string
  | Chroot string
  | Prctl int int
  | Seccomp "(int \<times> nat \<times> nat \<times> int) list"
  | RedirectOutput string
  | Exec "string list"
  | SetGroup nat nat
  | BindListener string
  | SetNonblocking string
  | SendBytes nat string
  | SendToChild nat string
  | KillChild nat
  | RemoveEnv string

text \<open>Tests that cannot fail: an error of the system is the answer \<open>False\<close>.\<close>

datatype ask =
    Exists string
  | IsFile string
  | IsDir string
  | IsDirNoFollow string
  | IsSymlink string
  | IsExecutable string
  | IsSocket string
  | PathWritable string
  | PidAlive nat
  | Terminated
  | Signalled string

text \<open>Reads of a text, and of a number.\<close>

datatype get =
    ReadText string
  | ReadBytes string
  | ReadLink string
  | Canonicalize string
  | Sha256Of string
  | ReadStdin
  | Urandom nat
  | RecvBytes nat nat
  | RecvAll nat

datatype query = UnixNow | ProcessId | EffectiveUid | ElapsedMs | TakeSignal

text \<open>
  Calls that return a number or an error (the process id of a forked child, a handle of a
  child or a stream); the two non-blocking waits, of any child (\<open>waitpid\<close>) and of one
  (\<open>try_wait\<close>); what a wait answers: none has ended, one has with a raw status, an error.
\<close>

datatype num = Fork "string list" | SpawnChild string "string list" bool | AcceptStream | ConnectStream string

datatype wait = WaitAny | TryWait nat

datatype wait_answer = NotYet | Reaped nat nat | WaitError io_error

datatype stdin_mode = InheritIn | NullIn | TextIn string
datatype out_mode = CaptureOut | InheritOut | NullOut

record cmd =
  cmd_program :: string
  cmd_args :: "string list"
  cmd_env :: "(string \<times> string) list"
  cmd_stdin :: stdin_mode
  cmd_out :: out_mode
  cmd_timeout :: "nat option"

text \<open>
  \<open>out_code\<close> is \<open>ExitStatus::code\<close>, \<open>None\<close> for a death by signal. \<open>out_stdout\<close> and
  \<open>out_stderr\<close> are, for a command that is run to its end, what \<open>String::from_utf8_lossy\<close>
  reads, as the code uses the bytes in no other way; for the output gathered from a child
  they are the bytes, which \<open>achost-webui-api\<close> cuts before it decodes them.
\<close>

record cmd_output =
  out_code :: "int option"
  out_stdout :: string
  out_stderr :: string

definition out_success :: "cmd_output \<Rightarrow> bool" where
  "out_success r \<longleftrightarrow> out_code r = Some 0"

text \<open>What the archive reader yields for one member.\<close>

datatype entry_kind = RegularEntry | DirEntry | SymlinkEntry | HardLinkEntry | OtherEntry

record tar_entry =
  te_kind :: entry_kind
  te_path :: "string io"
  te_link :: "string option io"

section \<open>Programs\<close>

datatype 'a prog =
    Ret 'a
  | Act act "unit io \<Rightarrow> 'a prog"
  | Ask ask "bool \<Rightarrow> 'a prog"
  | Get get "string io \<Rightarrow> 'a prog"
  | Query query "nat \<Rightarrow> 'a prog"
  | Ls string "(string io) list io \<Rightarrow> 'a prog"
  | Tar string bool "(tar_entry io) list io \<Rightarrow> 'a prog"
  | Run cmd "cmd_output io \<Rightarrow> 'a prog"
  | Num num "nat io \<Rightarrow> 'a prog"
  | Wait wait "wait_answer \<Rightarrow> 'a prog"
  | Gather nat "cmd_output io \<Rightarrow> 'a prog"
  | Sleep nat "'a prog"
  | Say string "'a prog"
  | Warn string "'a prog"

primrec then_do :: "'a prog \<Rightarrow> ('a \<Rightarrow> 'b prog) \<Rightarrow> 'b prog" where
  "then_do (Ret a) f = f a"
| "then_do (Act c k) f = Act c (\<lambda>r. then_do (k r) f)"
| "then_do (Ask c k) f = Ask c (\<lambda>r. then_do (k r) f)"
| "then_do (Get c k) f = Get c (\<lambda>r. then_do (k r) f)"
| "then_do (Query c k) f = Query c (\<lambda>r. then_do (k r) f)"
| "then_do (Ls c k) f = Ls c (\<lambda>r. then_do (k r) f)"
| "then_do (Tar c z k) f = Tar c z (\<lambda>r. then_do (k r) f)"
| "then_do (Run c k) f = Run c (\<lambda>r. then_do (k r) f)"
| "then_do (Num c k) f = Num c (\<lambda>r. then_do (k r) f)"
| "then_do (Wait c k) f = Wait c (\<lambda>r. then_do (k r) f)"
| "then_do (Gather c k) f = Gather c (\<lambda>r. then_do (k r) f)"
| "then_do (Sleep n p) f = Sleep n (then_do p f)"
| "then_do (Say s p) f = Say s (then_do p f)"
| "then_do (Warn s p) f = Warn s (then_do p f)"

lemma then_do_Ret [simp]: "then_do p Ret = p"
  by (induction p) simp_all

lemma then_do_assoc [simp]: "then_do (then_do p f) g = then_do p (\<lambda>x. then_do (f x) g)"
  by (induction p) simp_all

definition try_do :: "('e + 'a) prog \<Rightarrow> ('a \<Rightarrow> ('e + 'b) prog) \<Rightarrow> ('e + 'b) prog" where
  "try_do p f = then_do p (\<lambda>r. case r of Inl e \<Rightarrow> Ret (Inl e) | Inr x \<Rightarrow> f x)"

definition map_err :: "('e \<Rightarrow> 'd) \<Rightarrow> ('e + 'a) prog \<Rightarrow> ('d + 'a) prog" where
  "map_err g p = then_do p (\<lambda>r. Ret (case r of Inl e \<Rightarrow> Inl (g e) | Inr x \<Rightarrow> Inr x))"

abbreviation ok :: "'a \<Rightarrow> ('e + 'a) prog" where "ok x \<equiv> Ret (Inr x)"
abbreviation fail :: "'e \<Rightarrow> ('e + 'a) prog" where "fail e \<equiv> Ret (Inl e)"
abbreviation act :: "act \<Rightarrow> unit io prog" where "act c \<equiv> Act c Ret"
abbreviation ask :: "ask \<Rightarrow> bool prog" where "ask c \<equiv> Ask c Ret"
abbreviation get :: "get \<Rightarrow> string io prog" where "get c \<equiv> Get c Ret"
abbreviation query :: "query \<Rightarrow> nat prog" where "query c \<equiv> Query c Ret"
abbreviation num :: "num \<Rightarrow> nat io prog" where "num c \<equiv> Num c Ret"
abbreviation wait :: "wait \<Rightarrow> wait_answer prog" where "wait c \<equiv> Wait c Ret"
abbreviation gather :: "nat \<Rightarrow> cmd_output io prog" where "gather c \<equiv> Gather c Ret"
abbreviation run_cmd :: "cmd \<Rightarrow> cmd_output io prog" where "run_cmd c \<equiv> Run c Ret"
abbreviation say :: "string \<Rightarrow> unit prog" where "say s \<equiv> Say s (Ret ())"
abbreviation warn :: "string \<Rightarrow> unit prog" where "warn s \<equiv> Warn s (Ret ())"
abbreviation sleep :: "nat \<Rightarrow> unit prog" where "sleep ms \<equiv> Sleep ms (Ret ())"

text \<open>\<open>println!\<close> and \<open>eprintln!\<close> with the text of one line, and \<open>map_err(format!("what: {error}"))\<close>.\<close>

definition println :: "string \<Rightarrow> unit prog" where
  "println s = say (s @ [LF])"

definition eprintln :: "string \<Rightarrow> unit prog" where
  "eprintln s = warn (s @ [LF])"

definition io_context :: "string \<Rightarrow> 'a io prog \<Rightarrow> 'a result prog" where
  "io_context what p = map_err (\<lambda>e. what @ '': '' @ show_io e) p"

text \<open>A \<open>for\<close> loop whose body uses \<open>?\<close>; the same collecting the results; a search.\<close>

primrec for_each :: "'a list \<Rightarrow> ('a \<Rightarrow> ('e + unit) prog) \<Rightarrow> ('e + unit) prog" where
  "for_each [] f = ok ()"
| "for_each (x # xs) f = try_do (f x) (\<lambda>_. for_each xs f)"

primrec for_all :: "'a list \<Rightarrow> ('a \<Rightarrow> unit prog) \<Rightarrow> unit prog" where
  "for_all [] f = Ret ()"
| "for_all (x # xs) f = then_do (f x) (\<lambda>_. for_all xs f)"

primrec collect :: "'a list \<Rightarrow> ('a \<Rightarrow> ('e + 'b) prog) \<Rightarrow> ('e + 'b list) prog" where
  "collect [] f = ok []"
| "collect (x # xs) f = try_do (f x) (\<lambda>y. try_do (collect xs f) (\<lambda>ys. ok (y # ys)))"

primrec find_do :: "('a \<Rightarrow> bool prog) \<Rightarrow> 'a list \<Rightarrow> 'a option prog" where
  "find_do f [] = Ret None"
| "find_do f (x # xs) = then_do (f x) (\<lambda>b. if b then Ret (Some x) else find_do f xs)"

primrec any_do :: "('a \<Rightarrow> bool prog) \<Rightarrow> 'a list \<Rightarrow> bool prog" where
  "any_do f [] = Ret False"
| "any_do f (x # xs) = then_do (f x) (\<lambda>b. if b then Ret True else any_do f xs)"

primrec filter_do :: "('a \<Rightarrow> bool prog) \<Rightarrow> 'a list \<Rightarrow> 'a list prog" where
  "filter_do f [] = Ret []"
| "filter_do f (x # xs) =
     then_do (f x) (\<lambda>b. then_do (filter_do f xs) (\<lambda>ys. Ret (if b then x # ys else ys)))"

text \<open>Lazy conjunction of tests.\<close>

definition and_also :: "bool prog \<Rightarrow> bool prog \<Rightarrow> bool prog" where
  "and_also p q = then_do p (\<lambda>b. if b then q else Ret False)"

section \<open>Records of a run\<close>

datatype event =
    EAct act "unit io"
  | EAsk ask bool
  | EGet get "string io"
  | EQuery query nat
  | ELs string "(string io) list io"
  | ETar string bool "(tar_entry io) list io"
  | ERun cmd "cmd_output io"
  | ENum num "nat io"
  | EWait wait wait_answer
  | EGather nat "cmd_output io"
  | ESleep nat
  | ESay string
  | EWarn string

primrec exec :: "'a prog \<Rightarrow> event list \<Rightarrow> 'a option" where
  "exec (Ret a) t = (if t = [] then Some a else None)"
| "exec (Act c k) t = (case t of EAct c' r # u \<Rightarrow> if c' = c then exec (k r) u else None | _ \<Rightarrow> None)"
| "exec (Ask c k) t = (case t of EAsk c' r # u \<Rightarrow> if c' = c then exec (k r) u else None | _ \<Rightarrow> None)"
| "exec (Get c k) t = (case t of EGet c' r # u \<Rightarrow> if c' = c then exec (k r) u else None | _ \<Rightarrow> None)"
| "exec (Query c k) t = (case t of EQuery c' r # u \<Rightarrow> if c' = c then exec (k r) u else None | _ \<Rightarrow> None)"
| "exec (Ls c k) t = (case t of ELs c' r # u \<Rightarrow> if c' = c then exec (k r) u else None | _ \<Rightarrow> None)"
| "exec (Tar c z k) t =
     (case t of ETar c' z' r # u \<Rightarrow> if c' = c \<and> z' = z then exec (k r) u else None | _ \<Rightarrow> None)"
| "exec (Run c k) t = (case t of ERun c' r # u \<Rightarrow> if c' = c then exec (k r) u else None | _ \<Rightarrow> None)"
| "exec (Num c k) t = (case t of ENum c' r # u \<Rightarrow> if c' = c then exec (k r) u else None | _ \<Rightarrow> None)"
| "exec (Wait c k) t = (case t of EWait c' r # u \<Rightarrow> if c' = c then exec (k r) u else None | _ \<Rightarrow> None)"
| "exec (Gather c k) t = (case t of EGather c' r # u \<Rightarrow> if c' = c then exec (k r) u else None | _ \<Rightarrow> None)"
| "exec (Sleep n p) t = (case t of ESleep n' # u \<Rightarrow> if n' = n then exec p u else None | _ \<Rightarrow> None)"
| "exec (Say s p) t = (case t of ESay s' # u \<Rightarrow> if s' = s then exec p u else None | _ \<Rightarrow> None)"
| "exec (Warn s p) t = (case t of EWarn s' # u \<Rightarrow> if s' = s then exec p u else None | _ \<Rightarrow> None)"

primrec holds :: "(event list \<Rightarrow> 'a \<Rightarrow> bool) \<Rightarrow> 'a prog \<Rightarrow> bool" where
  "holds Q (Ret a) = Q [] a"
| "holds Q (Act c k) = (\<forall>r. holds (\<lambda>t. Q (EAct c r # t)) (k r))"
| "holds Q (Ask c k) = (\<forall>r. holds (\<lambda>t. Q (EAsk c r # t)) (k r))"
| "holds Q (Get c k) = (\<forall>r. holds (\<lambda>t. Q (EGet c r # t)) (k r))"
| "holds Q (Query c k) = (\<forall>r. holds (\<lambda>t. Q (EQuery c r # t)) (k r))"
| "holds Q (Ls c k) = (\<forall>r. holds (\<lambda>t. Q (ELs c r # t)) (k r))"
| "holds Q (Tar c z k) = (\<forall>r. holds (\<lambda>t. Q (ETar c z r # t)) (k r))"
| "holds Q (Run c k) = (\<forall>r. holds (\<lambda>t. Q (ERun c r # t)) (k r))"
| "holds Q (Num c k) = (\<forall>r. holds (\<lambda>t. Q (ENum c r # t)) (k r))"
| "holds Q (Wait c k) = (\<forall>r. holds (\<lambda>t. Q (EWait c r # t)) (k r))"
| "holds Q (Gather c k) = (\<forall>r. holds (\<lambda>t. Q (EGather c r # t)) (k r))"
| "holds Q (Sleep n p) = holds (\<lambda>t. Q (ESleep n # t)) p"
| "holds Q (Say s p) = holds (\<lambda>t. Q (ESay s # t)) p"
| "holds Q (Warn s p) = holds (\<lambda>t. Q (EWarn s # t)) p"


lemma holds_exec: "holds Q p \<longleftrightarrow> (\<forall>t r. exec p t = Some r \<longrightarrow> Q t r)"
proof (induction p arbitrary: Q)
  case (Ret a)
  then show ?case by auto
qed (auto split: list.splits event.splits)

lemma holds_then_do:
  "holds Q (then_do p f) \<longleftrightarrow> holds (\<lambda>t x. holds (\<lambda>u. Q (t @ u)) (f x)) p"
  by (induction p arbitrary: Q) simp_all

lemma exec_then_doI:
  "exec p u = Some x \<Longrightarrow> exec (f x) v = Some r \<Longrightarrow> exec (then_do p f) (u @ v) = Some r"
  by (induction p arbitrary: u) (auto split: list.splits event.splits if_splits)

lemma exec_then_do:
  "exec (then_do p f) t = Some r \<longleftrightarrow>
     (\<exists>u v x. t = u @ v \<and> exec p u = Some x \<and> exec (f x) v = Some r)"
proof
  assume run: "exec (then_do p f) t = Some r"
  have "holds (\<lambda>t r. \<exists>u v x. t = u @ v \<and> exec p u = Some x \<and> exec (f x) v = Some r) (then_do p f)"
    unfolding holds_then_do by (auto simp: holds_exec)
  with run show "\<exists>u v x. t = u @ v \<and> exec p u = Some x \<and> exec (f x) v = Some r"
    by (simp add: holds_exec)
qed (auto intro: exec_then_doI)

lemma holds_mono: "holds Q p \<Longrightarrow> (\<And>t r. Q t r \<Longrightarrow> R t r) \<Longrightarrow> holds R p"
  by (simp add: holds_exec)

lemma holds_True [simp]: "holds (\<lambda>t r. True) p"
  by (simp add: holds_exec)

lemma holds_conj: "holds (\<lambda>t r. P t r \<and> Q t r) p \<longleftrightarrow> holds P p \<and> holds Q p"
  by (auto simp: holds_exec)

section \<open>What a program may call\<close>

definition emits :: "(event \<Rightarrow> bool) \<Rightarrow> 'a prog \<Rightarrow> bool" where
  "emits P p \<longleftrightarrow> holds (\<lambda>t _. list_all P t) p"

lemma emits_holds: "emits P p \<Longrightarrow> exec p t = Some r \<Longrightarrow> list_all P t"
  by (simp add: emits_def holds_exec)

text \<open>Every program has a run, so a call of it happens under some answers.\<close>

primrec run :: "('s \<Rightarrow> act \<Rightarrow> unit io \<times> 's) \<times> ('s \<Rightarrow> ask \<Rightarrow> bool \<times> 's) \<times> ('s \<Rightarrow> get \<Rightarrow> string io \<times> 's)
    \<times> ('s \<Rightarrow> query \<Rightarrow> nat \<times> 's) \<times> ('s \<Rightarrow> string \<Rightarrow> (string io) list io \<times> 's)
    \<times> ('s \<Rightarrow> string \<Rightarrow> bool \<Rightarrow> (tar_entry io) list io \<times> 's) \<times> ('s \<Rightarrow> cmd \<Rightarrow> cmd_output io \<times> 's)
    \<times> ('s \<Rightarrow> nat \<Rightarrow> 's) \<times> ('s \<Rightarrow> num \<Rightarrow> nat io \<times> 's) \<times> ('s \<Rightarrow> wait \<Rightarrow> wait_answer \<times> 's)
    \<times> ('s \<Rightarrow> nat \<Rightarrow> cmd_output io \<times> 's) \<Rightarrow> 'a prog \<Rightarrow> 's \<Rightarrow> event list \<times> 'a \<times> 's" where
  "run sys (Ret a) s = ([], a, s)"
| "run sys (Act c k) s = (case sys of (f, _) \<Rightarrow> let (r, s') = f s c; (t, a, z) = run sys (k r) s' in (EAct c r # t, a, z))"
| "run sys (Ask c k) s = (case sys of (_, f, _) \<Rightarrow> let (r, s') = f s c; (t, a, z) = run sys (k r) s' in (EAsk c r # t, a, z))"
| "run sys (Get c k) s = (case sys of (_, _, f, _) \<Rightarrow> let (r, s') = f s c; (t, a, z) = run sys (k r) s' in (EGet c r # t, a, z))"
| "run sys (Query c k) s = (case sys of (_, _, _, f, _) \<Rightarrow> let (r, s') = f s c; (t, a, z) = run sys (k r) s' in (EQuery c r # t, a, z))"
| "run sys (Ls c k) s = (case sys of (_, _, _, _, f, _) \<Rightarrow> let (r, s') = f s c; (t, a, z) = run sys (k r) s' in (ELs c r # t, a, z))"
| "run sys (Tar c g k) s = (case sys of (_, _, _, _, _, f, _) \<Rightarrow> let (r, s') = f s c g; (t, a, z) = run sys (k r) s' in (ETar c g r # t, a, z))"
| "run sys (Run c k) s = (case sys of (_, _, _, _, _, _, f, _) \<Rightarrow> let (r, s') = f s c; (t, a, z) = run sys (k r) s' in (ERun c r # t, a, z))"
| "run sys (Num c k) s = (case sys of (_, _, _, _, _, _, _, _, f, _) \<Rightarrow> let (r, s') = f s c; (t, a, z) = run sys (k r) s' in (ENum c r # t, a, z))"
| "run sys (Wait c k) s = (case sys of (_, _, _, _, _, _, _, _, _, f, _) \<Rightarrow> let (r, s') = f s c; (t, a, z) = run sys (k r) s' in (EWait c r # t, a, z))"
| "run sys (Gather c k) s = (case sys of (_, _, _, _, _, _, _, _, _, _, f) \<Rightarrow> let (r, s') = f s c; (t, a, z) = run sys (k r) s' in (EGather c r # t, a, z))"
| "run sys (Sleep n p) s = (case sys of (_, _, _, _, _, _, _, f, _) \<Rightarrow> let (t, a, z) = run sys p (f s n) in (ESleep n # t, a, z))"
| "run sys (Say m p) s = (let (t, a, z) = run sys p s in (ESay m # t, a, z))"
| "run sys (Warn m p) s = (let (t, a, z) = run sys p s in (EWarn m # t, a, z))"

lemma exec_run: "run sys p s = (t, r, s') \<Longrightarrow> exec p t = Some r"
  by (induction p arbitrary: s t) (auto simp: Let_def split: prod.splits)

lemma exec_total: "\<exists>t r. exec p t = Some r"
proof -
  define sys :: "(unit \<Rightarrow> act \<Rightarrow> unit io \<times> unit) \<times> (unit \<Rightarrow> ask \<Rightarrow> bool \<times> unit)
    \<times> (unit \<Rightarrow> get \<Rightarrow> string io \<times> unit)
    \<times> (unit \<Rightarrow> query \<Rightarrow> nat \<times> unit) \<times> (unit \<Rightarrow> string \<Rightarrow> (string io) list io \<times> unit)
    \<times> (unit \<Rightarrow> string \<Rightarrow> bool \<Rightarrow> (tar_entry io) list io \<times> unit)
    \<times> (unit \<Rightarrow> cmd \<Rightarrow> cmd_output io \<times> unit) \<times> (unit \<Rightarrow> nat \<Rightarrow> unit)
    \<times> (unit \<Rightarrow> num \<Rightarrow> nat io \<times> unit) \<times> (unit \<Rightarrow> wait \<Rightarrow> wait_answer \<times> unit)
    \<times> (unit \<Rightarrow> nat \<Rightarrow> cmd_output io \<times> unit)" where
    "sys = (\<lambda>s c. (Inr (), s), \<lambda>s c. (False, s), \<lambda>s c. (Inl NotFound, s), \<lambda>s c. (0, s),
      \<lambda>s c. (Inl NotFound, s), \<lambda>s c z. (Inl NotFound, s), \<lambda>s c. (Inl NotFound, s), \<lambda>s n. s,
      \<lambda>s c. (Inl NotFound, s), \<lambda>s c. (NotYet, s), \<lambda>s c. (Inl NotFound, s))"
  obtain t r s' where "run sys p () = (t, r, s')" by (metis prod_cases3)
  from exec_run [OF this] show ?thesis by blast
qed

lemma holds_const: "holds (\<lambda>t r. Q) p \<longleftrightarrow> Q"
  using exec_total [of p] by (auto simp: holds_exec)

lemma emits_simps [simp]:
  "emits P (Ret x)"
  "emits P (Act c k) \<longleftrightarrow> (\<forall>r. P (EAct c r) \<and> emits P (k r))"
  "emits P (Ask a k') \<longleftrightarrow> (\<forall>r. P (EAsk a r) \<and> emits P (k' r))"
  "emits P (Get g k1) \<longleftrightarrow> (\<forall>r. P (EGet g r) \<and> emits P (k1 r))"
  "emits P (Query q k2) \<longleftrightarrow> (\<forall>r. P (EQuery q r) \<and> emits P (k2 r))"
  "emits P (Ls d k3) \<longleftrightarrow> (\<forall>r. P (ELs d r) \<and> emits P (k3 r))"
  "emits P (Tar d z k4) \<longleftrightarrow> (\<forall>r. P (ETar d z r) \<and> emits P (k4 r))"
  "emits P (Run m k5) \<longleftrightarrow> (\<forall>r. P (ERun m r) \<and> emits P (k5 r))"
  "emits P (Num m1 k6) \<longleftrightarrow> (\<forall>r. P (ENum m1 r) \<and> emits P (k6 r))"
  "emits P (Wait m2 k7) \<longleftrightarrow> (\<forall>r. P (EWait m2 r) \<and> emits P (k7 r))"
  "emits P (Gather m3 k8) \<longleftrightarrow> (\<forall>r. P (EGather m3 r) \<and> emits P (k8 r))"
  "emits P (Sleep n p) \<longleftrightarrow> P (ESleep n) \<and> emits P p"
  "emits P (Say s p) \<longleftrightarrow> P (ESay s) \<and> emits P p"
  "emits P (Warn s p) \<longleftrightarrow> P (EWarn s) \<and> emits P p"
  by (auto simp: emits_def holds_conj holds_const)

lemma emits_then_do: "emits P p \<Longrightarrow> (\<And>x. emits P (f x)) \<Longrightarrow> emits P (then_do p f)"
  by (induction p) simp_all

lemma emits_try_do: "emits P p \<Longrightarrow> (\<And>x. emits P (f x)) \<Longrightarrow> emits P (try_do p f)"
  by (simp add: try_do_def emits_then_do split: sum.split)

lemma emits_map_err [simp]: "emits P (map_err g p) = emits P p"
  unfolding map_err_def by (induction p) simp_all

lemma emits_io_context [simp]: "emits P (io_context w p) = emits P p"
  by (simp add: io_context_def)

lemma emits_println [simp]: "emits P (println s) \<longleftrightarrow> P (ESay (s @ [LF]))"
  by (simp add: println_def)

lemma emits_eprintln [simp]: "emits P (eprintln s) \<longleftrightarrow> P (EWarn (s @ [LF]))"
  by (simp add: eprintln_def)

lemma emits_for_each: "(\<And>x. x \<in> set xs \<Longrightarrow> emits P (f x)) \<Longrightarrow> emits P (for_each xs f)"
  by (induction xs) (auto intro: emits_try_do)

lemma emits_for_all: "(\<And>x. x \<in> set xs \<Longrightarrow> emits P (f x)) \<Longrightarrow> emits P (for_all xs f)"
  by (induction xs) (auto intro: emits_then_do)

lemma emits_collect: "(\<And>x. x \<in> set xs \<Longrightarrow> emits P (f x)) \<Longrightarrow> emits P (collect xs f)"
  by (induction xs) (auto intro!: emits_try_do)

lemma emits_find_do: "(\<And>x. x \<in> set xs \<Longrightarrow> emits P (f x)) \<Longrightarrow> emits P (find_do f xs)"
  by (induction xs) (auto intro!: emits_then_do)

lemma emits_any_do: "(\<And>x. x \<in> set xs \<Longrightarrow> emits P (f x)) \<Longrightarrow> emits P (any_do f xs)"
  by (induction xs) (auto intro!: emits_then_do)

lemma emits_filter_do: "(\<And>x. x \<in> set xs \<Longrightarrow> emits P (f x)) \<Longrightarrow> emits P (filter_do f xs)"
  by (induction xs) (auto intro!: emits_then_do)

lemma emits_and_also: "emits P p \<Longrightarrow> emits P q \<Longrightarrow> emits P (and_also p q)"
  by (auto simp: and_also_def intro!: emits_then_do)

lemmas emits_intros = emits_then_do emits_try_do emits_for_each emits_for_all emits_collect
  emits_find_do emits_any_do emits_filter_do emits_and_also

lemma emits_mono: "emits P p \<Longrightarrow> (\<And>e. P e \<Longrightarrow> R e) \<Longrightarrow> emits R p"
  by (auto simp: emits_def holds_exec list_all_iff)

section \<open>Rules for records\<close>

lemma exec_try_do:
  "exec (try_do p f) t = Some r \<longleftrightarrow>
     (\<exists>e. exec p t = Some (Inl e) \<and> r = Inl e)
     \<or> (\<exists>u v x. t = u @ v \<and> exec p u = Some (Inr x) \<and> exec (f x) v = Some r)"
proof -
  have "(\<exists>u v x. t = u @ v \<and> exec p u = Some x
        \<and> exec (case x of Inl e \<Rightarrow> fail e | Inr y \<Rightarrow> f y) v = Some r) \<longleftrightarrow>
      (\<exists>u v e. t = u @ v \<and> exec p u = Some (Inl e) \<and> exec (fail e) v = Some r)
      \<or> (\<exists>u v y. t = u @ v \<and> exec p u = Some (Inr y) \<and> exec (f y) v = Some r)"
    (is "_ \<longleftrightarrow> ?R")
  proof
    assume "\<exists>u v x. t = u @ v \<and> exec p u = Some x
        \<and> exec (case x of Inl e \<Rightarrow> fail e | Inr y \<Rightarrow> f y) v = Some r"
    then obtain u v x where *: "t = u @ v" "exec p u = Some x"
      "exec (case x of Inl e \<Rightarrow> fail e | Inr y \<Rightarrow> f y) v = Some r" by blast
    show ?R using * by (cases x) (force simp del: exec.simps)+
  next
    assume ?R
    then show "\<exists>u v x. t = u @ v \<and> exec p u = Some x
        \<and> exec (case x of Inl e \<Rightarrow> fail e | Inr y \<Rightarrow> f y) v = Some r" by force
  qed
  then show ?thesis by (auto simp: try_do_def exec_then_do split: if_splits)
qed

lemma exec_map_err:
  "exec (map_err g p) t = Some r \<longleftrightarrow>
     (\<exists>x. exec p t = Some x \<and> r = (case x of Inl e \<Rightarrow> Inl (g e) | Inr y \<Rightarrow> Inr y))"
  by (auto simp: map_err_def exec_then_do split: if_splits)

lemma holds_try_do:
  "holds Q (try_do p f) \<longleftrightarrow>
     holds (\<lambda>t r. case r of Inl e \<Rightarrow> Q t (Inl e) | Inr x \<Rightarrow> holds (\<lambda>u. Q (t @ u)) (f x)) p"
  unfolding try_do_def holds_then_do
  by (rule arg_cong [where f = "\<lambda>R. holds R p"]) (auto simp: fun_eq_iff split: sum.split)

lemma holds_map_err:
  "holds Q (map_err g p) \<longleftrightarrow>
     holds (\<lambda>t r. case r of Inl e \<Rightarrow> Q t (Inl (g e)) | Inr x \<Rightarrow> Q t (Inr x)) p"
  unfolding map_err_def holds_then_do
  by (rule arg_cong [where f = "\<lambda>R. holds R p"]) (auto simp: fun_eq_iff split: sum.split)

lemma holds_io_context:
  "holds Q (io_context w p) \<longleftrightarrow>
     holds (\<lambda>t r. case r of Inl e \<Rightarrow> Q t (Inl (w @ '': '' @ show_io e)) | Inr x \<Rightarrow> Q t (Inr x)) p"
  unfolding io_context_def holds_map_err by (rule refl)

lemma try_do_Ret [simp]: "try_do (Ret (Inl e)) f = Ret (Inl e)" "try_do (Ret (Inr x)) f = f x"
  by (simp_all add: try_do_def)

lemma exec_Ret_iff: "exec (Ret a) t = Some r \<longleftrightarrow> t = [] \<and> r = a"
  by auto

lemma exec_single:
  "exec (Act c Ret) t = Some r \<longleftrightarrow> t = [EAct c r]"
  "exec (Ask a Ret) t = Some b \<longleftrightarrow> t = [EAsk a b]"
  "exec (Get g Ret) t = Some x \<longleftrightarrow> t = [EGet g x]"
  "exec (Query q Ret) t = Some n \<longleftrightarrow> t = [EQuery q n]"
  "exec (Ls d Ret) t = Some ls \<longleftrightarrow> t = [ELs d ls]"
  "exec (Tar d z Ret) t = Some es \<longleftrightarrow> t = [ETar d z es]"
  "exec (Run m Ret) t = Some out \<longleftrightarrow> t = [ERun m out]"
  "exec (Num m1 Ret) t = Some x1 \<longleftrightarrow> t = [ENum m1 x1]"
  "exec (Wait m2 Ret) t = Some x2 \<longleftrightarrow> t = [EWait m2 x2]"
  "exec (Gather m3 Ret) t = Some x3 \<longleftrightarrow> t = [EGather m3 x3]"
  by (auto split: list.splits event.splits if_splits)

lemma exec_unit:
  "exec (println s) t = Some u \<longleftrightarrow> t = [ESay (s @ [LF])]"
  "exec (eprintln s) t = Some u \<longleftrightarrow> t = [EWarn (s @ [LF])]"
  "exec (sleep n) t = Some u \<longleftrightarrow> t = [ESleep n]"
  by (auto simp: println_def eprintln_def split: list.splits event.splits if_splits)

lemma exec_node:
  "exec (Act c k) t = Some r \<longleftrightarrow> (\<exists>a u. t = EAct c a # u \<and> exec (k a) u = Some r)"
  "exec (Ask c' k') t = Some r \<longleftrightarrow> (\<exists>a u. t = EAsk c' a # u \<and> exec (k' a) u = Some r)"
  "exec (Get g k2) t = Some r \<longleftrightarrow> (\<exists>a u. t = EGet g a # u \<and> exec (k2 a) u = Some r)"
  "exec (Query q k1) t = Some r \<longleftrightarrow> (\<exists>a u. t = EQuery q a # u \<and> exec (k1 a) u = Some r)"
  "exec (Ls d k3) t = Some r \<longleftrightarrow> (\<exists>a u. t = ELs d a # u \<and> exec (k3 a) u = Some r)"
  "exec (Tar d z k4) t = Some r \<longleftrightarrow> (\<exists>a u. t = ETar d z a # u \<and> exec (k4 a) u = Some r)"
  "exec (Run m k5) t = Some r \<longleftrightarrow> (\<exists>a u. t = ERun m a # u \<and> exec (k5 a) u = Some r)"
  "exec (Num m1 k6) t = Some r \<longleftrightarrow> (\<exists>a u. t = ENum m1 a # u \<and> exec (k6 a) u = Some r)"
  "exec (Wait m2 k7) t = Some r \<longleftrightarrow> (\<exists>a u. t = EWait m2 a # u \<and> exec (k7 a) u = Some r)"
  "exec (Gather m3 k8) t = Some r \<longleftrightarrow> (\<exists>a u. t = EGather m3 a # u \<and> exec (k8 a) u = Some r)"
  "exec (Sleep n p) t = Some r \<longleftrightarrow> (\<exists>u. t = ESleep n # u \<and> exec p u = Some r)"
  "exec (Say s p) t = Some r \<longleftrightarrow> (\<exists>u. t = ESay s # u \<and> exec p u = Some r)"
  "exec (Warn s p) t = Some r \<longleftrightarrow> (\<exists>u. t = EWarn s # u \<and> exec p u = Some r)"
  by (auto split: list.splits event.splits if_splits)

declare exec.simps [simp del]
declare exec_Ret_iff [simp] exec_single [simp] exec_unit [simp]

text \<open>A call with an error text.\<close>

lemma exec_io_context:
  "exec (io_context w p) t = Some r \<longleftrightarrow>
     (\<exists>x. exec p t = Some x \<and> r = (case x of Inl e \<Rightarrow> Inl (w @ '': '' @ show_io e) | Inr y \<Rightarrow> Inr y))"
  unfolding io_context_def exec_map_err by (rule refl)

lemma exec_io_context_ok: "exec (io_context w p) t = Some (Inr y) \<longleftrightarrow> exec p t = Some (Inr y)"
proof -
  have "Inr y = (case x of Inl e \<Rightarrow> Inl (w @ '': '' @ show_io e) | Inr y \<Rightarrow> Inr y) \<longleftrightarrow> x = Inr y" for x
    by (cases x) auto
  then show ?thesis unfolding exec_io_context by simp
qed

lemma exec_try_do_ok:
  "exec (try_do p f) t = Some (Inr r) \<longleftrightarrow>
     (\<exists>u v x. t = u @ v \<and> exec p u = Some (Inr x) \<and> exec (f x) v = Some (Inr r))"
  by (simp add: exec_try_do)

lemma exec_collect_ok:
  "exec (collect xs f) t = Some (Inr ys) \<Longrightarrow> list_all2 (\<lambda>x y. \<exists>u. exec (f x) u = Some (Inr y)) xs ys"
proof (induction xs arbitrary: t ys)
  case (Cons x xs)
  from Cons.prems show ?case by (auto simp: exec_try_do_ok dest!: Cons.IH)
qed simp

lemma exec_then_do_sum:
  "exec (then_do p f) t = Some z \<longleftrightarrow>
     (\<exists>u v e. t = u @ v \<and> exec p u = Some (Inl e) \<and> exec (f (Inl e)) v = Some z)
     \<or> (\<exists>u v x. t = u @ v \<and> exec p u = Some (Inr x) \<and> exec (f (Inr x)) v = Some z)"
  by (simp add: exec_then_do split_sum_ex) blast

lemmas exec_ok = exec_try_do_ok exec_io_context_ok exec_then_do

section \<open>Results a program can return\<close>

definition reach :: "'a prog \<Rightarrow> 'a \<Rightarrow> bool" where
  "reach p r \<longleftrightarrow> (\<exists>t. exec p t = Some r)"

lemma reach_simps [simp]:
  "reach (Ret a) r \<longleftrightarrow> a = r"
  "reach (Act c k) r \<longleftrightarrow> (\<exists>x. reach (k x) r)"
  "reach (Ask q k1) r \<longleftrightarrow> (\<exists>x. reach (k1 x) r)"
  "reach (Get g k2) r \<longleftrightarrow> (\<exists>x. reach (k2 x) r)"
  "reach (Query n k3) r \<longleftrightarrow> (\<exists>x. reach (k3 x) r)"
  "reach (Ls d k4) r \<longleftrightarrow> (\<exists>x. reach (k4 x) r)"
  "reach (Tar d z k5) r \<longleftrightarrow> (\<exists>x. reach (k5 x) r)"
  "reach (Run m k6) r \<longleftrightarrow> (\<exists>x. reach (k6 x) r)"
  "reach (Num m1 k7) r \<longleftrightarrow> (\<exists>x. reach (k7 x) r)"
  "reach (Wait m2 k8) r \<longleftrightarrow> (\<exists>x. reach (k8 x) r)"
  "reach (Gather m3 k9) r \<longleftrightarrow> (\<exists>x. reach (k9 x) r)"
  "reach (Sleep ms p) r \<longleftrightarrow> reach p r"
  "reach (Say s p) r \<longleftrightarrow> reach p r"
  "reach (Warn s p) r \<longleftrightarrow> reach p r"
  by (auto simp: reach_def exec_node)

lemma reach_then_do: "reach (then_do p f) r \<longleftrightarrow> (\<exists>x. reach p x \<and> reach (f x) r)"
  by (auto simp: reach_def exec_then_do)

lemma reach_try_do_ok: "reach (try_do p f) (Inr r) \<longleftrightarrow> (\<exists>x. reach p (Inr x) \<and> reach (f x) (Inr r))"
  by (auto simp: reach_def exec_try_do_ok)

lemma reach_io_context_ok [simp]: "reach (io_context w p) (Inr y) \<longleftrightarrow> reach p (Inr y)"
  by (simp add: reach_def exec_io_context_ok)

lemma reach_println [simp]: "reach (println s) u" "reach (eprintln s) u"
  by (simp_all add: println_def eprintln_def)

lemma reach_some: "\<exists>r. reach p r"
  using exec_total [of p] by (auto simp: reach_def)

lemma reach_exec: "reach p r \<Longrightarrow> (\<And>t. exec p t = Some r \<Longrightarrow> Q t) \<Longrightarrow> \<exists>t. exec p t = Some r \<and> Q t"
  by (auto simp: reach_def)

lemmas reach_rules = reach_then_do reach_try_do_ok

lemma reach_find_do_first: "reach (f x) True \<Longrightarrow> reach (find_do f (x # xs)) (Some x)"
  by (auto simp: reach_then_do)
lemma reach_and_also: "reach p True \<Longrightarrow> reach q b \<Longrightarrow> reach (and_also p q) b"
  by (auto simp: and_also_def reach_then_do)

text \<open>Whenever \<open>p\<close> succeeds with \<open>r\<close>, its record ends with a part that satisfies \<open>P\<close>.\<close>

definition finishes :: "'a \<Rightarrow> (event list \<Rightarrow> bool) \<Rightarrow> ('e + 'a) prog \<Rightarrow> bool" where
  "finishes r P p \<longleftrightarrow> (\<forall>t. exec p t = Some (Inr r) \<longrightarrow> (\<exists>u v. t = u @ v \<and> P v))"

lemma finishesD: "finishes r P p \<Longrightarrow> exec p t = Some (Inr r) \<Longrightarrow> \<exists>u v. t = u @ v \<and> P v"
  by (simp add: finishes_def)

lemma finishes_now: "(\<And>t. exec p t = Some (Inr r) \<Longrightarrow> P t) \<Longrightarrow> finishes r P p"
  unfolding finishes_def by (metis append_Nil)

lemma finishes_then_do: "(\<And>x. finishes r P (f x)) \<Longrightarrow> finishes r P (then_do p f)"
  unfolding finishes_def exec_then_do by (metis append.assoc)

lemma finishes_try_do: "(\<And>x. finishes r P (f x)) \<Longrightarrow> finishes r P (try_do p f)"
  unfolding finishes_def exec_try_do_ok by (metis append.assoc)

end
