(* ===== verification/LxcText.thy ===== *)
theory LxcText
  imports RustStr
begin

text \<open>
  The text-level helpers of \<open>achost-lxc-runtime\<close> (crates/achost-lxc-runtime/src/main.rs):
  the validators of container names, labels, checksums, guest users and passwords; the
  option scanners of the command line; the reader and the rewriter of the
  \<open>lxc.start.auto\<close> setting and the upsert of the network settings in a container's LXC
  configuration; the readers of \<open>lxc-info\<close>, of \<open>os-release\<close>, of \<open>/proc/mounts\<close> and of the
  guest status script; and the tail of a log.

  Two interfaces are locales: \<open>name_check\<close>, what the callers of a validator rely on, and
  \<open>text_setting\<close>, the laws of a setting kept in a text.
\<close>

section \<open>Validators\<close>

definition is_name_byte :: "char \<Rightarrow> bool" where
  "is_name_byte c \<longleftrightarrow> is_alnum c \<or> c = CHR ''.'' \<or> c = CHR ''_'' \<or> c = CHR ''-''"

lemma is_name_byte_code: "is_name_byte c \<Longrightarrow> 45 \<le> code_of c \<and> code_of c < 123"
  by (auto simp: is_name_byte_def byte_defs)

lemma is_name_byte_plain: "is_name_byte c \<Longrightarrow> plain_char c"
  using is_name_byte_code [of c] by (auto simp: plain_char_def is_space_def)

definition validate_container_name :: "string \<Rightarrow> unit result" where
  "validate_container_name name =
     (if name = [] \<or> name = ''.'' \<or> name = ''..'' \<or> str_contains ''..'' name
      then Inl ''invalid container name''
      else if list_all is_name_byte name then Inr ()
      else Inl (''invalid container name: '' @ name))"

definition validate_label :: "string \<Rightarrow> unit result" where
  "validate_label label =
     (if label \<noteq> [] \<and> list_all is_name_byte label then Inr ()
      else Inl (''invalid label: '' @ label))"

definition normalize_sha256 :: "string \<Rightarrow> string result" where
  "normalize_sha256 value =
     (let trimmed = trim value
      in if length trimmed = 64 \<and> list_all is_hexdigit trimmed
         then Inr (to_ascii_lowercase trimmed) else Inl ''invalid sha256'')"

definition validate_linux_user :: "string \<Rightarrow> unit result" where
  "validate_linux_user user =
     (if user = [] \<or> length user > 64 then Inl ''invalid Linux user''
      else case user of
        [] \<Rightarrow> Inl ''invalid Linux user''
      | first # chars \<Rightarrow>
          if \<not> (is_alpha first \<or> first = CHR ''_'') then Inl ''invalid Linux user''
          else if list_all is_name_byte chars then Inr () else Inl ''invalid Linux user'')"

definition validate_password :: "string \<Rightarrow> unit result" where
  "validate_password password =
     (if password = [] then Inl ''empty password''
      else if list_ex (\<lambda>b. b = CHR '':'' \<or> b = NUL \<or> b = LF \<or> b = CR \<or> is_control b) password
      then Inl ''password contains unsupported characters'' else Inr ())"

subsection \<open>What callers rely on\<close>

text \<open>
  An accepted name is one word, one line, one path component and one field of a
  colon-separated record: the callers splice it into paths, command lines, LXC
  configuration lines and \<open>/etc/shadow\<close> without quoting.
\<close>

locale name_check =
  fixes valid :: "string \<Rightarrow> bool"
  assumes nonempty: "valid s \<Longrightarrow> s \<noteq> []"
    and bytes: "valid s \<Longrightarrow> c \<in> set s \<Longrightarrow> is_name_byte c"
begin

lemma plain: "valid s \<Longrightarrow> list_all plain_char s"
  using bytes by (auto simp: list_all_iff is_name_byte_plain)

lemma one_word: "valid s \<Longrightarrow> split_whitespace s = [s]"
  by (simp add: plain nonempty split_whitespace_plain)

lemma trimmed: "valid s \<Longrightarrow> trim s = s"
  by (simp add: plain trim_plain)

lemma lacks: "valid s \<Longrightarrow> \<not> is_name_byte d \<Longrightarrow> d \<notin> set s"
  using bytes by blast

lemma one_part: "valid s \<Longrightarrow> \<not> is_name_byte d \<Longrightarrow> split_char d s = [s]"
  by (simp add: lacks split_char_noop)

lemma one_line: "valid s \<Longrightarrow> rust_lines s = [s]"
  by (simp add: lacks nonempty rust_lines_last is_name_byte_def byte_defs)

lemma clean: "valid s \<Longrightarrow> clean_line s"
  by (simp add: clean_line_def lacks strip_cr_noop is_name_byte_def byte_defs)

end

interpretation container_name: name_check "\<lambda>s. is_ok (validate_container_name s)"
  by unfold_locales (auto simp: validate_container_name_def list_all_iff split: if_splits)

interpretation label_name: name_check "\<lambda>s. is_ok (validate_label s)"
  by unfold_locales (auto simp: validate_label_def list_all_iff split: if_splits)

interpretation user_name: name_check "\<lambda>s. is_ok (validate_linux_user s)"
  by unfold_locales (auto simp: validate_linux_user_def list_all_iff is_name_byte_def is_alnum_def
      split: list.splits if_splits)

lemma validate_container_name_ok_iff:
  "validate_container_name s = Inr () \<longleftrightarrow>
     s \<noteq> [] \<and> s \<noteq> ''.'' \<and> \<not> str_contains ''..'' s \<and> list_all is_name_byte s"
  by (auto simp: validate_container_name_def)

lemma is_ok_unit: "is_ok (r :: unit result) \<longleftrightarrow> r = Inr ()"
  by (cases r) auto

section \<open>Command-line scanners\<close>

definition has_flag :: "string list \<Rightarrow> string \<Rightarrow> bool" where
  "has_flag args flag = list_ex (\<lambda>arg. arg = flag) args"

definition first_non_flag :: "string list \<Rightarrow> string option" where
  "first_non_flag args = find (\<lambda>arg. \<not> starts_with ''-'' arg) args"

definition parse_option_value :: "string list \<Rightarrow> string \<Rightarrow> string option" where
  "parse_option_value args flag =
     (case position (\<lambda>arg. arg = flag) args of
        None \<Rightarrow> None | Some index \<Rightarrow> nth_opt args (index + 1))"

fun parse_lines_arg :: "string list \<Rightarrow> nat option" where
  "parse_lines_arg [] = None"
| "parse_lines_arg (arg # args) =
     (if arg = ''--lines''
      then (case nth_opt (arg # args) 1 of None \<Rightarrow> None | Some value \<Rightarrow> parse_uint U64_BOUND value)
      else parse_lines_arg args)"

definition bit_of :: "bool \<Rightarrow> nat" where
  "bit_of value = (if value then 1 else 0)"

definition parse_toggle :: "string \<Rightarrow> bool option" where
  "parse_toggle value =
     (if value \<in> {''on'', ''1'', ''true''} then Some True
      else if value \<in> {''off'', ''0'', ''false''} then Some False else None)"

section \<open>The autostart setting\<close>

definition config_body :: "string \<Rightarrow> string" where
  "config_body line = trim (hd (split_char (CHR ''#'') line))"

definition lxc_start_auto_line :: "string \<Rightarrow> bool option" where
  "lxc_start_auto_line line =
     (case split_once (CHR ''='') (config_body line) of
        None \<Rightarrow> None
      | Some (key, value) \<Rightarrow>
          if trim key = ''lxc.start.auto'' then parse_toggle (trim value) else None)"

definition lxc_start_auto_value :: "string \<Rightarrow> bool" where
  "lxc_start_auto_value text =
     foldl (\<lambda>value line. case lxc_start_auto_line line of Some enabled \<Rightarrow> enabled | None \<Rightarrow> value)
       False (rust_lines text)"

definition keeps_line :: "string \<Rightarrow> bool" where
  "keeps_line line =
     (case split_once (CHR ''='') (config_body line) of
        Some (key, _) \<Rightarrow> trim key \<noteq> ''lxc.start.auto'' | None \<Rightarrow> True)"

definition start_auto_setting :: "bool \<Rightarrow> string" where
  "start_auto_setting enabled = ''lxc.start.auto = '' @ show_nat (bit_of enabled)"

definition rewrite_lxc_start_auto :: "string \<Rightarrow> bool \<Rightarrow> string" where
  "rewrite_lxc_start_auto text enabled =
     (let lines = filter keeps_line (rust_lines text) @ [start_auto_setting enabled]
      in str_join [LF] lines @ [LF])"

definition upsert_lxc_config_value :: "string \<Rightarrow> string \<Rightarrow> string \<Rightarrow> string" where
  "upsert_lxc_config_value text key value =
     (let prefix = key @ '' '';
          lines = filter (\<lambda>line. \<not> starts_with prefix (trim_start line)) (rust_lines text)
      in unlines lines @ key @ '' = '' @ value @ [LF])"


subsection \<open>The laws of a setting kept in a text\<close>

text \<open>
  \<open>get\<close> reads the setting, \<open>put\<close> rewrites it; \<open>inv\<close> holds of the texts for which
  rewriting twice is the same as rewriting once (texts without carriage returns), and
  \<open>okv\<close> of the values that fit on a line.
\<close>

locale text_setting =
  fixes inv :: "string \<Rightarrow> bool"
    and okv :: "'v \<Rightarrow> bool"
    and get :: "string \<Rightarrow> 'v option"
    and put :: "string \<Rightarrow> 'v \<Rightarrow> string"
    and other :: "string \<Rightarrow> bool"
  assumes get_put: "okv v \<Longrightarrow> get (put t v) = Some v"
    and inv_put: "inv t \<Longrightarrow> okv v \<Longrightarrow> inv (put t v)"
    and other_put: "inv t \<Longrightarrow> okv v \<Longrightarrow>
      filter other (rust_lines (put t v)) = filter other (rust_lines t)"
    and put_cong: "filter other (rust_lines t) = filter other (rust_lines u) \<Longrightarrow> put t v = put u v"
begin

lemma put_put: "inv t \<Longrightarrow> okv u \<Longrightarrow> put (put t u) v = put t v"
  by (rule put_cong) (rule other_put)

lemma puts: "inv t \<Longrightarrow> \<forall>v \<in> set vs. okv v \<Longrightarrow> okv w \<Longrightarrow> put (foldl put t vs) w = put t w"
proof (induction vs arbitrary: t)
  case (Cons v vs)
  then have "put (foldl put (put t v) vs) w = put (put t v) w" by (simp add: inv_put)
  also have "\<dots> = put t w" using Cons.prems by (simp add: put_put)
  finally show ?case by simp
qed simp

lemma put_same: "inv t \<Longrightarrow> okv v \<Longrightarrow> put (put t v) v = put t v"
  by (rule put_put)

lemma others_puts:
  "inv t \<Longrightarrow> \<forall>v \<in> set vs. okv v \<Longrightarrow>
     filter other (rust_lines (foldl put t vs)) = filter other (rust_lines t)"
  by (induction vs arbitrary: t) (auto simp: inv_put other_put)

end

subsection \<open>The autostart setting obeys them\<close>

definition no_cr :: "string \<Rightarrow> bool" where
  "no_cr t \<longleftrightarrow> CR \<notin> set t"

lemma no_LF_filter: "\<forall>l \<in> set (filter P (rust_lines t)). LF \<notin> set l"
  using rust_lines_no_LF by auto

lemma start_auto_setting_line:
  "lxc_start_auto_line (start_auto_setting v) = Some v"
  "clean_line (start_auto_setting v)"
  "\<not> keeps_line (start_auto_setting v)"
  "CR \<notin> set (start_auto_setting v)"
  by (cases v; simp only:; code_simp)+

lemma rewrite_lxc_start_auto_unlines:
  "rewrite_lxc_start_auto t v =
     unlines (filter keeps_line (rust_lines t) @ [start_auto_setting v])"
  using str_join_LF_unlines [of "filter keeps_line (rust_lines t) @ [start_auto_setting v]"]
  by (simp add: rewrite_lxc_start_auto_def)

lemma lxc_start_auto_rewrite: "lxc_start_auto_value (rewrite_lxc_start_auto t v) = v"
proof -
  have "\<forall>l \<in> set (filter keeps_line (rust_lines t) @ [start_auto_setting v]). LF \<notin> set l"
    using no_LF_filter [of keeps_line t] start_auto_setting_line(2) [of v]
    by (auto simp: clean_line_def)
  from rust_lines_unlines_raw [OF this]
  have "rust_lines (rewrite_lxc_start_auto t v) =
      map strip_cr (filter keeps_line (rust_lines t)) @ [start_auto_setting v]"
    using start_auto_setting_line(2) [of v]
    by (simp add: rewrite_lxc_start_auto_unlines clean_line_def)
  then show ?thesis
    by (simp add: lxc_start_auto_value_def start_auto_setting_line(1))
qed

lemma rewrite_lxc_start_auto_lines:
  "no_cr t \<Longrightarrow> rust_lines (rewrite_lxc_start_auto t v) =
     filter keeps_line (rust_lines t) @ [start_auto_setting v]"
  unfolding rewrite_lxc_start_auto_unlines
  by (rule rust_lines_unlines)
    (use rust_lines_clean [of t] start_auto_setting_line(2) [of v] in \<open>auto simp: no_cr_def\<close>)

lemma rewrite_lxc_start_auto_no_cr: "no_cr t \<Longrightarrow> no_cr (rewrite_lxc_start_auto t v)"
  using start_auto_setting_line(4) [of v] rust_lines_set [of _ t]
  by (fastforce simp: no_cr_def rewrite_lxc_start_auto_unlines set_unlines)

interpretation autostart: text_setting no_cr "\<lambda>_. True"
  "\<lambda>t. Some (lxc_start_auto_value t)" rewrite_lxc_start_auto keeps_line
  by unfold_locales
    (simp_all add: lxc_start_auto_rewrite rewrite_lxc_start_auto_no_cr
      rewrite_lxc_start_auto_lines start_auto_setting_line(3),
      simp add: rewrite_lxc_start_auto_unlines)


subsection \<open>So do the network settings\<close>

text \<open>
  What the LXC tools read for a key: the value of the last line \<open>key = value\<close> written
  with the upsert's spacing. The upsert drops the lines that start with the key and one
  space, so it replaces its own lines; a line \<open>key=value\<close> without a space stays.
\<close>

definition setting_line :: "string \<Rightarrow> string \<Rightarrow> string" where
  "setting_line key value = key @ '' = '' @ value"

definition upsert_keeps :: "string \<Rightarrow> string \<Rightarrow> bool" where
  "upsert_keeps key line \<longleftrightarrow> \<not> starts_with (key @ '' '') (trim_start line)"

definition config_value :: "string \<Rightarrow> string \<Rightarrow> string option" where
  "config_value key text =
     (let ls = filter (\<lambda>l. \<not> upsert_keeps key l) (rust_lines text)
      in if ls = [] then None else strip_prefix (key @ '' = '') (trim_start (last ls)))"

definition setting_key :: "string \<Rightarrow> bool" where
  "setting_key key \<longleftrightarrow> key \<noteq> [] \<and> list_all plain_char key"

definition setting_value :: "string \<Rightarrow> bool" where
  "setting_value v \<longleftrightarrow> LF \<notin> set v \<and> CR \<notin> set v"

lemma upsert_unlines:
  "upsert_lxc_config_value t key v =
     unlines (filter (upsert_keeps key) (rust_lines t) @ [setting_line key v])"
  by (simp add: upsert_lxc_config_value_def upsert_keeps_def [abs_def] setting_line_def Let_def)

lemma setting_line_facts:
  assumes "setting_key key" "setting_value v"
  shows "trim_start (setting_line key v) = setting_line key v"
    and "\<not> upsert_keeps key (setting_line key v)"
    and "clean_line (setting_line key v)"
    and "CR \<notin> set (setting_line key v)"
    and "strip_prefix (key @ '' = '') (setting_line key v) = Some v"
proof -
  obtain c k where key: "key = c # k" using assms(1) by (cases key) (auto simp: setting_key_def)
  show 1: "trim_start (setting_line key v) = setting_line key v"
    using assms(1) by (simp add: key setting_line_def setting_key_def trim_start_plain)
  show "\<not> upsert_keeps key (setting_line key v)"
    unfolding upsert_keeps_def 1 by (simp add: setting_line_def starts_with_iff)
  have "\<forall>x \<in> set key. x \<noteq> LF \<and> x \<noteq> CR"
    using assms(1) plain_char_not_eol by (auto simp: setting_key_def list_all_iff)
  then have "LF \<notin> set key" "CR \<notin> set key" by blast+
  then have lf: "LF \<notin> set (setting_line key v)" and cr: "CR \<notin> set (setting_line key v)"
    using assms(2) by (simp_all add: setting_line_def setting_value_def)
  show "CR \<notin> set (setting_line key v)" by (rule cr)
  show "clean_line (setting_line key v)"
    using lf cr by (simp add: clean_line_def strip_cr_noop)
qed (simp add: setting_line_def)

lemma upsert_lines:
  assumes "no_cr t" "setting_key key" "setting_value v"
  shows "rust_lines (upsert_lxc_config_value t key v) =
     filter (upsert_keeps key) (rust_lines t) @ [setting_line key v]"
  unfolding upsert_unlines
  by (rule rust_lines_unlines)
    (use assms rust_lines_clean [of t] setting_line_facts(3) in \<open>auto simp: no_cr_def\<close>)

lemma upsert_no_cr:
  assumes "no_cr t" "setting_key key" "setting_value v"
  shows "no_cr (upsert_lxc_config_value t key v)"
  using assms setting_line_facts(4) [OF assms(2,3)] rust_lines_set [of _ t]
  by (fastforce simp: no_cr_def upsert_unlines set_unlines)

lemma upsert_value:
  assumes "setting_key key" "setting_value v"
  shows "config_value key (upsert_lxc_config_value t key v) = Some v"
proof -
  let ?ls = "filter (upsert_keeps key) (rust_lines t)"
  have "\<forall>l \<in> set (?ls @ [setting_line key v]). LF \<notin> set l"
    using no_LF_filter [of _ t] setting_line_facts(3) [OF assms] by (auto simp: clean_line_def)
  from rust_lines_unlines_raw [OF this]
  have lines: "rust_lines (upsert_lxc_config_value t key v) =
      map strip_cr ?ls @ [setting_line key v]"
    using setting_line_facts(3) [OF assms] by (simp add: upsert_unlines clean_line_def)
  let ?old = "filter (\<lambda>l. \<not> upsert_keeps key l) (map strip_cr ?ls)"
  have "filter (\<lambda>l. \<not> upsert_keeps key l) (rust_lines (upsert_lxc_config_value t key v))
      = ?old @ [setting_line key v]"
    using setting_line_facts(2) [OF assms] by (simp add: lines)
  then show ?thesis
    by (simp add: config_value_def Let_def setting_line_facts(1,5) [OF assms])
qed

lemma upsert_setting:
  assumes "setting_key key"
  shows "text_setting no_cr setting_value (config_value key)
    (\<lambda>t v. upsert_lxc_config_value t key v) (upsert_keeps key)"
  using assms
  by unfold_locales
    (simp_all add: upsert_value upsert_no_cr upsert_lines setting_line_facts(2), simp add: upsert_unlines)

lemma network_keys:
  "setting_key ''lxc.net.0.ipv4.address''" "setting_key ''lxc.net.0.ipv4.gateway''"
  by code_simp+

interpretation net_address: text_setting no_cr setting_value
  "config_value ''lxc.net.0.ipv4.address''"
  "\<lambda>t v. upsert_lxc_config_value t ''lxc.net.0.ipv4.address'' v"
  "upsert_keeps ''lxc.net.0.ipv4.address''"
  by (rule upsert_setting) (rule network_keys)

interpretation net_gateway: text_setting no_cr setting_value
  "config_value ''lxc.net.0.ipv4.gateway''"
  "\<lambda>t v. upsert_lxc_config_value t ''lxc.net.0.ipv4.gateway'' v"
  "upsert_keeps ''lxc.net.0.ipv4.gateway''"
  by (rule upsert_setting) (rule network_keys)


section \<open>Reading the output of tools\<close>

record lxc_state_info =
  li_state :: string
  li_pid :: "string option"

definition lxc_info_line :: "lxc_state_info \<Rightarrow> string \<Rightarrow> lxc_state_info" where
  "lxc_info_line info line =
     (case strip_prefix ''State:'' line of
        Some value \<Rightarrow> info\<lparr>li_state := trim value\<rparr>
      | None \<Rightarrow>
          (case strip_prefix ''PID:'' line of
             Some value \<Rightarrow>
               if trim value \<noteq> [] \<and> trim value \<noteq> ''-1''
               then info\<lparr>li_pid := Some (trim value)\<rparr> else info
           | None \<Rightarrow> info))"

definition parse_lxc_info :: "string \<Rightarrow> lxc_state_info" where
  "parse_lxc_info output =
     foldl lxc_info_line \<lparr>li_state = ''UNKNOWN'', li_pid = None\<rparr> (rust_lines output)"

record cgroup_mount =
  cm_path :: string
  cm_fstype :: string

definition cgroup_mount_line :: "string \<Rightarrow> cgroup_mount option" where
  "cgroup_mount_line line =
     (let fields = split_whitespace line
      in if length fields < 3 \<or> fields ! 2 \<notin> {''cgroup'', ''cgroup2''} then None
         else Some \<lparr>cm_path = fields ! 1, cm_fstype = fields ! 2\<rparr>)"

definition parse_cgroup_mounts :: "string \<Rightarrow> cgroup_mount list" where
  "parse_cgroup_mounts mounts = List.map_filter cgroup_mount_line (rust_lines mounts)"

definition unquote_os_release_value :: "string \<Rightarrow> string" where
  "unquote_os_release_value value =
     (let v = trim value
      in if length v \<ge> 2 \<and> starts_with [QUOTE] v \<and> ends_with [QUOTE] v
         then str_replace [BACKSLASH, BACKSLASH] [BACKSLASH]
                (str_replace [BACKSLASH, QUOTE] [QUOTE] (butlast (tl v)))
         else v)"

definition os_release_line :: "string \<times> string \<Rightarrow> string \<Rightarrow> string \<times> string" where
  "os_release_line dr line =
     (case split_once (CHR ''='') line of
        None \<Rightarrow> dr
      | Some (key, raw) \<Rightarrow>
          let value = unquote_os_release_value (trim raw)
          in if key = ''ID'' then (value, snd dr)
             else if key = ''NAME'' \<and> fst dr = [] then (value, snd dr)
             else if key = ''VERSION_ID'' then (fst dr, value)
             else if key = ''VERSION_CODENAME'' \<and> snd dr = [] then (fst dr, value)
             else dr)"

text \<open>The part of \<open>infer_os_release\<close> after the file has been read.\<close>

definition infer_os_release_text :: "string \<Rightarrow> (string \<times> string) option" where
  "infer_os_release_text text =
     (let (distro, release) = foldl os_release_line ([], []) (rust_lines text)
      in if distro = [] \<and> release = [] then None
         else Some (if distro = [] then ''unknown'' else distro,
                    if release = [] then ''unknown'' else release))"

definition last_lines :: "string \<Rightarrow> nat \<Rightarrow> string" where
  "last_lines text count =
     (if count = 0 then []
      else let lines = rust_lines text;
               start = length lines - count;
               output = str_join [LF] (drop start lines)
           in if ends_with [LF] text \<and> output \<noteq> [] then output @ [LF] else output)"

record status_report =
  cs_name :: string
  cs_state :: string
  cs_pid :: "string option"
  cs_distro :: string
  cs_release :: string
  cs_arch :: string
  cs_rootfs :: string
  cs_config :: string
  cs_log :: string
  cs_metadata :: string
  cs_autostart :: bool

record guest_report =
  gs_name :: string
  gs_state :: string
  gs_distro :: string
  gs_release :: string
  gs_arch :: string
  gs_hostname :: string
  gs_uptime :: string
  gs_pretty_name :: string
  gs_addresses :: "string list"
  gs_message :: string

definition guest_line :: "guest_report \<Rightarrow> string \<Rightarrow> guest_report" where
  "guest_line g line =
     (case split_once (CHR ''='') line of
        None \<Rightarrow> g
      | Some (key, value) \<Rightarrow>
          if key = ''hostname'' then g\<lparr>gs_hostname := value\<rparr>
          else if key = ''uptime'' then g\<lparr>gs_uptime := value\<rparr>
          else if key = ''PRETTY_NAME'' then g\<lparr>gs_pretty_name := value\<rparr>
          else if key = ''NAME'' \<and> gs_pretty_name g = [] then g\<lparr>gs_pretty_name := value\<rparr>
          else if key = ''addr'' \<and> value \<noteq> [] then g\<lparr>gs_addresses := gs_addresses g @ [value]\<rparr>
          else g)"

definition parse_guest_system_status :: "status_report \<Rightarrow> string \<Rightarrow> guest_report" where
  "parse_guest_system_status status output =
     foldl guest_line
       \<lparr>gs_name = cs_name status, gs_state = cs_state status, gs_distro = cs_distro status,
        gs_release = cs_release status, gs_arch = cs_arch status, gs_hostname = [],
        gs_uptime = [], gs_pretty_name = [], gs_addresses = [], gs_message = []\<rparr>
       (rust_lines output)"

subsection \<open>Correctness of the readers\<close>

lemma last_lines_unlines:
  assumes "\<forall>l \<in> set ls. clean_line l" "0 < n"
  shows "last_lines (unlines ls) n =
     (let tail = drop (length ls - n) ls
      in if str_join [LF] tail = [] then [] else unlines tail)"
proof -
  have lines: "rust_lines (unlines ls) = ls" using assms(1) by (rule rust_lines_unlines)
  have "ls \<noteq> [] \<Longrightarrow> ends_with [LF] (unlines ls)"
    by (cases ls rule: rev_cases) (auto simp: ends_with_iff)
  moreover have "drop (length ls - n) ls = [] \<longleftrightarrow> ls = []"
    using assms(2) by (cases ls) auto
  ultimately show ?thesis
    using assms(2) str_join_LF_unlines [of "drop (length ls - n) ls"]
    by (auto simp: last_lines_def lines Let_def)
qed

definition mount_row :: "string \<times> string \<times> string \<times> string list \<Rightarrow> string" where
  "mount_row r = (case r of (src, path, fstype, rest) \<Rightarrow> str_join '' '' (src # path # fstype # rest))"

definition mount_row_ok :: "string \<times> string \<times> string \<times> string list \<Rightarrow> bool" where
  "mount_row_ok r = (case r of (src, path, fstype, rest) \<Rightarrow> list_all word (src # path # fstype # rest))"

lemma cgroup_mount_row:
  "mount_row_ok r \<Longrightarrow> cgroup_mount_line (mount_row r) =
     (case r of (src, path, fstype, rest) \<Rightarrow>
        if fstype \<in> {''cgroup'', ''cgroup2''} then Some \<lparr>cm_path = path, cm_fstype = fstype\<rparr> else None)"
  using split_whitespace_join
  by (auto simp: mount_row_ok_def mount_row_def cgroup_mount_line_def list_all_iff Let_def
      simp del: str_join.simps split: prod.splits)

lemma mount_row_clean: "mount_row_ok r \<Longrightarrow> clean_line (mount_row r)"
  by (cases r) (auto simp: mount_row_ok_def mount_row_def list_all_iff simp del: str_join.simps
      intro!: words_clean)

lemma foldl_guest_line_frame:
  "gs_name (foldl guest_line g ls) = gs_name g" "gs_state (foldl guest_line g ls) = gs_state g"
  "gs_message (foldl guest_line g ls) = gs_message g"
  by (induction ls arbitrary: g) (auto simp: guest_line_def split: option.split)


section \<open>Properties\<close>

text \<open>
  C11. Whatever the container's configuration says, after \<open>set-autostart\<close> has rewritten it
  the autostart flag the listing reads is the value that was set; and, in a text without
  carriage returns, every line that is not an \<open>lxc.start.auto\<close> assignment is kept, in
  order, and setting the flag again replaces the first setting.
\<close>

theorem set_autostart_reads_back:
  "lxc_start_auto_value (rewrite_lxc_start_auto text enabled) = enabled
   \<and> (no_cr text \<longrightarrow>
       filter keeps_line (rust_lines (rewrite_lxc_start_auto text enabled))
         = filter keeps_line (rust_lines text)
       \<and> rewrite_lxc_start_auto (rewrite_lxc_start_auto text v) enabled
         = rewrite_lxc_start_auto text enabled)"
  using autostart.get_put [where v = enabled and t = "text"]
    autostart.other_put [where t = "text" and v = enabled]
    autostart.put_put [where t = "text" and u = v and v = enabled] by simp

theorem set_autostart_reads_back_witness:
  "no_cr (''a = b'' @ [LF]) \<and>
   filter keeps_line (rust_lines (rewrite_lxc_start_auto (''a = b'' @ [LF]) True)) = [''a = b'']"
proof -
  have "no_cr (''a = b'' @ [LF])" by code_simp
  moreover have "filter keeps_line (rust_lines (''a = b'' @ [LF])) = [''a = b'']" by code_simp
  ultimately show ?thesis
    using set_autostart_reads_back [of "''a = b'' @ [LF]" True] by simp
qed

text \<open>
  Repairing a container's network writes the address into its configuration so that the
  last line for the key carries it, leaves every other line in place, and repairing again
  with another address gives what repairing the original would have given.
\<close>

lemma upsert_network_address:
  assumes "no_cr text" "setting_value old" "setting_value new"
  shows "config_value ''lxc.net.0.ipv4.address''
           (upsert_lxc_config_value text ''lxc.net.0.ipv4.address'' new) = Some new
    \<and> filter (upsert_keeps ''lxc.net.0.ipv4.address'')
        (rust_lines (upsert_lxc_config_value text ''lxc.net.0.ipv4.address'' new))
      = filter (upsert_keeps ''lxc.net.0.ipv4.address'') (rust_lines text)
    \<and> upsert_lxc_config_value (upsert_lxc_config_value text ''lxc.net.0.ipv4.address'' old)
        ''lxc.net.0.ipv4.address'' new
      = upsert_lxc_config_value text ''lxc.net.0.ipv4.address'' new"
  using net_address.get_put [where v = new and t = "text"]
    net_address.other_put [where t = "text" and v = new]
    net_address.put_put [where t = "text" and u = old and v = new] assms by simp

text \<open>
  \<open>lxc-runtime logs --lines n\<close> prints the last \<open>n\<close> lines of a log whose lines are ended
  by line feeds, all of them if there are fewer, and nothing for \<open>n = 0\<close>; only a tail
  that consists of one empty line loses its line feed.
\<close>

lemma last_lines_tail:
  assumes "\<forall>l \<in> set ls. clean_line l"
  shows "last_lines (unlines ls) n =
     (let tail = drop (length ls - n) ls
      in if n = 0 \<or> str_join [LF] tail = [] then [] else unlines tail)"
proof (cases "n = 0")
  case True
  then show ?thesis by (simp add: last_lines_def)
next
  case False
  then show ?thesis using last_lines_unlines [OF assms, of n] by (simp add: Let_def)
qed

text \<open>
  The host validation finds exactly the cgroup and cgroup2 mounts of a mount table, in
  order, with their mount points.
\<close>

lemma parse_cgroup_mounts_rows:
  assumes "\<forall>r \<in> set rows. mount_row_ok r"
  shows "parse_cgroup_mounts (unlines (map mount_row rows)) =
     [\<lparr>cm_path = path, cm_fstype = fstype\<rparr>.
        (src, path, fstype, rest) \<leftarrow> rows, fstype \<in> {''cgroup'', ''cgroup2''}]"
proof -
  have "rust_lines (unlines (map mount_row rows)) = map mount_row rows"
    by (rule rust_lines_unlines) (use assms mount_row_clean in auto)
  then have "parse_cgroup_mounts (unlines (map mount_row rows)) =
      List.map_filter cgroup_mount_line (map mount_row rows)"
    by (simp add: parse_cgroup_mounts_def)
  also have "\<dots> = [\<lparr>cm_path = path, cm_fstype = fstype\<rparr>.
        (src, path, fstype, rest) \<leftarrow> rows, fstype \<in> {''cgroup'', ''cgroup2''}]"
    using assms by (induction rows) (auto simp: List.map_filter_simps cgroup_mount_row)
  finally show ?thesis .
qed

end
