(* ===== verification/LxcConfig.thy ===== *)
theory LxcConfig
  imports Paths LxcText
begin

text \<open>
  The configuration of \<open>achost-lxc-runtime\<close>: the directories it works in, how they are
  taken from the environment, and the paths of a container below them. The environment is
  a function from names to values; \<open>split_base\<close> and \<open>split_lxc\<close> are the answers of the two
  \<open>Path::exists\<close> tests it makes, and \<open>exe\<close> is the result of \<open>current_exe\<close> (an absolute
  path without empty or dot components).
\<close>

datatype env_value = Unset | NotUnicode string | Utf8 string

type_synonym environment = "string \<Rightarrow> env_value"

definition env_var :: "environment \<Rightarrow> string \<Rightarrow> string option" where
  "env_var e name = (case e name of Utf8 v \<Rightarrow> Some v | _ \<Rightarrow> None)"

definition env_var_os :: "environment \<Rightarrow> string \<Rightarrow> string option" where
  "env_var_os e name = (case e name of Utf8 v \<Rightarrow> Some v | NotUnicode v \<Rightarrow> Some v | Unset \<Rightarrow> None)"

definition env_nonempty :: "environment \<Rightarrow> string \<Rightarrow> string option" where
  "env_nonempty e name = filter_opt (\<lambda>v. v \<noteq> []) (env_var e name)"

definition lxc_env_path :: "environment \<Rightarrow> string \<Rightarrow> string option" where
  "lxc_env_path e name = filter_opt (\<lambda>v. v \<noteq> []) (env_var_os e name)"

text \<open>\<open>Path::parent\<close> of a path without empty or dot components, as a path.\<close>

definition parent_path :: "string \<Rightarrow> string option" where
  "parent_path p =
     (case path_parent (components p) of
        None \<Rightarrow> None
      | Some cs \<Rightarrow>
          Some ((if cs \<noteq> [] \<and> hd cs = RootDir then ''/'' else [])
                @ str_join ''/'' (List.map_filter (\<lambda>c. case c of Normal n \<Rightarrow> Some n
                    | ParentDir \<Rightarrow> Some ''..'' | CurDir \<Rightarrow> Some ''.'' | RootDir \<Rightarrow> None) cs)))"

record lxc_config =
  lc_achost :: string
  lc_achost_bin :: string
  lc_common_bin :: string
  lc_lxc_module :: string
  lc_lxc_root :: string
  lc_lxc_bin :: string
  lc_lxc_etc :: string
  lc_lxc_var :: string
  lc_lxc_run :: string
  lc_lxc_log :: string
  lc_lxc_rootfs :: string
  lc_lxc_containers :: string
  lc_native_root :: string
  lc_supervise :: string
  lc_bridge :: string
  lc_subnet :: string

definition SPLIT_BASE :: string where
  "SPLIT_BASE = ''/data/adb/modules/achost-base/achost''"

definition lxc_config_from_env ::
  "environment \<Rightarrow> bool \<Rightarrow> bool \<Rightarrow> string option \<Rightarrow> lxc_config" where
  "lxc_config_from_env e split_base split_lxc exe =
     (let exe_dir = unwrap_or ''/data/adb/achost/bin'' (Option.bind exe parent_path);
          module_root = unwrap_or ''/data/adb/achost'' (parent_path exe_dir);
          achost = unwrap_or module_root (lxc_env_path e ''ACHOST'');
          achost_bin = unwrap_or exe_dir (lxc_env_path e ''ACHOST_BIN'');
          common_root = unwrap_or (if split_base then SPLIT_BASE else achost)
            (or_else (lxc_env_path e ''ACHOST_COMMON'') (lxc_env_path e ''ACHOST_BASE''));
          common_bin = unwrap_or (path_join common_root ''bin'') (lxc_env_path e ''ACHOST_COMMON_BIN'');
          achost_var = unwrap_or ''/data/adb/achost'' (lxc_env_path e ''ACHOST_VAR'');
          lxc_module = unwrap_or achost (lxc_env_path e ''ACHOST_LXC_MODULE'');
          split_root = path_join lxc_module ''lxc'';
          lxc_root = unwrap_or (if split_lxc then split_root else path_join achost ''lxc'')
            (lxc_env_path e ''ACHOST_LXC'');
          lxc_var = unwrap_or (path_join achost_var ''lxc'') (lxc_env_path e ''ACHOST_LXC_VAR'');
          lxc_run = unwrap_or (path_join achost_var ''run/lxc'') (lxc_env_path e ''ACHOST_LXC_RUN'');
          lxc_log = unwrap_or (path_join achost_var ''log/lxc'') (lxc_env_path e ''ACHOST_LXC_LOG'');
          native_root = unwrap_or (path_join achost_var ''native-root'')
            (lxc_env_path e ''ACHOST_NATIVE_ROOT'');
          supervise = unwrap_or (path_join common_bin ''achost-supervise'')
            (lxc_env_path e ''ACHOST_SUPERVISE'')
      in \<lparr>lc_achost = achost, lc_achost_bin = achost_bin, lc_common_bin = common_bin,
          lc_lxc_module = lxc_module, lc_lxc_root = lxc_root,
          lc_lxc_bin = unwrap_or (path_join lxc_root ''bin'') (lxc_env_path e ''ACHOST_LXC_BIN''),
          lc_lxc_etc = unwrap_or (path_join achost ''etc/lxc'') (lxc_env_path e ''ACHOST_LXC_ETC''),
          lc_lxc_var = lxc_var, lc_lxc_run = lxc_run, lc_lxc_log = lxc_log,
          lc_lxc_rootfs = unwrap_or (path_join lxc_var ''rootfs'') (lxc_env_path e ''ACHOST_LXC_ROOTFS''),
          lc_lxc_containers = unwrap_or (path_join lxc_var ''containers'')
            (lxc_env_path e ''ACHOST_LXC_CONTAINERS''),
          lc_native_root = native_root, lc_supervise = supervise,
          lc_bridge = unwrap_or ''lxcbr0'' (env_nonempty e ''LXC_BRIDGE''),
          lc_subnet = unwrap_or ''172.32.0.0/16'' (env_nonempty e ''LXC_SUBNET'')\<rparr>)"

definition METADATA_FILE :: string where
  "METADATA_FILE = ''achost-container.json''"

definition container_dir :: "lxc_config \<Rightarrow> string \<Rightarrow> string" where
  "container_dir config name = path_join (lc_lxc_containers config) name"

definition container_config :: "lxc_config \<Rightarrow> string \<Rightarrow> string" where
  "container_config config name = path_join (container_dir config name) ''config''"

definition container_rootfs :: "lxc_config \<Rightarrow> string \<Rightarrow> string" where
  "container_rootfs config name = path_join (container_dir config name) ''rootfs''"

definition container_metadata :: "lxc_config \<Rightarrow> string \<Rightarrow> string" where
  "container_metadata config name = path_join (container_dir config name) METADATA_FILE"

definition container_log :: "lxc_config \<Rightarrow> string \<Rightarrow> string" where
  "container_log config name = path_join (lc_lxc_log config) (name @ ''.log'')"

section \<open>Containers do not share paths\<close>

lemma is_name_byte_not_slash: "is_name_byte c \<Longrightarrow> c \<noteq> CHR ''/''"
  by (auto simp: is_name_byte_def byte_defs)

lemma container_name_good: "validate_container_name name = Inr () \<Longrightarrow> good_name name"
  using is_name_byte_not_slash
  by (auto simp: validate_container_name_ok_iff good_name_def list_all_iff str_contains_iff
      dest: spec [of _ "[]"])

lemma path_join_nonempty: "p \<noteq> [] \<or> q \<noteq> [] \<Longrightarrow> path_join p q \<noteq> []"
  by (auto simp: path_join_def is_absolute_def)

lemma good_literals:
  "good_name ''config''" "good_name ''rootfs''" "good_name METADATA_FILE"
  by (simp_all add: good_name_def METADATA_FILE_def)

lemma container_dir_components:
  "lc_lxc_containers config \<noteq> [] \<Longrightarrow> validate_container_name name = Inr () \<Longrightarrow>
     components (container_dir config name) = components (lc_lxc_containers config) @ [Normal name]"
  by (simp add: container_dir_def components_join_name container_name_good)

lemma container_file_components:
  assumes "lc_lxc_containers config \<noteq> []" "validate_container_name name = Inr ()"
  shows "components (container_config config name) =
      components (lc_lxc_containers config) @ [Normal name, Normal ''config'']"
    and "components (container_rootfs config name) =
      components (lc_lxc_containers config) @ [Normal name, Normal ''rootfs'']"
    and "components (container_metadata config name) =
      components (lc_lxc_containers config) @ [Normal name, Normal METADATA_FILE]"
  using assms
  by (simp_all add: container_config_def container_rootfs_def container_metadata_def
      components_join_name good_literals container_dir_components path_join_nonempty
      container_dir_def [of config name, THEN arg_cong [where f = "\<lambda>p. p \<noteq> []"]])

section \<open>Properties\<close>

text \<open>
  C13. Two containers with different accepted names never share a file: neither directory
  is a path prefix of the other, and each one's configuration, root file system and metadata
  lie below its own directory, which passes the containment check of the configured
  container root.
\<close>

theorem containers_do_not_overlap:
  assumes "lc_lxc_containers config \<noteq> []"
    and "validate_container_name a = Inr ()" "validate_container_name b = Inr ()" "a \<noteq> b"
  shows "\<not> path_starts_with (container_dir config a) (container_dir config b)
    \<and> (\<forall>file \<in> {container_config, container_rootfs, container_metadata}.
         path_starts_with (file config a) (container_dir config a)
         \<and> \<not> path_starts_with (file config a) (container_dir config b))
    \<and> ensure_child_path (lc_lxc_containers config) (container_dir config a) = Inr ()"
  using assms ensure_child_path_join [OF assms(1) container_name_good [OF assms(2)]]
  by (auto simp: path_starts_with_def container_dir_components container_file_components
      container_dir_def [symmetric])

theorem containers_do_not_overlap_witness:
  "\<not> path_starts_with
       (container_dir (lxc_config_from_env (\<lambda>_. Unset) False False None) ''web'')
       (container_dir (lxc_config_from_env (\<lambda>_. Unset) False False None) ''web-2'')"
proof -
  let ?c = "lxc_config_from_env (\<lambda>_. Unset) False False None"
  have "lc_lxc_containers ?c \<noteq> []" by code_simp
  moreover have "validate_container_name ''web'' = Inr ()"
    "validate_container_name ''web-2'' = Inr ()" by code_simp+
  ultimately show ?thesis
    using containers_do_not_overlap [of ?c "''web''" "''web-2''"] by simp
qed

end
