(* ===== verification/LxcNet.thy ===== *)
theory LxcNet
  imports LxcConfig
begin

text \<open>
  The addresses \<open>achost-lxc-runtime\<close> gives its containers, and the texts it renders from
  them: the LXC configuration of the host side (\<open>default_config\<close>, \<open>container_config_text\<close>)
  and the guest's \<open>resolv.conf\<close>, netplan and systemd-networkd files. Octets are 8-bit
  words, the name hash is a 32-bit word and wraps.
\<close>

unbundle bit_operations_syntax

type_synonym u8 = "8 word"
type_synonym u32 = "32 word"

section \<open>IPv4 addresses\<close>

datatype ipv4 = Ipv4 u8 u8 u8 u8

definition show_octet :: "u8 \<Rightarrow> string" where
  "show_octet oct = show_nat (unat oct)"

fun show_ipv4 :: "ipv4 \<Rightarrow> string" where
  "show_ipv4 (Ipv4 a b c d) = str_join ''.'' [show_octet a, show_octet b, show_octet c, show_octet d]"

text \<open>\<open>Ipv4Addr::from_str\<close>: four decimal octets of one to three digits, no leading zero.\<close>

definition parse_octet :: "string \<Rightarrow> u8 option" where
  "parse_octet s =
     (if s = [] \<or> length s > 3 \<or> \<not> list_all is_digit s \<or> (length s > 1 \<and> hd s = CHR ''0'')
         \<or> digits_value s > 255
      then None else Some (of_nat (digits_value s)))"

definition parse_ipv4 :: "string \<Rightarrow> ipv4 option" where
  "parse_ipv4 s =
     (case split_char (CHR ''.'') s of
        [a, b, c, d] \<Rightarrow>
          (case (parse_octet a, parse_octet b, parse_octet c, parse_octet d) of
             (Some a, Some b, Some c, Some d) \<Rightarrow> Some (Ipv4 a b c d) | _ \<Rightarrow> None)
      | _ \<Rightarrow> None)"

definition parse_ipv4_cidr :: "string \<Rightarrow> (ipv4 \<times> nat) option" where
  "parse_ipv4_cidr value =
     (case split_once (CHR ''/'') value of
        None \<Rightarrow> None
      | Some (addr, pre) \<Rightarrow>
          (case parse_ipv4 addr of
             None \<Rightarrow> None
           | Some a \<Rightarrow>
               (case parse_uint U8_BOUND pre of
                  None \<Rightarrow> None
                | Some p \<Rightarrow> if p \<le> 32 then Some (a, p) else None)))"

section \<open>Addresses of containers\<close>

definition hash_step :: "u32 \<Rightarrow> char \<Rightarrow> u32" where
  "hash_step hash byte = (hash XOR of_nat (code_of byte)) * 16777619"

definition stable_name_hash :: "string \<Rightarrow> u32" where
  "stable_name_hash value = foldl hash_step 2166136261 value"

record network_settings =
  ns_address :: ipv4
  ns_gateway :: ipv4
  ns_prefix :: nat
  ns_dns :: "ipv4 list"

definition container_network_settings :: "lxc_config \<Rightarrow> string \<Rightarrow> network_settings" where
  "container_network_settings config name =
     (let (base, pre) = unwrap_or (Ipv4 172 32 0 0, 16) (parse_ipv4_cidr (lc_subnet config))
      in case base of Ipv4 o0 o1 o2 o3 \<Rightarrow>
        let gateway = Ipv4 o0 o1 o2 1;
            hash = stable_name_hash name;
            a2 = (ucast ((hash div 253) mod 253 + 1) :: u8);
            a3 = (ucast (hash mod 253 + 2) :: u8);
            a3' = (if Ipv4 o0 o1 a2 a3 = gateway then 2 else a3)
        in \<lparr>ns_address = Ipv4 o0 o1 a2 a3', ns_gateway = gateway, ns_prefix = pre,
            ns_dns = [Ipv4 1 1 1 1, Ipv4 8 8 8 8]\<rparr>)"

section \<open>Rendered configuration\<close>

definition android_common_config :: string where
  "android_common_config =
     unlines [''lxc.mount.auto = proc:mixed sys:ro cgroup:mixed'', ''lxc.pty.max = 1024'',
       ''lxc.tty.max = 4'', ''lxc.cap.drop ='', ''lxc.apparmor.profile = unconfined'',
       ''lxc.selinux.context = unconfined_u:unconfined_r:unconfined_t:s0'']"

definition default_config :: "lxc_config \<Rightarrow> string" where
  "default_config config =
     ''lxc.include = '' @ lc_lxc_etc config @ ''/android-common.conf'' @ [LF]
     @ ''lxc.net.0.type = veth'' @ [LF] @ ''lxc.net.0.link = '' @ lc_bridge config @ [LF]
     @ ''lxc.net.0.flags = up'' @ [LF] @ ''lxc.net.0.name = eth0'' @ [LF]
     @ ''lxc.start.auto = 0'' @ [LF]"

definition unprivileged_config :: "lxc_config \<Rightarrow> string" where
  "unprivileged_config config =
     ''# ACHost unprivileged LXC is not supported yet.'' @ [LF]
     @ ''lxc.include = '' @ lc_lxc_etc config @ ''/default.conf'' @ [LF]
     @ ''lxc.start.auto = 0'' @ [LF]"

record container_meta =
  md_name :: string
  md_distro :: string
  md_release :: string
  md_arch :: string
  md_rootfs :: string
  md_rootfs_sha256 :: "string option"
  md_init_cmd :: "string option"
  md_created_at_unix :: nat

definition container_config_text :: "lxc_config \<Rightarrow> container_meta \<Rightarrow> string" where
  "container_config_text config metadata =
     (let network = container_network_settings config (md_name metadata)
      in ''lxc.include = '' @ lc_lxc_etc config @ ''/default.conf'' @ [LF]
         @ ''lxc.rootfs.path = dir:'' @ md_rootfs metadata @ [LF]
         @ ''lxc.uts.name = '' @ md_name metadata @ [LF]
         @ ''lxc.log.file = '' @ container_log config (md_name metadata) @ [LF]
         @ ''lxc.log.level = INFO'' @ [LF]
         @ ''lxc.net.0.ipv4.address = '' @ show_ipv4 (ns_address network) @ ''/''
         @ show_nat (ns_prefix network) @ [LF]
         @ ''lxc.net.0.ipv4.gateway = '' @ show_ipv4 (ns_gateway network) @ [LF]
         @ (case md_init_cmd metadata of
              None \<Rightarrow> [] | Some init_cmd \<Rightarrow> ''lxc.init.cmd = '' @ init_cmd @ [LF]))"

definition resolv_conf_text :: "network_settings \<Rightarrow> string" where
  "resolv_conf_text settings =
     concat (map (\<lambda>dns. ''nameserver '' @ show_ipv4 dns @ [LF]) (ns_dns settings))"

definition netplan_text :: "network_settings \<Rightarrow> string" where
  "netplan_text settings =
     unlines [''network:'', ''  version: 2'', ''  renderer: networkd'', ''  ethernets:'',
       ''    eth0:'', ''      dhcp4: false'',
       ''      addresses: ['' @ show_ipv4 (ns_address settings) @ ''/''
         @ show_nat (ns_prefix settings) @ '']'',
       ''      routes:'', ''        - to: default'',
       ''          via: '' @ show_ipv4 (ns_gateway settings),
       ''      nameservers:'',
       ''        addresses: ['' @ str_join '', '' (map show_ipv4 (ns_dns settings)) @ '']'']"

definition systemd_network_text :: "network_settings \<Rightarrow> string" where
  "systemd_network_text settings =
     unlines [''[Match]'', ''Name=eth0'', [], ''[Network]'',
       ''Address='' @ show_ipv4 (ns_address settings) @ ''/'' @ show_nat (ns_prefix settings),
       ''Gateway='' @ show_ipv4 (ns_gateway settings)]
     @ concat (map (\<lambda>dns. ''DNS='' @ show_ipv4 dns @ [LF]) (ns_dns settings))"

section \<open>Correctness of the addresses\<close>

lemma code_of_digit_bounds: "is_digit c \<Longrightarrow> code_of c - 48 < 10"
  unfolding is_digit_def by linarith

lemma show_nat_length: "n < 1000 \<Longrightarrow> length (show_nat n) \<le> 3"
proof -
  assume n: "n < 1000"
  consider "n < 10" | "10 \<le> n" "n < 100" | "100 \<le> n" "n < 1000" using n by linarith
  then show ?thesis
  proof cases
    case 1
    then show ?thesis by (simp add: show_nat.simps [of n])
  next
    case 2
    then have "n div 10 < 10" by simp
    with 2 show ?thesis by (simp add: show_nat.simps [of n] show_nat.simps [of "n div 10"])
  next
    case 3
    then have "\<not> n < 10" "\<not> n div 10 < 10" "n div 10 div 10 < 10" by simp_all
    then show ?thesis
      by (simp add: show_nat.simps [of n] show_nat.simps [of "n div 10"]
          show_nat.simps [of "n div 10 div 10"] del: div_mult2_eq [symmetric] div_div_eq_right)
  qed
qed

lemma show_nat_hd: "n \<ge> 1 \<Longrightarrow> hd (show_nat n) \<noteq> CHR ''0''"
proof (induction n rule: show_nat.induct)
  case (1 n)
  show ?case
  proof (cases "n < 10")
    case True
    have "code_of (digit_char n) \<noteq> code_of (CHR ''0'')"
      using True "1.prems" by (simp add: code_of_digit_char) (simp add: code_of_def)
    then show ?thesis using True by (auto simp: show_nat.simps [of n])
  next
    case False
    then show ?thesis using 1 by (simp add: show_nat.simps [of n])
  qed
qed

lemma show_nat_single: "n < 10 \<Longrightarrow> length (show_nat n) = 1"
  by (simp add: show_nat.simps [of n])

lemma parse_octet_show: "parse_octet (show_octet oct) = Some oct"
proof -
  have "unat oct < 256" using unsigned_less [of oct, where ?'a = nat] by simp
  moreover have "length (show_nat (unat oct)) > 1 \<Longrightarrow> hd (show_nat (unat oct)) \<noteq> CHR ''0''"
    using show_nat_hd [of "unat oct"] show_nat_single [of "unat oct"] by fastforce
  ultimately show ?thesis
    using show_nat_length [of "unat oct"] show_nat_digits [of "unat oct"]
    by (auto simp: parse_octet_def show_octet_def digits_value_show_nat)
qed

lemma show_octet_no_dot: "\<not> is_digit c \<Longrightarrow> c \<notin> set (show_octet oct)"
  by (simp add: show_octet_def show_nat_no_char)

lemma not_digit_punct [simp]: "\<not> is_digit (CHR ''.'')" "\<not> is_digit (CHR ''/'')" "\<not> is_digit LF" "\<not> is_digit CR"
  by (simp_all add: is_digit_def code_of_def)

lemma parse_ipv4_show: "parse_ipv4 (show_ipv4 a) = Some a"
proof (cases a)
  case (Ipv4 x y z w)
  have "split_char (CHR ''.'') (show_ipv4 a) = [show_octet x, show_octet y, show_octet z, show_octet w]"
    unfolding Ipv4 show_ipv4.simps
    by (rule split_char_str_join) (simp_all add: show_octet_no_dot)
  then show ?thesis by (simp add: parse_ipv4_def parse_octet_show Ipv4)
qed

lemma show_ipv4_no_char: "\<not> is_digit c \<Longrightarrow> c \<noteq> CHR ''.'' \<Longrightarrow> c \<notin> set (show_ipv4 a)"
  by (cases a) (simp add: show_octet_no_dot)

lemma unat_octet:
  fixes x k :: u32
  assumes "unat k \<le> 2"
  shows "unat (ucast (x mod 253 + k) :: u8) = unat x mod 253 + unat k"
proof -
  have m: "unat (x mod 253) = unat x mod 253" "unat x mod 253 < 253"
    by (simp_all add: unat_mod_distrib)
  then have "unat (x mod 253 + k) = unat x mod 253 + unat k"
    using assms by (simp add: unat_word_ariths(1) del: unat_mod_distrib)
  then show ?thesis
    using assms m(2) by (simp add: unsigned_ucast_eq take_bit_eq_mod)
qed

lemma hash_octet_ranges:
  fixes h :: u32
  shows "1 \<le> unat (ucast ((h div 253) mod 253 + 1) :: u8)"
    and "unat (ucast ((h div 253) mod 253 + 1) :: u8) \<le> 253"
    and "2 \<le> unat (ucast (h mod 253 + 2) :: u8)"
    and "unat (ucast (h mod 253 + 2) :: u8) \<le> 254"
  using unat_octet [of 1 "h div 253"] mod_less_divisor [of 253 "unat (h div 253)"]
    unat_octet [of 2 h] mod_less_divisor [of 253 "unat h"]
  by simp_all


fun ip_value :: "ipv4 \<Rightarrow> nat" where
  "ip_value (Ipv4 a b c d) = ((unat a * 256 + unat b) * 256 + unat c) * 256 + unat d"

text \<open>Two addresses are in one network of prefix length \<open>p\<close>; the host part of an address.\<close>

definition same_network :: "nat \<Rightarrow> ipv4 \<Rightarrow> ipv4 \<Rightarrow> bool" where
  "same_network p a b \<longleftrightarrow> ip_value a div 2 ^ (32 - p) = ip_value b div 2 ^ (32 - p)"

definition host_part :: "nat \<Rightarrow> ipv4 \<Rightarrow> nat" where
  "host_part p a = ip_value a mod 2 ^ (32 - p)"

lemma octet_less: "unat (x :: u8) < 256"
  using unsigned_less [of x, where ?'a = nat] by simp

lemma ip_value_high: "ip_value (Ipv4 a b c d) div 65536 = unat a * 256 + unat b"
proof -
  have "ip_value (Ipv4 a b c d) = (unat a * 256 + unat b) * 65536 + (unat c * 256 + unat d)"
    by simp
  moreover have "unat c * 256 + unat d < 65536" using octet_less [of c] octet_less [of d] by simp
  ultimately show ?thesis by simp
qed

lemma split_power: "p \<le> 16 \<Longrightarrow> (2::nat) ^ (32 - p) = 65536 * 2 ^ (16 - p)"
  using power_add [of "2::nat" 16 "16 - p"] by simp

lemma same_network_high:
  "p \<le> 16 \<Longrightarrow> same_network p (Ipv4 a b c d) (Ipv4 a b c' d')"
  by (simp only: same_network_def split_power div_mult2_eq ip_value_high)

lemma host_part_low:
  assumes "p \<le> 16"
  shows "host_part p (Ipv4 a b c d) mod 65536 = unat c * 256 + unat d"
proof -
  have "host_part p (Ipv4 a b c d) mod 65536 = ip_value (Ipv4 a b c d) mod 65536"
    by (simp only: host_part_def split_power [OF assms] mod_mult2_eq mod_mult_self2_is_0
        mod_mod_trivial mod_mult_self2 mod_mult_self1 add.commute)
  also have "ip_value (Ipv4 a b c d) = (unat c * 256 + unat d) + (unat a * 256 + unat b) * 65536"
    by simp
  also have "\<dots> mod 65536 = unat c * 256 + unat d"
    using octet_less [of c] octet_less [of d] by (simp only: mod_mult_self1) simp
  finally show ?thesis .
qed

lemma container_address_shape:
  "\<exists>o0 o1 o2 o3 p. unwrap_or (Ipv4 172 32 0 0, 16) (parse_ipv4_cidr (lc_subnet config)) = (Ipv4 o0 o1 o2 o3, p)
     \<and> ns_gateway (container_network_settings config name) = Ipv4 o0 o1 o2 1
     \<and> ns_prefix (container_network_settings config name) = p
     \<and> (\<exists>a2 a3. ns_address (container_network_settings config name) = Ipv4 o0 o1 a2 a3
         \<and> a2 = ucast ((stable_name_hash name div 253) mod 253 + 1)
         \<and> a3 = ucast (stable_name_hash name mod 253 + 2))"
proof -
  obtain base p where bp: "unwrap_or (Ipv4 172 32 0 0, 16) (parse_ipv4_cidr (lc_subnet config)) = (base, p)"
    by fastforce
  obtain o0 o1 o2 o3 where base: "base = Ipv4 o0 o1 o2 o3" by (cases base)
  have "(ucast (stable_name_hash name mod 253 + 2) :: u8) \<noteq> 1"
    using hash_octet_ranges(3) [of "stable_name_hash name"] by auto
  then show ?thesis
    by (simp add: container_network_settings_def bp base Let_def)
qed

text \<open>
  C12. A container gets an address of its bridge's network, different from the gateway and
  from the network and broadcast addresses, whenever the subnet has a prefix of at most
  16 bits (the default is 172.32.0.0/16).
\<close>

theorem container_address_in_network:
  assumes "parse_ipv4_cidr (lc_subnet config) = Some (base, p)" "p \<le> 16"
  shows "same_network p (ns_address (container_network_settings config name)) base
    \<and> same_network p (ns_gateway (container_network_settings config name)) base
    \<and> ns_address (container_network_settings config name)
        \<noteq> ns_gateway (container_network_settings config name)
    \<and> host_part p (ns_address (container_network_settings config name)) \<noteq> 0
    \<and> host_part p (ns_address (container_network_settings config name)) \<noteq> 2 ^ (32 - p) - 1"
proof -
  obtain o0 o1 o2 o3 a2 a3 where base: "base = Ipv4 o0 o1 o2 o3"
    and gw: "ns_gateway (container_network_settings config name) = Ipv4 o0 o1 o2 1"
    and adr: "ns_address (container_network_settings config name) = Ipv4 o0 o1 a2 a3"
    and a: "a2 = ucast ((stable_name_hash name div 253) mod 253 + 1)"
      "a3 = ucast (stable_name_hash name mod 253 + 2)"
    using container_address_shape [of config name] assms(1) by auto
  let ?lo = "unat a2 * 256 + unat a3"
  have r: "1 \<le> unat a2" "unat a2 \<le> 253" "2 \<le> unat a3" "unat a3 \<le> 254"
    unfolding a by (rule hash_octet_ranges)+
  have low: "host_part p (Ipv4 o0 o1 a2 a3) mod 65536 = ?lo"
    by (rule host_part_low) (rule assms(2))
  have "a3 \<noteq> 1" using r(3) by auto
  moreover have "host_part p (Ipv4 o0 o1 a2 a3) \<noteq> 0" using low r by auto
  moreover have "host_part p (Ipv4 o0 o1 a2 a3) \<noteq> 2 ^ (32 - p) - 1"
  proof
    assume "host_part p (Ipv4 o0 o1 a2 a3) = 2 ^ (32 - p) - 1"
    then have "?lo = (65536 * 2 ^ (16 - p) - 1) mod 65536"
      using low by (simp add: split_power [OF assms(2)])
    also have "65536 * 2 ^ (16 - p) - 1 = (2 ^ (16 - p) - 1) * 65536 + (65535 :: nat)"
      by (simp add: algebra_simps)
    finally have "?lo = 65535" by simp
    with r show False by linarith
  qed
  ultimately show ?thesis
    by (simp add: gw adr base same_network_high [OF assms(2)])
qed


text \<open>A configuration with a given subnet, for the examples.\<close>

definition sample_config :: "string \<Rightarrow> lxc_config" where
  "sample_config subnet = (lxc_config_from_env (\<lambda>_. Unset) False False None)\<lparr>lc_subnet := subnet\<rparr>"

theorem container_address_in_network_witness:
  "parse_ipv4_cidr ''172.32.0.0/16'' = Some (Ipv4 172 32 0 0, 16) \<and>
     ns_address (container_network_settings (sample_config ''172.32.0.0/16'') ''demo'')
       \<noteq> ns_gateway (container_network_settings (sample_config ''172.32.0.0/16'') ''demo'')"
proof -
  have p: "parse_ipv4_cidr ''172.32.0.0/16'' = Some (Ipv4 172 32 0 0, 16)" by code_simp
  have "parse_ipv4_cidr (lc_subnet (sample_config ''172.32.0.0/16'')) = Some (Ipv4 172 32 0 0, 16)"
    using p by (simp add: sample_config_def)
  from container_address_in_network [OF this, of "''demo''"] p show ?thesis by simp
qed

lemma ip_value_third: "ip_value (Ipv4 a b c d) div 256 mod 256 = unat c"
proof -
  have 1: "(x * 256 + unat d) div 256 = x" for x using octet_less [of d] by simp
  have 2: "(x * 256 + unat c) mod 256 = unat c" for x using octet_less [of c] by simp
  show ?thesis unfolding ip_value.simps 1 2 ..
qed

lemma same_network_third:
  assumes "24 \<le> p" "p \<le> 32" "same_network p (Ipv4 a b c d) (Ipv4 a' b' c' d')"
  shows "unat c = unat c'"
proof -
  have "(2::nat) ^ (32 - p) * 2 ^ (p - 24) = 2 ^ 8"
    using assms(1,2) by (simp flip: power_add)
  then have pow: "256 = (2::nat) ^ (32 - p) * 2 ^ (p - 24)" by simp
  have "ip_value (Ipv4 a b c d) div 256 = ip_value (Ipv4 a' b' c' d') div 256"
    using assms(3) unfolding pow same_network_def by (simp only: div_mult2_eq)
  then show ?thesis using ip_value_third by metis
qed

text \<open>
  For a prefix of 24 bits or more the container's third octet comes from its name and
  not from the subnet: the address is in the network of the gateway written next to it only
  when the hash of the name happens to give the subnet's third octet.
\<close>

lemma container_address_leaves_small_network:
  assumes "parse_ipv4_cidr (lc_subnet config) = Some (Ipv4 o0 o1 o2 o3, p)" "24 \<le> p"
    and "same_network p (ns_address (container_network_settings config name))
           (ns_gateway (container_network_settings config name))"
  shows "unat o2 = unat (stable_name_hash name) div 253 mod 253 + 1"
proof -
  obtain a2 a3 where gw: "ns_gateway (container_network_settings config name) = Ipv4 o0 o1 o2 1"
    and adr: "ns_address (container_network_settings config name) = Ipv4 o0 o1 a2 a3"
    and a2: "a2 = ucast ((stable_name_hash name div 253) mod 253 + 1)"
    using container_address_shape [of config name] assms(1) by auto
  have "p \<le> 32" using assms(1) by (auto simp: parse_ipv4_cidr_def split: option.splits if_splits)
  then have "unat a2 = unat o2" using same_network_third assms(2,3) unfolding gw adr by blast
  then show ?thesis
    using unat_octet [of 1 "stable_name_hash name div 253"] by (simp add: a2 unat_div_distrib)
qed

text \<open>
  A subnet written as address and prefix length is read back as it was written: the
  configuration texts and the reader of \<open>LXC_SUBNET\<close> agree on the notation.
\<close>

lemma parse_ipv4_cidr_show:
  assumes "p \<le> 32"
  shows "parse_ipv4_cidr (show_ipv4 a @ ''/'' @ show_nat p) = Some (a, p)"
proof -
  have "CHR ''/'' \<notin> set (show_ipv4 a)" by (rule show_ipv4_no_char) simp_all
  then have "split_once (CHR ''/'') (show_ipv4 a @ ''/'' @ show_nat p) = Some (show_ipv4 a, show_nat p)"
    by simp
  then show ?thesis
    using assms parse_uint_show_nat [of p U8_BOUND]
    by (simp add: parse_ipv4_cidr_def parse_ipv4_show del: append_Cons append.simps)
qed

end
