(* ===== verification/LxcCrypt.thy ===== *)
theory LxcCrypt
  imports LxcText
begin

text \<open>
  Passwords of the guests (\<open>achost-lxc-runtime\<close>): the SHA-512 crypt scheme, its base-64
  rendering, the password and salt alphabets, and the rewriting of a line of \<open>/etc/shadow\<close>. The
  SHA-512 compression itself is a library the program calls; it is the parameter \<open>sha\<close>,
  from the bytes fed to a hasher to its digest, and a hasher is the list of bytes it was
  fed. Digest bytes are 8-bit words, the packing works on 32-bit words.
\<close>

unbundle bit_operations_syntax

definition SHA512_CRYPT_ROUNDS :: nat where
  "SHA512_CRYPT_ROUNDS = 5000"

definition CRYPT_BASE64 :: string where
  "CRYPT_BASE64 = ''./0123456789ABCDEFGHIJKLMNOPQRSTUVWXYZabcdefghijklmnopqrstuvwxyz''"

definition PASSWORD_ALPHABET :: string where
  "PASSWORD_ALPHABET = ''ABCDEFGHJKLMNPQRSTUVWXYZabcdefghijkmnopqrstuvwxyz23456789_-.!@#%+=''"

definition as_bytes :: "string \<Rightarrow> byte list" where
  "as_bytes s = map (\<lambda>c. of_nat (code_of c)) s"

section \<open>The crypt scheme\<close>

text \<open>The loops that repeat a digest up to a length.\<close>

function update_repeated :: "byte list \<Rightarrow> byte list \<Rightarrow> nat \<Rightarrow> byte list" where
  "update_repeated ctx bytes remaining =
     (if bytes \<noteq> [] \<and> remaining > length bytes
      then update_repeated (ctx @ bytes) bytes (remaining - length bytes)
      else ctx @ take remaining bytes)"
  by pat_completeness auto
termination
  by (relation "measure (\<lambda>(ctx, bytes, remaining). remaining)") auto

declare update_repeated.simps [simp del]

function repeat_digest_from :: "byte list \<Rightarrow> byte list \<Rightarrow> nat \<Rightarrow> byte list" where
  "repeat_digest_from output digest len =
     (if length output < len \<and> digest \<noteq> []
      then repeat_digest_from (output @ take (min (len - length output) (length digest)) digest) digest len
      else output)"
  by pat_completeness auto
termination
proof (relation "measure (\<lambda>(output, digest, len). len - length output)")
  fix buf digest :: "byte list" and len
  assume "length buf < len \<and> digest \<noteq> []"
  then show "((buf @ take (min (len - length buf) (length digest)) digest, digest, len), buf, digest, len)
      \<in> measure (\<lambda>(output, digest, len). len - length output)"
    by (cases digest) auto
qed simp

declare repeat_digest_from.simps [simp del]

definition repeat_digest_to_len :: "byte list \<Rightarrow> nat \<Rightarrow> byte list" where
  "repeat_digest_to_len digest len = repeat_digest_from [] digest len"

text \<open>The loop over the bits of the password's length.\<close>

fun bits_of_length :: "byte list \<Rightarrow> byte list \<Rightarrow> byte list \<Rightarrow> nat \<Rightarrow> byte list" where
  "bits_of_length ctx alt_result password count =
     (if count = 0 then ctx
      else bits_of_length (ctx @ (if count mod 2 = 1 then alt_result else password))
             alt_result password (count div 2))"

declare bits_of_length.simps [simp del]

definition crypt_round ::
  "(byte list \<Rightarrow> byte list) \<Rightarrow> byte list \<Rightarrow> byte list \<Rightarrow> nat \<Rightarrow> byte list \<Rightarrow> byte list" where
  "crypt_round sha p_bytes s_bytes round digest =
     sha ((if round mod 2 = 0 then digest else p_bytes)
          @ (if round mod 3 \<noteq> 0 then s_bytes else [])
          @ (if round mod 7 \<noteq> 0 then p_bytes else [])
          @ (if round mod 2 = 0 then p_bytes else digest))"

text \<open>Packing three bytes into characters, six bits at a time, the lowest first.\<close>

fun crypt_chars :: "32 word \<Rightarrow> nat \<Rightarrow> string" where
  "crypt_chars value 0 = []"
| "crypt_chars value (Suc count) =
     CRYPT_BASE64 ! unat (value AND 63) # crypt_chars (drop_bit 6 value) count"

definition crypt_b64 :: "string \<Rightarrow> byte \<Rightarrow> byte \<Rightarrow> byte \<Rightarrow> nat \<Rightarrow> string" where
  "crypt_b64 output b2 b1 b0 count =
     output @ crypt_chars (push_bit 16 (ucast b2) OR push_bit 8 (ucast b1) OR ucast b0) count"

definition crypt_order :: "(nat \<times> nat \<times> nat) list" where
  "crypt_order =
     [(0, 21, 42), (22, 43, 1), (44, 2, 23), (3, 24, 45), (25, 46, 4), (47, 5, 26), (6, 27, 48),
      (28, 49, 7), (50, 8, 29), (9, 30, 51), (31, 52, 10), (53, 11, 32), (12, 33, 54),
      (34, 55, 13), (56, 14, 35), (15, 36, 57), (37, 58, 16), (59, 17, 38), (18, 39, 60),
      (40, 61, 19), (62, 20, 41)]"

definition sha512_crypt_encode :: "byte list \<Rightarrow> string" where
  "sha512_crypt_encode digest =
     crypt_b64
       (foldl (\<lambda>output (i, j, k). crypt_b64 output (digest ! i) (digest ! j) (digest ! k) 4) [] crypt_order)
       0 0 (digest ! 63) 2"

definition sha512_crypt :: "(byte list \<Rightarrow> byte list) \<Rightarrow> string \<Rightarrow> string \<Rightarrow> nat \<Rightarrow> string" where
  "sha512_crypt sha password salt rounds =
     (let pw = as_bytes password;
          sl = as_bytes salt;
          alt_result = sha (pw @ sl @ pw);
          ctx = update_repeated (pw @ sl) alt_result (length pw);
          digest = sha (bits_of_length ctx alt_result pw (length pw));
          p_digest = sha (concat (replicate (length pw) pw));
          p_bytes = repeat_digest_to_len p_digest (length pw);
          s_digest = sha (concat (replicate (16 + unat (digest ! 0)) sl));
          s_bytes = repeat_digest_to_len s_digest (length sl);
          final = fold (crypt_round sha p_bytes s_bytes) [0..<rounds] digest
      in ''$6$'' @ salt @ ''$'' @ sha512_crypt_encode final)"

section \<open>Random passwords and salts\<close>

text \<open>The characters of 24 (16) random bytes.\<close>

definition password_chars :: "string \<Rightarrow> string" where
  "password_chars bytes = map (\<lambda>b. PASSWORD_ALPHABET ! (code_of b mod length PASSWORD_ALPHABET)) bytes"

definition salt_chars :: "string \<Rightarrow> string" where
  "salt_chars bytes = map (\<lambda>b. CRYPT_BASE64 ! (code_of b mod length CRYPT_BASE64)) bytes"

section \<open>The shadow file\<close>

definition shadow_line :: "string \<Rightarrow> string \<Rightarrow> nat \<Rightarrow> string \<Rightarrow> string \<times> bool" where
  "shadow_line user hash days line =
     (case Option.bind (strip_prefix user line) (strip_prefix '':'') of
        None \<Rightarrow> (line @ [LF], False)
      | Some rest \<Rightarrow>
          let fields = split_char (CHR '':'') rest
          in if length fields > 1
             then (user @ '':'' @ hash @ '':'' @ show_nat days
                   @ (if length fields > 2 then '':'' @ str_join '':'' (drop 2 fields) else [])
                   @ [LF], True)
             else (user @ '':'' @ hash @ [LF], True))"

section \<open>Correctness\<close>

text \<open>The infinite repetition of a digest, cut to a length.\<close>

definition cycle_take :: "byte list \<Rightarrow> nat \<Rightarrow> byte list" where
  "cycle_take d n = map (\<lambda>i. d ! (i mod length d)) [0..<n]"

lemma cycle_take_length [simp]: "length (cycle_take d n) = n"
  by (simp add: cycle_take_def)

lemma cycle_take_small: "n \<le> length d \<Longrightarrow> cycle_take d n = take n d"
  by (rule nth_equalityI) (simp_all add: cycle_take_def)

lemma cycle_take_add: "cycle_take d (length d + n) = d @ cycle_take d n"
  by (rule nth_equalityI) (auto simp: cycle_take_def nth_append le_mod_geq)

lemma cycle_take_more:
  assumes "k \<le> length d"
  shows "cycle_take d (m * length d) @ take k d = cycle_take d (m * length d + k)"
proof -
  have "map (\<lambda>i. d ! (i mod length d)) [m * length d..<m * length d + k]
      = map (\<lambda>i. d ! (i mod length d)) [0..<k]"
    by (rule nth_equalityI) simp_all
  also have "\<dots> = take k d" using cycle_take_small [OF assms] by (simp add: cycle_take_def)
  finally show ?thesis
    by (simp only: cycle_take_def upt_add_eq_append [OF zero_le] map_append)
qed

lemma update_repeated_cycle:
  "d \<noteq> [] \<Longrightarrow> update_repeated ctx d n = ctx @ cycle_take d n"
proof (induction ctx d n rule: update_repeated.induct)
  case (1 ctx d n)
  show ?case
  proof (cases "n > length d")
    case True
    then have "cycle_take d n = d @ cycle_take d (n - length d)"
      using cycle_take_add [of d "n - length d"] by simp
    then show ?thesis using 1 True by (simp add: update_repeated.simps [of ctx])
  next
    case False
    then show ?thesis by (simp add: update_repeated.simps [of ctx] cycle_take_small)
  qed
qed

lemma repeat_digest_from_cycle:
  "d \<noteq> [] \<Longrightarrow> n = m * length d \<Longrightarrow>
     repeat_digest_from (cycle_take d n) d len = cycle_take d (max n len)"
proof (induction "len - n" arbitrary: n m rule: less_induct)
  case less
  show ?case
  proof (cases "n < len")
    case True
    have pos: "0 < length d" using less.prems by simp
    let ?k = "min (len - n) (length d)"
    have step: "cycle_take d n @ take ?k d = cycle_take d (n + ?k)"
      using cycle_take_more [of ?k d m] less.prems by simp
    show ?thesis
    proof (cases "len - n \<le> length d")
      case True
      then have "n + ?k = len" using \<open>n < len\<close> by simp
      then show ?thesis using step less.prems \<open>n < len\<close>
        by (simp add: repeat_digest_from.simps [of "cycle_take d n"])
          (simp add: repeat_digest_from.simps)
    next
      case False
      then have k: "n + ?k = Suc m * length d" using less.prems by simp
      have "repeat_digest_from (cycle_take d (n + ?k)) d len = cycle_take d (max (n + ?k) len)"
        by (rule less.hyps [OF _ less.prems(1) k]) (use pos \<open>n < len\<close> in linarith)
      moreover have "m * length d + length d \<le> len" using False less.prems by linarith
      ultimately show ?thesis using step less.prems \<open>n < len\<close> False
        by (subst repeat_digest_from.simps) (simp add: max_def)
    qed
  next
    case False
    then show ?thesis by (simp add: repeat_digest_from.simps)
  qed
qed

lemma repeat_digest_to_len_cycle: "d \<noteq> [] \<Longrightarrow> repeat_digest_to_len d n = cycle_take d n"
  using repeat_digest_from_cycle [of d 0 0 n]
  by (simp add: repeat_digest_to_len_def cycle_take_def)

subsection \<open>The base-64 packing\<close>

lemma crypt_base64_distinct: "distinct CRYPT_BASE64" "length CRYPT_BASE64 = 64"
  by code_simp+

lemma crypt_value:
  fixes b2 b1 b0 :: byte
  shows "unat (push_bit 16 (ucast b2) OR push_bit 8 (ucast b1) OR ucast b0 :: 32 word) =
     unat b2 * 65536 + unat b1 * 256 + unat b0"
proof -
  have b: "unat b2 < 256" "unat b1 < 256" "unat b0 < 256"
    using unsigned_less [of b2, where ?'a = nat] unsigned_less [of b1, where ?'a = nat]
      unsigned_less [of b0, where ?'a = nat] by simp_all
  have nobit: "bit (ucast (b :: byte) :: 32 word) n \<Longrightarrow> n < 8" for b n
    by (auto simp: bit_simps dest: bit_imp_le_length)
  have low: "push_bit 8 (ucast b1) OR ucast b0 = (push_bit 8 (ucast b1) + ucast b0 :: 32 word)"
    by (rule disjunctive_add [symmetric]) (use nobit in \<open>fastforce simp: bit_simps\<close>)
  have "push_bit 16 (ucast b2) OR (push_bit 8 (ucast b1) OR ucast b0)
      = (push_bit 16 (ucast b2) + (push_bit 8 (ucast b1) OR ucast b0) :: 32 word)"
    by (rule disjunctive_add [symmetric]) (use nobit in \<open>fastforce simp: bit_simps\<close>)
  then have or: "push_bit 16 (ucast b2) OR push_bit 8 (ucast b1) OR ucast b0
      = (push_bit 16 (ucast b2) + (push_bit 8 (ucast b1) + ucast b0) :: 32 word)"
    by (simp only: low)
  have u: "unat (ucast b :: 32 word) = unat b" for b :: byte
    using unsigned_less [of b, where ?'a = nat] by (simp add: unsigned_ucast_eq take_bit_eq_mod)
  have "unat (push_bit 16 (ucast b2) :: 32 word) = unat b2 * 65536"
    "unat (push_bit 8 (ucast b1) :: 32 word) = unat b1 * 256"
    using b by (simp_all add: push_bit_eq_mult unat_word_ariths u)
  then show ?thesis using b by (simp add: or unat_word_ariths u)
qed

lemma crypt_chars_nat:
  "crypt_chars v n = map (\<lambda>i. CRYPT_BASE64 ! (unat v div 64 ^ i mod 64)) [0..<n]"
proof (induction n arbitrary: v)
  case (Suc n)
  have "unat (v AND 63) = unat v mod 64"
    using take_bit_eq_mask [of 6 v] unsigned_take_bit_eq [of 6 v, where ?'a = nat]
    by (simp add: take_bit_eq_mod mask_eq_exp_minus_1)
  moreover have "unat (drop_bit 6 v) = unat v div 64" by (simp add: drop_bit_eq_div unat_div_distrib)
  ultimately show ?case
    by (simp add: Suc.IH upt_conv_Cons map_Suc_upt [symmetric] div_mult2_eq [symmetric] del: upt_Suc)
qed simp

lemma crypt_chars_length [simp]: "length (crypt_chars v n) = n"
  by (simp add: crypt_chars_nat)

lemma crypt_chars_set: "set (crypt_chars v n) \<subseteq> set CRYPT_BASE64"
  by (auto simp: crypt_chars_nat crypt_base64_distinct(2))

lemma crypt_chars_inject:
  assumes "crypt_chars v n = crypt_chars w n" "unat v < 64 ^ n" "unat w < 64 ^ n"
  shows "v = w"
proof -
  have digits: "unat v div 64 ^ i mod 64 = unat w div 64 ^ i mod 64" if "i < n" for i
    using that assms(1) crypt_base64_distinct
    by (simp add: crypt_chars_nat nth_eq_iff_index_eq)
  have "a = b" if "\<forall>i < n. a div 64 ^ i mod 64 = b div 64 ^ i mod 64" "a < 64 ^ n" "b < 64 ^ n"
    for a b :: nat
    using that
  proof (induction n arbitrary: a b)
    case (Suc n)
    have "\<forall>i < n. (a div 64) div 64 ^ i mod 64 = (b div 64) div 64 ^ i mod 64"
      using Suc.prems(1) by (auto simp: div_mult2_eq [symmetric] dest: spec [of _ "Suc _"])
    moreover have "a div 64 < 64 ^ n" "b div 64 < 64 ^ n"
      using Suc.prems by (simp_all add: less_mult_imp_div_less)
    ultimately have "a div 64 = b div 64" by (rule Suc.IH)
    moreover have "a mod 64 = b mod 64" using Suc.prems(1) by force
    ultimately show ?case by (metis mult_div_mod_eq)
  qed simp
  then have "unat v = unat w" using digits assms(2,3) by presburger
  then show ?thesis by (simp add: word_unat_eq_iff)
qed

lemma crypt_group_inject:
  assumes "crypt_b64 [] b2 b1 b0 4 = crypt_b64 [] c2 c1 c0 4"
  shows "b2 = c2 \<and> b1 = c1 \<and> b0 = c0"
proof -
  have lt: "unat (x :: byte) < 256" for x using unsigned_less [of x, where ?'a = nat] by simp
  let ?v = "\<lambda>x y z. push_bit 16 (ucast x) OR push_bit 8 (ucast y) OR ucast z :: 32 word"
  have "?v b2 b1 b0 = ?v c2 c1 c0"
    by (rule crypt_chars_inject [of _ 4])
      (use assms lt [of b2] lt [of b1] lt [of b0] lt [of c2] lt [of c1] lt [of c0]
        in \<open>simp_all add: crypt_b64_def crypt_value\<close>)
  from arg_cong [OF this, of unat]
  have eq: "(unat b2 * 256 + unat b1) * 256 + unat b0 = (unat c2 * 256 + unat c1) * 256 + unat c0"
    by (simp add: crypt_value algebra_simps)
  have split: "x = x' \<and> y = y'" if "x * 256 + y = x' * 256 + y'" "y < 256" "y' < 256" for x x' y y' :: nat
  proof -
    have "(x * 256 + y) div 256 = x" "(x' * 256 + y') div 256 = x'"
      "(x * 256 + y) mod 256 = y" "(x' * 256 + y') mod 256 = y'"
      using that(2,3) by simp_all
    then show ?thesis using that(1) by metis
  qed
  note high = split [OF eq lt lt]
  from split [OF high [THEN conjunct1] lt lt] high [THEN conjunct2]
  show ?thesis unfolding word_unat_eq_iff by blast
qed

lemma crypt_last_inject:
  assumes "crypt_b64 [] 0 0 b 2 = crypt_b64 [] 0 0 c 2"
  shows "b = c"
proof -
  have lt: "unat (x :: byte) < 256" for x using unsigned_less [of x, where ?'a = nat] by simp
  have u: "unat (ucast x :: 32 word) = unat x" for x :: byte
    using lt [of x] by (simp add: unsigned_ucast_eq take_bit_eq_mod)
  have "(ucast b :: 32 word) = ucast c"
    by (rule crypt_chars_inject [of _ 2])
      (use assms lt [of b] lt [of c] in \<open>simp_all add: crypt_b64_def u\<close>)
  from arg_cong [OF this, of unat] show ?thesis by (simp add: u word_unat_eq_iff)
qed

lemma encode_groups:
  "sha512_crypt_encode d =
     concat (map (\<lambda>(i, j, k). crypt_b64 [] (d ! i) (d ! j) (d ! k) 4) crypt_order) @ crypt_b64 [] 0 0 (d ! 63) 2"
proof -
  have "foldl (\<lambda>out (i, j, k). crypt_b64 out (d ! i) (d ! j) (d ! k) 4) acc xs
      = acc @ concat (map (\<lambda>(i, j, k). crypt_b64 [] (d ! i) (d ! j) (d ! k) 4) xs)" for acc xs
    by (induction xs arbitrary: acc) (auto simp: crypt_b64_def)
  from this [of "[]" crypt_order] show ?thesis
    by (simp only: sha512_crypt_encode_def) (simp add: crypt_b64_def)
qed

lemma concat_groups_inject:
  assumes "concat (map f xs) = concat (map g xs)" "\<forall>x \<in> set xs. length (f x) = n \<and> length (g x) = n"
  shows "\<forall>x \<in> set xs. f x = g x"
  using assms by (induction xs) auto

lemma concat_groups_length: "\<forall>x \<in> set xs. length (f x) = n \<Longrightarrow> length (concat (map f xs)) = n * length xs"
  by (induction xs) auto

lemma crypt_order_covers: "\<forall>i < 63. \<exists>(a, b, c) \<in> set crypt_order. i = a \<or> i = b \<or> i = c"
proof -
  have "list_all (\<lambda>i. list_ex (\<lambda>(a, b, c). i = a \<or> i = b \<or> i = c) crypt_order) [0..<63]"
    by code_simp
  then show ?thesis by (auto simp: list_all_iff list_ex_iff)
qed

lemma encode_inject:
  assumes "length d = 64" "length e = 64" "sha512_crypt_encode d = sha512_crypt_encode e"
  shows "d = e"
proof -
  let ?g = "\<lambda>d (i, j, k). crypt_b64 [] (d ! i :: byte) (d ! j) (d ! k) 4"
  have len: "length (?g d x) = 4" for d x by (auto simp: crypt_b64_def split: prod.split)
  have same: "length (concat (map (?g d) crypt_order)) = length (concat (map (?g e) crypt_order))"
    using concat_groups_length [of crypt_order "?g d" 4] concat_groups_length [of crypt_order "?g e" 4] len
    by metis
  note parts = iffD1 [OF append_eq_append_conv [OF disjI1 [OF same]] assms(3) [unfolded encode_groups]]
  note cat = parts [THEN conjunct1] and last = parts [THEN conjunct2]
  have groups: "\<forall>x \<in> set crypt_order. ?g d x = ?g e x"
    by (rule concat_groups_inject [OF cat, of 4]) (simp add: len)
  have "d ! i = e ! i" if i: "i < 64" for i
  proof (cases "i = 63")
    case True
    then show ?thesis using crypt_last_inject [OF last] by simp
  next
    case False
    then have "i < 63" using i by simp
    then obtain a b c where abc: "(a, b, c) \<in> set crypt_order" "i = a \<or> i = b \<or> i = c"
      using crypt_order_covers by blast
    from groups [rule_format, OF abc(1)]
    have "crypt_b64 [] (d ! a) (d ! b) (d ! c) 4 = crypt_b64 [] (e ! a) (e ! b) (e ! c) 4" by simp
    from crypt_group_inject [OF this] abc(2) show ?thesis by blast
  qed
  then show ?thesis using assms(1,2) by (simp add: nth_equalityI)
qed

lemma encode_shape:
  "length (sha512_crypt_encode d) = 86 \<and> set (sha512_crypt_encode d) \<subseteq> set CRYPT_BASE64"
proof -
  let ?g = "\<lambda>(i, j, k). crypt_b64 [] (d ! i :: byte) (d ! j) (d ! k) 4"
  have "length (?g x) = 4" "set (?g x) \<subseteq> set CRYPT_BASE64" for x
    using crypt_chars_set by (auto simp: crypt_b64_def split: prod.split)
  moreover have "length crypt_order = 21" by code_simp
  moreover have "length (crypt_b64 [] 0 0 (d ! 63) 2) = 2"
    "set (crypt_b64 [] 0 0 (d ! 63) 2) \<subseteq> set CRYPT_BASE64"
    using crypt_chars_set by (auto simp: crypt_b64_def)
  ultimately show ?thesis
    using concat_groups_length [of crypt_order ?g 4] unfolding encode_groups by fastforce
qed

subsection \<open>The published scheme\<close>

text \<open>
  The scheme as its specification words it, with nothing taken from the program: a digest
  repeated to a length is its cyclic extension, the bits of the password's length are taken
  from the lowest one, the rounds are numbered from 0, and the digest is written in 21 groups
  of three bytes and a last byte. The groups start with the bytes 0, 21 and 42; the next group
  is always the bytes that follow, in the order rotated by one. A group is a number, the
  first byte its highest, written in base 64 with the lowest digit first; the digits are dot,
  slash, the decimal digits, the upper case and the lower case letters. (The specification
  also cuts a salt at 16 characters; the program's salts have 16.)
\<close>

fun low_bits :: "nat \<Rightarrow> bool list" where
  "low_bits n = (if n = 0 then [] else (n mod 2 = 1) # low_bits (n div 2))"

declare low_bits.simps [simp del]

definition reference_digits :: "nat \<Rightarrow> nat \<Rightarrow> string" where
  "reference_digits count value =
     map (\<lambda>i. map char_of ([46, 47] @ [48..<58] @ [65..<91] @ [97..<123]) ! (value div 64 ^ i mod 64)) [0..<count]"

primrec reference_groups :: "nat \<Rightarrow> nat \<times> nat \<times> nat \<Rightarrow> (nat \<times> nat \<times> nat) list" where
  "reference_groups 0 g = []"
| "reference_groups (Suc n) g = g # reference_groups n (case g of (a, b, c) \<Rightarrow> (b + 1, c + 1, a + 1))"

definition reference_encode :: "byte list \<Rightarrow> string" where
  "reference_encode d =
     concat (map (\<lambda>(a, b, c). reference_digits 4 (unat (d ! a) * 256 ^ 2 + unat (d ! b) * 256 + unat (d ! c)))
               (reference_groups 21 (0, 21, 42)))
     @ reference_digits 2 (unat (d ! 63))"

definition crypt_reference :: "(byte list \<Rightarrow> byte list) \<Rightarrow> string \<Rightarrow> string \<Rightarrow> nat \<Rightarrow> string" where
  "crypt_reference sha password salt rounds =
     (let pw = as_bytes password; sl = as_bytes salt; n = length pw;
          b = sha (pw @ sl @ pw);
          a = sha (pw @ sl @ cycle_take b n @ concat (map (\<lambda>one. if one then b else pw) (low_bits n)));
          p = cycle_take (sha (concat (replicate n pw))) n;
          s = cycle_take (sha (concat (replicate (16 + unat (a ! 0)) sl))) (length sl);
          c = fold (\<lambda>i c. sha ((if even i then c else p) @ (if 3 dvd i then [] else s)
                    @ (if 7 dvd i then [] else p) @ (if even i then p else c))) [0..<rounds] a
      in ''$6$'' @ salt @ ''$'' @ reference_encode c)"

lemma reference_tables:
  "crypt_order = reference_groups 21 (0, 21, 42)"
  "map char_of ([46, 47] @ [48..<58] @ [65..<91] @ [97..<123]) = CRYPT_BASE64"
  by code_simp+

lemma encode_reference: "sha512_crypt_encode d = reference_encode d"
  unfolding encode_groups reference_encode_def crypt_b64_def append_Nil crypt_chars_nat crypt_value
    reference_digits_def reference_tables
  by simp

lemma bits_of_length_low_bits:
  "bits_of_length ctx b pw n = ctx @ concat (map (\<lambda>one. if one then b else pw) (low_bits n))"
proof (induction n arbitrary: ctx rule: less_induct)
  case (less n)
  then show ?case
    by (subst bits_of_length.simps, subst low_bits.simps) simp
qed

lemma crypt_round_reference:
  "crypt_round sha p s i c = sha ((if even i then c else p) @ (if 3 dvd i then [] else s)
      @ (if 7 dvd i then [] else p) @ (if even i then p else c))"
  by (simp add: crypt_round_def even_iff_mod_2_eq_zero dvd_eq_mod_eq_0)

subsection \<open>Entries of the shadow file\<close>

definition shadow_fields :: "string \<Rightarrow> string list" where
  "shadow_fields line = split_char (CHR '':'') line"

definition shadow_entry :: "string \<Rightarrow> string \<Rightarrow> bool" where
  "shadow_entry user line \<longleftrightarrow> hd (shadow_fields line) = user \<and> length (shadow_fields line) \<ge> 2"

lemma shadow_entry_iff:
  assumes "CHR '':'' \<notin> set user"
  shows "shadow_entry user line \<longleftrightarrow> (\<exists>rest. line = user @ '':'' @ rest)"
proof
  assume e: "shadow_entry user line"
  obtain x xs where f: "shadow_fields line = x # xs" using split_char_nonempty
    by (metis list.exhaust shadow_fields_def)
  then have x: "x = user" "xs \<noteq> []" using e by (auto simp: shadow_entry_def)
  have "line = str_join '':'' (x # xs)"
    using str_join_split_char [of "CHR '':''" line] f by (simp add: shadow_fields_def)
  then have "line = user @ '':'' @ str_join '':'' xs" using x by (simp add: str_join_Cons)
  then show "\<exists>rest. line = user @ '':'' @ rest" by blast
next
  assume "\<exists>rest. line = user @ '':'' @ rest"
  then obtain rest where "line = user @ CHR '':'' # rest" by auto
  then have "shadow_fields line = user # split_char (CHR '':'') rest"
    using assms by (simp add: shadow_fields_def split_char_append)
  then show "shadow_entry user line"
    by (cases "split_char (CHR '':'') rest") (auto simp: shadow_entry_def)
qed

definition shadow_new_fields :: "string \<Rightarrow> string \<Rightarrow> nat \<Rightarrow> string \<Rightarrow> string list" where
  "shadow_new_fields user hash days line =
     user # hash # (if length (shadow_fields line) > 2
                    then show_nat days # drop 3 (shadow_fields line) else [])"

definition shadow_new_line :: "string \<Rightarrow> string \<Rightarrow> nat \<Rightarrow> string \<Rightarrow> string" where
  "shadow_new_line user hash days line =
     (if shadow_entry user line then str_join '':'' (shadow_new_fields user hash days line) else line)"

lemma shadow_line_new:
  assumes "CHR '':'' \<notin> set user"
  shows "shadow_line user hash days line = (shadow_new_line user hash days line @ [LF], shadow_entry user line)"
proof (cases "shadow_entry user line")
  case True
  then obtain rest where line: "line = user @ CHR '':'' # rest" using shadow_entry_iff [OF assms] by auto
  then have "shadow_fields line = user # split_char (CHR '':'') rest"
    using assms by (simp add: shadow_fields_def split_char_append)
  then show ?thesis
    using True by (auto simp: shadow_line_def line strip_prefix_def shadow_new_line_def shadow_new_fields_def
        Let_def str_join_Cons numeral_2_eq_2 numeral_3_eq_3)
next
  case False
  have "Option.bind (strip_prefix user line) (strip_prefix '':'') = None"
  proof (cases "Option.bind (strip_prefix user line) (strip_prefix '':'')")
    case (Some rest)
    then have "line = user @ '':'' @ rest" by (auto simp: bind_eq_Some_conv)
    then show ?thesis using False shadow_entry_iff [OF assms] by blast
  qed
  then show ?thesis using False by (simp add: shadow_line_def shadow_new_line_def)
qed

lemma shadow_new_fields_of:
  assumes "CHR '':'' \<notin> set user" "CHR '':'' \<notin> set hash" "shadow_entry user line"
  shows "shadow_fields (shadow_new_line user hash days line) = shadow_new_fields user hash days line"
proof -
  have "CHR '':'' \<notin> set (show_nat days)"
    by (rule show_nat_no_char) (simp add: is_digit_def code_of_def)
  then have "\<forall>f \<in> set (shadow_new_fields user hash days line). CHR '':'' \<notin> set f"
    using assms split_char_parts [of _ "CHR '':''" line]
    by (auto simp: shadow_new_fields_def shadow_fields_def dest!: in_set_dropD)
  then have "split_char (CHR '':'') (str_join '':'' (shadow_new_fields user hash days line))
      = shadow_new_fields user hash days line"
    by (intro split_char_str_join) (simp_all add: shadow_new_fields_def)
  then show ?thesis using assms(3) by (simp add: shadow_new_line_def shadow_fields_def)
qed

lemma shadow_new_line_clean:
  assumes "CHR '':'' \<notin> set user" "LF \<notin> set hash" "CR \<notin> set hash" "LF \<notin> set line" "CR \<notin> set line"
  shows "clean_line (shadow_new_line user hash days line)"
proof (cases "shadow_entry user line")
  case True
  then have u: "LF \<notin> set user" "CR \<notin> set user"
    using assms(4,5) shadow_entry_iff [OF assms(1)] by auto
  have d: "LF \<notin> set (show_nat days)" "CR \<notin> set (show_nat days)"
    by (rule show_nat_no_char; simp add: is_digit_def code_of_def)+
  have "f \<in> set (shadow_fields line) \<Longrightarrow> LF \<notin> set f \<and> CR \<notin> set f" for f
    using split_char_parts [of f "CHR '':''" line] assms(4,5) by (auto simp: shadow_fields_def)
  then have "\<forall>f \<in> set (shadow_new_fields user hash days line). LF \<notin> set f \<and> CR \<notin> set f"
    using u d assms(2,3) by (auto simp: shadow_new_fields_def dest!: in_set_dropD)
  then have "LF \<notin> set (shadow_new_line user hash days line)" "CR \<notin> set (shadow_new_line user hash days line)"
    using True set_str_join [of "'':''" "shadow_new_fields user hash days line"]
    by (auto simp: shadow_new_line_def)
  then show ?thesis by (simp add: clean_line_def strip_cr_noop)
next
  case False
  then show ?thesis using assms(4,5) by (simp add: shadow_new_line_def clean_line_def strip_cr_noop)
qed

section \<open>Properties\<close>

text \<open>
  C8. The hash the program computes is the one the SHA-512 crypt specification defines, for
  every hash function with 64-byte digests, to the last character: the repetition loops are
  cyclic extensions, the bit loop walks the binary digits of the password's length, and the
  program's table of byte positions and its shifts and masks write the digest in the groups
  and digits of the specification.
\<close>

theorem sha512_crypt_reference:
  assumes "\<forall>bs. length (sha bs) = 64"
  shows "sha512_crypt sha password salt rounds = crypt_reference sha password salt rounds"
proof -
  have ne: "sha bs \<noteq> []" for bs using assms by (metis list.size(3) zero_neq_numeral)
  show ?thesis
    unfolding sha512_crypt_def crypt_reference_def Let_def bits_of_length_low_bits
      update_repeated_cycle [OF ne] repeat_digest_to_len_cycle [OF ne]
      crypt_round_reference [abs_def] append_assoc encode_reference by (rule refl)
qed

theorem sha512_crypt_reference_witness:
  "sha512_crypt (\<lambda>bs. replicate 64 (of_nat (length bs))) ''pw'' ''salt'' 5000
     = crypt_reference (\<lambda>bs. replicate 64 (of_nat (length bs))) ''pw'' ''salt'' 5000"
  by (rule sha512_crypt_reference) simp

text \<open>
  The text form of a digest loses nothing and is safe in a colon-separated record: it is
  86 characters of the crypt alphabet, and two 64-byte digests with the same text are equal.
\<close>

lemma sha512_crypt_encode_faithful:
  assumes "length d = 64" "length e = 64"
  shows "(sha512_crypt_encode d = sha512_crypt_encode e \<longleftrightarrow> d = e)
    \<and> length (sha512_crypt_encode d) = 86 \<and> set (sha512_crypt_encode d) \<subseteq> set CRYPT_BASE64"
  using encode_inject [OF assms] encode_shape by auto

end
