(* ===== verification/LxcHost.thy ===== *)
theory LxcHost
  imports Effects LxcNet LxcCrypt
begin

text \<open>
  What \<open>achost-lxc-runtime\<close> takes from outside (environment, architecture, and the three
  libraries it calls as functions: SHA-512, and the JSON reader and writer), how it finds
  and starts the LXC tools, and the file operations that do not concern one container:
  directories, default configurations, host reports.
\<close>

text \<open>\<open>serde_json::Value\<close>; a number is an integer or the text of one that is not.\<close>

datatype json =
    JNull
  | JBool bool
  | JInt int
  | JFloat string
  | JStr string
  | JArr "json list"
  | JObj "(string \<times> json) list"

record host =
  h_env :: environment
  h_exe :: "string option"
  h_arch :: string
  h_sha512 :: "byte list \<Rightarrow> byte list"
  h_meta_text :: "container_meta \<Rightarrow> string result"
  h_meta_parse :: "string \<Rightarrow> container_meta option"
  h_json :: "json \<Rightarrow> string"

definition GUEST_PATH :: string where
  "GUEST_PATH = ''/usr/local/sbin:/usr/local/bin:/usr/sbin:/usr/bin:/sbin:/bin''"

text \<open>\<open>LxcConfig::from_env\<close> with its two lazy tests of the split-module directories.\<close>

definition load_lxc_config :: "host \<Rightarrow> lxc_config prog" where
  "load_lxc_config h =
     (let e = h_env h
      in then_do (if or_else (lxc_env_path e ''ACHOST_COMMON'') (lxc_env_path e ''ACHOST_BASE'') = None
                  then ask (Exists SPLIT_BASE) else Ret False) (\<lambda>split_base.
         then_do (if lxc_env_path e ''ACHOST_LXC'' = None
                  then ask (Exists (path_join
                         (lc_lxc_module (lxc_config_from_env e split_base False (h_exe h))) ''lxc''))
                  else Ret False) (\<lambda>split_lxc.
         Ret (lxc_config_from_env e split_base split_lxc (h_exe h)))))"

section \<open>Finding and starting the tools\<close>

definition is_executable :: "string \<Rightarrow> bool prog" where
  "is_executable path = ask (IsExecutable path)"

definition push_unique :: "string list \<Rightarrow> string \<Rightarrow> string list" where
  "push_unique paths path = (if list_ex (\<lambda>existing. path_eq existing path) paths then paths else paths @ [path])"

definition find_in_path :: "environment \<Rightarrow> string \<Rightarrow> string option prog" where
  "find_in_path e name =
     (case env_var_os e ''PATH'' of
        None \<Rightarrow> Ret None
      | Some path \<Rightarrow>
          find_do (\<lambda>candidate. ask (Exists candidate))
            (map (\<lambda>dir. path_join dir name) (split_char (CHR '':'') path)))"

definition candidate_binary_paths :: "host \<Rightarrow> lxc_config \<Rightarrow> string \<Rightarrow> string list prog" where
  "candidate_binary_paths h config name =
     then_do (find_in_path (h_env h) name) (\<lambda>found.
       let paths = push_unique [path_join (lc_lxc_bin config) name] (path_join (lc_achost_bin config) name)
       in Ret (case found of None \<Rightarrow> paths | Some path \<Rightarrow> push_unique paths path))"

definition pick_command :: "environment \<Rightarrow> string list \<Rightarrow> string option prog" where
  "pick_command e candidates =
     foldr (\<lambda>candidate rest.
         then_do (if CHR ''/'' \<in> set candidate then Ret (Some candidate) else find_in_path e candidate) (\<lambda>found.
           case found of
             None \<Rightarrow> rest
           | Some path \<Rightarrow>
               then_do (and_also (ask (Exists path)) (is_executable path)) (\<lambda>usable.
                 if usable then Ret (Some path) else rest)))
       candidates (Ret None)"

definition find_lxc_binary :: "host \<Rightarrow> lxc_config \<Rightarrow> string \<Rightarrow> string result prog" where
  "find_lxc_binary h config name =
     then_do (candidate_binary_paths h config name) (\<lambda>paths.
     then_do (find_do (\<lambda>path. and_also (ask (Exists path)) (is_executable path)) paths) (\<lambda>found.
       Ret (ok_or (name @ '' not executable'') found)))"

definition lxc_env :: "host \<Rightarrow> lxc_config \<Rightarrow> (string \<times> string) list" where
  "lxc_env h config =
     [(''PATH'', lc_lxc_bin config @ '':'' @ lc_achost_bin config @ '':''
         @ unwrap_or [] (env_var (h_env h) ''PATH'')),
      (''LD_LIBRARY_PATH'', path_join (lc_lxc_root config) ''lib'' @ '':''
         @ path_join (lc_lxc_root config) ''lib64'' @ '':'' @ path_join (lc_achost config) ''lib''
         @ '':'' @ unwrap_or [] (env_var (h_env h) ''LD_LIBRARY_PATH'')),
      (''ACHOST_LXC'', lc_lxc_root config), (''ACHOST_LXC_BIN'', lc_lxc_bin config),
      (''ACHOST_LXC_ETC'', lc_lxc_etc config), (''ACHOST_LXC_RUN'', lc_lxc_run config),
      (''ACHOST_LXC_LOG'', lc_lxc_log config), (''ACHOST_LXC_ROOTFS'', lc_lxc_rootfs config),
      (''ACHOST_LXC_CONTAINERS'', lc_lxc_containers config),
      (''ACHOST_NATIVE_ROOT'', lc_native_root config), (''ACHOST_SUPERVISE'', lc_supervise config),
      (''LXC_BRIDGE'', lc_bridge config), (''LXC_SUBNET'', lc_subnet config)]"

definition lxc_command ::
  "host \<Rightarrow> lxc_config \<Rightarrow> string \<Rightarrow> string list \<Rightarrow> stdin_mode \<Rightarrow> out_mode \<Rightarrow> cmd result prog" where
  "lxc_command h config name args inp out =
     try_do (find_lxc_binary h config name) (\<lambda>program.
     then_do (and_also (ask (Exists (lc_supervise config))) (is_executable (lc_supervise config))) (\<lambda>supervised.
       let prefix = [''--launch'', ''--native-root'', lc_native_root config, ''--close-range-enosys'',
                     ''--'', program]
       in ok (if supervised
              then \<lparr>cmd_program = lc_supervise config, cmd_args = prefix @ args,
                    cmd_env = lxc_env h config, cmd_stdin = inp, cmd_out = out, cmd_timeout = None\<rparr>
              else \<lparr>cmd_program = program, cmd_args = args,
                    cmd_env = lxc_env h config, cmd_stdin = inp, cmd_out = out, cmd_timeout = None\<rparr>)))"

text \<open>\<open>CommandResult\<close>: whether the command exited with 0, and its trimmed output.\<close>

record command_result =
  cr_ok :: bool
  cr_output :: string

definition capture_result :: "cmd_output \<Rightarrow> command_result" where
  "capture_result out =
     \<lparr>cr_ok = out_success out, cr_output = trim_trailing_newlines (out_stdout out @ out_stderr out)\<rparr>"

definition run_lxc_capture ::
  "host \<Rightarrow> lxc_config \<Rightarrow> string \<Rightarrow> string list \<Rightarrow> command_result result prog" where
  "run_lxc_capture h config name args =
     try_do (lxc_command h config name args NullIn CaptureOut) (\<lambda>command.
     try_do (io_context (''run '' @ name) (run_cmd command)) (\<lambda>out. ok (capture_result out)))"

section \<open>Directories and default configurations\<close>

definition create_dir_all :: "string \<Rightarrow> unit result prog" where
  "create_dir_all path = io_context (''create '' @ path) (act (CreateDirAll path))"

definition write_file :: "string \<Rightarrow> string \<Rightarrow> unit result prog" where
  "write_file path text = io_context (''write '' @ path) (act (WriteFile path text))"

definition ensure_runtime_dirs :: "lxc_config \<Rightarrow> unit result prog" where
  "ensure_runtime_dirs config =
     for_each [lc_lxc_containers config, lc_lxc_log config, lc_lxc_run config, lc_lxc_rootfs config]
       create_dir_all"

definition write_lxc_configs :: "lxc_config \<Rightarrow> string list result prog" where
  "write_lxc_configs config =
     (let common = path_join (lc_lxc_etc config) ''android-common.conf'';
          default = path_join (lc_lxc_etc config) ''default.conf'';
          unprivileged = path_join (lc_lxc_etc config) ''unprivileged.conf''
      in try_do (create_dir_all (lc_lxc_etc config)) (\<lambda>_.
         try_do (create_dir_all (lc_lxc_containers config)) (\<lambda>_.
         try_do (create_dir_all (lc_lxc_log config)) (\<lambda>_.
         try_do (create_dir_all (lc_lxc_run config)) (\<lambda>_.
         try_do (write_file common android_common_config) (\<lambda>_.
         try_do (write_file default (default_config config)) (\<lambda>_.
         try_do (write_file unprivileged (unprivileged_config config)) (\<lambda>_.
           ok [common, default, unprivileged]))))))))"

definition prepare_container_log :: "lxc_config \<Rightarrow> string \<Rightarrow> string result prog" where
  "prepare_container_log config name =
     (let log = container_log config name
      in try_do (create_dir_all (lc_lxc_log config)) (\<lambda>_.
         try_do (io_context (''truncate '' @ log) (act (TruncateFile log))) (\<lambda>_. ok log)))"

section \<open>The bridge\<close>

text \<open>
  \<open>run_prepare_bridge\<close>: the exit code of \<open>achost-runtime-core bridge-reconcile\<close> for the
  bridge and the subnet of the configuration.
\<close>

definition bridge_command :: "host \<Rightarrow> lxc_config \<Rightarrow> string \<Rightarrow> cmd" where
  "bridge_command h config core =
     \<lparr>cmd_program = core,
      cmd_args = [''bridge-reconcile'', ''--bridge'', lc_bridge config, ''--subnet'', lc_subnet config,
        ''--owner'', ''lxc''],
      cmd_env = [(''CONTAINER_BRIDGE'', lc_bridge config), (''CONTAINER_SUBNET'', lc_subnet config),
        (''LXC_BRIDGE'', lc_bridge config), (''LXC_SUBNET'', lc_subnet config),
        (''PATH'', lc_common_bin config @ '':'' @ unwrap_or [] (env_var (h_env h) ''PATH''))],
      cmd_stdin = InheritIn, cmd_out = InheritOut, cmd_timeout = None\<rparr>"

definition run_prepare_bridge :: "host \<Rightarrow> int prog" where
  "run_prepare_bridge h =
     then_do (load_lxc_config h) (\<lambda>config.
       let core = unwrap_or (path_join (lc_common_bin config) ''achost-runtime-core'')
                    (lxc_env_path (h_env h) ''ACHOST_RUNTIME_CORE'')
       in then_do (and_also (ask (Exists core)) (is_executable core)) (\<lambda>usable.
          if \<not> usable
          then then_do (eprintln (''achost-runtime-core not executable: '' @ core)) (\<lambda>_. Ret 1)
          else then_do (run_cmd (bridge_command h config core)) (\<lambda>status.
            case status of
              Inr out \<Rightarrow> Ret (unwrap_or 1 (out_code out))
            | Inl err \<Rightarrow>
                then_do (eprintln (''prepare-bridge failed: '' @ show_io err)) (\<lambda>_. Ret 1))))"

section \<open>Guest network files\<close>

definition write_guest_resolv_conf :: "string \<Rightarrow> network_settings \<Rightarrow> unit result prog" where
  "write_guest_resolv_conf rootfs settings =
     (let path = path_join rootfs ''etc/resolv.conf''
      in try_do (create_dir_all (path_join rootfs ''etc'')) (\<lambda>_.
         then_do (ask (IsSymlink path)) (\<lambda>link.
         try_do (if link then io_context (''remove '' @ path) (act (RemoveFile path)) else ok ()) (\<lambda>_.
           write_file path (resolv_conf_text settings)))))"

definition write_guest_netplan :: "string \<Rightarrow> network_settings \<Rightarrow> unit result prog" where
  "write_guest_netplan rootfs settings =
     (let netplan = path_join rootfs ''etc/netplan''
      in then_do (ask (Exists netplan)) (\<lambda>present.
         if \<not> present then ok ()
         else try_do (create_dir_all netplan) (\<lambda>_.
              then_do (ask (Exists (path_join netplan ''10-lxc.yaml''))) (\<lambda>own.
              let path = (if own then path_join netplan ''10-lxc.yaml''
                          else path_join netplan ''10-achost-lxc.yaml'')
              in write_file path (netplan_text settings)))))"

definition write_guest_systemd_network :: "string \<Rightarrow> network_settings \<Rightarrow> unit result prog" where
  "write_guest_systemd_network rootfs settings =
     then_do (ask (Exists (path_join rootfs ''etc/systemd''))) (\<lambda>present.
       if \<not> present then ok ()
       else let dir = path_join rootfs ''etc/systemd/network''
            in try_do (create_dir_all dir) (\<lambda>_.
               write_file (path_join dir ''10-achost-lxc.network'') (systemd_network_text settings)))"

definition ensure_guest_network_config :: "string \<Rightarrow> network_settings \<Rightarrow> unit result prog" where
  "ensure_guest_network_config rootfs settings =
     try_do (write_guest_resolv_conf rootfs settings) (\<lambda>_.
     try_do (write_guest_netplan rootfs settings) (\<lambda>_.
     try_do (write_guest_systemd_network rootfs settings) (\<lambda>_. ok ())))"

definition ensure_container_network :: "lxc_config \<Rightarrow> string \<Rightarrow> unit result prog" where
  "ensure_container_network config name =
     (let settings = container_network_settings config name;
          path = container_config config name
      in try_do (io_context (''read '' @ path) (get (ReadText path))) (\<lambda>text.
         let text = upsert_lxc_config_value text ''lxc.net.0.ipv4.address''
                      (show_ipv4 (ns_address settings) @ ''/'' @ show_nat (ns_prefix settings));
             text = upsert_lxc_config_value text ''lxc.net.0.ipv4.gateway''
                      (show_ipv4 (ns_gateway settings))
         in try_do (write_file path text) (\<lambda>_.
            ensure_guest_network_config (container_rootfs config name) settings)))"

section \<open>A host for examples\<close>

definition demo_host :: host where
  "demo_host = \<lparr>h_env = (\<lambda>_. Unset), h_exe = None, h_arch = ''aarch64'',
     h_sha512 = (\<lambda>bs. replicate 64 (of_nat (length bs))), h_meta_text = (\<lambda>m. Inr (md_name m)),
     h_meta_parse = (\<lambda>_. None), h_json = (\<lambda>_. ''{}'')\<rparr>"

end
