(* ===== verification/LxcContainer.thy ===== *)
theory LxcContainer
  imports LxcHost "HOL-Library.List_Lexorder" "HOL-Library.Char_ord"
begin

text \<open>
  The life of a container in \<open>achost-lxc-runtime\<close>: its state as \<open>lxc-info\<close> reports it,
  listing, status, start, stop, destroy, autostart, commands in the guest, its password and
  its log. Every function is a \<open>prog\<close>; the names follow the source. The state machine
  itself (STOPPED, RUNNING, ...) lives in the LXC tools, so the theorems say what the
  program asks of the tools, in which order, and what it concludes from their answers.
\<close>

section \<open>State\<close>

definition lxc_info_args :: "string \<Rightarrow> string \<Rightarrow> string list" where
  "lxc_info_args containers name = [''-P'', containers, ''-n'', name, ''-s'', ''-p'']"

definition lxc_info :: "host \<Rightarrow> lxc_config \<Rightarrow> string \<Rightarrow> lxc_state_info result prog" where
  "lxc_info h config name =
     try_do (Ret (path_str (lc_lxc_containers config))) (\<lambda>containers.
     try_do (run_lxc_capture h config ''lxc-info'' (lxc_info_args containers name)) (\<lambda>r.
       if \<not> cr_ok r then fail (cr_output r) else ok (parse_lxc_info (cr_output r))))"

text \<open>\<open>lxc_info(..).is_ok_and(|info| info.state == expected)\<close>.\<close>

definition lxc_state_is :: "host \<Rightarrow> lxc_config \<Rightarrow> string \<Rightarrow> string \<Rightarrow> bool prog" where
  "lxc_state_is h config name expected =
     then_do (lxc_info h config name) (\<lambda>r.
       Ret (case r of Inl _ \<Rightarrow> False | Inr info \<Rightarrow> li_state info = expected))"

definition info_label :: "lxc_state_info \<Rightarrow> string" where
  "info_label info = li_state info @ '' pid='' @ unwrap_or [] (li_pid info)"

fun wait_for_state_from ::
  "host \<Rightarrow> lxc_config \<Rightarrow> string \<Rightarrow> string \<Rightarrow> nat \<Rightarrow> string \<Rightarrow> lxc_state_info result prog" where
  "wait_for_state_from h config name expected 0 seen =
     fail (''container '' @ name @ '' did not reach '' @ expected @ ''; last_status='' @ seen)"
| "wait_for_state_from h config name expected (Suc n) seen =
     then_do (lxc_info h config name) (\<lambda>r.
       case r of
         Inr info \<Rightarrow>
           if li_state info = expected then ok info
           else then_do (sleep 1000) (\<lambda>_.
                  wait_for_state_from h config name expected n (info_label info))
       | Inl err \<Rightarrow>
           then_do (sleep 1000) (\<lambda>_. wait_for_state_from h config name expected n err))"

definition wait_for_lxc_state ::
  "host \<Rightarrow> lxc_config \<Rightarrow> string \<Rightarrow> string \<Rightarrow> nat \<Rightarrow> lxc_state_info result prog" where
  "wait_for_lxc_state h config name expected timeout_secs =
     wait_for_state_from h config name expected timeout_secs ''UNKNOWN''"

definition lxc_state_label :: "host \<Rightarrow> lxc_config \<Rightarrow> string \<Rightarrow> string prog" where
  "lxc_state_label h config name =
     then_do (lxc_info h config name) (\<lambda>r.
       Ret (case r of Inr info \<Rightarrow> info_label info | Inl err \<Rightarrow> ''UNKNOWN error='' @ err))"

definition validate_existing_container :: "lxc_config \<Rightarrow> string \<Rightarrow> unit result prog" where
  "validate_existing_container config name =
     try_do (Ret (validate_container_name name)) (\<lambda>_.
       let dir = container_dir config name
       in then_do (ask (Exists dir)) (\<lambda>present.
          if \<not> present then fail (''container not found: '' @ name)
          else Ret (ensure_child_path (lc_lxc_containers config) dir)))"

section \<open>Metadata, status and listing\<close>

definition default_init_cmd :: "string \<Rightarrow> string option prog" where
  "default_init_cmd rootfs =
     then_do (ask (Exists (path_join rootfs ''sbin/init''))) (\<lambda>init.
       if init then Ret None
       else then_do (ask (Exists (path_join rootfs ''bin/sleep''))) (\<lambda>slp.
              Ret (if slp then Some ''/bin/sleep 3600'' else None)))"

definition infer_os_release :: "string \<Rightarrow> (string \<times> string) option prog" where
  "infer_os_release rootfs =
     then_do (get (ReadText (path_join rootfs ''etc/os-release''))) (\<lambda>r.
       Ret (case r of Inl _ \<Rightarrow> None | Inr text \<Rightarrow> infer_os_release_text text))"

definition host_arch_label :: "host \<Rightarrow> string" where
  "host_arch_label h = (if h_arch h = ''aarch64'' then ''arm64'' else h_arch h)"

definition fallback_container_metadata :: "host \<Rightarrow> lxc_config \<Rightarrow> string \<Rightarrow> container_meta prog" where
  "fallback_container_metadata h config name =
     (let rootfs = container_rootfs config name
      in then_do (infer_os_release rootfs) (\<lambda>os.
         then_do (default_init_cmd rootfs) (\<lambda>init_cmd.
           let (distro, release) = unwrap_or (''unknown'', ''unknown'') os
           in Ret \<lparr>md_name = name, md_distro = distro, md_release = release,
                md_arch = host_arch_label h, md_rootfs = rootfs, md_rootfs_sha256 = None,
                md_init_cmd = init_cmd, md_created_at_unix = 0\<rparr>)))"

definition read_container_metadata :: "host \<Rightarrow> lxc_config \<Rightarrow> string \<Rightarrow> container_meta option prog" where
  "read_container_metadata h config name =
     then_do (get (ReadText (container_metadata config name))) (\<lambda>r.
       Ret (case r of Inl _ \<Rightarrow> None | Inr text \<Rightarrow> h_meta_parse h text))"

definition container_autostart :: "lxc_config \<Rightarrow> string \<Rightarrow> bool prog" where
  "container_autostart config name =
     then_do (get (ReadText (container_config config name))) (\<lambda>r.
       Ret (case r of Inl _ \<Rightarrow> False | Inr text \<Rightarrow> lxc_start_auto_value text))"

definition container_status :: "host \<Rightarrow> lxc_config \<Rightarrow> string \<Rightarrow> status_report result prog" where
  "container_status h config name =
     try_do (Ret (validate_container_name name)) (\<lambda>_.
     then_do (ask (Exists (container_dir config name))) (\<lambda>present.
       if \<not> present then fail (''container not found: '' @ name)
       else
         then_do (read_container_metadata h config name) (\<lambda>found.
         then_do (case found of Some m \<Rightarrow> Ret m
                  | None \<Rightarrow> fallback_container_metadata h config name) (\<lambda>metadata.
         then_do (lxc_info h config name) (\<lambda>r.
         let info = (case r of Inr i \<Rightarrow> i | Inl _ \<Rightarrow> \<lparr>li_state = ''UNKNOWN'', li_pid = None\<rparr>)
         in then_do (container_autostart config name) (\<lambda>auto_on.
         ok \<lparr>cs_name = name, cs_state = li_state info, cs_pid = li_pid info,
            cs_distro = md_distro metadata, cs_release = md_release metadata,
            cs_arch = md_arch metadata, cs_rootfs = md_rootfs metadata,
            cs_config = container_config config name, cs_log = container_log config name,
            cs_metadata = container_metadata config name, cs_autostart = auto_on\<rparr>))))))"

text \<open>The loop of \<open>list_containers\<close> over the directory entries, collecting names.\<close>

primrec listed_names :: "lxc_config \<Rightarrow> string io list \<Rightarrow> string list result prog" where
  "listed_names config [] = ok []"
| "listed_names config (entry # entries) =
     (case entry of
        Inl err \<Rightarrow> fail (''read container entry: '' @ show_io err)
      | Inr name \<Rightarrow>
          let path = path_join (lc_lxc_containers config) name
          in then_do (ask (IsDirNoFollow path)) (\<lambda>is_dir.
             if \<not> is_dir \<or> starts_with ''.'' name \<or> \<not> is_ok (validate_container_name name)
             then listed_names config entries
             else then_do (ask (Exists (path_join path ''config''))) (\<lambda>a.
                  then_do (if a then Ret True else ask (Exists (path_join path METADATA_FILE))) (\<lambda>b.
                  try_do (listed_names config entries) (\<lambda>names.
                    ok (if b then name # names else names))))))"

definition list_containers :: "host \<Rightarrow> lxc_config \<Rightarrow> status_report list result prog" where
  "list_containers h config =
     then_do (ask (Exists (lc_lxc_containers config))) (\<lambda>present.
       if \<not> present then ok []
       else try_do (io_context (''read '' @ lc_lxc_containers config) (Ls (lc_lxc_containers config) Ret))
              (\<lambda>entries.
            try_do (listed_names config entries) (\<lambda>names.
              collect (sort names) (container_status h config))))"

section \<open>Start, stop, destroy\<close>

definition log_hint :: "string \<Rightarrow> string \<Rightarrow> string \<Rightarrow> string" where
  "log_hint msg log name = msg @ ''; log='' @ log @ ''; try: achost-lxc-runtime logs '' @ name"

definition lxc_start_args :: "string \<Rightarrow> string \<Rightarrow> string \<Rightarrow> string list" where
  "lxc_start_args containers name log =
     [''-P'', containers, ''-n'', name, ''-d'', ''-o'', log, ''-l'', ''INFO'']"

definition start_container :: "host \<Rightarrow> lxc_config \<Rightarrow> string \<Rightarrow> unit result prog" where
  "start_container h config name =
     try_do (validate_existing_container config name) (\<lambda>_.
     try_do (ensure_container_network config name) (\<lambda>_.
     then_do (lxc_state_is h config name ''RUNNING'') (\<lambda>already.
       if already then then_do (println ''container_state=RUNNING'') (\<lambda>_. ok ())
       else
         then_do (run_prepare_bridge h) (\<lambda>bridge_rc.
         if bridge_rc \<noteq> 0 then fail ''prepare-bridge failed''
         else
           try_do (prepare_container_log config name) (\<lambda>log.
           try_do (Ret (path_str (lc_lxc_containers config))) (\<lambda>containers.
           try_do (Ret (path_str log)) (\<lambda>log_arg.
           try_do (run_lxc_capture h config ''lxc-start'' (lxc_start_args containers name log_arg)) (\<lambda>r.
           if \<not> cr_ok r then fail (log_hint (cr_output r) log name)
           else
             try_do (map_err (\<lambda>err. log_hint err log name)
                       (wait_for_lxc_state h config name ''RUNNING'' 20)) (\<lambda>info.
             then_do (println (''container_state='' @ info_label info)) (\<lambda>_. ok ())))))))))) "

definition lxc_stop_args :: "string \<Rightarrow> string \<Rightarrow> bool \<Rightarrow> string list" where
  "lxc_stop_args containers name force =
     (if force then [''-P'', containers, ''-n'', name, ''-k'']
      else [''-P'', containers, ''-n'', name, ''-t'', ''5''])"

definition stop_container :: "host \<Rightarrow> lxc_config \<Rightarrow> string \<Rightarrow> bool \<Rightarrow> unit result prog" where
  "stop_container h config name force =
     try_do (validate_existing_container config name) (\<lambda>_.
     then_do (lxc_state_is h config name ''STOPPED'') (\<lambda>already.
       if already then then_do (println ''container_state=STOPPED'') (\<lambda>_. ok ())
       else
         try_do (Ret (path_str (lc_lxc_containers config))) (\<lambda>containers.
         try_do (run_lxc_capture h config ''lxc-stop'' (lxc_stop_args containers name force)) (\<lambda>r.
         let log = container_log config name
         in if \<not> cr_ok r
            then then_do (lxc_state_is h config name ''STOPPED'') (\<lambda>stopped.
                   if stopped then then_do (println ''container_state=STOPPED'') (\<lambda>_. ok ())
                   else then_do (lxc_state_label h config name) (\<lambda>label.
                          fail (cr_output r @ ''; state='' @ label @ ''; log='' @ log)))
            else
              try_do (map_err (\<lambda>err. err @ ''; log='' @ log)
                        (wait_for_lxc_state h config name ''STOPPED'' (if force then 10 else 15))) (\<lambda>info.
              then_do (println (''container_state='' @ li_state info)) (\<lambda>_. ok ()))))))"

definition lxc_destroy_args :: "string \<Rightarrow> string \<Rightarrow> string list" where
  "lxc_destroy_args containers name = [''-P'', containers, ''-n'', name]"

definition destroy_container :: "host \<Rightarrow> lxc_config \<Rightarrow> string \<Rightarrow> unit result prog" where
  "destroy_container h config name =
     try_do (validate_existing_container config name) (\<lambda>_.
     then_do (container_status h config name) (\<lambda>status.
     then_do (case status of
                Inr s \<Rightarrow> if cs_state s = ''RUNNING''
                          then then_do (stop_container h config name True) (\<lambda>_. Ret ()) else Ret ()
              | Inl _ \<Rightarrow> Ret ()) (\<lambda>_.
     then_do (find_lxc_binary h config ''lxc-destroy'') (\<lambda>tool.
     try_do (if is_ok tool
             then try_do (Ret (path_str (lc_lxc_containers config))) (\<lambda>containers.
                    then_do (run_lxc_capture h config ''lxc-destroy'' (lxc_destroy_args containers name))
                      (\<lambda>_. ok ()))
             else ok ()) (\<lambda>_.
     let dir = container_dir config name
     in try_do (Ret (ensure_child_path (lc_lxc_containers config) dir)) (\<lambda>_.
        then_do (ask (Exists dir)) (\<lambda>present.
          if present then io_context (''remove '' @ dir) (act (RemoveDirAll dir)) else ok ())))))))"

section \<open>Autostart\<close>

definition set_container_autostart :: "lxc_config \<Rightarrow> string \<Rightarrow> bool \<Rightarrow> unit result prog" where
  "set_container_autostart config name enabled =
     try_do (validate_existing_container config name) (\<lambda>_.
       let path = container_config config name
       in try_do (io_context (''read '' @ path) (get (ReadText path))) (\<lambda>text.
          write_file path (rewrite_lxc_start_auto text enabled)))"

text \<open>The loop over the selected containers, with the counts of both.\<close>

primrec autostart_loop ::
  "host \<Rightarrow> lxc_config \<Rightarrow> status_report list \<Rightarrow> nat \<Rightarrow> nat \<Rightarrow> (nat \<times> nat) prog" where
  "autostart_loop h config [] selected failures = Ret (selected, failures)"
| "autostart_loop h config (c # cs) selected failures =
     (if \<not> cs_autostart c then autostart_loop h config cs selected failures
      else if cs_state c = ''RUNNING''
      then then_do (println (''autostart_container='' @ cs_name c @ '' status=already-running''))
             (\<lambda>_. autostart_loop h config cs (selected + 1) failures)
      else then_do (start_container h config (cs_name c)) (\<lambda>r.
             case r of
               Inr _ \<Rightarrow> then_do (println (''autostart_container='' @ cs_name c @ '' status=started''))
                 (\<lambda>_. autostart_loop h config cs (selected + 1) failures)
             | Inl err \<Rightarrow>
                 then_do (println (''autostart_container='' @ cs_name c @ '' status=failed error='' @ err))
                   (\<lambda>_. autostart_loop h config cs (selected + 1) (failures + 1))))"

definition autostart_containers :: "host \<Rightarrow> lxc_config \<Rightarrow> nat result prog" where
  "autostart_containers h config =
     try_do (ensure_runtime_dirs config) (\<lambda>_.
     try_do (list_containers h config) (\<lambda>containers.
     then_do (autostart_loop h config containers 0 0) (\<lambda>(selected, failures).
     then_do (println (''autostart_selected='' @ show_nat selected @ '' failures='' @ show_nat failures))
       (\<lambda>_. ok failures))))"

section \<open>Commands in the guest\<close>

definition exec_container :: "host \<Rightarrow> lxc_config \<Rightarrow> string \<Rightarrow> string list \<Rightarrow> int result prog" where
  "exec_container h config name command =
     try_do (validate_existing_container config name) (\<lambda>_.
     try_do (lxc_command h config ''lxc-attach''
               ([''-P'', lc_lxc_containers config, ''-n'', name, ''--''] @ command) InheritIn InheritOut)
       (\<lambda>attach.
     try_do (io_context ''run lxc-attach'' (run_cmd attach)) (\<lambda>out.
       ok (unwrap_or 1 (out_code out)))))"

definition run_guest_capture ::
  "host \<Rightarrow> lxc_config \<Rightarrow> string \<Rightarrow> string list \<Rightarrow> command_result result prog" where
  "run_guest_capture h config name command =
     try_do (validate_existing_container config name) (\<lambda>_.
     try_do (lxc_command h config ''lxc-attach''
               ([''-P'', lc_lxc_containers config, ''-n'', name, ''--clear-env'', ''--''] @ command)
               NullIn CaptureOut)
       (\<lambda>attach.
     try_do (io_context ''run lxc-attach'' (run_cmd attach)) (\<lambda>out. ok (capture_result out))))"

definition guest_shell_script :: "string \<Rightarrow> string" where
  "guest_shell_script script = ''PATH='' @ GUEST_PATH @ ''; export PATH; '' @ script"

definition run_guest_shell_capture ::
  "host \<Rightarrow> lxc_config \<Rightarrow> string \<Rightarrow> string \<Rightarrow> command_result result prog" where
  "run_guest_shell_capture h config name script =
     run_guest_capture h config name [''/bin/sh'', ''-c'', guest_shell_script script]"

text \<open>The script \<open>system-status\<close> runs in the guest.\<close>

definition guest_status_script :: string where
  "guest_status_script =
     unlines
      [''hostname_value='' @ [QUOTE] @ ''$(hostname 2>/dev/null || true)'' @ [QUOTE],
       ''printf '' @ [APOS] @ ''hostname=%s'' @ [BACKSLASH] @ ''n'' @ [APOS] @ '' '' @ [QUOTE] @ ''$hostname_value'' @ [QUOTE],
       ''if [ -r /proc/uptime ]; then'',
       ''    IFS='' @ [APOS] @ '' '' @ [APOS] @ '' read -r up _ < /proc/uptime'',
       ''    printf '' @ [APOS] @ ''uptime=%s'' @ [BACKSLASH] @ ''n'' @ [APOS] @ '' '' @ [QUOTE] @ ''$up'' @ [QUOTE],
       ''fi'',
       ''if [ -r /etc/os-release ]; then'',
       ''    while IFS='' @ [APOS] @ ''='' @ [APOS] @ '' read -r key value || [ -n '' @ [QUOTE] @ ''$key'' @ [QUOTE] @ '' ]; do'',
       ''        case '' @ [QUOTE] @ ''$key'' @ [QUOTE] @ '' in'',
       ''            PRETTY_NAME|NAME|VERSION_ID)'',
       ''                value='' @ [QUOTE] @ ''${value%'' @ [BACKSLASH] @ [QUOTE] @ ''}'' @ [QUOTE],
       ''                value='' @ [QUOTE] @ ''${value#'' @ [BACKSLASH] @ [QUOTE] @ ''}'' @ [QUOTE],
       ''                printf '' @ [APOS] @ ''%s=%s'' @ [BACKSLASH] @ ''n'' @ [APOS] @ '' '' @ [QUOTE] @ ''$key'' @ [QUOTE] @ '' '' @ [QUOTE] @ ''$value'' @ [QUOTE],
       ''                ;;'',
       ''        esac'',
       ''    done < /etc/os-release'',
       ''fi'',
       ''if command -v ip >/dev/null 2>&1; then'',
       ''    ip -o addr show scope global 2>/dev/null | while read -r _ _ _ _ addr _; do'',
       ''        [ -n '' @ [QUOTE] @ ''$addr'' @ [QUOTE] @ '' ] && printf '' @ [APOS] @ ''addr=%s'' @ [BACKSLASH] @ ''n'' @ [APOS] @ '' '' @ [QUOTE] @ ''$addr'' @ [QUOTE],
       ''    done'',
       ''fi'']"

definition guest_system_status :: "host \<Rightarrow> lxc_config \<Rightarrow> string \<Rightarrow> guest_report result prog" where
  "guest_system_status h config name =
     try_do (container_status h config name) (\<lambda>status.
       if cs_state status \<noteq> ''RUNNING''
       then ok \<lparr>gs_name = cs_name status, gs_state = cs_state status, gs_distro = cs_distro status,
              gs_release = cs_release status, gs_arch = cs_arch status, gs_hostname = [],
              gs_uptime = [], gs_pretty_name = [], gs_addresses = [],
              gs_message = ''container is not running''\<rparr>
       else
         try_do (run_guest_shell_capture h config name guest_status_script) (\<lambda>r.
         let guest = parse_guest_system_status status (cr_output r)
         in ok (if cr_ok r then guest
                else guest\<lparr>gs_message := if cr_output r = [] then ''system status command failed''
                                        else cr_output r\<rparr>)))"

section \<open>Password, log and smoke test\<close>

definition generate_shadow_salt :: "string result prog" where
  "generate_shadow_salt =
     try_do (io_context ''generate shadow salt'' (get (Urandom 16))) (\<lambda>bytes. ok (salt_chars bytes))"

definition generate_password :: "string result prog" where
  "generate_password =
     try_do (io_context ''generate random password'' (get (Urandom 24))) (\<lambda>bytes. ok (password_chars bytes))"

text \<open>The loop over the lines of the shadow file; an entry that has a date asks for the time.\<close>

definition shadow_needs_days :: "string \<Rightarrow> string \<Rightarrow> bool" where
  "shadow_needs_days user line =
     (case Option.bind (strip_prefix user line) (strip_prefix '':'') of
        None \<Rightarrow> False | Some rest \<Rightarrow> length (split_char (CHR '':'') rest) > 1)"

primrec shadow_loop :: "string \<Rightarrow> string \<Rightarrow> string list \<Rightarrow> (string \<times> bool) list prog" where
  "shadow_loop user hash [] = Ret []"
| "shadow_loop user hash (line # ls) =
     then_do (if shadow_needs_days user line
              then Query UnixNow (\<lambda>now. Ret (now div 86400)) else Ret 0) (\<lambda>days.
     then_do (shadow_loop user hash ls) (\<lambda>rest. Ret (shadow_line user hash days line # rest)))"

definition update_shadow_password :: "string \<Rightarrow> string \<Rightarrow> string \<Rightarrow> unit result prog" where
  "update_shadow_password path user hash =
     try_do (io_context (''read '' @ path) (act (StatFile path))) (\<lambda>_.
     try_do (io_context (''read '' @ path) (get (ReadText path))) (\<lambda>text.
     then_do (shadow_loop user hash (rust_lines text)) (\<lambda>updated.
       if \<not> list_ex snd updated then fail (''user '' @ user @ '' not found in /etc/shadow'')
       else
         let temp = with_extension path ''shadow.achost-tmp''
         in try_do (write_file temp (concat (map fst updated))) (\<lambda>_.
            try_do (io_context (''chmod '' @ temp) (act (CopyPermissions path temp))) (\<lambda>_.
            try_do (io_context (''chown '' @ temp) (act (ChownLike path temp))) (\<lambda>_.
            try_do (io_context (''rename '' @ temp) (act (RenameFile temp path))) (\<lambda>_. ok ())))))))"

definition set_container_password ::
  "host \<Rightarrow> lxc_config \<Rightarrow> string \<Rightarrow> string \<Rightarrow> string \<Rightarrow> unit result prog" where
  "set_container_password h config name user password =
     try_do (validate_existing_container config name) (\<lambda>_.
     try_do (Ret (validate_linux_user user)) (\<lambda>_.
     try_do (Ret (validate_password password)) (\<lambda>_.
     let shadow_path = path_join (container_rootfs config name) ''etc/shadow''
     in try_do (Ret (ensure_child_path (container_rootfs config name) shadow_path)) (\<lambda>_.
        try_do generate_shadow_salt (\<lambda>salt.
          update_shadow_password shadow_path user
            (sha512_crypt (h_sha512 h) password salt SHA512_CRYPT_ROUNDS))))))"

definition read_password_from_stdin :: "string result prog" where
  "read_password_from_stdin =
     try_do (io_context ''read password from stdin'' (get ReadStdin)) (\<lambda>raw.
       let password = trim_trailing_newlines raw
       in try_do (Ret (validate_password password)) (\<lambda>_. ok password))"

definition read_container_logs :: "lxc_config \<Rightarrow> string \<Rightarrow> nat \<Rightarrow> string result prog" where
  "read_container_logs config name lines =
     try_do (validate_existing_container config name) (\<lambda>_.
     let path = container_log config name
     in then_do (get (ReadText path)) (\<lambda>r.
        case r of
          Inr text \<Rightarrow> ok (last_lines text lines)
        | Inl NotFound \<Rightarrow> ok (''no log file: '' @ path @ [LF])
        | Inl err \<Rightarrow> fail (''read '' @ path @ '': '' @ show_io err)))"

definition smoke_command :: "string list" where
  "smoke_command =
     [''/bin/sh'', ''-c'', ''PATH='' @ GUEST_PATH
        @ ''; export PATH; cat /etc/os-release 2>/dev/null || true; uname -a 2>/dev/null || true'']"

definition smoke_container :: "host \<Rightarrow> lxc_config \<Rightarrow> string \<Rightarrow> unit result prog" where
  "smoke_container h config name =
     try_do (validate_existing_container config name) (\<lambda>_.
     try_do (container_status h config name) (\<lambda>status.
     then_do (println (''name='' @ cs_name status @ '' state='' @ cs_state status)) (\<lambda>_.
     try_do (exec_container h config name smoke_command) (\<lambda>code.
       if code = 0 then ok ()
       else fail (''smoke command exit='' @ show_int code)))))"

section \<open>What a run concludes\<close>

text \<open>
  \<open>reports state t\<close>: the last command in the record \<open>t\<close> exited with 0 and its output,
  read as \<open>lxc-info\<close>'s, gives the state.
\<close>

fun is_run :: "event \<Rightarrow> bool" where
  "is_run (ERun c r) = True"
| "is_run _ = False"

definition reports :: "string \<Rightarrow> event list \<Rightarrow> bool" where
  "reports state t \<longleftrightarrow>
     (case filter is_run t of [] \<Rightarrow> False
      | e # es \<Rightarrow>
          (case last (e # es) of
             ERun c (Inr out) \<Rightarrow>
               out_success out \<and> li_state (parse_lxc_info (cr_output (capture_result out))) = state
           | _ \<Rightarrow> False))"

lemma reports_Nil [simp]: "\<not> reports s []"
  by (simp add: reports_def)

lemma reports_append: "reports s t \<Longrightarrow> reports s (u @ t)"
  by (cases "filter is_run t"; cases "filter is_run u") (auto simp: reports_def)

lemma reports_quiet: "reports s t \<Longrightarrow> filter is_run v = [] \<Longrightarrow> reports s (t @ v)"
  by (simp add: reports_def)

lemma reports_run: "out_success out \<Longrightarrow> reports (li_state (parse_lxc_info (cr_output (capture_result out)))) [ERun c (Inr out)]"
  by (simp add: reports_def)

lemma run_lxc_capture_ok:
  assumes "exec (run_lxc_capture h config name args) t = Some (Inr r)"
  shows "\<exists>u c out. t = u @ [ERun c (Inr out)] \<and> r = capture_result out"
  using assms by (auto simp: run_lxc_capture_def exec_try_do_ok exec_io_context_ok )

lemma lxc_info_reports:
  assumes "exec (lxc_info h config name) t = Some (Inr info)"
  shows "reports (li_state info) t"
proof -
  obtain u c out where t: "t = u @ [ERun c (Inr out)]"
    and "cr_ok (capture_result out)" "info = parse_lxc_info (cr_output (capture_result out))"
    using assms run_lxc_capture_ok
    by (auto simp: lxc_info_def exec_try_do_ok split: if_splits) blast
  then show ?thesis using reports_append [OF reports_run [of out c]] by (simp add: capture_result_def)
qed

lemma lxc_state_is_reports:
  assumes "exec (lxc_state_is h config name expected) t = Some True"
  shows "reports expected t"
proof -
  obtain r where "exec (lxc_info h config name) t = Some r"
    and "case r of Inl _ \<Rightarrow> False | Inr info \<Rightarrow> li_state info = expected"
    using assms by (auto simp: lxc_state_is_def exec_then_do)
  then show ?thesis using lxc_info_reports by (cases r) auto
qed

lemma wait_for_state_reports:
  "exec (wait_for_state_from h config name expected n seen) t = Some (Inr info) \<Longrightarrow>
     li_state info = expected \<and> reports expected t"
proof (induction h config name expected n seen arbitrary: t rule: wait_for_state_from.induct)
  case (2 h config name expected n seen)
  let ?rest = "\<lambda>r. case r of
         Inr info \<Rightarrow> if li_state info = expected then ok info
           else then_do (sleep 1000) (\<lambda>_. wait_for_state_from h config name expected n (info_label info))
       | Inl err \<Rightarrow> then_do (sleep 1000) (\<lambda>_. wait_for_state_from h config name expected n err)"
  obtain u v r where t: "t = u @ v" and info: "exec (lxc_info h config name) u = Some r"
    and rest: "exec (?rest r) v = Some (Inr info)"
    using "2.prems" unfolding wait_for_state_from.simps exec_then_do [of "lxc_info h config name"] by blast
  show ?case
  proof (cases "\<exists>i. r = Inr i \<and> li_state i = expected")
    case True
    then show ?thesis using rest info lxc_info_reports t by auto
  next
    case False
    then obtain w where v: "v = ESleep 1000 # w" and w: "li_state info = expected \<and> reports expected w"
      using rest "2.IH" by (cases r) (auto simp: exec_node split: if_splits)
    then show ?thesis using reports_append [of expected w "u @ [ESleep 1000]"] t v by simp
  qed
qed simp

section \<open>Every operation can succeed\<close>

lemma push_unique_Cons: "\<exists>rest. push_unique (x # xs) p = x # rest"
  by (simp add: push_unique_def)

lemma reach_find_lxc_binary:
  "reach (find_lxc_binary h config name) (Inr (path_join (lc_lxc_bin config) name))"
proof -
  obtain found where found: "reach (find_in_path (h_env h) name) found"
    using exec_total by (metis reach_def)
  let ?paths = "push_unique [path_join (lc_lxc_bin config) name] (path_join (lc_achost_bin config) name)"
  have cand: "reach (candidate_binary_paths h config name)
      (case found of None \<Rightarrow> ?paths | Some path \<Rightarrow> push_unique ?paths path)"
    using found unfolding candidate_binary_paths_def reach_then_do Let_def by auto
  obtain r1 where r1: "?paths = path_join (lc_lxc_bin config) name # r1"
    using push_unique_Cons by blast
  obtain rest where "(case found of None \<Rightarrow> ?paths | Some path \<Rightarrow> push_unique ?paths path)
      = path_join (lc_lxc_bin config) name # rest"
    using push_unique_Cons [of "path_join (lc_lxc_bin config) name" r1] r1 by (cases found) auto
  with cand have "reach (candidate_binary_paths h config name) (path_join (lc_lxc_bin config) name # rest)"
    by simp
  moreover have "reach (find_do (\<lambda>path. and_also (ask (Exists path)) (is_executable path)) (path_join (lc_lxc_bin config) name # rest)) (Some (path_join (lc_lxc_bin config) name))"
    by (rule reach_find_do_first, rule reach_and_also) (auto simp: is_executable_def)
  moreover have "reach (Ret (ok_or (name @ '' not executable'') (Some (path_join (lc_lxc_bin config) name))))
      (Inr (path_join (lc_lxc_bin config) name))" by simp
  ultimately show ?thesis unfolding find_lxc_binary_def reach_then_do by blast
qed

lemma reach_lxc_command: "\<exists>c. reach (lxc_command h config name args inp out) (Inr c)"
  using reach_find_lxc_binary [of h config name]
    reach_and_also [of "ask (Exists (lc_supervise config))" "is_executable (lc_supervise config)" True]
  by (fastforce simp: lxc_command_def reach_rules is_executable_def Let_def)

lemma reach_run_lxc_capture: "reach (run_lxc_capture h config name args) (Inr (capture_result out))"
  using reach_lxc_command [of h config name args NullIn CaptureOut]
  by (auto simp: run_lxc_capture_def reach_rules)

lemma reach_guest_network: "reach (ensure_guest_network_config rootfs settings) (Inr ())"
  by (auto simp: ensure_guest_network_config_def write_guest_resolv_conf_def write_guest_netplan_def
      write_guest_systemd_network_def create_dir_all_def write_file_def reach_rules Let_def
      intro!: exI [of _ False])

lemma reach_container_network: "reach (ensure_container_network config name) (Inr ())"
  using reach_guest_network
  by (auto simp: ensure_container_network_def write_file_def reach_rules Let_def)

lemma reach_lxc_info:
  assumes "is_utf8 (lc_lxc_containers config)"
  shows "reach (lxc_info h config name) (Inr (parse_lxc_info (trim_trailing_newlines out)))"
proof -
  let ?out = "\<lparr>out_code = Some 0, out_stdout = out, out_stderr = []\<rparr>"
  have "capture_result ?out = \<lparr>cr_ok = True, cr_output = trim_trailing_newlines out\<rparr>"
    by (simp add: capture_result_def out_success_def)
  then have "reach (run_lxc_capture h config ''lxc-info'' (lxc_info_args (lc_lxc_containers config) name))
      (Inr \<lparr>cr_ok = True, cr_output = trim_trailing_newlines out\<rparr>)"
    by (metis reach_run_lxc_capture)
  then show ?thesis
    using assms
    by (auto simp: lxc_info_def path_str_def reach_rules
        intro!: exI [of _ "\<lparr>cr_ok = True, cr_output = trim_trailing_newlines out\<rparr>"])
qed

lemma reach_lxc_state_is:
  assumes "is_utf8 (lc_lxc_containers config)" "li_state (parse_lxc_info (trim_trailing_newlines out)) = s"
  shows "reach (lxc_state_is h config name s) True"
  using reach_lxc_info [OF assms(1), of h name out] assms(2)
  by (auto simp: lxc_state_is_def reach_rules intro!: exI [of _ "Inr _"])

lemma reach_validate_existing:
  assumes "validate_container_name name = Inr ()" "lc_lxc_containers config \<noteq> []"
  shows "reach (validate_existing_container config name) (Inr ())"
  using assms ensure_child_path_join [OF assms(2) container_name_good [OF assms(1)]]
  by (auto simp: validate_existing_container_def reach_rules container_dir_def Let_def)

lemma reach_start_container:
  assumes "validate_container_name name = Inr ()" "lc_lxc_containers config \<noteq> []"
    "is_utf8 (lc_lxc_containers config)"
  shows "reach (start_container h config name) (Inr ())"
proof -
  have "li_state (parse_lxc_info (trim_trailing_newlines ''State: RUNNING'')) = ''RUNNING''"
    by code_simp
  note reach_lxc_state_is [OF assms(3) this, of h name]
  then show ?thesis
    using reach_container_network [of config name] reach_validate_existing [OF assms(1,2)]
    by (auto simp: start_container_def reach_rules intro!: exI [of _ True])
qed

lemma demo_config:
  "validate_container_name ''web'' = Inr ()"
  "lc_lxc_containers (sample_config ''10.0.3.0/24'') \<noteq> []"
  "is_utf8 (lc_lxc_containers (sample_config ''10.0.3.0/24''))"
  by code_simp+

section \<open>Lemmas on the records of a run\<close>

lemma wait_for_lxc_state_reports:
  assumes "exec (map_err g (wait_for_lxc_state h config name expected n)) t = Some (Inr info)"
  shows "reports expected t"
proof -
  obtain r where "exec (wait_for_state_from h config name expected n ''UNKNOWN'') t = Some r"
    "Inr info = (case r of Inl e \<Rightarrow> Inl (g e) | Inr y \<Rightarrow> Inr y)"
    using assms by (auto simp: wait_for_lxc_state_def exec_map_err)
  then show ?thesis using wait_for_state_reports by (cases r) auto
qed

text \<open>Calls that change nothing themselves: tests, reads, commands and output.\<close>

fun probes :: "event \<Rightarrow> bool" where
  "probes (EAct c r) = False"
| "probes (ESleep n) = False"
| "probes (ETar d z r) = False"
| "probes _ = True"

fun is_sleep :: "event \<Rightarrow> bool" where
  "is_sleep (ESleep n) = True"
| "is_sleep _ = False"

lemma probes_find_in_path: "emits probes (find_in_path e name)"
  by (auto simp: find_in_path_def intro!: emits_intros split: option.splits)

lemma probes_find_lxc_binary: "emits probes (find_lxc_binary h config name)"
  by (auto simp: find_lxc_binary_def candidate_binary_paths_def is_executable_def probes_find_in_path Let_def
      intro!: emits_intros)

lemma probes_lxc_command: "emits probes (lxc_command h config name args inp out)"
  by (auto simp: lxc_command_def is_executable_def probes_find_lxc_binary Let_def intro!: emits_intros)

lemma probes_run_lxc_capture: "emits probes (run_lxc_capture h config name args)"
  by (auto simp: run_lxc_capture_def probes_lxc_command intro!: emits_intros)

lemma probes_lxc_info: "emits probes (lxc_info h config name)"
  by (auto simp: lxc_info_def probes_run_lxc_capture intro!: emits_intros)

lemma probes_lxc_state: "emits probes (lxc_state_is h config name s)" "emits probes (lxc_state_label h config name)"
  by (auto simp: lxc_state_is_def lxc_state_label_def probes_lxc_info intro!: emits_intros)

lemma probes_validate_existing: "emits probes (validate_existing_container config name)"
  by (auto simp: validate_existing_container_def Let_def intro!: emits_intros)

lemma probes_container_status: "emits probes (container_status h config name)"
  by (auto simp: container_status_def read_container_metadata_def fallback_container_metadata_def
      infer_os_release_def default_init_cmd_def container_autostart_def probes_lxc_info Let_def
      intro!: emits_intros split: option.splits prod.splits)

lemma probes_listed_names: "emits probes (listed_names config entries)"
  by (induction entries) (auto intro!: emits_intros simp: Let_def split: sum.split)

lemma probes_list_containers: "emits probes (list_containers h config)"
  by (auto simp: list_containers_def probes_listed_names probes_container_status intro!: emits_intros)

lemma probes_no_sleep: "exec p t = Some r \<Longrightarrow> emits probes p \<Longrightarrow> filter is_sleep t = []"
  using emits_holds [of probes p t r] by (auto simp: list_all_iff filter_empty_conv elim: probes.elims is_sleep.elims)

definition removes_only :: "string \<Rightarrow> event \<Rightarrow> bool" where
  "removes_only dir e = (case e of EAct c _ \<Rightarrow> c = RemoveDirAll dir | _ \<Rightarrow> True)"

lemma removes_only_simps [simp]:
  "removes_only dir (EAct c r) \<longleftrightarrow> c = RemoveDirAll dir"
  "removes_only dir (EAsk a b)" "removes_only dir (EGet g x)" "removes_only dir (ERun m out)"
  "removes_only dir (ESay s)" "removes_only dir (ESleep n)"
  by (simp_all add: removes_only_def)

lemma probes_removes_only: "emits probes p \<Longrightarrow> emits (removes_only dir) p"
  by (erule emits_mono) (auto simp: removes_only_def elim: probes.elims split: event.split)

lemma wait_removes_only: "emits (removes_only dir) (wait_for_state_from h config name expected n seen)"
  by (induction h config name expected n seen rule: wait_for_state_from.induct)
    (auto intro!: emits_intros probes_removes_only [OF probes_lxc_info] split: sum.split)

lemma stop_removes_only: "emits (removes_only dir) (stop_container h config name force)"
  by (auto simp: stop_container_def wait_for_lxc_state_def Let_def
      intro!: emits_intros wait_removes_only
        probes_removes_only [OF probes_validate_existing] probes_removes_only [OF probes_lxc_state(1)]
        probes_removes_only [OF probes_lxc_state(2)] probes_removes_only [OF probes_run_lxc_capture])

lemma listed_names_valid:
  "exec (listed_names config entries) t = Some (Inr names) \<Longrightarrow>
     \<forall>n \<in> set names. validate_container_name n = Inr () \<and> \<not> starts_with ''.'' n"
proof (induction entries arbitrary: t names)
  case (Cons entry entries)
  show ?case
  proof (cases entry)
    case (Inr name)
    show ?thesis
    proof (cases "starts_with ''.'' name \<or> \<not> is_ok (validate_container_name name)")
      case True
      then show ?thesis using Cons.prems Cons.IH Inr
        by (auto simp: exec_node Let_def simp del: is_ok_simps)
    next
      case False
      then have v: "validate_container_name name = Inr ()" "\<not> starts_with ''.'' name"
        by (auto simp: is_ok_unit)
      from Cons.prems Inr False obtain b u ns where
        "exec (listed_names config entries) u = Some (Inr ns)" "names = (if b then name # ns else ns)"
        by (auto simp: exec_node exec_ok Let_def split: if_splits)
      then show ?thesis using Cons.IH [of u ns] v by auto
    qed
  qed (use Cons.prems in auto)
qed simp

lemma container_status_name: "exec (container_status h config n) t = Some (Inr s) \<Longrightarrow> cs_name s = n"
  by (auto simp: container_status_def exec_ok exec_node Let_def split: if_splits)

definition shadow_step :: "string \<Rightarrow> string \<Rightarrow> event \<Rightarrow> bool" where
  "shadow_step temp path e =
     (case e of
        EAct c _ \<Rightarrow> c = StatFile path \<or> (\<exists>text. c = WriteFile temp text) \<or> c = CopyPermissions path temp
          \<or> c = ChownLike path temp \<or> c = RenameFile temp path
      | _ \<Rightarrow> probes e)"

lemma shadow_step_simps [simp]:
  "shadow_step temp path (EAct c r) \<longleftrightarrow> c = StatFile path \<or> (\<exists>text. c = WriteFile temp text)
     \<or> c = CopyPermissions path temp \<or> c = ChownLike path temp \<or> c = RenameFile temp path"
  "shadow_step temp path (EGet g x)" "shadow_step temp path (EQuery q n)" "shadow_step temp path (EAsk a b)"
  by (simp_all add: shadow_step_def)

lemma shadow_loop_queries: "holds (\<lambda>t x. list_all probes t) (shadow_loop user hash ls)"
proof -
  have "emits probes (shadow_loop user hash ls)"
    by (induction ls) (auto intro!: emits_intros)
  then show ?thesis by (simp add: emits_def)
qed

lemma probes_shadow_step: "list_all probes t \<Longrightarrow> list_all (shadow_step temp path) t"
  by (auto simp: list_all_iff shadow_step_def split: event.split)

lemma probes_no_act: "list_all probes t \<Longrightarrow> EAct c r \<notin> set t"
  by (auto simp: list_all_iff)

lemma holds_update_shadow:
  fixes path
  defines "temp \<equiv> with_extension path ''shadow.achost-tmp''"
  shows "holds (\<lambda>t r. list_all (shadow_step temp path) t
    \<and> (case r of Inl _ \<Rightarrow> EAct (RenameFile temp path) (Inr ()) \<notin> set t
        | Inr _ \<Rightarrow> \<exists>u. t = u @ [EAct (RenameFile temp path) (Inr ())])) (update_shadow_password path user hash)"
  unfolding update_shadow_password_def temp_def [symmetric] write_file_def Let_def
    holds_try_do holds_io_context holds_then_do
  by (simp split: sum.split)
   (auto intro!: holds_mono [OF shadow_loop_queries] simp: holds_try_do holds_io_context
    probes_shadow_step probes_no_act split: sum.split)

lemma reach_container_status:
  assumes "validate_container_name name = Inr ()"
  shows "\<exists>s. reach (container_status h config name) (Inr s)"
proof -
  obtain found where 1: "reach (read_container_metadata h config name) found" by (rule exE [OF reach_some])
  obtain m where 2: "reach (case found of Some m \<Rightarrow> Ret m | None \<Rightarrow> fallback_container_metadata h config name) m"
    by (rule exE [OF reach_some])
  obtain r where 3: "reach (lxc_info h config name) r" by (rule exE [OF reach_some])
  obtain a where 4: "reach (container_autostart config name) a" by (rule exE [OF reach_some])
  show ?thesis
    using assms 1 2 3 4 by (simp add: container_status_def reach_then_do Let_def) blast
qed

lemma reach_collect:
  "list_all2 (\<lambda>x y. reach (f x) (Inr y)) xs ys \<Longrightarrow> reach (collect xs f) (Inr ys)"
  by (induction xs ys rule: list_all2_induct) (auto simp: reach_rules)

section \<open>Properties\<close>

text \<open>
  C14. A container name the validator refuses stops every operation before its first call:
  no file is read or written, no command is run, and the validator's message is the result.
\<close>

theorem refused_name_calls_nothing:
  assumes "validate_container_name name = Inl err"
  shows "start_container h config name = fail err
    \<and> stop_container h config name force = fail err
    \<and> destroy_container h config name = fail err
    \<and> container_status h config name = fail err
    \<and> exec_container h config name command = fail err
    \<and> set_container_autostart config name enabled = fail err
    \<and> set_container_password h config name user password = fail err
    \<and> read_container_logs config name lines = fail err
    \<and> smoke_container h config name = fail err"
  using assms
  by (simp add: start_container_def stop_container_def destroy_container_def container_status_def
      exec_container_def set_container_autostart_def set_container_password_def
      read_container_logs_def smoke_container_def validate_existing_container_def)

theorem refused_name_calls_nothing_witness:
  "destroy_container demo_host (sample_config ''10.0.3.0/24'') ''../data''
     = fail ''invalid container name''"
proof -
  have "validate_container_name ''../data'' = Inl ''invalid container name''" by code_simp
  from refused_name_calls_nothing [OF this] show ?thesis by blast
qed

text \<open>
  C7. A start that succeeds is a start the tools confirmed: the last command the program ran
  was a successful query whose output reads RUNNING, whether the container was already up or
  had to be started; the exit status of \<open>lxc-start\<close> alone is never taken for success.
\<close>

theorem start_container_reports_running:
  assumes "exec (start_container h config name) t = Some (Inr ())"
  shows "reports ''RUNNING'' t"
  using assms unfolding start_container_def
  by (auto simp: exec_ok reports_append reports_quiet split: if_splits
      dest!: lxc_state_is_reports wait_for_lxc_state_reports)

theorem start_container_reports_running_witness:
  "\<exists>t. exec (start_container demo_host (sample_config ''10.0.3.0/24'') ''web'') t = Some (Inr ())
     \<and> reports ''RUNNING'' t"
  by (rule reach_exec [OF reach_start_container [OF demo_config]])
    (rule start_container_reports_running)

text \<open>
  A stop that succeeds is a stop the tools confirmed: the last command was a successful
  query whose output reads STOPPED, on every path, the forced one and the one where
  \<open>lxc-stop\<close> failed included.
\<close>

lemma stop_container_reports_stopped:
  assumes "exec (stop_container h config name force) t = Some (Inr ())"
  shows "reports ''STOPPED'' t"
  using assms unfolding stop_container_def
  by (auto simp: exec_ok reports_append reports_quiet Let_def split: if_splits
      dest!: lxc_state_is_reports wait_for_lxc_state_reports)

lemma reach_stop_container:
  assumes "validate_container_name name = Inr ()" "lc_lxc_containers config \<noteq> []"
    "is_utf8 (lc_lxc_containers config)"
  shows "reach (stop_container h config name force) (Inr ())"
proof -
  have "li_state (parse_lxc_info (trim_trailing_newlines ''State: STOPPED'')) = ''STOPPED''"
    by code_simp
  note reach_lxc_state_is [OF assms(3) this, of h name]
  then show ?thesis
    using reach_validate_existing [OF assms(1,2)]
    by (auto simp: stop_container_def reach_rules intro!: exI [of _ True])
qed

text \<open>
  Waiting for a state is bounded: at most one second of sleep for each second of the
  timeout, exactly that many when it gives up, and when it returns a report the report is of
  the state that was asked for.
\<close>

lemma wait_for_state_bounded:
  assumes "exec (wait_for_state_from h config name expected n seen) t = Some r"
  shows "length (filter is_sleep t) \<le> n
    \<and> (case r of Inl e \<Rightarrow> length (filter is_sleep t) = n | Inr info \<Rightarrow> li_state info = expected)"
  using assms
proof (induction h config name expected n seen arbitrary: t rule: wait_for_state_from.induct)
  case (2 h config name expected n seen)
  let ?rest = "\<lambda>r. case r of
         Inr info \<Rightarrow> if li_state info = expected then ok info
           else then_do (sleep 1000) (\<lambda>_. wait_for_state_from h config name expected n (info_label info))
       | Inl err \<Rightarrow> then_do (sleep 1000) (\<lambda>_. wait_for_state_from h config name expected n err)"
  obtain u v x where t: "t = u @ v" and info: "exec (lxc_info h config name) u = Some x"
    and rest: "exec (?rest x) v = Some r"
    using "2.prems" unfolding wait_for_state_from.simps exec_then_do [of "lxc_info h config name"] by blast
  have u: "filter is_sleep u = []" by (rule probes_no_sleep [OF info probes_lxc_info])
  show ?case
  proof (cases "\<exists>i. x = Inr i \<and> li_state i = expected")
    case True
    then show ?thesis using rest t u by auto
  next
    case False
    then obtain w where "v = ESleep 1000 # w" and "length (filter is_sleep w) \<le> n
        \<and> (case r of Inl e \<Rightarrow> length (filter is_sleep w) = n | Inr info \<Rightarrow> li_state info = expected)"
      using rest "2.IH" by (cases x) (auto simp: exec_node split: if_splits)
    then show ?thesis using u t by (cases r) auto
  qed
qed simp

text \<open>
  C6. Destroying a container deletes one directory, the container's own, which the
  containment check has accepted; and when it succeeds the last thing it did was to find the
  directory absent, or to remove it.
\<close>

theorem destroy_removes_own_directory:
  assumes "exec (destroy_container h config name) t = Some r"
  shows "list_all (removes_only (container_dir config name)) t
    \<and> (if is_ok r then \<exists>u. t = u @ [EAsk (Exists (container_dir config name)) False]
          \<or> t = u @ [EAsk (Exists (container_dir config name)) True,
                    EAct (RemoveDirAll (container_dir config name)) (Inr ())]
       else True)"
proof -
  have "emits (removes_only (container_dir config name)) (destroy_container h config name)"
    by (auto simp: destroy_container_def Let_def
        intro!: emits_intros stop_removes_only probes_removes_only [OF probes_validate_existing]
          probes_removes_only [OF probes_container_status] probes_removes_only [OF probes_find_lxc_binary]
          probes_removes_only [OF probes_run_lxc_capture] split: sum.split)
  from emits_holds [OF this assms]
  have only: "list_all (removes_only (container_dir config name)) t" .
  let ?gone = "\<lambda>v. v = [EAsk (Exists (container_dir config name)) False]
      \<or> v = [EAsk (Exists (container_dir config name)) True,
            EAct (RemoveDirAll (container_dir config name)) (Inr ())]"
  have "finishes () ?gone (destroy_container h config name)"
    unfolding destroy_container_def Let_def
    by (rule finishes_try_do, rule finishes_then_do, rule finishes_then_do, rule finishes_then_do,
        rule finishes_try_do, rule finishes_try_do, rule finishes_now) (auto simp: exec_ok exec_node split: if_splits)
  note gone = finishesD [OF this]
  have "\<exists>u. t = u @ [EAsk (Exists (container_dir config name)) False]
          \<or> t = u @ [EAsk (Exists (container_dir config name)) True,
                    EAct (RemoveDirAll (container_dir config name)) (Inr ())]" if "r = Inr ()"
    using gone [of t] assms that by blast
  with only show ?thesis by (cases r) auto
qed

lemma reach_destroy_container:
  assumes "validate_container_name name = Inr ()" "lc_lxc_containers config \<noteq> []"
    "is_utf8 (lc_lxc_containers config)"
  shows "reach (destroy_container h config name) (Inr ())"
proof -
  obtain status where status: "reach (container_status h config name) status" by (rule exE [OF reach_some])
  obtain stopped where stopped: "reach (case status of
                Inr s \<Rightarrow> if cs_state s = ''RUNNING''
                          then then_do (stop_container h config name True) (\<lambda>_. Ret ()) else Ret ()
              | Inl _ \<Rightarrow> Ret ()) stopped" by (rule exE [OF reach_some])
  obtain tool where tool: "reach (find_lxc_binary h config ''lxc-destroy'') tool" by (rule exE [OF reach_some])
  have "path_str (lc_lxc_containers config) = Inr (lc_lxc_containers config)"
    using assms(3) by (simp add: path_str_def)
  moreover obtain r where "reach (run_lxc_capture h config ''lxc-destroy''
      (lxc_destroy_args (lc_lxc_containers config) name)) r" by (rule exE [OF reach_some])
  moreover have "ensure_child_path (lc_lxc_containers config) (container_dir config name) = Inr ()"
    using assms ensure_child_path_join [OF assms(2) container_name_good [OF assms(1)]]
    by (simp add: container_dir_def)
  ultimately have rest: "reach (try_do (if is_ok tool
             then try_do (Ret (path_str (lc_lxc_containers config))) (\<lambda>containers.
                    then_do (run_lxc_capture h config ''lxc-destroy'' (lxc_destroy_args containers name))
                      (\<lambda>_. ok ()))
             else ok ()) (\<lambda>_.
     let dir = container_dir config name
     in try_do (Ret (ensure_child_path (lc_lxc_containers config) dir)) (\<lambda>_.
        then_do (ask (Exists dir)) (\<lambda>present.
          if present then io_context (''remove '' @ dir) (act (RemoveDirAll dir)) else ok ())))) (Inr ())"
    by (auto simp: reach_rules Let_def)
  show ?thesis
    unfolding destroy_container_def reach_try_do_ok [of "validate_existing_container config name"] reach_then_do
    using reach_validate_existing [OF assms(1,2)] status stopped tool rest by blast
qed

theorem destroy_removes_own_directory_witness:
  "\<exists>t. exec (destroy_container demo_host (sample_config ''10.0.3.0/24'') ''web'') t = Some (Inr ())
     \<and> list_all (removes_only (container_dir (sample_config ''10.0.3.0/24'') ''web'')) t"
proof -
  note reach_destroy_container [OF demo_config, of demo_host]
  then obtain t where t: "exec (destroy_container demo_host (sample_config ''10.0.3.0/24'') ''web'') t = Some (Inr ())"
    unfolding reach_def ..
  note only = destroy_removes_own_directory [OF t, THEN conjunct1]
  show ?thesis by (rule exI, rule conjI, rule t, rule only)
qed

text \<open>
  The listing is ordered by name and holds only names every other operation accepts;
  entries that start with a dot, as the directories of unfinished imports do, are left out.
\<close>

lemma list_containers_sorted:
  assumes "exec (list_containers h config) t = Some (Inr cs)"
  shows "sorted (map cs_name cs)
    \<and> (\<forall>c \<in> set cs. validate_container_name (cs_name c) = Inr () \<and> \<not> starts_with ''.'' (cs_name c))"
proof (cases "cs = []")
  case False
  with assms obtain entries u v names where
    names: "exec (listed_names config entries) u = Some (Inr names)"
    and cs: "exec (collect (sort names) (container_status h config)) v = Some (Inr cs)"
    by (auto simp: list_containers_def exec_ok exec_node split: if_splits)
  from exec_collect_ok [OF cs] have "list_all2 (\<lambda>n s. cs_name s = n) (sort names) cs"
    by (rule list_all2_mono) (auto dest: container_status_name)
  then have "map cs_name cs = sort names"
    by (auto simp: list_all2_conv_all_nth intro: nth_equalityI)
  then have sorted: "sorted (map cs_name cs)" and set: "cs_name ` set cs = set names"
    by (simp, metis list.set_map set_sort)
  have "validate_container_name (cs_name c) = Inr () \<and> \<not> starts_with ''.'' (cs_name c)" if "c \<in> set cs" for c
  proof -
    have "cs_name c \<in> set names" using that set by blast
    then show ?thesis using listed_names_valid [OF names] by blast
  qed
  with sorted show ?thesis by blast
qed simp

text \<open>
  \<open>set-autostart\<close> that succeeds has ended with one write of the container's own
  configuration, whose text reads back as the flag that was asked for; before it the program
  only looked.
\<close>

lemma set_autostart_written:
  assumes "exec (set_container_autostart config name enabled) t = Some (Inr ())"
  shows "\<exists>u text. t = u @ [EAct (WriteFile (container_config config name) text) (Inr ())]
    \<and> lxc_start_auto_value text = enabled \<and> list_all probes u"
proof -
  obtain u v x where "exec (validate_existing_container config name) u = Some (Inr x)"
    "t = u @ EGet (ReadText (container_config config name)) (Inr v)
       # [EAct (WriteFile (container_config config name) (rewrite_lxc_start_auto v enabled)) (Inr ())]"
    using assms by (auto simp: set_container_autostart_def write_file_def exec_ok exec_node Let_def)
  moreover from this(1) have "list_all probes u" by (rule emits_holds [OF probes_validate_existing])
  ultimately show ?thesis
    using autostart.get_put [where v = enabled and t = v] by (intro exI [of _ "u @ [EGet (ReadText (container_config config name)) (Inr v)]"]) auto
qed

text \<open>
  The boot-time start goes through every container that has the flag and no other, and
  the failures it reports are among those that were not already running.
\<close>

lemma autostart_counts:
  assumes "exec (autostart_loop h config cs selected failures) t = Some (selected', failures')"
  shows "selected' = selected + length (filter cs_autostart cs)
    \<and> failures \<le> failures'
    \<and> failures' \<le> failures + length (filter (\<lambda>c. cs_autostart c \<and> cs_state c \<noteq> ''RUNNING'') cs)"
  using assms
proof (induction cs arbitrary: selected failures t)
  case (Cons c cs)
  show ?case
  proof (cases "cs_autostart c \<and> cs_state c \<noteq> ''RUNNING''")
    case True
    then obtain u v r f where "exec (autostart_loop h config cs (selected + 1) f) v = Some (selected', failures')"
      "f = failures \<or> f = failures + 1"
      using Cons.prems by (auto simp: exec_then_do_sum exec_then_do [of "println _"])
    then show ?thesis using Cons.IH [of "selected + 1" f v] True by auto
  next
    case False
    then show ?thesis using Cons.prems by (auto simp: exec_then_do dest: Cons.IH split: if_splits)
  qed
qed simp

text \<open>
  An old line of the shadow file and the new one: in an entry of the user the hash is
  replaced, and the day of change by a day the clock has told in the run; other lines stay.
\<close>

definition shadow_changed :: "string \<Rightarrow> string \<Rightarrow> event list \<Rightarrow> string \<Rightarrow> string \<Rightarrow> bool" where
  "shadow_changed user hash t old new \<longleftrightarrow>
     (if shadow_entry user old
      then \<exists>days. shadow_fields new = shadow_new_fields user hash days old
        \<and> (length (shadow_fields old) > 2 \<longrightarrow> (\<exists>now. EQuery UnixNow now \<in> set t \<and> days = now div 86400))
      else new = old)"

lemma shadow_changed_mono:
  assumes "list_all2 (shadow_changed user hash s) ls news" "set s \<subseteq> set t"
  shows "list_all2 (shadow_changed user hash t) ls news"
  using assms(1)
proof (rule list_all2_mono)
  fix old new assume "shadow_changed user hash s old new"
  with assms(2) show "shadow_changed user hash t old new" unfolding shadow_changed_def by (meson subsetD)
qed

lemma shadow_needs_days_iff:
  assumes "CHR '':'' \<notin> set user" "shadow_entry user line"
  shows "shadow_needs_days user line \<longleftrightarrow> length (shadow_fields line) > 2"
proof -
  from assms obtain rest where line: "line = user @ CHR '':'' # rest" using shadow_entry_iff by auto
  then have "shadow_fields line = user # split_char (CHR '':'') rest"
    using assms(1) by (simp add: shadow_fields_def split_char_append)
  then show ?thesis by (auto simp: shadow_needs_days_def line strip_prefix_def)
qed

definition asks_time :: "event \<Rightarrow> bool" where
  "asks_time e \<longleftrightarrow> (\<exists>n. e = EQuery UnixNow n)"

lemma shadow_loop_lines:
  "holds (\<lambda>t xs. list_all asks_time t \<and> list_all2 (\<lambda>line x. \<exists>days. x = shadow_line user hash days line
      \<and> (shadow_needs_days user line \<longrightarrow> (\<exists>now. EQuery UnixNow now \<in> set t \<and> days = now div 86400))) ls xs)
    (shadow_loop user hash ls)"
proof (induction ls)
  case (Cons line ls)
  show ?case
    by (auto simp: holds_then_do asks_time_def intro!: holds_mono [OF Cons] elim!: list_all2_mono)
qed simp

lemma shadow_lines_changed:
  assumes "validate_linux_user user = Inr ()" "CR \<notin> set text" "\<forall>c \<in> set hash. c \<noteq> CHR '':'' \<and> c \<noteq> LF \<and> c \<noteq> CR"
    and xs: "list_all2 (\<lambda>line x. \<exists>days. x = shadow_line user hash days line
      \<and> (shadow_needs_days user line \<longrightarrow> (\<exists>now. EQuery UnixNow now \<in> set t \<and> days = now div 86400))) (rust_lines text) xs"
  shows "list_all2 (shadow_changed user hash t) (rust_lines text) (rust_lines (concat (map fst xs)))
    \<and> (list_ex snd xs \<longleftrightarrow> list_ex (shadow_entry user) (rust_lines text))"
proof -
  have colon: "CHR '':'' \<notin> set user"
    by (rule user_name.lacks) (simp_all add: assms(1) is_name_byte_def byte_defs)
  have h: "CHR '':'' \<notin> set hash" "LF \<notin> set hash" "CR \<notin> set hash" using assms(3) by auto
  have line: "\<exists>new. fst x = new @ [LF] \<and> shadow_changed user hash t l new \<and> (snd x \<longleftrightarrow> shadow_entry user l)
      \<and> (LF \<notin> set l \<longrightarrow> CR \<notin> set l \<longrightarrow> clean_line new)"
    if "\<exists>days. x = shadow_line user hash days l
      \<and> (shadow_needs_days user l \<longrightarrow> (\<exists>now. EQuery UnixNow now \<in> set t \<and> days = now div 86400))" for l x
  proof -
    from that obtain days where x: "x = (shadow_new_line user hash days l @ [LF], shadow_entry user l)"
      and days: "shadow_needs_days user l \<Longrightarrow> \<exists>now. EQuery UnixNow now \<in> set t \<and> days = now div 86400"
      by (auto simp: shadow_line_new [OF colon])
    have "shadow_changed user hash t l (shadow_new_line user hash days l)"
      using shadow_new_fields_of [OF colon h(1), of l days] days shadow_needs_days_iff [OF colon, of l]
      by (auto simp: shadow_changed_def) (simp add: shadow_new_line_def)
    then show ?thesis using x shadow_new_line_clean [OF colon h(2,3)] by auto
  qed
  have "\<exists>news. concat (map fst xs) = unlines news \<and> list_all2 (shadow_changed user hash t) ls news
      \<and> (list_ex snd xs \<longleftrightarrow> list_ex (shadow_entry user) ls)
      \<and> ((\<forall>l \<in> set ls. LF \<notin> set l \<and> CR \<notin> set l) \<longrightarrow> (\<forall>l \<in> set news. clean_line l))"
    if "list_all2 (\<lambda>line x. \<exists>days. x = shadow_line user hash days line
      \<and> (shadow_needs_days user line \<longrightarrow> (\<exists>now. EQuery UnixNow now \<in> set t \<and> days = now div 86400))) ls xs" for ls
    using that
  proof (induction ls xs rule: list_all2_induct)
    case (Cons l ls x xs)
    from line [OF Cons(1)] Cons(3) show ?case
      by (elim exE conjE) (rule_tac x = "new # news" in exI, auto simp: unlines_def)
  qed (simp add: unlines_def)
  from this [OF xs] obtain news where "concat (map fst xs) = unlines news"
    "list_all2 (shadow_changed user hash t) (rust_lines text) news" "\<forall>l \<in> set news. clean_line l"
    "list_ex snd xs \<longleftrightarrow> list_ex (shadow_entry user) (rust_lines text)"
    using rust_lines_no_LF rust_lines_set assms(2) by fastforce
  then show ?thesis by (simp add: rust_lines_unlines)
qed

text \<open>
  C9. Setting a guest's password changes nothing in \<open>/etc/shadow\<close> but the user's own
  entries: the text that is written, to the temporary file only, has the lines of the text
  that was read in order, every other line is unchanged, and in an entry of the user the hash
  and the day of change are replaced, the day by one the clock has told, while the fields
  after them stay. Without an entry of the user nothing is written and the call fails.
\<close>

theorem shadow_update_only_user:
  assumes "validate_linux_user user = Inr ()" "\<forall>c \<in> set hash. c \<noteq> CHR '':'' \<and> c \<noteq> LF \<and> c \<noteq> CR"
    and "exec (update_shadow_password path user hash) t = Some r"
    and "EGet (ReadText path) (Inr text) \<in> set t" "CR \<notin> set text"
  shows "(\<forall>p new x. EAct (WriteFile p new) x \<in> set t \<longrightarrow> p = with_extension path ''shadow.achost-tmp''
      \<and> list_all2 (shadow_changed user hash t) (rust_lines text) (rust_lines new))
    \<and> (\<not> list_ex (shadow_entry user) (rust_lines text) \<longrightarrow>
        r \<noteq> Inr () \<and> (\<forall>p new x. EAct (WriteFile p new) x \<notin> set t))"
proof -
  let ?temp = "with_extension path ''shadow.achost-tmp''"
  define P where "P t r \<longleftrightarrow> (\<forall>p new x. EAct (WriteFile p new) x \<in> set t \<longrightarrow> p = ?temp
      \<and> list_all2 (shadow_changed user hash t) (rust_lines text) (rust_lines new))
    \<and> (\<not> list_ex (shadow_entry user) (rust_lines text) \<longrightarrow>
        r \<noteq> Inr () \<and> (\<forall>p new x. EAct (WriteFile p new) x \<notin> set t))" for t and r :: "unit result"
  let ?lines = "\<lambda>s. list_all2 (\<lambda>line x. \<exists>days. x = shadow_line user hash days line
      \<and> (shadow_needs_days user line \<longrightarrow> (\<exists>now. EQuery UnixNow now \<in> set s \<and> days = now div 86400)))"
  have only_time: "EGet g y \<notin> set s" if "list_all asks_time s" for g y s
    using that by (auto simp: list_all_iff asks_time_def)
  have no_write: "P t (Inl e)" if "\<forall>p new x. EAct (WriteFile p new) x \<notin> set t" for t e
    using that by (simp add: P_def)
  have writes: "P (a # b # s @ EAct (WriteFile ?temp (concat (map fst xs))) y # rest) r"
    if s: "list_all asks_time s" "?lines s (rust_lines text) xs" "list_ex snd xs"
      and a: "\<forall>p new x. a \<noteq> EAct (WriteFile p new) x" "\<forall>p new x. b \<noteq> EAct (WriteFile p new) x"
        "\<forall>p new x. EAct (WriteFile p new) x \<notin> set rest" for a b s xs y rest r
  proof -
    have "EAct (WriteFile p new) x \<notin> set s" for p new x using s(1) by (auto simp: list_all_iff asks_time_def)
    moreover note shadow_lines_changed [OF assms(1,5,2) s(2)]
    ultimately show ?thesis
      using s(3) a by (auto simp: P_def elim!: shadow_changed_mono)
  qed
  have "holds (\<lambda>t r. EGet (ReadText path) (Inr text) \<in> set t \<longrightarrow> P t r) (update_shadow_password path user hash)"
    unfolding update_shadow_password_def write_file_def Let_def holds_try_do holds_io_context holds_then_do
    by (simp split: sum.split, auto intro!: holds_mono [OF shadow_loop_lines]
          simp: holds_try_do holds_io_context only_time split: sum.split)
      ((rule writes; (assumption | simp)) | (rule no_write, force simp: list_all_iff asks_time_def))+
  with assms(3,4) show ?thesis by (simp add: holds_exec P_def)
qed

theorem shadow_update_only_user_witness:
  "\<exists>t new. exec (update_shadow_password ''/s'' ''root'' ''h'') t = Some (Inr ())
     \<and> EAct (WriteFile ''/s.shadow.achost-tmp'' new) (Inr ()) \<in> set t
     \<and> list_all2 (shadow_changed ''root'' ''h'' t) [''root:!:19000:0:::'', ''sys:*:1::''] (rust_lines new)"
proof -
  define before where "before = unlines [''root:!:19000:0:::'', ''sys:*:1::'']"
  define after where "after = ''root:h:1:0:::'' @ [LF] @ ''sys:*:1::'' @ [LF]"
  let ?temp = "''/s.shadow.achost-tmp''"
  let ?t = "[EAct (StatFile ''/s'') (Inr ()), EGet (ReadText ''/s'') (Inr before), EQuery UnixNow 86400,
     EAct (WriteFile ?temp after) (Inr ()), EAct (CopyPermissions ''/s'' ?temp) (Inr ()),
     EAct (ChownLike ''/s'' ?temp) (Inr ()), EAct (RenameFile ?temp ''/s'') (Inr ())]"
  have texts: "rust_lines before = [''root:!:19000:0:::'', ''sys:*:1::'']" "with_extension ''/s'' ''shadow.achost-tmp'' = ?temp"
    "validate_linux_user ''root'' = Inr ()" "CR \<notin> set before" "\<forall>c \<in> set ''h''. c \<noteq> CHR '':'' \<and> c \<noteq> LF \<and> c \<noteq> CR"
    unfolding before_def by code_simp+
  have lines: "shadow_needs_days ''root'' ''root:!:19000:0:::''" "\<not> shadow_needs_days ''root'' ''sys:*:1::''"
    "shadow_line ''root'' ''h'' 1 ''root:!:19000:0:::'' = (''root:h:1:0:::'' @ [LF], True)"
    "shadow_line ''root'' ''h'' 0 ''sys:*:1::'' = (''sys:*:1::'' @ [LF], False)"
    by code_simp+
  have run: "exec (update_shadow_password ''/s'' ''root'' ''h'') ?t = Some (Inr ())"
    using lines by (simp add: update_shadow_password_def texts io_context_def map_err_def try_do_def write_file_def Let_def
        exec.simps after_def)
  from shadow_update_only_user [OF texts(3,5) run _ texts(4)] texts(1,2) run show ?thesis by fastforce
qed

text \<open>
  C10. A password change never leaves a half-written \<open>/etc/shadow\<close>: the new text goes to a
  temporary file beside it, which gets the mode and the owner of the old one and is renamed
  over it as the last call; a change that fails has not renamed.
\<close>

theorem set_password_replaces_shadow:
  assumes "exec (set_container_password h config name user password) t = Some r"
  shows "let path = path_join (container_rootfs config name) ''etc/shadow'';
           temp = with_extension path ''shadow.achost-tmp''
    in list_all (shadow_step temp path) t
      \<and> (case r of Inl _ \<Rightarrow> EAct (RenameFile temp path) (Inr ()) \<notin> set t
          | Inr _ \<Rightarrow> \<exists>u. t = u @ [EAct (RenameFile temp path) (Inr ())])"
proof -
  have "holds (\<lambda>t r. let path = path_join (container_rootfs config name) ''etc/shadow'';
           temp = with_extension path ''shadow.achost-tmp''
    in list_all (shadow_step temp path) t
      \<and> (case r of Inl _ \<Rightarrow> EAct (RenameFile temp path) (Inr ()) \<notin> set t
          | Inr _ \<Rightarrow> \<exists>u. t = u @ [EAct (RenameFile temp path) (Inr ())]))
    (set_container_password h config name user password)"
    unfolding set_container_password_def validate_existing_container_def generate_shadow_salt_def Let_def
    by (auto simp: holds_try_do holds_then_do holds_io_context intro!: holds_mono [OF holds_update_shadow]
        split: sum.split)
  then show ?thesis using assms by (simp add: holds_exec)
qed

lemma with_extension_shadow:
  "with_extension (path_join (container_rootfs (sample_config ''10.0.3.0/24'') ''web'') ''etc/shadow'') ''shadow.achost-tmp''
     = container_rootfs (sample_config ''10.0.3.0/24'') ''web'' @ ''/etc/shadow.shadow.achost-tmp''"
  by code_simp

theorem set_password_replaces_shadow_witness:
  "\<exists>t u. exec (set_container_password demo_host (sample_config ''10.0.3.0/24'') ''web'' ''root'' ''secret'') t
      = Some (Inr ())
    \<and> t = u @ [EAct (RenameFile
        (container_rootfs (sample_config ''10.0.3.0/24'') ''web'' @ ''/etc/shadow.shadow.achost-tmp'')
        (path_join (container_rootfs (sample_config ''10.0.3.0/24'') ''web'') ''etc/shadow'')) (Inr ())]"
proof -
  let ?c = "sample_config ''10.0.3.0/24''"
  let ?path = "path_join (container_rootfs ?c ''web'') ''etc/shadow''"
  have ok: "validate_linux_user ''root'' = Inr ()" "validate_password ''secret'' = Inr ()"
    "ensure_child_path (container_rootfs ?c ''web'') ?path = Inr ()" by code_simp+
  have lines: "rust_lines ''root:x'' = [''root:x'']" "shadow_needs_days ''root'' ''root:x'' = False" by code_simp+
  have entry: "snd (shadow_line ''root'' hash 0 ''root:x'')" for hash
    by (simp add: shadow_line_def strip_prefix_def starts_with_def)
  have upd: "reach (update_shadow_password ?path ''root'' hash) (Inr ())" for hash
    unfolding update_shadow_password_def
    by (simp add: reach_rules write_file_def Let_def, rule exI [of _ "''root:x''"]) (auto simp: lines entry reach_rules intro!: exI [of _ "[shadow_line ''root'' hash 0 ''root:x'']"])
  have salt: "reach generate_shadow_salt (Inr [])"
    by (auto simp: generate_shadow_salt_def reach_rules salt_chars_def)
  have "reach (set_container_password demo_host ?c ''web'' ''root'' ''secret'') (Inr ())"
    unfolding set_container_password_def Let_def reach_try_do_ok [of "validate_existing_container _ _"]
    using reach_validate_existing [OF demo_config(1,2)] salt upd
    by (simp add: ok reach_try_do_ok [of generate_shadow_salt]) blast
  then obtain t where t: "exec (set_container_password demo_host ?c ''web'' ''root'' ''secret'') t = Some (Inr ())"
    unfolding reach_def ..
  from set_password_replaces_shadow [OF t] obtain u
    where "t = u @ [EAct (RenameFile (with_extension ?path ''shadow.achost-tmp'') ?path) (Inr ())]"
    by (auto simp: Let_def)
  with t show ?thesis unfolding with_extension_shadow by blast
qed

end
