(* ===== verification/LxcImport.thy ===== *)
theory LxcImport
  imports LxcContainer
begin

text \<open>
  Importing a root file system (\<open>achost-lxc-runtime import-rootfs\<close>): the arguments, the
  archive extraction that must stay inside the new root file system whatever the archive
  holds, and the installation by one rename. The archive reader is a library: its answer is
  the list of members it yields, in order, each a failure or a member with its kind, its
  path and its link name; unpacking a member's data at a path is one call of it. For the
  extraction there is also a file system as far as it matters here: the set of paths that
  are symbolic links, which calls add to and tests read.
\<close>

section \<open>Arguments\<close>

record import_args =
  ia_name :: string
  ia_asset :: string
  ia_sha256 :: "string option"
  ia_distro :: string
  ia_release :: string
  ia_arch :: string

record import_flags =
  if_name :: "string option"
  if_asset :: "string option"
  if_sha256 :: "string option"
  if_distro :: string
  if_release :: string
  if_arch :: string

fun import_flag_loop :: "import_flags \<Rightarrow> string list \<Rightarrow> import_flags result" where
  "import_flag_loop st [] = Inr st"
| "import_flag_loop st [flag] = Inl (''missing value for '' @ flag)"
| "import_flag_loop st (flag # value # args) =
     (if flag = ''--name'' then import_flag_loop (st\<lparr>if_name := Some value\<rparr>) args
      else if flag = ''--rootfs-asset'' then import_flag_loop (st\<lparr>if_asset := Some value\<rparr>) args
      else if flag = ''--sha256''
      then and_then (normalize_sha256 value) (\<lambda>v. import_flag_loop (st\<lparr>if_sha256 := Some v\<rparr>) args)
      else if flag = ''--distro'' then import_flag_loop (st\<lparr>if_distro := value\<rparr>) args
      else if flag = ''--release'' then import_flag_loop (st\<lparr>if_release := value\<rparr>) args
      else if flag = ''--arch'' then import_flag_loop (st\<lparr>if_arch := value\<rparr>) args
      else Inl (''unsupported import-rootfs argument: '' @ flag))"

definition parse_import_args :: "string list \<Rightarrow> import_args result prog" where
  "parse_import_args args =
     try_do (Ret (import_flag_loop \<lparr>if_name = None, if_asset = None, if_sha256 = None,
         if_distro = ''unknown'', if_release = ''unknown'', if_arch = ''unknown''\<rparr> args)) (\<lambda>st.
     try_do (Ret (ok_or ''--name is required'' (if_name st))) (\<lambda>name.
     try_do (Ret (validate_container_name name)) (\<lambda>_.
     try_do (Ret (validate_label (if_distro st))) (\<lambda>_.
     try_do (Ret (validate_label (if_release st))) (\<lambda>_.
     try_do (Ret (validate_label (if_arch st))) (\<lambda>_.
     try_do (Ret (ok_or ''--rootfs-asset is required'' (if_asset st))) (\<lambda>rootfs_asset.
     then_do (ask (IsFile rootfs_asset)) (\<lambda>is_file.
       if \<not> is_file then fail (''rootfs asset not found: '' @ rootfs_asset)
       else ok \<lparr>ia_name = name, ia_asset = rootfs_asset, ia_sha256 = if_sha256 st,
              ia_distro = if_distro st, ia_release = if_release st, ia_arch = if_arch st\<rparr>))))))))"

section \<open>Extraction\<close>

definition is_gzip_asset :: "string \<Rightarrow> bool" where
  "is_gzip_asset path \<longleftrightarrow>
     (case extension path of Some ext \<Rightarrow> ext \<in> {''gz'', ''tgz''} | None \<Rightarrow> False)
     \<or> (case file_name path of
          Some name \<Rightarrow> ends_with ''.tar.gz'' name \<or> ends_with ''.tgz'' name | None \<Rightarrow> False)"

text \<open>
  A path below the root file system (the root itself gets a slash), and its parent directory;
  its ancestors are walked one name at a time.
\<close>

definition below :: "string \<Rightarrow> string list \<Rightarrow> string" where
  "below rootfs names = path_join rootfs (names_path names)"

definition parent_below :: "string \<Rightarrow> string list \<Rightarrow> string" where
  "parent_below rootfs names = (if butlast names = [] then rootfs else below rootfs (butlast names))"

fun symlink_walk :: "string \<Rightarrow> string list \<Rightarrow> bool prog" where
  "symlink_walk current [] = Ret False"
| "symlink_walk current (name # names) =
     then_do (ask (IsSymlink (path_join current name))) (\<lambda>link.
       if link then Ret True else symlink_walk (path_join current name) names)"

definition has_symlink_ancestor :: "string \<Rightarrow> string list \<Rightarrow> bool prog" where
  "has_symlink_ancestor rootfs relative = symlink_walk rootfs (butlast relative)"

text \<open>
  One iteration of the loop of \<open>extract_tar_stream\<close>; the result is the number of files it
  counts. \<open>i\<close> is the member's number in the archive. \<open>extract_member\<close> is the part after the
  tests of the member's own path.
\<close>

definition extract_member :: "string \<Rightarrow> nat \<Rightarrow> tar_entry \<Rightarrow> string list \<Rightarrow> nat result prog" where
  "extract_member rootfs i entry relative =
     (let target = below rootfs relative;
          parent = parent_below rootfs relative;
          shown = names_path relative
      in case te_kind entry of
           OtherEntry \<Rightarrow> fail (''unsupported rootfs entry type at '' @ shown)
         | SymlinkEntry \<Rightarrow>
             try_do (io_context ''read symlink target'' (Ret (te_link entry))) (\<lambda>found.
             try_do (Ret (ok_or (''symlink without target: '' @ shown) found)) (\<lambda>link.
             if normalize_link_target (names_path (butlast relative)) link = None
             then fail (''unsafe symlink target: '' @ shown @ '' -> '' @ link)
             else
               try_do (create_dir_all parent) (\<lambda>_.
               try_do (io_context (''symlink '' @ shown) (act (MakeSymlink link target))) (\<lambda>_. ok 1))))
         | HardLinkEntry \<Rightarrow>
             try_do (io_context ''read hardlink target'' (Ret (te_link entry))) (\<lambda>found.
             try_do (Ret (ok_or (''hardlink without target: '' @ shown) found)) (\<lambda>link.
             case normalize_link_target [] link of
               None \<Rightarrow> fail (''unsafe hardlink target: '' @ shown @ '' -> '' @ link)
             | Some link_relative \<Rightarrow>
                 then_do (has_symlink_ancestor rootfs link_relative) (\<lambda>crosses.
                 if crosses then fail (''hardlink target crosses symlink: '' @ link)
                 else
                   try_do (create_dir_all parent) (\<lambda>_.
                   try_do (io_context (''hardlink '' @ shown @ '' -> '' @ names_path link_relative)
                             (act (MakeHardLink (below rootfs link_relative) target)))
                     (\<lambda>_. ok 1)))))
         | _ \<Rightarrow>
             try_do (create_dir_all parent) (\<lambda>_.
             try_do (io_context (''unpack '' @ shown) (act (UnpackEntry i target))) (\<lambda>_. ok 1)))"

definition extract_entry :: "string \<Rightarrow> nat \<Rightarrow> tar_entry io \<Rightarrow> nat result prog" where
  "extract_entry rootfs i entry =
     try_do (io_context ''read tar entry'' (Ret entry)) (\<lambda>entry.
     try_do (io_context ''read tar path'' (Ret (te_path entry))) (\<lambda>entry_path.
     case safe_relative_path entry_path of
       None \<Rightarrow> fail (''unsafe rootfs path: '' @ entry_path)
     | Some relative \<Rightarrow>
         if relative = [] then ok 0
         else
           then_do (has_symlink_ancestor rootfs relative) (\<lambda>escapes.
           then_do (if escapes then Ret True else ask (IsSymlink (below rootfs relative))) (\<lambda>refused.
           if refused then fail (''refusing symlink escape path: '' @ names_path relative)
           else extract_member rootfs i entry relative))))"

primrec extract_entries :: "string \<Rightarrow> nat \<Rightarrow> tar_entry io list \<Rightarrow> nat \<Rightarrow> nat result prog" where
  "extract_entries rootfs i [] count = ok count"
| "extract_entries rootfs i (e # es) count =
     try_do (extract_entry rootfs i e) (\<lambda>n. extract_entries rootfs (i + 1) es (count + n))"

definition extract_tar_stream :: "string \<Rightarrow> bool \<Rightarrow> string \<Rightarrow> nat result prog" where
  "extract_tar_stream asset gzip rootfs =
     try_do (io_context ''read tar entries'' (Tar asset gzip Ret)) (\<lambda>entries.
       extract_entries rootfs 0 entries 0)"

definition extract_rootfs_asset :: "string \<Rightarrow> string \<Rightarrow> nat result prog" where
  "extract_rootfs_asset asset rootfs =
     try_do (io_context (''open '' @ asset) (act (OpenForRead asset))) (\<lambda>_.
       extract_tar_stream asset (is_gzip_asset asset) rootfs)"

section \<open>Installation\<close>

definition sha256_file :: "string \<Rightarrow> string result prog" where
  "sha256_file path =
     try_do (io_context (''open '' @ path) (act (OpenForRead path))) (\<lambda>_.
       io_context (''read '' @ path) (get (Sha256Of path)))"

text \<open>The closure of \<open>import_rootfs\<close>: fill the temporary directory and rename it.\<close>

definition import_into :: "host \<Rightarrow> lxc_config \<Rightarrow> import_args \<Rightarrow> string \<Rightarrow> string \<Rightarrow> container_meta result prog" where
  "import_into h config args sha temp_dir =
     (let rootfs = path_join temp_dir ''rootfs'';
          target = container_dir config (ia_name args)
      in try_do (extract_rootfs_asset (ia_asset args) rootfs) (\<lambda>_.
         then_do (default_init_cmd rootfs) (\<lambda>init_cmd.
         then_do (query UnixNow) (\<lambda>now.
         let metadata = \<lparr>md_name = ia_name args, md_distro = ia_distro args, md_release = ia_release args,
               md_arch = ia_arch args, md_rootfs = container_rootfs config (ia_name args),
               md_rootfs_sha256 = Some sha, md_init_cmd = init_cmd, md_created_at_unix = now\<rparr>
         in try_do (ensure_guest_network_config rootfs (container_network_settings config (ia_name args))) (\<lambda>_.
            try_do (io_context ''write container config''
                      (act (WriteFile (path_join temp_dir ''config'') (container_config_text config metadata)))) (\<lambda>_.
            try_do (map_err (\<lambda>error. ''encode metadata: '' @ error) (Ret (h_meta_text h metadata))) (\<lambda>metadata_text.
            try_do (io_context ''write metadata''
                      (act (WriteFile (path_join temp_dir METADATA_FILE) (metadata_text @ [LF])))) (\<lambda>_.
            try_do (io_context (''install container '' @ temp_dir @ '' -> '' @ target)
                      (act (RenameFile temp_dir target))) (\<lambda>_. ok metadata)))))))))"

definition import_temp_dir :: "lxc_config \<Rightarrow> string \<Rightarrow> nat \<Rightarrow> string" where
  "import_temp_dir config name pid = path_join (lc_lxc_containers config) (''.'' @ name @ ''.tmp.'' @ show_nat pid)"

definition import_rootfs :: "host \<Rightarrow> lxc_config \<Rightarrow> import_args \<Rightarrow> container_meta result prog" where
  "import_rootfs h config args =
     try_do (ensure_runtime_dirs config) (\<lambda>_.
     try_do (sha256_file (ia_asset args)) (\<lambda>sha.
     try_do (case ia_sha256 args of
               None \<Rightarrow> ok ()
             | Some expected \<Rightarrow>
                 if expected \<noteq> sha
                 then fail (''rootfs sha256 mismatch: expected '' @ expected @ '' actual '' @ sha)
                 else ok ()) (\<lambda>_.
     then_do (ask (Exists (container_dir config (ia_name args)))) (\<lambda>present.
     if present then fail (''container already exists: '' @ ia_name args)
     else
       then_do (query ProcessId) (\<lambda>pid.
       let temp_dir = import_temp_dir config (ia_name args) pid
       in then_do (ask (Exists temp_dir)) (\<lambda>stale.
          try_do (if stale then io_context (''remove stale '' @ temp_dir) (act (RemoveDirAll temp_dir))
                  else ok ()) (\<lambda>_.
          try_do (create_dir_all temp_dir) (\<lambda>_.
          try_do (create_dir_all (path_join temp_dir ''rootfs'')) (\<lambda>_.
          then_do (import_into h config args sha temp_dir) (\<lambda>r.
            case r of
              Inr m \<Rightarrow> Ret (Inr m)
            | Inl err \<Rightarrow> Act (RemoveDirAll temp_dir) (\<lambda>_. fail err)))))))))))"

section \<open>Containment\<close>

definition inside :: "string \<Rightarrow> string \<Rightarrow> bool" where
  "inside dir path \<longleftrightarrow> take (length (components dir)) (components path) = components dir
     \<and> list_all (\<lambda>c. case c of Normal n \<Rightarrow> True | _ \<Rightarrow> False) (drop (length (components dir)) (components path))"

lemma all_Normal: "list_all (\<lambda>c. case c of Normal n \<Rightarrow> True | _ \<Rightarrow> False) cs \<longleftrightarrow> (\<exists>ns. cs = map Normal ns)"
proof (induction cs)
  case (Cons c cs)
  then show ?case by (cases c) (auto simp: Cons_eq_map_conv)
qed simp

lemma inside_iff: "inside dir path \<longleftrightarrow> (\<exists>ns. components path = components dir @ map Normal ns)"
proof
  assume "inside dir path"
  then obtain ns where "take (length (components dir)) (components path) = components dir"
    "drop (length (components dir)) (components path) = map Normal ns"
    by (auto simp: inside_def all_Normal)
  then show "\<exists>ns. components path = components dir @ map Normal ns"
    by (metis append_take_drop_id)
qed (auto simp: inside_def all_Normal)

lemma inside_refl [simp]: "inside dir dir"
  by (auto simp: inside_iff intro: exI [of _ "[]"])

lemma inside_trans: "inside a b \<Longrightarrow> inside b c \<Longrightarrow> inside a c"
  by (auto simp: inside_iff) (metis map_append)

lemma inside_join:
  assumes "p \<noteq> []" "\<not> is_absolute q" "components q = map Normal ns"
  shows "inside p (path_join p q)"
  using assms by (auto simp: inside_iff components_join drop_cur_names)

lemma inside_literals:
  assumes "p \<noteq> []"
  shows "inside p (path_join p ''etc'')" "inside p (path_join p ''etc/resolv.conf'')"
    "inside p (path_join p ''etc/netplan'')" "inside p (path_join p ''10-lxc.yaml'')"
    "inside p (path_join p ''10-achost-lxc.yaml'')" "inside p (path_join p ''etc/systemd/network'')"
    "inside p (path_join p ''10-achost-lxc.network'')" "inside p (path_join p ''rootfs'')"
    "inside p (path_join p ''config'')" "inside p (path_join p METADATA_FILE)"
proof -
  have lit: "components ''etc'' = map Normal [''etc'']"
    "components ''etc/resolv.conf'' = map Normal [''etc'', ''resolv.conf'']"
    "components ''etc/netplan'' = map Normal [''etc'', ''netplan'']"
    "components ''10-lxc.yaml'' = map Normal [''10-lxc.yaml'']"
    "components ''10-achost-lxc.yaml'' = map Normal [''10-achost-lxc.yaml'']"
    "components ''etc/systemd/network'' = map Normal [''etc'', ''systemd'', ''network'']"
    "components ''10-achost-lxc.network'' = map Normal [''10-achost-lxc.network'']"
    "components ''rootfs'' = map Normal [''rootfs'']"
    "components ''config'' = map Normal [''config'']"
    "components METADATA_FILE = map Normal [METADATA_FILE]"
    by code_simp+
  note j = inside_join [OF assms]
  show "inside p (path_join p ''etc'')" by (rule j [OF _ lit(1)]) (simp add: is_absolute_def)
  show "inside p (path_join p ''etc/resolv.conf'')" by (rule j [OF _ lit(2)]) (simp add: is_absolute_def)
  show "inside p (path_join p ''etc/netplan'')" by (rule j [OF _ lit(3)]) (simp add: is_absolute_def)
  show "inside p (path_join p ''10-lxc.yaml'')" by (rule j [OF _ lit(4)]) (simp add: is_absolute_def)
  show "inside p (path_join p ''10-achost-lxc.yaml'')" by (rule j [OF _ lit(5)]) (simp add: is_absolute_def)
  show "inside p (path_join p ''etc/systemd/network'')" by (rule j [OF _ lit(6)]) (simp add: is_absolute_def)
  show "inside p (path_join p ''10-achost-lxc.network'')" by (rule j [OF _ lit(7)]) (simp add: is_absolute_def)
  show "inside p (path_join p ''rootfs'')" by (rule j [OF _ lit(8)]) (simp add: is_absolute_def)
  show "inside p (path_join p ''config'')" by (rule j [OF _ lit(9)]) (simp add: is_absolute_def)
  show "inside p (path_join p METADATA_FILE)"
    by (rule j [OF _ lit(10)]) (simp add: is_absolute_def METADATA_FILE_def)
qed

lemma names_path_relative: "\<forall>n \<in> set ns. good_name n \<Longrightarrow> \<not> is_absolute (names_path ns)"
  using good_name_relative is_absolute_append
  by (cases ns) (auto simp: names_path_def str_join_Cons good_name_def)

lemma below_components:
  assumes "rootfs \<noteq> []" "\<forall>n \<in> set ns. good_name n"
  shows "components (below rootfs ns) = components rootfs @ map Normal ns"
  using assms names_path_relative [OF assms(2)] names_path_components [OF assms(2)]
  by (simp add: below_def components_join drop_cur_names)

lemma good_butlast: "\<forall>n \<in> set ns. good_name n \<Longrightarrow> \<forall>n \<in> set (butlast ns). good_name n" for ns :: "string list"
  by (auto dest: in_set_butlastD)

lemma parent_below_components:
  assumes "rootfs \<noteq> []" "\<forall>n \<in> set ns. good_name n"
  shows "components (parent_below rootfs ns) = components rootfs @ map Normal (butlast ns)"
  using below_components [OF assms(1) good_butlast [OF assms(2)]] by (simp add: parent_below_def)

lemma inside_parent_below:
  "rootfs \<noteq> [] \<Longrightarrow> \<forall>n \<in> set ns. good_name n \<Longrightarrow> inside rootfs (parent_below rootfs ns)"
  using parent_below_components unfolding inside_iff by blast

lemma inside_below: "rootfs \<noteq> [] \<Longrightarrow> \<forall>n \<in> set ns. good_name n \<Longrightarrow> inside rootfs (below rootfs ns)"
  using below_components by (auto simp: inside_iff)

text \<open>What the extraction may do to the file system.\<close>

definition extract_step :: "string \<Rightarrow> event \<Rightarrow> bool" where
  "extract_step rootfs e =
     (case e of
        EAct (CreateDirAll p) _ \<Rightarrow> inside rootfs p
      | EAct (UnpackEntry i p) _ \<Rightarrow> inside rootfs p
      | EAct (MakeSymlink link p) _ \<Rightarrow> inside rootfs p
      | EAct (MakeHardLink old new) _ \<Rightarrow> inside rootfs old \<and> inside rootfs new
      | EAct _ _ \<Rightarrow> False
      | _ \<Rightarrow> True)"

lemma extract_step_simps [simp]:
  "extract_step rootfs (EAct (CreateDirAll p) r) \<longleftrightarrow> inside rootfs p"
  "extract_step rootfs (EAct (UnpackEntry i p) r) \<longleftrightarrow> inside rootfs p"
  "extract_step rootfs (EAct (MakeSymlink link p) r) \<longleftrightarrow> inside rootfs p"
  "extract_step rootfs (EAct (MakeHardLink old new) r) \<longleftrightarrow> inside rootfs old \<and> inside rootfs new"
  "extract_step rootfs (EAsk a b)" "extract_step rootfs (ETar d z es)"
  by (simp_all add: extract_step_def)

lemma symlink_walk_step: "emits (extract_step rootfs) (symlink_walk current names)"
  by (induction current names rule: symlink_walk.induct) (auto intro!: emits_intros)

lemma normalize_link_target_names: "normalize_link_target [] link = Some ns \<Longrightarrow> \<forall>n \<in> set ns. good_name n"
proof -
  assume some: "normalize_link_target [] link = Some ns"
  have "\<forall>n \<in> set ns. Normal n \<in> set (components link)"
  proof (cases "is_absolute link")
    case True
    then obtain cs where cs: "path_strip_prefix link ''/'' = Some cs" "normalize_comps [] cs = Some ns"
      using some by (auto simp: normalize_link_target_def split: option.splits)
    then have "set cs \<subseteq> set (components link)"
      by (auto simp: path_strip_prefix_def split: if_splits dest: in_set_dropD)
    then show ?thesis using normalize_comps_names [OF cs(2)] by auto
  next
    case False
    then have "path_join [] link = link" by (simp add: path_join_def)
    then show ?thesis using some False normalize_comps_names [of "[]" "components link" ns]
      by (auto simp: normalize_link_target_def)
  qed
  then show ?thesis using components_Normal_good by blast
qed

lemma extract_entry_step:
  assumes "rootfs \<noteq> []"
  shows "emits (extract_step rootfs) (extract_entry rootfs i entry)"
  using assms safe_relative_path_names normalize_link_target_names
  by (auto simp: extract_entry_def extract_member_def create_dir_all_def has_symlink_ancestor_def symlink_walk_step Let_def
      intro!: emits_intros inside_below inside_parent_below split: option.splits entry_kind.splits)

lemma extract_entries_step:
  "rootfs \<noteq> [] \<Longrightarrow> emits (extract_step rootfs) (extract_entries rootfs i es n)"
  by (induction es arbitrary: i n) (auto intro!: emits_intros extract_entry_step)

definition checked :: "string \<Rightarrow> string list \<Rightarrow> event list \<Rightarrow> bool" where
  "checked dir names t \<longleftrightarrow>
     (\<forall>k < length names. \<exists>q. components q = components dir @ map Normal (take (Suc k) names)
        \<and> EAsk (IsSymlink q) False \<in> set t)"

lemma checked_mono: "checked dir names t \<Longrightarrow> set t \<subseteq> set u \<Longrightarrow> checked dir names u"
  unfolding checked_def by blast

lemma checked_Cons:
  assumes "current \<noteq> []" "good_name n" "checked (path_join current n) names t"
  shows "checked current (n # names) (EAsk (IsSymlink (path_join current n)) False # t)"
  unfolding checked_def
proof (intro allI impI)
  fix k assume k: "k < length (n # names)"
  have c: "components (path_join current n) = components current @ [Normal n]"
    using assms by (simp add: components_join_name)
  show "\<exists>q. components q = components current @ map Normal (take (Suc k) (n # names))
      \<and> EAsk (IsSymlink q) False \<in> set (EAsk (IsSymlink (path_join current n)) False # t)"
  proof (cases k)
    case 0
    then show ?thesis using c by (intro exI [of _ "path_join current n"]) simp
  next
    case (Suc j)
    then obtain q where "components q = components (path_join current n) @ map Normal (take (Suc j) names)"
      "EAsk (IsSymlink q) False \<in> set t"
      using assms(3) k by (auto simp: checked_def)
    then show ?thesis using c Suc by (intro exI [of _ q]) simp
  qed
qed

lemma checked_snoc:
  assumes "checked dir (butlast names) t" "names \<noteq> []"
    "components q = components dir @ map Normal names" "EAsk (IsSymlink q) False \<in> set t"
  shows "checked dir names t"
  unfolding checked_def
proof (intro allI impI)
  fix k assume k: "k < length names"
  show "\<exists>q. components q = components dir @ map Normal (take (Suc k) names) \<and> EAsk (IsSymlink q) False \<in> set t"
  proof (cases "Suc k = length names")
    case True
    then show ?thesis using assms by auto
  next
    case False
    then have "k < length (butlast names)" "take (Suc k) (butlast names) = take (Suc k) names"
      using k by (simp_all add: take_butlast)
    then show ?thesis using assms(1) by (metis checked_def)
  qed
qed

lemma symlink_walk_checks:
  assumes "current \<noteq> []" "\<forall>n \<in> set names. good_name n"
  shows "holds (\<lambda>t b. list_all probes t \<and> (b \<or> checked current names t)) (symlink_walk current names)"
  using assms
proof (induction current names rule: symlink_walk.induct)
  case (2 current name names)
  have ne: "path_join current name \<noteq> []" using "2.prems" by (simp add: path_join_nonempty)
  have "holds (\<lambda>t b. list_all probes t \<and> (b \<or> checked (path_join current name) names t))
      (symlink_walk (path_join current name) names)"
    by (rule "2.IH") (use "2.prems" ne in auto)
  then have "holds (\<lambda>t b. list_all probes (EAsk (IsSymlink (path_join current name)) False # t)
      \<and> (b \<or> checked current (name # names) (EAsk (IsSymlink (path_join current name)) False # t)))
      (symlink_walk (path_join current name) names)"
    by (rule holds_mono) (use "2.prems" in \<open>auto intro: checked_Cons\<close>)
  then show ?case by (simp add: all_bool_eq)
qed (simp add: checked_def)

text \<open>
  The calls of one member: tests only, or, after the tests of its own path and, for a hard
  link, of the path of its source, the creation of its parent directory and then one call that
  makes the member.
\<close>

inductive member_call :: "string \<Rightarrow> nat \<Rightarrow> string list \<Rightarrow> event list \<Rightarrow> act \<Rightarrow> bool" for rootfs i names s where
  unpacked: "member_call rootfs i names s (UnpackEntry i (below rootfs names))"
| symlinked: "normalize_link_target (names_path (butlast names)) link \<noteq> None
    \<Longrightarrow> member_call rootfs i names s (MakeSymlink link (below rootfs names))"
| linked: "normalize_link_target [] link = Some ns \<Longrightarrow> checked rootfs (butlast ns) s
    \<Longrightarrow> member_call rootfs i names s (MakeHardLink (below rootfs ns) (below rootfs names))"

inductive entry_calls :: "string \<Rightarrow> nat \<Rightarrow> tar_entry io \<Rightarrow> event list \<Rightarrow> bool" for rootfs i entry where
  tests: "list_all probes t \<Longrightarrow> entry_calls rootfs i entry t"
| changes: "entry = Inr m \<Longrightarrow> te_path m = Inr p \<Longrightarrow> safe_relative_path p = Some names \<Longrightarrow> names \<noteq> []
    \<Longrightarrow> list_all probes s \<Longrightarrow> checked rootfs names s
    \<Longrightarrow> rest = [] \<or> (\<exists>c x. rest = [EAct c x] \<and> member_call rootfs i names s c)
    \<Longrightarrow> entry_calls rootfs i entry (s @ EAct (CreateDirAll (parent_below rootfs names)) d # rest)"

text \<open>What follows the tests of the member's own path, in the three cases.\<close>

lemma holds_member_tail:
  assumes "entry = Inr m" "te_path m = Inr p" "safe_relative_path p = Some names" "names \<noteq> []"
    and "list_all probes s" "checked rootfs names s" "member_call rootfs i names s c"
  shows "holds (\<lambda>t r. entry_calls rootfs i entry (s @ t))
    (try_do (create_dir_all (parent_below rootfs names)) (\<lambda>_. try_do (io_context w (act c)) (\<lambda>_. ok n)))"
proof -
  have "entry_calls rootfs i entry (s @ EAct (CreateDirAll (parent_below rootfs names)) d # rest)"
    if "rest = [] \<or> (\<exists>x. rest = [EAct c x])" for d rest
    by (rule entry_calls.changes [OF assms(1-6)]) (use that assms(7) in auto)
  then show ?thesis by (auto simp: create_dir_all_def holds_try_do holds_io_context split: sum.split)
qed

lemma holds_link:
  assumes "\<And>e. Q [] (Inl e)" "\<And>link. holds Q (f link)"
  shows "holds Q (try_do (io_context w (Ret r)) (\<lambda>found. try_do (Ret (ok_or e found)) f))"
proof -
  have "holds Q (try_do (Ret (ok_or e found)) f)" for found
    using assms by (cases found) simp_all
  then show ?thesis using assms(1) by (cases r) (simp_all add: io_context_def map_err_def)
qed

lemma holds_member:
  assumes "rootfs \<noteq> []" and entry: "entry = Inr m" "te_path m = Inr p" "safe_relative_path p = Some names" "names \<noteq> []"
    and s: "list_all probes s" "checked rootfs names s"
  shows "holds (\<lambda>t r. entry_calls rootfs i entry (s @ t)) (extract_member rootfs i m names)"
proof -
  note tail = holds_member_tail [OF entry]
  have tests: "entry_calls rootfs i entry (s @ t)" if "list_all probes t" for t
    using that s(1) by (intro entry_calls.tests) simp
  have soft: "holds (\<lambda>t r. entry_calls rootfs i entry (s @ t))
      (if normalize_link_target (names_path (butlast names)) link = None then fail e
       else try_do (create_dir_all (parent_below rootfs names)) (\<lambda>_.
              try_do (io_context w (act (MakeSymlink link (below rootfs names)))) (\<lambda>_. ok n)))" for link e w n
    using tests [of "[]"] by (auto intro!: tail s member_call.symlinked)
  have hard: "holds (\<lambda>t r. entry_calls rootfs i entry (s @ t))
      (then_do (has_symlink_ancestor rootfs ns) (\<lambda>crosses.
         if crosses then fail e
         else try_do (create_dir_all (parent_below rootfs names)) (\<lambda>_.
                try_do (io_context w (act (MakeHardLink (below rootfs ns) (below rootfs names)))) (\<lambda>_. ok n))))"
    if ns: "normalize_link_target [] link = Some ns" for ns link e w n
  proof -
    have "holds (\<lambda>t b. list_all probes t \<and> (b \<or> checked rootfs (butlast ns) t)) (symlink_walk rootfs (butlast ns))"
      by (rule symlink_walk_checks [OF assms(1) good_butlast [OF normalize_link_target_names [OF ns]]])
    moreover have "holds (\<lambda>u r. entry_calls rootfs i entry (s @ t @ u))
        (try_do (create_dir_all (parent_below rootfs names)) (\<lambda>_.
           try_do (io_context w (act (MakeHardLink (below rootfs ns) (below rootfs names)))) (\<lambda>_. ok n)))"
      if "list_all probes t" "checked rootfs (butlast ns) t" for t
    proof -
      have "checked rootfs names (s @ t)" "checked rootfs (butlast ns) (s @ t)"
        using that s checked_mono by auto
      with tail [of "s @ t" rootfs i "MakeHardLink (below rootfs ns) (below rootfs names)" w n] that s
      show ?thesis by (auto intro: member_call.linked [OF ns])
    qed
    ultimately show ?thesis
      unfolding holds_then_do has_symlink_ancestor_def by (elim holds_mono) (auto intro: tests)
  qed
  note none = tests [of "[]", simplified]
  show ?thesis
  proof (cases "te_kind m")
    case SymlinkEntry
    then show ?thesis
      by (simp add: extract_member_def Let_def) (rule holds_link, simp add: none, rule soft)
  next
    case HardLinkEntry
    then show ?thesis
      by (simp add: extract_member_def Let_def)
        (rule holds_link, simp add: none, use none in \<open>auto intro: hard split: option.split\<close>)
  qed (use tests [of "[]"] in \<open>auto simp: extract_member_def Let_def intro!: tail s member_call.unpacked\<close>)
qed

lemma extract_entry_calls:
  assumes "rootfs \<noteq> []"
  shows "holds (\<lambda>t r. entry_calls rootfs i entry t) (extract_entry rootfs i entry)"
proof (cases "\<exists>m p names. entry = Inr m \<and> te_path m = Inr p \<and> safe_relative_path p = Some names \<and> names \<noteq> []")
  case True
  then obtain m p names where entry: "entry = Inr m" "te_path m = Inr p" "safe_relative_path p = Some names" "names \<noteq> []"
    by blast
  note good = safe_relative_path_names [OF entry(3)]
  let ?own = "\<lambda>b. EAsk (IsSymlink (below rootfs names)) b"
  have "holds (\<lambda>t b. list_all probes t \<and> (b \<or> checked rootfs (butlast names) t)) (symlink_walk rootfs (butlast names))"
    by (rule symlink_walk_checks [OF assms good_butlast [OF good]])
  moreover have "holds (\<lambda>u r. entry_calls rootfs i entry (t @ ?own False # u)) (extract_member rootfs i m names)"
    if t: "list_all probes t" "checked rootfs (butlast names) t" for t
  proof -
    have "checked rootfs names (t @ [?own False])"
      by (rule checked_snoc [OF checked_mono [OF t(2)] entry(4) below_components [OF assms good]]) auto
    from holds_member [OF assms entry _ this] t(1) show ?thesis by simp
  qed
  ultimately have "holds (\<lambda>t b. holds (\<lambda>u refused. holds (\<lambda>v r. entry_calls rootfs i entry (t @ u @ v))
        (if refused then fail e else extract_member rootfs i m names))
      (if b then Ret True else ask (IsSymlink (below rootfs names)))) (symlink_walk rootfs (butlast names))" for e
    by (elim holds_mono) (auto simp: all_bool_eq intro: entry_calls.tests)
  with entry show ?thesis
    by (simp add: extract_entry_def io_context_def map_err_def holds_then_do has_symlink_ancestor_def)
next
  case False
  then show ?thesis using entry_calls.tests [of "[]" rootfs i entry]
    by (auto simp: extract_entry_def io_context_def map_err_def split: sum.split option.split)
qed

definition import_step :: "lxc_config \<Rightarrow> string \<Rightarrow> event \<Rightarrow> bool" where
  "import_step config name e =
     (case e of
        EAct (CreateDirAll p) _ \<Rightarrow>
          p \<in> {lc_lxc_containers config, lc_lxc_log config, lc_lxc_run config, lc_lxc_rootfs config}
          \<or> (\<exists>pid. inside (import_temp_dir config name pid) p)
      | EAct (OpenForRead p) _ \<Rightarrow> True
      | EAct (RenameFile old new) _ \<Rightarrow>
          (\<exists>pid. old = import_temp_dir config name pid) \<and> new = container_dir config name
      | EAct (MakeHardLink old new) _ \<Rightarrow> \<exists>pid. inside (import_temp_dir config name pid) old
          \<and> inside (import_temp_dir config name pid) new
      | EAct (UnpackEntry i p) _ \<Rightarrow> \<exists>pid. inside (import_temp_dir config name pid) p
      | EAct (MakeSymlink link p) _ \<Rightarrow> \<exists>pid. inside (import_temp_dir config name pid) p
      | EAct (WriteFile p text) _ \<Rightarrow> \<exists>pid. inside (import_temp_dir config name pid) p
      | EAct (RemoveFile p) _ \<Rightarrow> \<exists>pid. inside (import_temp_dir config name pid) p
      | EAct (RemoveDirAll p) _ \<Rightarrow> \<exists>pid. p = import_temp_dir config name pid
      | EAct _ _ \<Rightarrow> False
      | _ \<Rightarrow> True)"

lemma import_step_simps [simp]:
  "import_step config name (EAct (CreateDirAll p) r) \<longleftrightarrow>
     p \<in> {lc_lxc_containers config, lc_lxc_log config, lc_lxc_run config, lc_lxc_rootfs config}
     \<or> (\<exists>pid. inside (import_temp_dir config name pid) p)"
  "import_step config name (EAct (OpenForRead p) r)"
  "import_step config name (EAct (RenameFile old new) r) \<longleftrightarrow>
     (\<exists>pid. old = import_temp_dir config name pid) \<and> new = container_dir config name"
  "import_step config name (EAct (WriteFile p text) r) \<longleftrightarrow> (\<exists>pid. inside (import_temp_dir config name pid) p)"
  "import_step config name (EAct (RemoveFile p) r) \<longleftrightarrow> (\<exists>pid. inside (import_temp_dir config name pid) p)"
  "import_step config name (EAct (RemoveDirAll p) r) \<longleftrightarrow> (\<exists>pid. p = import_temp_dir config name pid)"
  "import_step config name (EAsk a b)" "import_step config name (EGet g x)"
  "import_step config name (EQuery q n)" "import_step config name (ETar d z es)"
  by (simp_all add: import_step_def)

lemma extract_import_step:
  assumes "inside (import_temp_dir config name pid) rootfs" "extract_step rootfs e"
  shows "import_step config name e"
proof (cases e)
  case (EAct c r)
  then show ?thesis using assms inside_trans [OF assms(1)]
    by (cases c) (auto simp: import_step_def extract_step_def)
qed (simp_all add: import_step_def)

lemma network_import_step:
  assumes "inside (import_temp_dir config name pid) rootfs" "rootfs \<noteq> []"
  shows "emits (import_step config name) (ensure_guest_network_config rootfs settings)"
proof -
  have i: "\<exists>pid. inside (import_temp_dir config name pid) q" if "inside rootfs q" for q
    using inside_trans [OF assms(1) that] by blast
  have n: "path_join rootfs q \<noteq> []" for q using assms(2) by (simp add: path_join_nonempty)
  note own = inside_literals [OF assms(2)]
  note deep = inside_trans [OF own(3) inside_literals(4) [OF n]]
    inside_trans [OF own(3) inside_literals(5) [OF n]]
    inside_trans [OF own(6) inside_literals(7) [OF n]]
  show ?thesis
    unfolding ensure_guest_network_config_def write_guest_resolv_conf_def write_guest_netplan_def
      write_guest_systemd_network_def create_dir_all_def write_file_def Let_def
    by (auto intro!: emits_intros intro!: i own deep)
qed

lemma init_cmd_step: "emits (import_step config name) (default_init_cmd rootfs)"
  by (auto simp: default_init_cmd_def intro!: emits_intros)

lemma extract_asset_step:
  assumes "inside (import_temp_dir config name pid) rootfs" "rootfs \<noteq> []"
  shows "emits (import_step config name) (extract_rootfs_asset asset rootfs)"
proof -
  have "emits (import_step config name) (extract_entries rootfs 0 es 0)" for es
    by (rule emits_mono [OF extract_entries_step [OF assms(2)]]) (rule extract_import_step [OF assms(1)])
  then show ?thesis
    by (auto simp: extract_rootfs_asset_def extract_tar_stream_def intro!: emits_intros)
qed

lemma import_into_step:
  assumes "temp_dir = import_temp_dir config (ia_name args) pid" "temp_dir \<noteq> []"
  shows "emits (import_step config (ia_name args)) (import_into h config args sha temp_dir)"
proof -
  have r: "inside (import_temp_dir config (ia_name args) pid) (path_join temp_dir ''rootfs'')"
    "path_join temp_dir ''rootfs'' \<noteq> []"
    using inside_literals(8) [OF assms(2)] assms by (simp_all add: path_join_nonempty)
  have f: "\<exists>pid. inside (import_temp_dir config (ia_name args) pid) (path_join temp_dir ''config'')"
    "\<exists>pid. inside (import_temp_dir config (ia_name args) pid) (path_join temp_dir METADATA_FILE)"
    using inside_literals(9,10) [OF assms(2)] assms(1) by blast+
  have e: "\<exists>pid. temp_dir = import_temp_dir config (ia_name args) pid" using assms(1) by blast
  show ?thesis
    unfolding import_into_def Let_def
    by (auto intro!: emits_intros f e extract_asset_step [OF r] network_import_step [OF r] init_cmd_step)
qed

lemma import_temp_dir_nonempty: "import_temp_dir config name pid \<noteq> []"
  by (simp add: import_temp_dir_def path_join_nonempty)

lemma import_rootfs_step:
  "emits (import_step config (ia_name args)) (import_rootfs h config args)"
proof -
  have rootfs: "\<exists>pid'. inside (import_temp_dir config (ia_name args) pid')
      (path_join (import_temp_dir config (ia_name args) pid) ''rootfs'')" for pid
    using inside_literals(8) [OF import_temp_dir_nonempty] by blast
  have own: "\<exists>pid'. inside (import_temp_dir config (ia_name args) pid') (import_temp_dir config (ia_name args) pid)" for pid
    using inside_refl by blast
  have same: "\<exists>pid'. import_temp_dir config (ia_name args) pid = import_temp_dir config (ia_name args) pid'" for pid
    by blast
  show ?thesis
    unfolding import_rootfs_def ensure_runtime_dirs_def sha256_file_def create_dir_all_def Let_def
    by (auto intro!: emits_intros rootfs own same import_into_step [OF refl import_temp_dir_nonempty]
        split: option.split sum.split)
qed

fun renamed :: "event \<Rightarrow> bool" where
  "renamed (EAct (RenameFile a b) (Inr _)) = True"
| "renamed _ = False"

lemma no_rename_extract: "emits (\<lambda>e. \<not> renamed e) (extract_rootfs_asset asset rootfs)"
proof -
  have walk: "emits (\<lambda>e. \<not> renamed e) (symlink_walk current names)" for current names
    by (induction current names rule: symlink_walk.induct) (auto intro!: emits_intros)
  have "emits (\<lambda>e. \<not> renamed e) (extract_entry rootfs i entry)" for i entry
    unfolding extract_entry_def extract_member_def create_dir_all_def has_symlink_ancestor_def Let_def
    by (auto intro!: emits_intros walk split: option.splits entry_kind.splits)
  then have "emits (\<lambda>e. \<not> renamed e) (extract_entries rootfs i es n)" for i es n
    by (induction es arbitrary: i n) (auto intro!: emits_intros)
  then show ?thesis
    by (auto simp: extract_rootfs_asset_def extract_tar_stream_def intro!: emits_intros)
qed

lemma no_rename_network: "emits (\<lambda>e. \<not> renamed e) (ensure_guest_network_config rootfs settings)"
  unfolding ensure_guest_network_config_def write_guest_resolv_conf_def write_guest_netplan_def
    write_guest_systemd_network_def create_dir_all_def write_file_def Let_def
  by (auto intro!: emits_intros)

lemma no_rename_init: "emits (\<lambda>e. \<not> renamed e) (default_init_cmd rootfs)"
  by (auto simp: default_init_cmd_def intro!: emits_intros)

definition installs :: "string \<Rightarrow> string \<Rightarrow> event list \<Rightarrow> ('e + 'a) \<Rightarrow> bool" where
  "installs temp dir t r =
     (case r of Inr _ \<Rightarrow> (\<exists>u. t = u @ [EAct (RenameFile temp dir) (Inr ())] \<and> \<not> list_ex renamed u)
      | Inl _ \<Rightarrow> \<not> list_ex renamed t)"

lemma installs_simps [simp]:
  "installs temp dir t (Inl e) \<longleftrightarrow> \<not> list_ex renamed t"
  "installs temp dir [EAct (RenameFile temp dir) (Inr ())] (Inr x)"
  by (simp_all add: installs_def)

lemma installs_append: "\<not> list_ex renamed s \<Longrightarrow> installs temp dir t r \<Longrightarrow> installs temp dir (s @ t) r"
  by (cases r) (auto simp: installs_def)

lemma installs_Cons: "\<not> renamed e \<Longrightarrow> installs temp dir t r \<Longrightarrow> installs temp dir (e # t) r"
  using installs_append [of "[e]"] by simp

lemma holds_installs_try:
  assumes "emits (\<lambda>e. \<not> renamed e) p" "\<And>x. holds (installs temp dir) (f x)"
  shows "holds (installs temp dir) (try_do p f)"
  unfolding holds_try_do
  by (rule holds_mono [OF assms(1) [unfolded emits_def]])
    (use assms(2) in \<open>auto simp: list_all_iff list_ex_iff holds_exec intro!: installs_append split: sum.split\<close>)

lemma holds_installs_then:
  assumes "emits (\<lambda>e. \<not> renamed e) p" "\<And>x. holds (installs temp dir) (f x)"
  shows "holds (installs temp dir) (then_do p f)"
  unfolding holds_then_do
  by (rule holds_mono [OF assms(1) [unfolded emits_def]])
    (use assms(2) in \<open>auto simp: list_all_iff list_ex_iff holds_exec intro!: installs_append\<close>)

lemma holds_import_into:
  "holds (installs temp (container_dir config (ia_name args))) (import_into h config args sha temp)"
  unfolding import_into_def Let_def
  by (rule holds_installs_try [OF no_rename_extract], rule holds_installs_then [OF no_rename_init],
      rule holds_installs_then, simp, rule holds_installs_try [OF no_rename_network],
      rule holds_installs_try, simp, rule holds_installs_try, simp add: map_err_def, rule holds_installs_try, simp)
    (auto simp: holds_try_do holds_io_context split: sum.split)

lemma installs_removed:
  "installs temp dir t (Inl e) \<Longrightarrow> installs temp dir (t @ [EAct (RemoveDirAll d) r]) (Inl e')"
  by simp

lemma holds_import_tail:
  "holds (installs temp (container_dir config (ia_name args)))
     (then_do (import_into h config args sha temp) (\<lambda>r.
        case r of Inr m \<Rightarrow> Ret (Inr m) | Inl err \<Rightarrow> Act (RemoveDirAll temp) (\<lambda>_. fail err)))"
  unfolding holds_then_do
  by (rule holds_mono [OF holds_import_into]) (auto split: sum.split)

definition imported :: "lxc_config \<Rightarrow> string \<Rightarrow> event list \<Rightarrow> container_meta result \<Rightarrow> bool" where
  "imported config name t r =
     (case r of
        Inr _ \<Rightarrow> (\<exists>u pid. t = u @ [EAct (RenameFile (import_temp_dir config name pid) (container_dir config name)) (Inr ())]
           \<and> EAsk (Exists (container_dir config name)) False \<in> set u \<and> \<not> list_ex renamed u)
      | Inl _ \<Rightarrow> \<not> list_ex renamed t)"

lemma imported_Inl [simp]: "imported config name t (Inl e) \<longleftrightarrow> \<not> list_ex renamed t"
  by (simp add: imported_def)

lemma imported_append: "\<not> list_ex renamed s \<Longrightarrow> imported config name t r \<Longrightarrow> imported config name (s @ t) r"
proof (cases r)
  case (Inr m)
  assume s: "\<not> list_ex renamed s" and "imported config name t r"
  then obtain u pid where "t = u @ [EAct (RenameFile (import_temp_dir config name pid) (container_dir config name)) (Inr ())]"
    "EAsk (Exists (container_dir config name)) False \<in> set u" "\<not> list_ex renamed u"
    by (auto simp: imported_def Inr)
  then show ?thesis using s Inr by (auto simp: imported_def intro!: exI [of _ "s @ u"])
qed simp

lemma holds_imported_try:
  assumes "emits (\<lambda>e. \<not> renamed e) p" "\<And>x. holds (imported config name) (f x)"
  shows "holds (imported config name) (try_do p f)"
  unfolding holds_try_do
  by (rule holds_mono [OF assms(1) [unfolded emits_def]])
    (use assms(2) in \<open>auto simp: list_all_iff list_ex_iff holds_exec intro!: imported_append split: sum.split\<close>)

lemma installs_imported:
  "installs (import_temp_dir config name pid) (container_dir config name) t r \<Longrightarrow>
     imported config name (EAsk (Exists (container_dir config name)) False # s @ t) r"
  if "\<not> list_ex renamed s"
proof (cases r)
  case (Inr m)
  assume "installs (import_temp_dir config name pid) (container_dir config name) t r"
  then obtain u where "t = u @ [EAct (RenameFile (import_temp_dir config name pid) (container_dir config name)) (Inr ())]"
    "\<not> list_ex renamed u" by (auto simp: installs_def Inr)
  then show ?thesis using that Inr
    by (auto simp: imported_def intro!: exI [of _ "EAsk (Exists (container_dir config name)) False # s @ u"])
qed (use that in simp)

lemma reach_import_rootfs:
  assumes "ia_sha256 args = None" "\<And>m. \<exists>text. h_meta_text h m = Inr text"
  shows "\<exists>m. reach (import_rootfs h config args) (Inr m)"
proof -
  have tar: "reach (extract_rootfs_asset asset rootfs) (Inr 0)" for asset rootfs
    by (auto simp: extract_rootfs_asset_def extract_tar_stream_def reach_rules intro!: exI [of _ "[]"])
  obtain init_cmd where cmd: "reach (default_init_cmd (path_join (import_temp_dir config (ia_name args) 0) ''rootfs'')) init_cmd"
    by (rule exE [OF reach_some])
  obtain m where into: "reach (import_into h config args [] (import_temp_dir config (ia_name args) 0)) (Inr m)"
    using tar cmd reach_guest_network assms(2)
    unfolding import_into_def Let_def map_err_def by (simp add: reach_rules) (metis old.sum.simps(6))
  have dirs: "reach (ensure_runtime_dirs config) (Inr ())" "reach (create_dir_all d) (Inr ())"
    "reach (sha256_file (ia_asset args)) (Inr [])" for d
    by (auto simp: ensure_runtime_dirs_def create_dir_all_def sha256_file_def reach_rules)
  have "reach (then_do (import_into h config args [] (import_temp_dir config (ia_name args) 0)) (\<lambda>r.
      case r of Inr m \<Rightarrow> Ret (Inr m)
      | Inl err \<Rightarrow> Act (RemoveDirAll (import_temp_dir config (ia_name args) 0)) (\<lambda>_. fail err))) (Inr m)"
    unfolding reach_then_do using into by (intro exI [of _ "Inr m"]) simp
  then have tail: "reach (try_do (create_dir_all d) (\<lambda>_. try_do (create_dir_all d') (\<lambda>_.
      then_do (import_into h config args [] (import_temp_dir config (ia_name args) 0)) (\<lambda>r.
        case r of Inr m \<Rightarrow> Ret (Inr m)
        | Inl err \<Rightarrow> Act (RemoveDirAll (import_temp_dir config (ia_name args) 0)) (\<lambda>_. fail err))))) (Inr m)"
    for d d'
    unfolding reach_try_do_ok using dirs by blast
  have "reach (import_rootfs h config args) (Inr m)"
    unfolding import_rootfs_def Let_def assms(1)
    using dirs tail
    by (auto simp: reach_try_do_ok [of "ensure_runtime_dirs config"] reach_try_do_ok [of "sha256_file _"]
        reach_then_do [of "ask _"] reach_then_do [of "query _"]
        intro!: exI [of _ "[]"] exI [of _ False] exI [of _ 0])
  then show ?thesis ..
qed

section \<open>A file system with symbolic links\<close>

text \<open>
  What a path below the root means on a file system that has the symbolic links \<open>links\<close>, each
  given by the components of its own path: a call that does not follow its last component
  acts inside the root if no directory on the way is a link (\<open>lands\<close>); one that follows it, or
  must not replace it, also needs the path itself to be no link (\<open>solid\<close>).
\<close>

definition steps_below :: "string \<Rightarrow> string \<Rightarrow> path_component list list" where
  "steps_below root p = map (\<lambda>k. take k (components p)) [Suc (length (components root))..<Suc (length (components p))]"

definition solid :: "path_component list set \<Rightarrow> string \<Rightarrow> string \<Rightarrow> bool" where
  "solid links root p \<longleftrightarrow> inside root p \<and> list_all (\<lambda>q. q \<notin> links) (steps_below root p)"

definition lands :: "path_component list set \<Rightarrow> string \<Rightarrow> string \<Rightarrow> bool" where
  "lands links root p \<longleftrightarrow> inside root p \<and> list_all (\<lambda>q. q \<notin> links) (butlast (steps_below root p))"

text \<open>
  The links after a call: a symbolic link is one, and so is a hard link to one. The answer to
  a test of a path that lands inside is the truth about it.
\<close>

fun links_after :: "path_component list set \<Rightarrow> event \<Rightarrow> path_component list set" where
  "links_after links (EAct (MakeSymlink link p) (Inr u)) = insert (components p) links"
| "links_after links (EAct (MakeHardLink old new) (Inr u)) =
     (if components old \<in> links then insert (components new) links else links)"
| "links_after links e = links"

fun answers_truth :: "string \<Rightarrow> path_component list set \<Rightarrow> event \<Rightarrow> bool" where
  "answers_truth root links (EAsk (IsSymlink p) b) \<longleftrightarrow> (lands links root p \<longrightarrow> b = (components p \<in> links))"
| "answers_truth root links e \<longleftrightarrow> True"

text \<open>The names of a path after the root, and what a member may do, on such a file system.\<close>

definition names_below :: "string \<Rightarrow> string \<Rightarrow> string list" where
  "names_below root p =
     map (\<lambda>c. case c of Normal n \<Rightarrow> n | _ \<Rightarrow> []) (drop (length (components root)) (components p))"

fun stays_inside :: "string \<Rightarrow> path_component list set \<Rightarrow> event \<Rightarrow> bool" where
  "stays_inside root links (EAct (CreateDirAll p) r) \<longleftrightarrow> solid links root p"
| "stays_inside root links (EAct (UnpackEntry i p) r) \<longleftrightarrow> solid links root p"
| "stays_inside root links (EAct (MakeSymlink link p) r) \<longleftrightarrow> solid links root p
     \<and> normalize_link_target (names_path (butlast (names_below root p))) link \<noteq> None"
| "stays_inside root links (EAct (MakeHardLink old new) r) \<longleftrightarrow> lands links root old \<and> solid links root new"
| "stays_inside root links (EAct c r) \<longleftrightarrow> False"
| "stays_inside root links e \<longleftrightarrow> True"

primrec truthful :: "string \<Rightarrow> path_component list set \<Rightarrow> event list \<Rightarrow> bool" where
  "truthful root links [] \<longleftrightarrow> True"
| "truthful root links (e # t) \<longleftrightarrow> answers_truth root links e \<and> truthful root (links_after links e) t"

primrec confined :: "string \<Rightarrow> path_component list set \<Rightarrow> event list \<Rightarrow> bool" where
  "confined root links [] \<longleftrightarrow> True"
| "confined root links (e # t) \<longleftrightarrow> stays_inside root links e \<and> confined root (links_after links e) t"

lemma probe_simps: "probes e \<Longrightarrow> links_after links e = links \<and> stays_inside root links e"
  by (cases e) auto

lemma tests_append:
  assumes "list_all probes s"
  shows "truthful root links (s @ t) \<longleftrightarrow> list_all (answers_truth root links) s \<and> truthful root links t"
    and "confined root links (s @ t) \<longleftrightarrow> confined root links t"
  using assms by (induction s) (auto simp: probe_simps)

lemma truthful_append:
  "truthful root links (s @ t) \<longleftrightarrow> truthful root links s \<and> truthful root (foldl links_after links s) t"
  "confined root links (s @ t) \<longleftrightarrow> confined root links s \<and> confined root (foldl links_after links s) t"
  by (induction s arbitrary: links) simp_all

lemma steps_below_names:
  assumes "components p = components root @ map Normal names"
  shows "steps_below root p = map (\<lambda>k. components root @ map Normal (take (Suc k) names)) [0..<length names]"
proof -
  have "steps_below root p = map (\<lambda>k. take (Suc (k + length (components root))) (components p)) [0..<length names]"
    using map_add_upt [of "Suc (length (components root))" "length names", symmetric]
    by (simp add: steps_below_def assms add.commute del: upt_Suc)
  then show ?thesis by (simp add: assms take_map)
qed

lemma butlast_map_upt: "butlast (map f [0..<n]) = map f [0..<n - 1]"
  by (cases n) simp_all

text \<open>The tests of a path, answered truthfully, prove that no step of it is a link.\<close>

lemma checked_solid:
  assumes "checked root names s" "list_all (answers_truth root links) s" "k < length names"
  shows "components root @ map Normal (take (Suc k) names) \<notin> links"
  using assms(3)
proof (induction k rule: less_induct)
  case (less k)
  from assms(1) less.prems obtain q where q: "components q = components root @ map Normal (take (Suc k) names)"
    "EAsk (IsSymlink q) False \<in> set s" by (auto simp: checked_def)
  have "lands links root q"
    using less.IH less.prems q(1)
    by (auto simp: lands_def inside_iff steps_below_names [OF q(1)] list_all_iff butlast_map_upt min_def)
  with q assms(2) show ?case by (auto simp: list_all_iff)
qed

lemma checked_lands:
  assumes "list_all (answers_truth root links) s" "components p = components root @ map Normal names"
  shows "checked root names s \<Longrightarrow> solid links root p" "checked root (butlast names) s \<Longrightarrow> lands links root p"
proof -
  show "checked root names s \<Longrightarrow> solid links root p"
    using checked_solid [OF _ assms(1)] assms(2)
    by (auto simp: solid_def inside_iff steps_below_names [OF assms(2)] list_all_iff)
  assume b: "checked root (butlast names) s"
  have "components root @ map Normal (take (Suc k) names) \<notin> links" if "Suc k < length names" for k
    using checked_solid [OF b assms(1), of k] that by (simp add: take_butlast)
  then show "lands links root p"
    using assms(2) by (auto simp: lands_def inside_iff steps_below_names [OF assms(2)] list_all_iff
        butlast_map_upt)
qed

lemma entry_calls_confined:
  assumes "rootfs \<noteq> []" "entry_calls rootfs i entry t" "truthful rootfs links t"
  shows "confined rootfs links t"
  using assms(2)
proof cases
  case tests
  then show ?thesis using tests_append(2) [of t rootfs links "[]"] by simp
next
  case (changes m p names s rest d)
  note good = safe_relative_path_names [OF changes(4)]
  from assms(3) changes have truth: "list_all (answers_truth rootfs links) s"
    by (simp add: tests_append)
  note target = checked_lands [OF truth below_components [OF assms(1) good]]
  have "checked rootfs (butlast names) s"
    using changes(7) unfolding checked_def by (auto simp: take_butlast)
  then have parent: "solid links rootfs (parent_below rootfs names)"
    by (rule checked_lands(1) [OF truth parent_below_components [OF assms(1) good]])
  have "stays_inside rootfs links (EAct c x)" if "member_call rootfs i names s c" for c x
    using that
  proof cases
    case unpacked
    then show ?thesis using target(1) changes(7) by simp
  next
    case (symlinked link)
    then show ?thesis using target(1) changes(7) below_components [OF assms(1) good]
      by (simp add: names_below_def comp_def)
  next
    case (linked link ns)
    note good' = normalize_link_target_names [OF linked(2)]
    show ?thesis
      using checked_lands(2) [OF truth below_components [OF assms(1) good'] linked(3)] target(1) changes(7)
      by (simp add: linked(1))
  qed
  with parent changes(6,8) show ?thesis by (auto simp: changes(1) tests_append)
qed

lemma extract_entries_confined:
  assumes "rootfs \<noteq> []"
  shows "exec (extract_entries rootfs i es n) t = Some r \<Longrightarrow> truthful rootfs links t \<Longrightarrow> confined rootfs links t"
proof (induction es arbitrary: i n t links)
  case (Cons e es)
  have entry: "confined rootfs links u" if "exec (extract_entry rootfs i e) u = Some x" "truthful rootfs links u" for u x links
    using extract_entry_calls [OF assms, of i e] that entry_calls_confined [OF assms] by (auto simp: holds_exec)
  from Cons.prems show ?case
    by (auto simp: exec_try_do truthful_append intro: entry Cons.IH)
qed simp

section \<open>Properties\<close>

text \<open>
  C1. Whatever the archive holds, the extraction changes nothing outside the root file system
  of the import: it only creates directories, files, symbolic links and hard links, at paths
  below the root; and on a file system that has any symbolic links at all below the root,
  those that earlier members made included, and answers the tests truthfully, no call goes
  through one of them, no member replaces or follows one, and every symbolic link that is made
  has a target that does not climb above the root.
\<close>

theorem extraction_contained:
  assumes "rootfs \<noteq> []" "exec (extract_tar_stream asset gzip rootfs) t = Some r"
  shows "list_all (extract_step rootfs) t \<and> (truthful rootfs links t \<longrightarrow> confined rootfs links t)"
proof
  have "emits (extract_step rootfs) (extract_tar_stream asset gzip rootfs)"
    by (auto simp: extract_tar_stream_def intro!: emits_intros extract_entries_step [OF assms(1)])
  from emits_holds [OF this assms(2)] show "list_all (extract_step rootfs) t" .
  have "holds (\<lambda>t r. truthful rootfs links t \<longrightarrow> confined rootfs links t) (extract_tar_stream asset gzip rootfs)"
    by (auto simp: extract_tar_stream_def holds_try_do holds_io_context holds_exec [of _ "extract_entries _ _ _ _"]
        intro: extract_entries_confined [OF assms(1)] split: sum.split)
  with assms(2) show "truthful rootfs links t \<longrightarrow> confined rootfs links t" by (simp add: holds_exec)
qed

definition demo_escape :: "event list" where
  "demo_escape =
     [ETar ''a.tar'' False (Inr [Inr \<lparr>te_kind = SymlinkEntry, te_path = Inr ''l'', te_link = Inr (Some ''/etc'')\<rparr>,
        Inr \<lparr>te_kind = RegularEntry, te_path = Inr ''l/passwd'', te_link = Inr None\<rparr>]),
      EAsk (IsSymlink ''/r/l'') False, EAct (CreateDirAll ''/r'') (Inr ()), EAct (MakeSymlink ''/etc'' ''/r/l'') (Inr ()),
      EAsk (IsSymlink ''/r/l'') True]"

theorem extraction_contained_witness:
  "exec (extract_tar_stream ''a.tar'' False ''/r'') demo_escape = Some (Inl ''refusing symlink escape path: l/passwd'')
   \<and> truthful ''/r'' {} demo_escape \<and> confined ''/r'' {} demo_escape
   \<and> \<not> stays_inside ''/r'' {components ''/r/l''} (EAct (UnpackEntry 1 ''/r/l/passwd'') (Inr ()))"
proof -
  have run: "exec (extract_tar_stream ''a.tar'' False ''/r'') demo_escape = Some (Inl ''refusing symlink escape path: l/passwd'')"
    by code_simp
  have truth: "truthful ''/r'' {} demo_escape" by code_simp
  have steps: "steps_below ''/r'' ''/r/l/passwd'' = [components ''/r/l'', components ''/r/l/passwd'']" by code_simp
  from extraction_contained [OF _ run, of "{}"] run truth steps show ?thesis by (simp add: solid_def)
qed

text \<open>
  C2. Before a member of the archive changes anything, each of its ancestors below the root
  and the member's own path have been tested in turn and none was a symbolic link, and for a
  hard link so have the ancestors of its source: for every changing call, all of these tests
  are in the record before it, and the call makes the parent directory of the member's own
  path or the member at that path, and nothing else.
\<close>

theorem extract_entry_checks_ancestors:
  assumes "rootfs \<noteq> []" "exec (extract_entry rootfs i entry) (u @ EAct c x # v) = Some r"
  shows "\<exists>m p names. entry = Inr m \<and> te_path m = Inr p \<and> safe_relative_path p = Some names \<and> names \<noteq> []
    \<and> checked rootfs names u
    \<and> (case c of CreateDirAll d \<Rightarrow> d = parent_below rootfs names
       | UnpackEntry j q \<Rightarrow> j = i \<and> q = below rootfs names
       | MakeSymlink link q \<Rightarrow> q = below rootfs names
       | MakeHardLink old q \<Rightarrow> q = below rootfs names \<and> (\<exists>ns. old = below rootfs ns \<and> checked rootfs (butlast ns) u)
       | _ \<Rightarrow> False)"
proof -
  from assms(2) extract_entry_calls [OF assms(1), of i entry] have "entry_calls rootfs i entry (u @ EAct c x # v)"
    by (auto simp: holds_exec)
  then show ?thesis
  proof cases
    case tests
    then show ?thesis by simp
  next
    case (changes m p names s rest d)
    let ?dir = "EAct (CreateDirAll (parent_below rootfs names)) d"
    have no_act: "EAct c x \<notin> set s" using changes(6) by (auto simp: list_all_iff)
    from changes(1) no_act consider (dir) "u = s" "EAct c x = ?dir"
      | (made) "rest = [EAct c x]" "u = s @ [?dir]"
      using changes(8) by (fastforce simp: append_eq_append_conv2 Cons_eq_append_conv append_eq_Cons_conv)
    then show ?thesis
    proof cases
      case dir
      then show ?thesis using changes by auto
    next
      case made
      then have call: "member_call rootfs i names s c" using changes(8) by auto
      have later: "checked rootfs ns s \<Longrightarrow> checked rootfs ns u" for ns
        by (erule checked_mono) (use made in auto)
      from call show ?thesis
        by cases (use changes(2-5) later [OF changes(7)] later in auto)
    qed
  qed
qed

theorem extract_entry_checks_ancestors_witness:
  "checked ''/r'' [''etc'', ''x''] [EAsk (IsSymlink ''/r/etc'') False, EAsk (IsSymlink ''/r/etc/x'') False]"
proof -
  let ?u = "[EAsk (IsSymlink ''/r/etc'') False, EAsk (IsSymlink ''/r/etc/x'') False]"
  have names: "safe_relative_path ''etc/x'' = Some [''etc'', ''x'']" by code_simp
  have "exec (extract_entry ''/r'' 0 (Inr \<lparr>te_kind = RegularEntry, te_path = Inr ''etc/x'', te_link = Inr None\<rparr>))
     (?u @ EAct (CreateDirAll ''/r/etc'') (Inr ()) # [EAct (UnpackEntry 0 ''/r/etc/x'') (Inr ())]) = Some (Inr 1)"
    by code_simp
  from extract_entry_checks_ancestors [OF _ this] names show ?thesis by auto
qed

text \<open>
  C3. An import installs a container in one step: everything is made in a hidden temporary
  directory of its own, the container's directory appears only by the rename that is the last
  call of a successful import, after the program has found that no container of that name
  exists; an import that fails has renamed nothing.
\<close>

theorem import_installs_atomically:
  assumes "exec (import_rootfs h config args) t = Some r"
  shows "list_all (import_step config (ia_name args)) t \<and> imported config (ia_name args) t r"
proof -
  let ?dir = "container_dir config (ia_name args)"
  have quiet: "emits (\<lambda>e. \<not> renamed e) (ensure_runtime_dirs config)"
    "emits (\<lambda>e. \<not> renamed e) (sha256_file (ia_asset args))"
    "emits (\<lambda>e. \<not> renamed e) (create_dir_all d)" for d
    unfolding ensure_runtime_dirs_def sha256_file_def create_dir_all_def by (auto intro!: emits_intros)
  have tail: "holds (installs (import_temp_dir config (ia_name args) pid) ?dir)
      (try_do (create_dir_all d) (\<lambda>_.
       try_do (create_dir_all d') (\<lambda>_.
       then_do (import_into h config args sha (import_temp_dir config (ia_name args) pid)) (\<lambda>r.
         case r of Inr m \<Rightarrow> Ret (Inr m)
         | Inl err \<Rightarrow> Act (RemoveDirAll (import_temp_dir config (ia_name args) pid)) (\<lambda>_. fail err)))))"
    for d d' sha pid
    by (rule holds_installs_try [OF quiet(3)], rule holds_installs_try [OF quiet(3)], rule holds_import_tail)
  have stale: "emits (\<lambda>e. \<not> renamed e) (io_context w (act (RemoveDirAll d)))" for w d by simp
  have step: "holds (\<lambda>t. imported config (ia_name args) (EAsk (Exists ?dir) False # EQuery ProcessId pid # EAsk a b # t)) p"
    if "holds (installs (import_temp_dir config (ia_name args) pid) ?dir) p" for pid a b p
    by (rule holds_mono [OF that]) (use installs_imported [of "[EQuery ProcessId pid, EAsk a b]"] in simp)
  have "holds (imported config (ia_name args)) (import_rootfs h config args)"
    unfolding import_rootfs_def Let_def
    by (rule holds_imported_try [OF quiet(1)], rule holds_imported_try [OF quiet(2)], rule holds_imported_try)
      (auto simp: all_bool_eq intro!: step tail holds_installs_try [OF stale] split: option.split)
  moreover note emits_holds [OF import_rootfs_step assms]
  ultimately show ?thesis using assms by (auto simp: holds_exec)
qed
theorem import_installs_atomically_witness:
  "\<exists>t m. exec (import_rootfs demo_host (sample_config ''10.0.3.0/24'')
        \<lparr>ia_name = ''web'', ia_asset = ''/a.tar'', ia_sha256 = None, ia_distro = ''d'', ia_release = ''r'', ia_arch = ''a''\<rparr>) t
      = Some (Inr m)
    \<and> EAsk (Exists (container_dir (sample_config ''10.0.3.0/24'') ''web'')) False \<in> set t"
proof -
  let ?args = "\<lparr>ia_name = ''web'', ia_asset = ''/a.tar'', ia_sha256 = None, ia_distro = ''d'', ia_release = ''r'', ia_arch = ''a''\<rparr>"
  have "ia_sha256 ?args = None" by simp
  moreover have "\<exists>text. h_meta_text demo_host m = Inr text" for m by (simp add: demo_host_def)
  ultimately
  obtain m t where t: "exec (import_rootfs demo_host (sample_config ''10.0.3.0/24'') ?args) t = Some (Inr m)"
    using reach_import_rootfs [of ?args demo_host "sample_config ''10.0.3.0/24''"] by (auto simp: reach_def)
  from import_installs_atomically [OF t] have
    "EAsk (Exists (container_dir (sample_config ''10.0.3.0/24'') ''web'')) False \<in> set t"
    by (auto simp: imported_def)
  with t show ?thesis by blast
qed

end
