(* ===== verification/LxcElf.thy ===== *)
theory LxcElf
  imports LxcHost
begin

text \<open>
  The ELF reader of \<open>achost-lxc-runtime validate-assets\<close>: the machine and the interpreter of
  a binary, read from its bytes. \<open>usize\<close> is 64 bits wide; its checked operations are the
  only ones that could overflow, the others are bounded by the length of the file. Then the
  asset report built on it.
\<close>

section \<open>Little-endian fields\<close>

definition byte_at :: "string \<Rightarrow> nat \<Rightarrow> nat" where
  "byte_at bytes i = code_of (bytes ! i)"

fun le_value :: "string \<Rightarrow> nat" where
  "le_value [] = 0"
| "le_value (b # bs) = code_of b + 256 * le_value bs"

definition read_le :: "nat \<Rightarrow> string \<Rightarrow> nat \<Rightarrow> nat option" where
  "read_le width bytes offset =
     (if offset + width \<le> length bytes then Some (le_value (take width (drop offset bytes))) else None)"

definition read_u16_le :: "string \<Rightarrow> nat \<Rightarrow> nat option" where
  "read_u16_le bytes offset = read_le 2 bytes offset"

definition read_u32_le :: "string \<Rightarrow> nat \<Rightarrow> nat option" where
  "read_u32_le bytes offset = read_le 4 bytes offset"

definition read_u64_le :: "string \<Rightarrow> nat \<Rightarrow> nat option" where
  "read_u64_le bytes offset = read_le 8 bytes offset"

definition usize :: "nat \<Rightarrow> nat option" where
  "usize n = (if n < 2 ^ 64 then Some n else None)"

definition read_c_string :: "string \<Rightarrow> nat \<Rightarrow> nat \<Rightarrow> string option" where
  "read_c_string bytes offset len =
     (case usize (offset + len) of
        None \<Rightarrow> None
      | Some stop \<Rightarrow>
          let e = min stop (length bytes)
          in if offset > e then None
             else let slice = take (e - offset) (drop offset bytes);
                      nul = unwrap_or (length slice) (position (\<lambda>c. c = NUL) slice)
                  in if is_utf8 (take nul slice) then Some (take nul slice) else None)"

section \<open>Program headers\<close>

text \<open>
  The loop over the program headers: \<open>hsize\<close> is the size of a header, \<open>off_at\<close> and
  \<open>len_at\<close> the places of the segment's offset and length, \<open>read_word\<close> their width.
\<close>

fun interp_loop ::
  "nat \<Rightarrow> nat \<Rightarrow> nat \<Rightarrow> (string \<Rightarrow> nat \<Rightarrow> nat option) \<Rightarrow> string \<Rightarrow> nat \<Rightarrow> nat \<Rightarrow> nat list \<Rightarrow> string option" where
  "interp_loop hsize off_at len_at read_word bytes phoff phentsize [] = None"
| "interp_loop hsize off_at len_at read_word bytes phoff phentsize (index # rest) =
     (case Option.bind (usize (index * phentsize)) (\<lambda>p. usize (phoff + p)) of
        None \<Rightarrow> None
      | Some start \<Rightarrow>
          (case usize (start + hsize) of
             None \<Rightarrow> None
           | Some e \<Rightarrow>
               if e > length bytes then interp_loop hsize off_at len_at read_word bytes phoff phentsize rest
               else case read_u32_le bytes start of
                 None \<Rightarrow> None
               | Some p_type \<Rightarrow>
                   if p_type \<noteq> 3 then interp_loop hsize off_at len_at read_word bytes phoff phentsize rest
                   else case (read_word bytes (start + off_at), read_word bytes (start + len_at)) of
                     (Some offset, Some len) \<Rightarrow> read_c_string bytes offset len
                   | _ \<Rightarrow> None))"

definition elf_interpreter_64 :: "string \<Rightarrow> string option" where
  "elf_interpreter_64 bytes =
     (case (read_u64_le bytes 32, read_u16_le bytes 54, read_u16_le bytes 56) of
        (Some phoff, Some phentsize, Some phnum) \<Rightarrow>
          interp_loop 56 8 32 read_u64_le bytes phoff phentsize [0..<phnum]
      | _ \<Rightarrow> None)"

definition elf_interpreter_32 :: "string \<Rightarrow> string option" where
  "elf_interpreter_32 bytes =
     (case (read_u32_le bytes 28, read_u16_le bytes 42, read_u16_le bytes 44) of
        (Some phoff, Some phentsize, Some phnum) \<Rightarrow>
          interp_loop 32 4 16 read_u32_le bytes phoff phentsize [0..<phnum]
      | _ \<Rightarrow> None)"

definition machine_name :: "nat \<Rightarrow> string" where
  "machine_name machine =
     (if machine = 40 then ''arm'' else if machine = 62 then ''x86_64''
      else if machine = 183 then ''aarch64'' else if machine = 243 then ''riscv'' else ''unknown'')"

record elf_info =
  ei_is_elf :: bool
  ei_arch :: "string option"
  ei_interpreter :: "string option"

definition elf_none :: elf_info where
  "elf_none = \<lparr>ei_is_elf = False, ei_arch = None, ei_interpreter = None\<rparr>"

definition ELF_MAGIC :: string where
  "ELF_MAGIC = CHR 0x7F # ''ELF''"

definition elf_info_from_bytes :: "string \<Rightarrow> elf_info option" where
  "elf_info_from_bytes bytes =
     (if length bytes < 20 \<or> take 4 bytes \<noteq> ELF_MAGIC then Some elf_none
      else if byte_at bytes 5 \<noteq> 1
      then Some \<lparr>ei_is_elf = True, ei_arch = Some ''unknown-endian'', ei_interpreter = None\<rparr>
      else
        let cls = byte_at bytes 4
        in case read_u16_le bytes 18 of
             None \<Rightarrow> None
           | Some machine \<Rightarrow>
               Some \<lparr>ei_is_elf = True, ei_arch = Some (machine_name machine),
                 ei_interpreter = (if cls = 1 then elf_interpreter_32 bytes
                   else if cls = 2 then elf_interpreter_64 bytes else None)\<rparr>)"

section \<open>The asset report\<close>

record asset_report =
  br_name :: string
  br_required :: bool
  br_path :: "string option"
  br_executable :: bool
  br_elf :: elf_info

definition read_elf_info :: "string \<Rightarrow> elf_info option prog" where
  "read_elf_info path =
     then_do (get (ReadBytes path)) (\<lambda>r.
       Ret (case r of Inl _ \<Rightarrow> None | Inr bytes \<Rightarrow> elf_info_from_bytes bytes))"

definition binary_report :: "host \<Rightarrow> lxc_config \<Rightarrow> string \<Rightarrow> bool \<Rightarrow> asset_report prog" where
  "binary_report h config name required =
     then_do (candidate_binary_paths h config name) (\<lambda>paths.
     then_do (find_do (\<lambda>path. ask (Exists path)) paths) (\<lambda>found.
       case found of
         None \<Rightarrow> Ret \<lparr>br_name = name, br_required = required, br_path = None, br_executable = False,
                    br_elf = elf_none\<rparr>
       | Some path \<Rightarrow>
           then_do (is_executable path) (\<lambda>executable.
           then_do (ask (IsFile path)) (\<lambda>is_file.
           then_do (if is_file then read_elf_info path else Ret (Some elf_none)) (\<lambda>elf.
             Ret \<lparr>br_name = name, br_required = required, br_path = Some path,
                br_executable = executable, br_elf = unwrap_or elf_none elf\<rparr>)))))"

section \<open>Correctness\<close>

lemma read_le_bounds: "read_le w bytes off = Some v \<Longrightarrow> off + w \<le> length bytes"
  by (auto simp: read_le_def split: if_splits)

lemma le_value_bound: "le_value bs < 256 ^ length bs"
proof (induction bs)
  case (Cons b bs)
  then have "code_of b + 256 * le_value bs < 256 * 256 ^ length bs"
    using code_of_less [of b] by linarith
  then show ?case by simp
qed simp

definition segment_text :: "string \<Rightarrow> nat \<Rightarrow> nat \<Rightarrow> string" where
  "segment_text bytes offset len = takeWhile (\<lambda>c. c \<noteq> NUL) (take len (drop offset bytes))"

lemma take_position: "take (unwrap_or (length xs) (position P xs)) xs = takeWhile (\<lambda>x. \<not> P x) xs"
proof (induction xs)
  case (Cons x xs)
  then show ?case by (cases "position P xs") auto
qed simp

lemma read_c_string_Some:
  assumes "read_c_string bytes offset len = Some s"
  shows "s = segment_text bytes offset len \<and> is_utf8 s \<and> NUL \<notin> set s \<and> offset + length s \<le> length bytes"
proof -
  let ?e = "min (offset + len) (length bytes)"
  let ?slice = "take (?e - offset) (drop offset bytes)"
  have s: "s = take (unwrap_or (length ?slice) (position (\<lambda>c. c = NUL) ?slice)) ?slice" "offset \<le> ?e" "is_utf8 s"
    using assms by (auto simp: read_c_string_def usize_def Let_def split: if_splits)
  have "?slice = take len (drop offset bytes)" by (cases "offset + len \<le> length bytes") auto
  then have t: "s = segment_text bytes offset len"
    using s(1) take_position [of ?slice "\<lambda>c. c = NUL"] by (simp add: segment_text_def)
  have "length s \<le> length (take len (drop offset bytes))"
    unfolding t segment_text_def by (rule length_takeWhile_le)
  then have "offset + length s \<le> length bytes" using s(2) by auto
  moreover have "NUL \<notin> set s" unfolding t segment_text_def by (auto dest: set_takeWhileD)
  ultimately show ?thesis using t s(3) by blast
qed

lemma interp_loop_Some:
  "interp_loop hsize off_at len_at rd bytes phoff phentsize is = Some s \<Longrightarrow>
     \<exists>i \<in> set is. let start = phoff + i * phentsize in
       start + hsize \<le> length bytes \<and> read_u32_le bytes start = Some 3
       \<and> (\<exists>offset len. rd bytes (start + off_at) = Some offset \<and> rd bytes (start + len_at) = Some len
           \<and> read_c_string bytes offset len = Some s)"
proof (induction "is")
  case (Cons i "is")
  then show ?case
    by (auto simp: usize_def Let_def bind_eq_Some_conv split: option.splits if_splits)
qed simp

section \<open>Properties\<close>

text \<open>
  C15. An interpreter reported for a 64-bit binary is what the file says: it is the
  NUL-terminated UTF-8 text, wholly inside the file, of the segment that one of the file's
  program headers, itself inside the file, declares with type PT_INTERP.
\<close>

theorem elf_interpreter_64_sound:
  assumes "elf_interpreter_64 bytes = Some s"
  shows "\<exists>phoff phentsize phnum index offset len.
      read_u64_le bytes 32 = Some phoff \<and> read_u16_le bytes 54 = Some phentsize
    \<and> read_u16_le bytes 56 = Some phnum \<and> index < phnum
    \<and> phoff + index * phentsize + 56 \<le> length bytes
    \<and> read_u32_le bytes (phoff + index * phentsize) = Some 3
    \<and> read_u64_le bytes (phoff + index * phentsize + 8) = Some offset
    \<and> read_u64_le bytes (phoff + index * phentsize + 32) = Some len
    \<and> s = segment_text bytes offset len \<and> NUL \<notin> set s \<and> is_utf8 s
    \<and> offset + length s \<le> length bytes"
proof -
  obtain phoff phentsize phnum where hdr: "read_u64_le bytes 32 = Some phoff"
    "read_u16_le bytes 54 = Some phentsize" "read_u16_le bytes 56 = Some phnum"
    and "interp_loop 56 8 32 read_u64_le bytes phoff phentsize [0..<phnum] = Some s"
    using assms by (auto simp: elf_interpreter_64_def split: option.splits)
  from interp_loop_Some [OF this(4)] obtain index offset len where "index < phnum"
    "phoff + index * phentsize + 56 \<le> length bytes"
    "read_u32_le bytes (phoff + index * phentsize) = Some 3"
    "read_u64_le bytes (phoff + index * phentsize + 8) = Some offset"
    "read_u64_le bytes (phoff + index * phentsize + 32) = Some len"
    "read_c_string bytes offset len = Some s" by (auto simp: Let_def)
  with hdr read_c_string_Some [OF this(6)] show ?thesis by blast
qed

text \<open>A file of one program header, for the example.\<close>

definition sample_elf :: string where
  "sample_elf =
     replicate 32 NUL @ CHR 0x40 # replicate 7 NUL @ replicate 14 NUL @ [CHR 0x38, NUL, CHR 0x01, NUL]
     @ replicate 6 NUL @ CHR 0x03 # replicate 7 NUL @ CHR 0x78 # replicate 7 NUL @ replicate 16 NUL
     @ CHR 0x05 # replicate 7 NUL @ replicate 16 NUL @ ''/ld'' @ [NUL, NUL]"

theorem elf_interpreter_64_sound_witness:
  "elf_interpreter_64 sample_elf = Some ''/ld'' \<and> NUL \<notin> set ''/ld''"
proof -
  have reads: "read_u64_le sample_elf 32 = Some 64" "read_u16_le sample_elf 54 = Some 56"
    "read_u16_le sample_elf 56 = Some 1" "read_u32_le sample_elf 64 = Some 3"
    "read_u64_le sample_elf 72 = Some 120" "read_u64_le sample_elf 96 = Some 5"
    "length sample_elf = 125" "take 5 (drop 120 sample_elf) = ''/ld'' @ [NUL, NUL]"
    "is_utf8 ''/ld''"
    by code_simp+
  have "elf_interpreter_64 sample_elf = Some ''/ld''"
    by (simp add: elf_interpreter_64_def reads usize_def read_c_string_def)
  from this elf_interpreter_64_sound [OF this] show ?thesis by blast
qed

end
