(* ===== verification/LxcCmd.thy ===== *)
theory LxcCmd
  imports LxcImport LxcElf
begin

text \<open>
  The command line of \<open>achost-lxc-runtime\<close>: \<open>dispatch\<close> and one \<open>run_\<close> function per
  subcommand, with what it prints and the exit code it returns. Exit codes: 2 for a command
  line the program does not understand, 1 for an operation that failed, 0 for success; only
  \<open>exec\<close> passes a code of the guest through. Then the two host reports.
\<close>

section \<open>JSON answers\<close>

definition json_opt :: "string option \<Rightarrow> json" where
  "json_opt x = (case x of None \<Rightarrow> JNull | Some s \<Rightarrow> JStr s)"

definition status_json_value :: "status_report \<Rightarrow> json" where
  "status_json_value c =
     JObj [(''name'', JStr (cs_name c)), (''state'', JStr (cs_state c)), (''pid'', json_opt (cs_pid c)),
       (''distro'', JStr (cs_distro c)), (''release'', JStr (cs_release c)), (''arch'', JStr (cs_arch c)),
       (''rootfs'', JStr (cs_rootfs c)), (''config'', JStr (cs_config c)), (''log'', JStr (cs_log c)),
       (''metadata'', JStr (cs_metadata c)), (''autostart'', JBool (cs_autostart c))]"

definition guest_json_value :: "guest_report \<Rightarrow> json" where
  "guest_json_value g =
     JObj [(''name'', JStr (gs_name g)), (''state'', JStr (gs_state g)), (''distro'', JStr (gs_distro g)),
       (''release'', JStr (gs_release g)), (''arch'', JStr (gs_arch g)), (''hostname'', JStr (gs_hostname g)),
       (''uptime'', JStr (gs_uptime g)), (''pretty_name'', JStr (gs_pretty_name g)),
       (''addresses'', JArr (map JStr (gs_addresses g))), (''message'', JStr (gs_message g))]"

definition print_json :: "host \<Rightarrow> json \<Rightarrow> unit prog" where
  "print_json h value = println (h_json h value)"

text \<open>The error arm of the subcommands, as JSON on standard output or as a line of errors.\<close>

definition report_error :: "host \<Rightarrow> bool \<Rightarrow> string \<Rightarrow> string \<Rightarrow> int prog" where
  "report_error h json_output what err =
     then_do (if json_output then print_json h (JObj [(''ok'', JBool False), (''error'', JStr err)])
              else eprintln (what @ '' failed: '' @ err)) (\<lambda>_. Ret 1)"

definition usage_error :: "string \<Rightarrow> int prog" where
  "usage_error msg = then_do (eprintln msg) (\<lambda>_. Ret 2)"

section \<open>Subcommands\<close>

definition run_write_configs :: "host \<Rightarrow> int prog" where
  "run_write_configs h =
     then_do (load_lxc_config h) (\<lambda>config.
     then_do (write_lxc_configs config) (\<lambda>r.
       case r of
         Inr paths \<Rightarrow> then_do (for_all paths (\<lambda>path. println (''wrote_config='' @ path))) (\<lambda>_. Ret 0)
       | Inl err \<Rightarrow> report_error h False ''write-configs'' err))"

definition run_import_rootfs :: "host \<Rightarrow> string list \<Rightarrow> int prog" where
  "run_import_rootfs h args =
     then_do (load_lxc_config h) (\<lambda>config.
     then_do (try_do (parse_import_args args) (import_rootfs h config)) (\<lambda>r.
       case r of
         Inr m \<Rightarrow>
           then_do (println (''imported_container='' @ md_name m)) (\<lambda>_.
           then_do (println (''rootfs='' @ md_rootfs m)) (\<lambda>_.
           then_do (case md_rootfs_sha256 m of None \<Rightarrow> Ret () | Some sha \<Rightarrow> println (''sha256='' @ sha)) (\<lambda>_.
           then_do (println (''distro='' @ md_distro m @ '' release='' @ md_release m @ '' arch='' @ md_arch m))
             (\<lambda>_. Ret 0))))
       | Inl err \<Rightarrow> report_error h False ''import-rootfs'' err))"

definition list_line :: "status_report \<Rightarrow> string" where
  "list_line c =
     ''name='' @ cs_name c @ '' state='' @ cs_state c @ '' pid='' @ unwrap_or [] (cs_pid c)
     @ '' distro='' @ cs_distro c @ '' release='' @ cs_release c @ '' arch='' @ cs_arch c
     @ '' rootfs='' @ cs_rootfs c"

definition run_list :: "host \<Rightarrow> string list \<Rightarrow> int prog" where
  "run_list h args =
     then_do (load_lxc_config h) (\<lambda>config.
     let json_output = has_flag args ''--json''
     in then_do (list_containers h config) (\<lambda>r.
        case r of
          Inr containers \<Rightarrow>
            then_do (if json_output
                     then print_json h (JObj [(''ok'', JBool True), (''containers'', JArr (map status_json_value containers))])
                     else if containers = [] then println ''containers=0''
                     else for_all containers (\<lambda>c. println (list_line c))) (\<lambda>_. Ret 0)
        | Inl err \<Rightarrow> report_error h json_output ''list'' err))"

definition run_status :: "host \<Rightarrow> string list \<Rightarrow> int prog" where
  "run_status h args =
     then_do (load_lxc_config h) (\<lambda>config.
     let json_output = has_flag args ''--json''
     in case first_non_flag args of
          None \<Rightarrow> usage_error ''status requires container name''
        | Some name \<Rightarrow>
            then_do (try_do (Ret (validate_container_name name)) (\<lambda>_. container_status h config name)) (\<lambda>r.
            case r of
              Inr s \<Rightarrow>
                then_do (if json_output
                         then print_json h (JObj [(''ok'', JBool True), (''container'', status_json_value s)])
                         else for_all [''name='' @ cs_name s, ''state='' @ cs_state s, ''pid='' @ unwrap_or [] (cs_pid s),
                                ''distro='' @ cs_distro s, ''release='' @ cs_release s, ''arch='' @ cs_arch s,
                                ''rootfs='' @ cs_rootfs s, ''config='' @ cs_config s, ''log='' @ cs_log s] println)
                  (\<lambda>_. Ret 0)
            | Inl err \<Rightarrow> report_error h json_output ''status'' err))"

definition run_start :: "host \<Rightarrow> string list \<Rightarrow> int prog" where
  "run_start h args =
     then_do (load_lxc_config h) (\<lambda>config.
     case nth_opt args 0 of
       None \<Rightarrow> usage_error ''start requires container name''
     | Some name \<Rightarrow>
         then_do (start_container h config name) (\<lambda>r.
         case r of
           Inr _ \<Rightarrow> then_do (println (''started_container='' @ name)) (\<lambda>_. Ret 0)
         | Inl err \<Rightarrow> report_error h False ''start'' err))"

definition run_stop :: "host \<Rightarrow> string list \<Rightarrow> int prog" where
  "run_stop h args =
     then_do (load_lxc_config h) (\<lambda>config.
     let force = has_flag args ''--force'' \<or> has_flag args ''-k''
     in case first_non_flag args of
          None \<Rightarrow> usage_error ''stop requires container name''
        | Some name \<Rightarrow>
            then_do (stop_container h config name force) (\<lambda>r.
            case r of
              Inr _ \<Rightarrow> then_do (println ((if force then ''force_stopped_container='' else ''stopped_container='') @ name))
                (\<lambda>_. Ret 0)
            | Inl err \<Rightarrow> report_error h False ''stop'' err))"

definition run_destroy :: "host \<Rightarrow> string list \<Rightarrow> int prog" where
  "run_destroy h args =
     then_do (load_lxc_config h) (\<lambda>config.
     case nth_opt args 0 of
       None \<Rightarrow> usage_error ''destroy requires container name''
     | Some name \<Rightarrow>
         then_do (destroy_container h config name) (\<lambda>r.
         case r of
           Inr _ \<Rightarrow> then_do (println (''destroyed_container='' @ name)) (\<lambda>_. Ret 0)
         | Inl err \<Rightarrow> report_error h False ''destroy'' err))"

definition run_set_autostart :: "host \<Rightarrow> string list \<Rightarrow> int prog" where
  "run_set_autostart h args =
     then_do (load_lxc_config h) (\<lambda>config.
     case nth_opt args 0 of
       None \<Rightarrow> usage_error ''set-autostart requires container name''
     | Some name \<Rightarrow>
         (case nth_opt args 1 of
            None \<Rightarrow> usage_error ''set-autostart requires on|off''
          | Some value \<Rightarrow>
              (case parse_toggle value of
                 None \<Rightarrow> usage_error ''set-autostart value must be on|off''
               | Some enabled \<Rightarrow>
                   then_do (set_container_autostart config name enabled) (\<lambda>r.
                   case r of
                     Inr _ \<Rightarrow> then_do (println (''container='' @ name @ '' autostart='' @ show_nat (bit_of enabled)))
                       (\<lambda>_. Ret 0)
                   | Inl err \<Rightarrow> report_error h False ''set-autostart'' err))))"

definition run_autostart :: "host \<Rightarrow> int prog" where
  "run_autostart h =
     then_do (load_lxc_config h) (\<lambda>config.
     then_do (autostart_containers h config) (\<lambda>r.
       case r of
         Inr failures \<Rightarrow> Ret (if failures = 0 then 0 else 1)
       | Inl err \<Rightarrow> report_error h False ''autostart'' err))"

definition run_system_status :: "host \<Rightarrow> string list \<Rightarrow> int prog" where
  "run_system_status h args =
     then_do (load_lxc_config h) (\<lambda>config.
     let json_output = has_flag args ''--json''
     in case first_non_flag args of
          None \<Rightarrow> usage_error ''system-status requires container name''
        | Some name \<Rightarrow>
            then_do (guest_system_status h config name) (\<lambda>r.
            case r of
              Inr s \<Rightarrow>
                then_do (if json_output
                         then print_json h (JObj [(''ok'', JBool True), (''status'', guest_json_value s)])
                         else for_all [''name='' @ gs_name s, ''state='' @ gs_state s, ''distro='' @ gs_distro s,
                                ''release='' @ gs_release s, ''arch='' @ gs_arch s, ''hostname='' @ gs_hostname s,
                                ''uptime='' @ gs_uptime s, ''pretty_name='' @ gs_pretty_name s,
                                ''addresses='' @ str_join '','' (gs_addresses s), ''message='' @ gs_message s] println)
                  (\<lambda>_. Ret 0)
            | Inl err \<Rightarrow> report_error h json_output ''system-status'' err))"

definition run_set_password :: "host \<Rightarrow> string list \<Rightarrow> int prog" where
  "run_set_password h args =
     then_do (load_lxc_config h) (\<lambda>config.
     let json_output = has_flag args ''--json''
     in case first_non_flag args of
          None \<Rightarrow> usage_error ''set-password requires container name''
        | Some name \<Rightarrow>
            (case parse_option_value args ''--user'' of
               None \<Rightarrow> usage_error ''set-password requires --user''
             | Some user \<Rightarrow>
                 if \<not> has_flag args ''--stdin'' then usage_error ''set-password requires --stdin''
                 else
                   then_do (try_do read_password_from_stdin (\<lambda>password.
                              set_container_password h config name user password)) (\<lambda>r.
                   case r of
                     Inr _ \<Rightarrow>
                       then_do (if json_output
                                then print_json h (JObj [(''ok'', JBool True), (''container'', JStr name), (''user'', JStr user)])
                                else println (''container='' @ name @ '' user='' @ user @ '' password_updated=1''))
                         (\<lambda>_. Ret 0)
                   | Inl err \<Rightarrow> report_error h json_output ''set-password'' err)))"

definition run_generate_password :: "host \<Rightarrow> string list \<Rightarrow> int prog" where
  "run_generate_password h args =
     then_do (load_lxc_config h) (\<lambda>config.
     let json_output = has_flag args ''--json''
     in case first_non_flag args of
          None \<Rightarrow> usage_error ''generate-password requires container name''
        | Some name \<Rightarrow>
            (case parse_option_value args ''--user'' of
               None \<Rightarrow> usage_error ''generate-password requires --user''
             | Some user \<Rightarrow>
                 then_do (try_do generate_password (\<lambda>password.
                          try_do (set_container_password h config name user password) (\<lambda>_. ok password))) (\<lambda>r.
                 case r of
                   Inr password \<Rightarrow>
                     then_do (if json_output
                              then print_json h (JObj [(''ok'', JBool True), (''container'', JStr name),
                                     (''user'', JStr user), (''password'', JStr password)])
                              else println (''container='' @ name @ '' user='' @ user @ '' password='' @ password))
                       (\<lambda>_. Ret 0)
                 | Inl err \<Rightarrow> report_error h json_output ''generate-password'' err)))"

definition run_exec :: "host \<Rightarrow> string list \<Rightarrow> int prog" where
  "run_exec h args =
     then_do (load_lxc_config h) (\<lambda>config.
     case nth_opt args 0 of
       None \<Rightarrow> usage_error ''exec requires container name''
     | Some name \<Rightarrow>
         let command = (if nth_opt args 1 = Some ''--'' then drop 2 args else drop 1 args)
         in if command = [] then usage_error ''exec requires command after container name''
            else then_do (exec_container h config name command) (\<lambda>r.
                 case r of Inr code \<Rightarrow> Ret code | Inl err \<Rightarrow> report_error h False ''exec'' err))"

definition run_logs :: "host \<Rightarrow> string list \<Rightarrow> int prog" where
  "run_logs h args =
     then_do (load_lxc_config h) (\<lambda>config.
     case nth_opt args 0 of
       None \<Rightarrow> usage_error ''logs requires container name''
     | Some name \<Rightarrow>
         let lines = unwrap_or 200 (parse_lines_arg (drop 1 args))
         in then_do (read_container_logs config name lines) (\<lambda>r.
            case r of
              Inr text \<Rightarrow>
                then_do (say text) (\<lambda>_.
                then_do (if ends_with [LF] text then Ret () else println []) (\<lambda>_. Ret 0))
            | Inl err \<Rightarrow> report_error h False ''logs'' err))"

definition run_smoke :: "host \<Rightarrow> string list \<Rightarrow> int prog" where
  "run_smoke h args =
     then_do (load_lxc_config h) (\<lambda>config.
     case nth_opt args 0 of
       None \<Rightarrow> usage_error ''smoke requires container name''
     | Some name \<Rightarrow>
         then_do (smoke_container h config name) (\<lambda>r.
         case r of Inr _ \<Rightarrow> Ret 0 | Inl err \<Rightarrow> report_error h False ''smoke'' err))"

section \<open>Host reports\<close>

definition section_title :: "string \<Rightarrow> unit prog" where
  "section_title title = println (LF # ''## '' @ title)"

definition print_config_paths :: "lxc_config \<Rightarrow> unit prog" where
  "print_config_paths config =
     for_all [''ACHOST='' @ lc_achost config, ''ACHOST_BIN='' @ lc_achost_bin config,
       ''ACHOST_COMMON_BIN='' @ lc_common_bin config, ''ACHOST_LXC_MODULE='' @ lc_lxc_module config,
       ''ACHOST_LXC='' @ lc_lxc_root config, ''ACHOST_LXC_BIN='' @ lc_lxc_bin config,
       ''ACHOST_LXC_ETC='' @ lc_lxc_etc config, ''ACHOST_LXC_VAR='' @ lc_lxc_var config,
       ''ACHOST_LXC_RUN='' @ lc_lxc_run config, ''ACHOST_LXC_LOG='' @ lc_lxc_log config,
       ''ACHOST_LXC_ROOTFS='' @ lc_lxc_rootfs config, ''ACHOST_LXC_CONTAINERS='' @ lc_lxc_containers config,
       ''ACHOST_NATIVE_ROOT='' @ lc_native_root config, ''ACHOST_SUPERVISE='' @ lc_supervise config,
       ''LXC_BRIDGE='' @ lc_bridge config, ''LXC_SUBNET='' @ lc_subnet config] println"

definition path_check :: "string \<Rightarrow> string \<Rightarrow> bool \<Rightarrow> bool prog" where
  "path_check label path required =
     then_do (ask (Exists path)) (\<lambda>present.
     then_do (act (OpenForRead path)) (\<lambda>opened.
     then_do (if is_ok opened then Ret True else ask (IsDir path)) (\<lambda>readable.
     then_do (println (label @ ''='' @ (if present then ''present'' else ''missing'') @ '' readable=''
        @ show_nat (bit_of readable) @ '' required='' @ show_nat (bit_of required) @ '' path='' @ path)) (\<lambda>_.
       Ret (\<not> required \<or> present \<and> readable)))))"

text \<open>The checks of a list that fail, counted.\<close>

primrec count_failed :: "(string \<times> string) list \<Rightarrow> nat prog" where
  "count_failed [] = Ret 0"
| "count_failed (c # cs) =
     then_do (path_check (fst c) (snd c) True) (\<lambda>good.
     then_do (count_failed cs) (\<lambda>n. Ret ((if good then 0 else 1) + n)))"

definition print_selinux_status :: "unit prog" where
  "print_selinux_status =
     then_do (get (ReadText ''/sys/fs/selinux/enforce'')) (\<lambda>r.
       case r of
         Inr value \<Rightarrow>
           let v = trim value
           in println (''selinux=present mode='' @ (if v = ''1'' then ''enforcing'' else if v = ''0'' then ''permissive'' else v))
       | Inl _ \<Rightarrow> println ''selinux=missing mode=unknown'')"

definition print_found :: "string \<Rightarrow> string option \<Rightarrow> unit prog" where
  "print_found name found =
     (case found of Some path \<Rightarrow> println (name @ ''=found path='' @ path)
      | None \<Rightarrow> println (name @ ''=missing required=0''))"

definition run_validate_host :: "host \<Rightarrow> int prog" where
  "run_validate_host h =
     then_do (load_lxc_config h) (\<lambda>config.
     then_do (section_title ''lxc paths'') (\<lambda>_.
     then_do (print_config_paths config) (\<lambda>_.
     then_do (section_title ''namespaces'') (\<lambda>_.
     then_do (count_failed (map (\<lambda>n. (''namespace_'' @ n, ''/proc/self/ns/'' @ n))
                [''mnt'', ''uts'', ''ipc'', ''pid'', ''net''])) (\<lambda>f1.
     then_do (path_check ''namespace_user'' ''/proc/self/ns/user'' False) (\<lambda>_.
     then_do (section_title ''cgroups'') (\<lambda>_.
     then_do (count_failed [(''proc_cgroups'', ''/proc/cgroups'')]) (\<lambda>f2.
     then_do (get (ReadText ''/proc/mounts'')) (\<lambda>m.
     let mounts = parse_cgroup_mounts (case m of Inl _ \<Rightarrow> [] | Inr text \<Rightarrow> text)
     in then_do (println (''cgroup_mounts='' @ show_nat (length mounts) @ '' required=1'')) (\<lambda>_.
     then_do (for_all mounts (\<lambda>mt. println (''cgroup_mount path='' @ cm_path mt @ '' fstype='' @ cm_fstype mt))) (\<lambda>_.
     then_do (section_title ''devices'') (\<lambda>_.
     then_do (count_failed [(''devpts'', ''/dev/pts'')]) (\<lambda>f3.
     then_do (section_title ''network'') (\<lambda>_.
     then_do (pick_command (h_env h) [''ip'', ''/system/bin/ip'', ''/system/xbin/ip'']) (\<lambda>ip.
     then_do (print_found ''ip'' ip) (\<lambda>_.
     then_do (pick_command (h_env h) [''iptables'', ''/system/bin/iptables'', ''/system/xbin/iptables'']) (\<lambda>ipt.
     then_do (print_found ''iptables'' ipt) (\<lambda>_.
     let bridge_path = path_join ''/sys/class/net'' (lc_bridge config)
     in then_do (ask (Exists bridge_path)) (\<lambda>bridge_present.
     then_do (println (''lxc_bridge='' @ lc_bridge config @ '' present='' @ show_nat (bit_of bridge_present)
        @ '' subnet='' @ lc_subnet config @ '' path='' @ bridge_path)) (\<lambda>_.
     then_do (section_title ''selinux and pressure'') (\<lambda>_.
     then_do print_selinux_status (\<lambda>_.
     then_do (path_check ''psi_memory'' ''/proc/pressure/memory'' False) (\<lambda>_.
     then_do (path_check ''memcg_pressure'' ''/dev/memcg/memory.pressure_level'' False) (\<lambda>_.
     then_do (section_title ''lxc configs'') (\<lambda>_.
     then_do (count_failed (map (\<lambda>n. (''lxc_config_'' @ n, path_join (lc_lxc_etc config) n))
                [''android-common.conf'', ''default.conf''])) (\<lambda>f4.
     then_do (path_check ''lxc_config_unprivileged.conf''
                (path_join (lc_lxc_etc config) ''unprivileged.conf'') False) (\<lambda>_.
     let failures = f1 + f2 + (if mounts = [] then 1 else 0) + f3 + f4
     in if failures = 0 then Ret 0
        else then_do (eprintln (''validate-host failures: '' @ show_nat failures)) (\<lambda>_. Ret 1))))))))))))))))))))))))))))"

definition REQUIRED_BINARIES :: "string list" where
  "REQUIRED_BINARIES =
     [''lxc-start'', ''lxc-stop'', ''lxc-attach'', ''lxc-info'', ''lxc-ls'', ''lxc-destroy'',
      ''lxc-execute'', ''lxc-checkconfig'']"

definition CONDITIONAL_BINARIES :: "string list" where
  "CONDITIONAL_BINARIES = [''lxc-create'', ''lxc-copy'', ''lxc-console'']"

definition print_binary_report :: "asset_report \<Rightarrow> unit prog" where
  "print_binary_report r =
     (case br_path r of
        Some path \<Rightarrow>
          println (br_name r @ ''=found path='' @ path @ '' executable='' @ show_nat (bit_of (br_executable r))
            @ '' required='' @ show_nat (bit_of (br_required r)) @ '' elf='' @ show_nat (bit_of (ei_is_elf (br_elf r)))
            @ '' arch='' @ unwrap_or ''none'' (ei_arch (br_elf r))
            @ '' interpreter='' @ unwrap_or ''none'' (ei_interpreter (br_elf r)))
      | None \<Rightarrow> println (br_name r @ ''=missing required='' @ show_nat (bit_of (br_required r))))"

definition run_checkconfig :: "string \<Rightarrow> unit prog" where
  "run_checkconfig path =
     then_do (run_cmd \<lparr>cmd_program = path, cmd_args = [], cmd_env = [], cmd_stdin = InheritIn,
                cmd_out = NullOut, cmd_timeout = None\<rparr>) (\<lambda>r.
       case r of
         Inr out \<Rightarrow> println (''lxc_checkconfig=ran exit='' @ show_int (unwrap_or (-1) (out_code out)))
       | Inl err \<Rightarrow> println (''lxc_checkconfig=failed error='' @ show_io err))"

text \<open>The loop over the required binaries: failures and the path of \<open>lxc-checkconfig\<close>.\<close>

primrec required_loop ::
  "host \<Rightarrow> lxc_config \<Rightarrow> string list \<Rightarrow> nat \<Rightarrow> string option \<Rightarrow> (nat \<times> string option) prog" where
  "required_loop h config [] failures checkconfig = Ret (failures, checkconfig)"
| "required_loop h config (name # names) failures checkconfig =
     then_do (binary_report h config name True) (\<lambda>report.
     then_do (print_binary_report report) (\<lambda>_.
       required_loop h config names
         (if br_required report \<and> (br_path report = None \<or> \<not> br_executable report)
          then failures + 1 else failures)
         (if br_name report = ''lxc-checkconfig'' \<and> br_executable report then br_path report else checkconfig)))"

definition run_validate_assets :: "host \<Rightarrow> int prog" where
  "run_validate_assets h =
     then_do (load_lxc_config h) (\<lambda>config.
     then_do (section_title ''lxc paths'') (\<lambda>_.
     then_do (print_config_paths config) (\<lambda>_.
     then_do (section_title ''lxc required binaries'') (\<lambda>_.
     then_do (required_loop h config REQUIRED_BINARIES 0 None) (\<lambda>(failures, checkconfig).
     then_do (section_title ''lxc conditional binaries'') (\<lambda>_.
     then_do (for_all CONDITIONAL_BINARIES (\<lambda>name.
                then_do (binary_report h config name False) print_binary_report)) (\<lambda>_.
     then_do (section_title ''lxc checkconfig result'') (\<lambda>_.
     then_do (case checkconfig of Some path \<Rightarrow> run_checkconfig path
              | None \<Rightarrow> println ''lxc_checkconfig=skipped reason=missing'') (\<lambda>_.
       if failures = 0 then Ret 0
       else then_do (eprintln (''validate-assets failures: '' @ show_nat failures)) (\<lambda>_. Ret 1))))))))))"

section \<open>Dispatch\<close>

definition lxc_usage :: "unit prog" where
  "lxc_usage = eprintln (''usage: achost-lxc-runtime <validate-host|validate-assets|write-configs|prepare-bridge|import-rootfs''
     @ ''|list|status|start|stop|destroy|set-autostart|autostart|system-status|set-password''
     @ ''|generate-password|exec|logs|smoke>'')"

definition dispatch :: "host \<Rightarrow> string list \<Rightarrow> int prog" where
  "dispatch h args =
     (case args of
        [] \<Rightarrow> then_do lxc_usage (\<lambda>_. Ret 2)
      | command # rest \<Rightarrow>
          if command = ''validate-host'' then run_validate_host h
          else if command = ''validate-assets'' then run_validate_assets h
          else if command = ''write-configs'' then run_write_configs h
          else if command = ''prepare-bridge'' then run_prepare_bridge h
          else if command = ''import-rootfs'' then run_import_rootfs h rest
          else if command = ''list'' then run_list h rest
          else if command = ''status'' then run_status h rest
          else if command = ''start'' then run_start h rest
          else if command = ''stop'' then run_stop h rest
          else if command = ''destroy'' then run_destroy h rest
          else if command = ''set-autostart'' then run_set_autostart h rest
          else if command = ''autostart'' then run_autostart h
          else if command = ''system-status'' then run_system_status h rest
          else if command = ''set-password'' then run_set_password h rest
          else if command = ''generate-password'' then run_generate_password h rest
          else if command = ''exec'' then run_exec h rest
          else if command = ''logs'' then run_logs h rest
          else if command = ''smoke'' then run_smoke h rest
          else then_do (eprintln (''unsupported command: '' @ command)) (\<lambda>_. then_do lxc_usage (\<lambda>_. Ret 2)))"

end
