(* ===== verification/CoreNet.thy ===== *)
theory CoreNet
  imports LxcHost
begin

text \<open>
  The network side of \<open>achost-runtime-core\<close>: \<open>RuntimeConfig\<close>, the commands it runs, the
  parsers of \<open>ip\<close> output, the policy-routing and \<open>iptables\<close> rules, \<open>ensure_bridge_ready\<close>
  and \<open>net_reconcile\<close>.

  The loops \<open>while command_success_null(..) {}\<close> end when a deletion fails, which is the
  business of the tool; they get a number of rounds, and \<open>StillRunning\<close> is the value of a
  loop that has used them all. With a tool that keeps a finite table the number of rules
  plus one is enough (\<open>CoreTables\<close>).
\<close>

section \<open>Configuration\<close>

record runtime_error =
  re_code :: int
  re_message :: string

datatype stop = StillRunning | Failed runtime_error

definition runtime_err :: "int \<Rightarrow> string \<Rightarrow> stop" where
  "runtime_err code message = Failed \<lparr>re_code = code, re_message = message\<rparr>"

record runtime_config =
  rc_bridge :: string
  rc_docker_subnet :: "string option"
  rc_uplink :: "string option"
  rc_target :: string
  rc_iptables :: "string option"
  rc_dry_run :: bool
  rc_policy_rules :: string
  rc_return_rule_priority :: nat
  rc_source_rule_priority :: nat

definition env_priority :: "environment \<Rightarrow> string \<Rightarrow> nat \<Rightarrow> nat" where
  "env_priority e name d = unwrap_or d (Option.bind (env_var e name) (parse_uint U32_BOUND))"

definition env_u64 :: "environment \<Rightarrow> string \<Rightarrow> nat \<Rightarrow> nat" where
  "env_u64 e name d = unwrap_or d (Option.bind (env_var e name) (parse_uint U64_BOUND))"

definition runtime_config_from_env :: "environment \<Rightarrow> runtime_config" where
  "runtime_config_from_env e =
     \<lparr>rc_bridge = unwrap_or ''docker0'' (or_else (env_nonempty e ''CONTAINER_BRIDGE'') (env_nonempty e ''DOCKER_BRIDGE'')),
      rc_docker_subnet = or_else (env_nonempty e ''CONTAINER_SUBNET'') (env_nonempty e ''DOCKER_SUBNET''),
      rc_uplink = env_nonempty e ''UPLINK'',
      rc_target = unwrap_or ''1.1.1.1'' (env_nonempty e ''TARGET''),
      rc_iptables = env_nonempty e ''IPTABLES'',
      rc_dry_run = (env_var e ''ACHOST_DRY_RUN'' = Some ''1''),
      rc_policy_rules = unwrap_or ''1'' (env_var e ''ACHOST_CONTAINER_POLICY_RULES''),
      rc_return_rule_priority = env_priority e ''ACHOST_CONTAINER_RETURN_RULE_PRIORITY'' 11999,
      rc_source_rule_priority = env_priority e ''ACHOST_CONTAINER_SOURCE_RULE_PRIORITY'' 12000\<rparr>"

record bridge_reconcile_args =
  ba_bridge :: "string option"
  ba_subnet :: "string option"
  ba_owner :: string

text \<open>The loop of \<open>parse_bridge_reconcile_args\<close>: flags and values in pairs.\<close>

fun bridge_flag_loop :: "bridge_reconcile_args \<Rightarrow> string list \<Rightarrow> bridge_reconcile_args result" where
  "bridge_flag_loop parsed [] = Inr parsed"
| "bridge_flag_loop parsed [flag] = Inl (''missing value for '' @ flag)"
| "bridge_flag_loop parsed (flag # v # rest) =
     (if flag = ''--bridge'' then bridge_flag_loop (parsed\<lparr>ba_bridge := Some v\<rparr>) rest
      else if flag = ''--subnet'' then bridge_flag_loop (parsed\<lparr>ba_subnet := Some v\<rparr>) rest
      else if flag = ''--owner'' then bridge_flag_loop (parsed\<lparr>ba_owner := v\<rparr>) rest
      else Inl (''unsupported bridge-reconcile argument: '' @ flag))"

definition parse_bridge_reconcile_args :: "string list \<Rightarrow> bridge_reconcile_args result" where
  "parse_bridge_reconcile_args args =
     bridge_flag_loop \<lparr>ba_bridge = None, ba_subnet = None, ba_owner = ''container''\<rparr> args"

section \<open>Output and commands\<close>

datatype logger = Stdout | LogFile string

definition append_line_or_stdout :: "string \<Rightarrow> string \<Rightarrow> unit prog" where
  "append_line_or_stdout path message =
     then_do (act (AppendFile path (message @ [LF]))) (\<lambda>r. if is_ok r then Ret () else println message)"

definition log_line :: "logger \<Rightarrow> string \<Rightarrow> unit prog" where
  "log_line logger message =
     (case logger of Stdout \<Rightarrow> println message | LogFile path \<Rightarrow> append_line_or_stdout path message)"

definition output_cmd :: "string \<Rightarrow> string list \<Rightarrow> cmd" where
  "output_cmd command args =
     \<lparr>cmd_program = command, cmd_args = args, cmd_env = [], cmd_stdin = NullIn, cmd_out = CaptureOut,
      cmd_timeout = None\<rparr>"

definition silent_cmd :: "string \<Rightarrow> string list \<Rightarrow> cmd" where
  "silent_cmd command args =
     \<lparr>cmd_program = command, cmd_args = args, cmd_env = [], cmd_stdin = InheritIn, cmd_out = NullOut,
      cmd_timeout = None\<rparr>"

definition command_output :: "string \<Rightarrow> string list \<Rightarrow> cmd_output io prog" where
  "command_output command args = run_cmd (output_cmd command args)"

text \<open>The answer of a command that ran and exited with 0.\<close>

definition succeeded :: "cmd_output io \<Rightarrow> bool" where
  "succeeded r = (case r of Inl _ \<Rightarrow> False | Inr out \<Rightarrow> out_success out)"

definition success_text :: "cmd_output io \<Rightarrow> string option" where
  "success_text r = (case r of Inl _ \<Rightarrow> None | Inr out \<Rightarrow> if out_success out then Some (out_stdout out) else None)"

definition command_success_silent :: "string \<Rightarrow> string list \<Rightarrow> bool prog" where
  "command_success_silent command args =
     then_do (run_cmd (silent_cmd command args)) (\<lambda>r. Ret (succeeded r))"

definition command_success_null :: "string \<Rightarrow> string list \<Rightarrow> bool prog" where
  "command_success_null command args =
     then_do (run_cmd (silent_cmd command args)) (\<lambda>r. Ret (succeeded r))"

definition command_stdout_trim :: "string \<Rightarrow> string list \<Rightarrow> string prog" where
  "command_stdout_trim command args =
     then_do (command_output command args) (\<lambda>r. Ret (unwrap_or [] (map_option trim (success_text r))))"

definition format_command :: "string \<Rightarrow> string list \<Rightarrow> string" where
  "format_command command args = str_join '' '' (command # args)"

definition log_command_output :: "logger \<Rightarrow> string \<Rightarrow> unit prog" where
  "log_command_output logger bytes = for_all (rust_lines bytes) (log_line logger)"

definition run_logged :: "logger \<Rightarrow> string \<Rightarrow> string list \<Rightarrow> bool \<Rightarrow> bool prog" where
  "run_logged logger command args dry_run =
     (if dry_run
      then then_do (log_line logger (''+ '' @ format_command command args)) (\<lambda>_. Ret True)
      else
        then_do (command_output command args) (\<lambda>r.
          case r of
            Inr out \<Rightarrow>
              then_do (log_command_output logger (out_stdout out)) (\<lambda>_.
              then_do (log_command_output logger (out_stderr out)) (\<lambda>_. Ret (out_success out)))
          | Inl err \<Rightarrow> then_do (log_line logger (command @ '': '' @ show_io err)) (\<lambda>_. Ret False)))"

definition core_is_executable :: "string \<Rightarrow> bool prog" where
  "core_is_executable path = and_also (ask (IsFile path)) (ask (IsExecutable path))"

definition have_command :: "environment \<Rightarrow> string \<Rightarrow> bool prog" where
  "have_command e command =
     (if CHR ''/'' \<in> set command then core_is_executable command
      else case env_var_os e ''PATH'' of
             None \<Rightarrow> Ret False
           | Some paths \<Rightarrow>
               any_do (\<lambda>dir. core_is_executable (path_join dir command)) (split_char (CHR '':'') paths))"

section \<open>Parsers of tool output\<close>

text \<open>The token after the first occurrence of a word.\<close>

fun next_token :: "string \<Rightarrow> string list \<Rightarrow> string option" where
  "next_token needle [] = None"
| "next_token needle (w # ws) = (if w = needle then nth_opt ws 0 else next_token needle ws)"

definition token_after :: "string \<Rightarrow> string \<Rightarrow> string option" where
  "token_after s needle = next_token needle (split_whitespace s)"

definition parse_dev_field :: "string \<Rightarrow> string option" where
  "parse_dev_field route = token_after route ''dev''"

definition bridge_gateway_cidr :: "string \<Rightarrow> string option" where
  "bridge_gateway_cidr subnet =
     (case split_once (CHR ''/'') subnet of
        None \<Rightarrow> None
      | Some (addr, pre) \<Rightarrow>
          (case split_char (CHR ''.'') addr of
             [a, b, c, d] \<Rightarrow>
               (case parse_uint U8_BOUND pre of
                  None \<Rightarrow> None
                | Some p \<Rightarrow>
                    if p > 32 then None
                    else case (parse_uint U8_BOUND a, parse_uint U8_BOUND b, parse_uint U8_BOUND c, parse_uint U8_BOUND d) of
                           (Some a, Some b, Some c, Some d) \<Rightarrow>
                             Some (show_nat a @ ''.'' @ show_nat b @ ''.'' @ show_nat c @ ''.'' @ show_nat 1 @ ''/'' @ pre)
                         | _ \<Rightarrow> None)
           | _ \<Rightarrow> None))"

definition looks_like_ipv4_cidr :: "string \<Rightarrow> bool" where
  "looks_like_ipv4_cidr v \<longleftrightarrow>
     CHR ''/'' \<in> set v \<and> list_all (\<lambda>c. is_digit c \<or> c = CHR ''.'' \<or> c = CHR ''/'') v
     \<and> v \<noteq> [] \<and> is_digit (hd v)"

definition route_line_subnet :: "string \<Rightarrow> string option" where
  "route_line_subnet line =
     (case nth_opt (split_whitespace line) 0 of
        None \<Rightarrow> None
      | Some w \<Rightarrow> if looks_like_ipv4_cidr w then Some w else None)"

definition subnet_from_route :: "string \<Rightarrow> string option prog" where
  "subnet_from_route bridge =
     then_do (command_output ''ip'' [''-4'', ''route'', ''show'', ''dev'', bridge, ''scope'', ''link'']) (\<lambda>r.
       Ret (Option.bind (success_text r) (\<lambda>stdout. find_map route_line_subnet (rust_lines stdout))))"

definition subnet_from_addr :: "string \<Rightarrow> string option prog" where
  "subnet_from_addr bridge =
     then_do (command_output ''ip'' [''-4'', ''addr'', ''show'', bridge]) (\<lambda>r.
       Ret (Option.bind (success_text r) (\<lambda>stdout. find_map (\<lambda>line. token_after line ''inet'') (rust_lines stdout))))"

definition config_subnet :: "runtime_config \<Rightarrow> string option" where
  "config_subnet config = filter_opt (\<lambda>v. v \<noteq> []) (rc_docker_subnet config)"

text \<open>Lazy alternatives of optional results.\<close>

definition else_do :: "'a option prog \<Rightarrow> 'a option prog \<Rightarrow> 'a option prog" where
  "else_do p q = then_do p (\<lambda>r. case r of None \<Rightarrow> q | Some x \<Rightarrow> Ret (Some x))"

definition resolve_docker_subnet :: "runtime_config \<Rightarrow> string option prog" where
  "resolve_docker_subnet config =
     else_do (subnet_from_route (rc_bridge config))
       (else_do (Ret (config_subnet config)) (subnet_from_addr (rc_bridge config)))"

definition bridge_subnet_for_watchdog :: "runtime_config \<Rightarrow> string option prog" where
  "bridge_subnet_for_watchdog config =
     else_do (Ret (config_subnet config))
       (else_do (subnet_from_route (rc_bridge config)) (subnet_from_addr (rc_bridge config)))"

definition link_is_usable :: "string \<Rightarrow> bool prog" where
  "link_is_usable iface =
     then_do (command_output ''ip'' [''link'', ''show'', iface]) (\<lambda>r.
       Ret (case success_text r of
              None \<Rightarrow> False
            | Some link \<Rightarrow> trim link \<noteq> [] \<and> \<not> str_contains ''NO-CARRIER'' link \<and> \<not> str_contains ''state DOWN'' link))"

definition detect_uplink_iface :: "environment \<Rightarrow> string \<Rightarrow> (stop + string) prog" where
  "detect_uplink_iface e target =
     then_do (have_command e ''ip'') (\<lambda>have.
       if \<not> have then fail (runtime_err 2 ''ip command not found'')
       else
         try_do (map_err (\<lambda>_. runtime_err 2 ''ip command not found'')
                   (command_output ''ip'' [''route'', ''get'', target])) (\<lambda>out.
         let route = trim (out_stdout out)
         in if \<not> out_success out \<or> route = []
            then fail (runtime_err 1 (''failed to resolve uplink for '' @ target))
            else
              try_do (Ret (ok_or (runtime_err 1 (''no dev field in route: '' @ route)) (parse_dev_field route))) (\<lambda>iface.
              then_do (link_is_usable iface) (\<lambda>usable.
                if usable then ok iface else fail (runtime_err 1 (''route dev is not usable: '' @ iface))))))"

definition resolve_uplink :: "environment \<Rightarrow> runtime_config \<Rightarrow> string option prog" where
  "resolve_uplink e config =
     (case filter_opt (\<lambda>v. v \<noteq> []) (rc_uplink config) of
        Some uplink \<Rightarrow> Ret (Some uplink)
      | None \<Rightarrow> then_do (detect_uplink_iface e (rc_target config)) (\<lambda>r.
                  Ret (case r of Inl _ \<Rightarrow> None | Inr iface \<Rightarrow> Some iface)))"

definition pick_iptables :: "environment \<Rightarrow> runtime_config \<Rightarrow> string option prog" where
  "pick_iptables e config =
     (case filter_opt (\<lambda>v. v \<noteq> []) (rc_iptables config) of
        Some iptables \<Rightarrow> Ret (Some iptables)
      | None \<Rightarrow> find_do (have_command e) [''iptables'', ''iptables-legacy'', ''iptables-nft''])"

end
