(* ===== verification/CoreRules.thy ===== *)
theory CoreRules
  imports CoreNet
begin

text \<open>
  Policy-routing rules, \<open>iptables\<close> rules, sysctls, \<open>ensure_bridge_ready\<close> and
  \<open>net_reconcile\<close>. The argument \<open>fuel\<close> of the operations with a deletion loop bounds the
  rounds of each loop.
\<close>

section \<open>Deletion loops\<close>

text \<open>\<open>while command_success_null(command, args) {}\<close>\<close>

fun delete_loop :: "nat \<Rightarrow> string \<Rightarrow> string list \<Rightarrow> (stop + unit) prog" where
  "delete_loop 0 command args = fail StillRunning"
| "delete_loop (Suc fuel) command args =
     then_do (command_success_null command args) (\<lambda>again.
       if again then delete_loop fuel command args else ok ())"

section \<open>Policy routing\<close>

definition rule_line_counts :: "nat \<Rightarrow> string \<Rightarrow> string \<Rightarrow> bool \<times> bool" where
  "rule_line_counts priority needle line =
     (let here = (nth_opt (split_whitespace line) 0 = Some (show_nat priority @ '':''))
      in (here, here \<and> str_contains needle line))"

definition count_rules_text :: "nat \<Rightarrow> string \<Rightarrow> string \<Rightarrow> nat \<times> nat" where
  "count_rules_text priority needle stdout =
     (let counts = map (rule_line_counts priority needle) (rust_lines stdout)
      in (length (filter fst counts), length (filter snd counts)))"

definition count_ip_rules_at_priority :: "nat \<Rightarrow> string \<Rightarrow> (nat \<times> nat) prog" where
  "count_ip_rules_at_priority priority needle =
     then_do (command_output ''ip'' [''rule'', ''show'']) (\<lambda>r.
       Ret (case success_text r of None \<Rightarrow> (0, 0) | Some stdout \<Rightarrow> count_rules_text priority needle stdout))"

definition ip_rule_present :: "nat \<Rightarrow> string \<Rightarrow> bool prog" where
  "ip_rule_present priority needle =
     then_do (count_ip_rules_at_priority priority needle) (\<lambda>counts. Ret (snd counts > 0))"

definition rule_del_args :: "nat \<Rightarrow> string list" where
  "rule_del_args priority = [''rule'', ''del'', ''priority'', show_nat priority]"

definition delete_ip_rules_at_priority :: "nat \<Rightarrow> nat \<Rightarrow> bool \<Rightarrow> logger \<Rightarrow> (stop + unit) prog" where
  "delete_ip_rules_at_priority fuel priority dry_run logger =
     (if dry_run
      then then_do (log_line logger (''+ ip rule del priority '' @ show_nat priority @ '' # until empty'')) (\<lambda>_. ok ())
      else delete_loop fuel ''ip'' (rule_del_args priority))"

definition rule_add_args :: "nat \<Rightarrow> string list \<Rightarrow> string list" where
  "rule_add_args priority args = [''rule'', ''add''] @ args @ [''priority'', show_nat priority]"

definition ensure_ip_rule ::
  "nat \<Rightarrow> nat \<Rightarrow> string \<Rightarrow> string list \<Rightarrow> bool \<Rightarrow> logger \<Rightarrow> (stop + unit) prog" where
  "ensure_ip_rule fuel priority needle args dry_run logger =
     then_do (if dry_run then Ret False
              else then_do (count_ip_rules_at_priority priority needle) (\<lambda>counts. Ret (counts = (1, 1)))) (\<lambda>present.
       if present
       then then_do (log_line logger (''ok: ip rule priority '' @ show_nat priority @ '' '' @ needle)) (\<lambda>_. ok ())
       else
         try_do (delete_ip_rules_at_priority fuel priority dry_run logger) (\<lambda>_.
         then_do (run_logged logger ''ip'' (rule_add_args priority args) dry_run) (\<lambda>_. ok ())))"

definition ensure_return_policy_rule :: "nat \<Rightarrow> runtime_config \<Rightarrow> string \<Rightarrow> logger \<Rightarrow> (stop + unit) prog" where
  "ensure_return_policy_rule fuel config subnet logger =
     (if rc_policy_rules config \<noteq> ''1'' then ok ()
      else ensure_ip_rule fuel (rc_return_rule_priority config) (''to '' @ subnet @ '' lookup main'')
             [''to'', subnet, ''lookup'', ''main''] (rc_dry_run config) logger)"

definition ensure_source_policy_rule ::
  "nat \<Rightarrow> runtime_config \<Rightarrow> string \<Rightarrow> string \<Rightarrow> logger \<Rightarrow> (stop + unit) prog" where
  "ensure_source_policy_rule fuel config subnet uplink logger =
     (if rc_policy_rules config \<noteq> ''1'' then ok ()
      else ensure_ip_rule fuel (rc_source_rule_priority config) (''from '' @ subnet @ '' lookup '' @ uplink)
             [''from'', subnet, ''lookup'', uplink] (rc_dry_run config) logger)"

section \<open>Packet filter\<close>

definition table_args :: "string \<Rightarrow> string list" where
  "table_args table = (if table \<noteq> ''filter'' then [''-t'', table] else [])"

definition delete_rule_args :: "string \<Rightarrow> string \<Rightarrow> string list \<Rightarrow> string list" where
  "delete_rule_args table chain args = table_args table @ [''-D'', chain] @ args"

definition insert_rule_args :: "string \<Rightarrow> string \<Rightarrow> string list \<Rightarrow> string list" where
  "insert_rule_args table chain args =
     (if table = ''filter'' then [''-I'', chain] else [''-t'', table, ''-A'', chain]) @ args"

definition delete_existing_rules ::
  "nat \<Rightarrow> string \<Rightarrow> string \<Rightarrow> string \<Rightarrow> string list \<Rightarrow> bool \<Rightarrow> (stop + unit) prog" where
  "delete_existing_rules fuel iptables table chain args dry_run =
     (if dry_run then ok () else delete_loop fuel iptables (delete_rule_args table chain args))"

definition ensure_rule ::
  "nat \<Rightarrow> string \<Rightarrow> string \<Rightarrow> string \<Rightarrow> string list \<Rightarrow> bool \<Rightarrow> logger \<Rightarrow> (stop + unit) prog" where
  "ensure_rule fuel iptables table chain args dry_run logger =
     try_do (delete_existing_rules fuel iptables table chain args dry_run) (\<lambda>_.
     then_do (run_logged logger iptables (insert_rule_args table chain args) dry_run) (\<lambda>_. ok ()))"

text \<open>The inner loop of \<open>cleanup_bridge_forward_rules\<close>: the last \<open>-i\<close>, \<open>-o\<close>, \<open>-j\<close> of a rule.\<close>

fun forward_fields :: "string list \<Rightarrow> string \<times> string \<times> string \<Rightarrow> string \<times> string \<times> string" where
  "forward_fields (w # v # ws) (i, out, j) =
     (if w = ''-i'' then forward_fields ws (v, out, j)
      else if w = ''-o'' then forward_fields ws (i, v, j)
      else if w = ''-j'' then forward_fields ws (i, out, v)
      else forward_fields (v # ws) (i, out, j))"
| "forward_fields [w] f = f"
| "forward_fields [] f = f"

definition stale_forward :: "string \<Rightarrow> string \<Rightarrow> string option" where
  "stale_forward bridge line =
     (let tokens = split_whitespace line
      in if nth_opt tokens 0 \<noteq> Some ''-A'' \<or> nth_opt tokens 1 \<noteq> Some ''FORWARD'' then None
         else case forward_fields tokens ([], [], []) of
                (i, out, j) \<Rightarrow> if i = bridge \<and> j = ''ACCEPT'' \<and> out \<noteq> [] then Some out else None)"

definition delete_forward_args :: "string \<Rightarrow> string \<Rightarrow> string list" where
  "delete_forward_args bridge out = [''-D'', ''FORWARD'', ''-i'', bridge, ''-o'', out, ''-j'', ''ACCEPT'']"

definition cleanup_bridge_forward_rules :: "nat \<Rightarrow> string \<Rightarrow> string \<Rightarrow> (stop + unit) prog" where
  "cleanup_bridge_forward_rules fuel iptables bridge =
     then_do (command_output iptables [''-S'', ''FORWARD'']) (\<lambda>r.
       case success_text r of
         None \<Rightarrow> ok ()
       | Some stdout \<Rightarrow>
           for_each (rust_lines stdout) (\<lambda>line.
             case stale_forward bridge line of
               None \<Rightarrow> ok ()
             | Some out \<Rightarrow> delete_loop fuel iptables (delete_forward_args bridge out)))"

section \<open>Reconciliation\<close>

definition sysctl_path :: "string \<Rightarrow> string" where
  "sysctl_path key = path_join ''/proc/sys'' (map (\<lambda>c. if c = CHR ''.'' then CHR ''/'' else c) key)"

definition set_sysctl_value :: "environment \<Rightarrow> string \<Rightarrow> string \<Rightarrow> bool \<Rightarrow> logger \<Rightarrow> unit prog" where
  "set_sysctl_value e key v dry_run logger =
     (let proc_path = sysctl_path key;
          use_tool = then_do (have_command e ''sysctl'') (\<lambda>have.
            if have then then_do (run_logged logger ''sysctl'' [''-w'', key @ ''='' @ v] dry_run) (\<lambda>_. Ret ())
            else log_line logger (''warn: cannot set '' @ key))
      in then_do (ask (PathWritable proc_path)) (\<lambda>writable.
         if writable
         then if dry_run then log_line logger (''+ echo '' @ v @ '' > '' @ proc_path)
              else then_do (act (WriteFile proc_path (v @ [LF]))) (\<lambda>r. if is_ok r then Ret () else use_tool)
         else use_tool))"

definition bridge_create_args :: "string \<Rightarrow> string list" where
  "bridge_create_args bridge = [''link'', ''add'', ''name'', bridge, ''type'', ''bridge'']"

definition ensure_bridge_ready ::
  "environment \<Rightarrow> string \<Rightarrow> string \<Rightarrow> bool \<Rightarrow> logger \<Rightarrow> (stop + unit) prog" where
  "ensure_bridge_ready e bridge subnet dry_run logger =
     then_do (have_command e ''ip'') (\<lambda>have.
       if \<not> have then fail (runtime_err 1 ''ip command not found'')
       else
         then_do (command_success_silent ''ip'' [''link'', ''show'', bridge]) (\<lambda>shown.
         then_do (if shown then Ret True
                  else then_do (run_logged logger ''ip'' (bridge_create_args bridge) dry_run) (\<lambda>made.
                       if made then Ret True
                       else command_success_silent ''ip'' [''link'', ''show'', bridge])) (\<lambda>exists.
         if \<not> exists then fail (runtime_err 1 (''failed to create bridge '' @ bridge))
         else
           try_do (Ret (ok_or (runtime_err 1 (''invalid bridge subnet: '' @ subnet)) (bridge_gateway_cidr subnet))) (\<lambda>gateway.
           then_do (run_logged logger ''ip'' [''addr'', ''replace'', gateway, ''dev'', bridge] dry_run) (\<lambda>assigned.
           if \<not> assigned then fail (runtime_err 1 (''failed to assign address to '' @ bridge))
           else
             then_do (run_logged logger ''ip'' [''link'', ''set'', bridge, ''up''] dry_run) (\<lambda>up.
             if \<not> up then fail (runtime_err 1 (''failed to bring up bridge '' @ bridge)) else ok ()))))))"

definition forward_out_rule :: "string \<Rightarrow> string \<Rightarrow> string list" where
  "forward_out_rule bridge uplink = [''-i'', bridge, ''-o'', uplink, ''-j'', ''ACCEPT'']"

definition forward_back_rule :: "string \<Rightarrow> string list" where
  "forward_back_rule bridge =
     [''-o'', bridge, ''-m'', ''conntrack'', ''--ctstate'', ''RELATED,ESTABLISHED'', ''-j'', ''ACCEPT'']"

definition masquerade_rule :: "string \<Rightarrow> string \<Rightarrow> string list" where
  "masquerade_rule subnet bridge = [''-s'', subnet, ''!'', ''-o'', bridge, ''-j'', ''MASQUERADE'']"

text \<open>\<open>net_reconcile\<close>, from the point where the uplink is known.\<close>

definition reconcile_uplink ::
  "nat \<Rightarrow> runtime_config \<Rightarrow> logger \<Rightarrow> string \<Rightarrow> string \<Rightarrow> string \<Rightarrow> (stop + unit) prog" where
  "reconcile_uplink fuel config logger iptables subnet uplink =
     then_do (log_line logger (''uplink='' @ uplink)) (\<lambda>_.
     try_do (ensure_source_policy_rule fuel config subnet uplink logger) (\<lambda>_.
     try_do (cleanup_bridge_forward_rules fuel iptables (rc_bridge config)) (\<lambda>_.
     try_do (ensure_rule fuel iptables ''filter'' ''FORWARD'' (forward_out_rule (rc_bridge config) uplink)
               (rc_dry_run config) logger) (\<lambda>_.
     try_do (ensure_rule fuel iptables ''filter'' ''FORWARD'' (forward_back_rule (rc_bridge config))
               (rc_dry_run config) logger) (\<lambda>_.
     try_do (ensure_rule fuel iptables ''nat'' ''POSTROUTING'' (masquerade_rule subnet (rc_bridge config))
               (rc_dry_run config) logger) (\<lambda>_.
     then_do (log_line logger ''container NAT reconciliation complete'') (\<lambda>_. ok ())))))))"

definition reconcile_report :: "runtime_config \<Rightarrow> string \<Rightarrow> string \<Rightarrow> string list" where
  "reconcile_report config iptables subnet =
     [''container_bridge='' @ rc_bridge config, ''container_subnet='' @ subnet,
      ''docker_bridge='' @ rc_bridge config, ''docker_subnet='' @ subnet, ''iptables='' @ iptables,
      ''policy_rules='' @ rc_policy_rules config @ '' return_rule_priority=''
        @ show_nat (rc_return_rule_priority config) @ '' source_rule_priority=''
        @ show_nat (rc_source_rule_priority config)]"

definition net_reconcile :: "nat \<Rightarrow> environment \<Rightarrow> runtime_config \<Rightarrow> logger \<Rightarrow> (stop + unit) prog" where
  "net_reconcile fuel e config logger =
     then_do (have_command e ''ip'') (\<lambda>have.
       if \<not> have then fail (runtime_err 1 ''ip command not found'')
       else
         then_do (command_success_silent ''ip'' [''addr'', ''show'', rc_bridge config]) (\<lambda>shown.
         if \<not> shown then fail (runtime_err 1 (rc_bridge config @ '' not found''))
         else
           then_do (pick_iptables e config) (\<lambda>ipt.
           try_do (Ret (ok_or (runtime_err 1 ''iptables command not found'') ipt)) (\<lambda>iptables.
           then_do (resolve_docker_subnet config) (\<lambda>sn.
           try_do (Ret (ok_or (runtime_err 1 (''cannot determine IPv4 subnet for '' @ rc_bridge config
                     @ ''; set CONTAINER_SUBNET or DOCKER_SUBNET'')) sn)) (\<lambda>subnet.
           then_do (for_all (reconcile_report config iptables subnet) (log_line logger)) (\<lambda>_.
           then_do (set_sysctl_value e ''net.ipv4.ip_forward'' ''1'' (rc_dry_run config) logger) (\<lambda>_.
           then_do (set_sysctl_value e ''net.ipv6.conf.all.forwarding'' ''1'' (rc_dry_run config) logger) (\<lambda>_.
           try_do (ensure_return_policy_rule fuel config subnet logger) (\<lambda>_.
           then_do (resolve_uplink e config) (\<lambda>up.
             case up of
               None \<Rightarrow>
                 then_do (log_line logger ''warn: cannot detect uplink interface; host access rule repaired only'') (\<lambda>_.
                 then_do (log_line logger ''container host-route reconciliation complete'') (\<lambda>_. ok ()))
             | Some uplink \<Rightarrow> reconcile_uplink fuel config logger iptables subnet uplink)))))))))))"

end
