(* ===== verification/CoreTables.thy ===== *)
theory CoreTables
  imports CoreRules
begin

text \<open>
  What the rule operations of \<open>achost-runtime-core\<close> achieve. The tools \<open>ip\<close> and \<open>iptables\<close>
  are not under src/; what the code relies on is stated as a step function on the table the
  tool keeps: which answer a call gets, and which table it leaves. A record of calls agrees
  with a tool when every answer in it is the one the table calls for.
\<close>

section \<open>Records of a tool with a table\<close>

primrec runs_on :: "('s \<Rightarrow> event \<Rightarrow> 's option) \<Rightarrow> event list \<Rightarrow> 's \<Rightarrow> 's option" where
  "runs_on step [] s = Some s"
| "runs_on step (e # t) s = (case step s e of None \<Rightarrow> None | Some s' \<Rightarrow> runs_on step t s')"

lemma runs_on_append:
  "runs_on step (t @ u) s = Some s' \<longleftrightarrow> (\<exists>m. runs_on step t s = Some m \<and> runs_on step u m = Some s')"
  by (induction t arbitrary: s) (auto split: option.splits)

lemma runs_on_Cons:
  "runs_on step (e # t) s = Some s' \<longleftrightarrow> (\<exists>m. step s e = Some m \<and> runs_on step t m = Some s')"
  by (auto split: option.splits)

lemma runs_on_still: "list_all (\<lambda>e. \<forall>s. step s e = Some s) t \<Longrightarrow> runs_on step t s = Some s"
  by (induction t) auto

text \<open>A call that deletes one of the matching rules, or fails when there is none.\<close>

locale rule_table =
  fixes step :: "'s \<Rightarrow> event \<Rightarrow> 's option"
    and matching :: "'s \<Rightarrow> nat"
    and purged :: "'s \<Rightarrow> 's"
    and command :: string
    and args :: "string list"
  assumes delete_hit: "step s (ERun (silent_cmd command args) r) = Some s' \<Longrightarrow> matching s > 0
      \<Longrightarrow> succeeded r \<and> matching s = Suc (matching s') \<and> purged s' = purged s"
    and delete_miss: "step s (ERun (silent_cmd command args) r) = Some s' \<Longrightarrow> matching s = 0
      \<Longrightarrow> \<not> succeeded r \<and> s' = s"
    and purged_clean: "matching s = 0 \<Longrightarrow> purged s = s"
begin

text \<open>With as many rounds as matching rules and one more, the loop ends and has purged them.\<close>

lemma delete_loop_purges:
  "exec (delete_loop fuel command args) t = Some r \<Longrightarrow> runs_on step t s = Some s' \<Longrightarrow> matching s < fuel
    \<Longrightarrow> r = Inr () \<and> s' = purged s"
proof (induction fuel arbitrary: t s)
  case (Suc fuel)
  from Suc.prems(1) obtain out u where t: "t = ERun (silent_cmd command args) out # u"
    and rest: "exec (if succeeded out then delete_loop fuel command args else ok ()) u = Some r"
    by (auto simp: command_success_null_def exec_node)
  from Suc.prems(2) t obtain m where step: "step s (ERun (silent_cmd command args) out) = Some m"
    and run: "runs_on step u m = Some s'" by (auto simp: runs_on_Cons simp del: runs_on.simps)
  show ?case
  proof (cases "matching s = 0")
    case True
    with delete_miss [OF step] rest run purged_clean show ?thesis by auto
  next
    case False
    with delete_hit [OF step] rest run Suc.IH [of u m] Suc.prems(3) show ?thesis by auto
  qed
qed simp

end

section \<open>The policy-routing table\<close>

text \<open>
  The rules in the order of \<open>ip rule show\<close>, each with its priority and its text; \<open>rule_text\<close>
  is how the tool prints the selector it was given.
\<close>

type_synonym ip_table = "(nat \<times> string) list"

definition show_ip_rule :: "nat \<times> string \<Rightarrow> string" where
  "show_ip_rule rule = show_nat (fst rule) @ '':'' @ TAB # snd rule"

definition at_priority :: "nat \<Rightarrow> ip_table \<Rightarrow> ip_table" where
  "at_priority p tbl = filter (\<lambda>rule. fst rule = p) tbl"

definition not_at_priority :: "nat \<Rightarrow> ip_table \<Rightarrow> ip_table" where
  "not_at_priority p tbl = filter (\<lambda>rule. fst rule \<noteq> p) tbl"

definition insert_ip_rule :: "nat \<times> string \<Rightarrow> ip_table \<Rightarrow> ip_table" where
  "insert_ip_rule rule tbl =
     takeWhile (\<lambda>other. fst other \<le> fst rule) tbl @ rule # dropWhile (\<lambda>other. fst other \<le> fst rule) tbl"

fun drop_first :: "('a \<Rightarrow> bool) \<Rightarrow> 'a list \<Rightarrow> 'a list" where
  "drop_first P [] = []"
| "drop_first P (x # xs) = (if P x then xs else x # drop_first P xs)"

text \<open>\<open>ip rule del priority p\<close> and \<open>ip rule add .. priority p\<close>, read off the arguments.\<close>

datatype rule_call = DelAt nat | AddAt nat "string list"

definition rule_call_of :: "cmd \<Rightarrow> rule_call option" where
  "rule_call_of c =
     (if cmd_program c \<noteq> ''ip'' \<or> \<not> list_all is_digit (last (cmd_args c)) then None
      else let p = digits_value (last (cmd_args c));
               selector = drop 2 (butlast (butlast (cmd_args c)))
           in if cmd_args c = rule_del_args p then Some (DelAt p)
              else if cmd_args c = rule_add_args p selector then Some (AddAt p selector)
              else None)"

definition ip_step :: "(string list \<Rightarrow> string) \<Rightarrow> ip_table \<Rightarrow> event \<Rightarrow> ip_table option" where
  "ip_step rule_text tbl e =
     (case e of
        ERun c r \<Rightarrow>
          (case rule_call_of c of
             Some (DelAt p) \<Rightarrow>
               if succeeded r = (at_priority p tbl \<noteq> [])
               then Some (drop_first (\<lambda>rule. fst rule = p) tbl) else None
           | Some (AddAt p selector) \<Rightarrow>
               if succeeded r then Some (insert_ip_rule (p, rule_text selector) tbl) else None
           | None \<Rightarrow>
               if c = output_cmd ''ip'' [''rule'', ''show'']
                 \<and> success_text r \<noteq> Some (unlines (map show_ip_rule tbl))
               then None else Some tbl)
      | _ \<Rightarrow> Some tbl)"

lemma at_priority_drop_first:
  "at_priority p tbl \<noteq> [] \<Longrightarrow>
     length (at_priority p tbl) = Suc (length (at_priority p (drop_first (\<lambda>rule. fst rule = p) tbl)))"
  "not_at_priority p (drop_first (\<lambda>rule. fst rule = p) tbl) = not_at_priority p tbl"
  by (induction tbl) (auto simp: at_priority_def not_at_priority_def)

lemma drop_first_none: "at_priority p tbl = [] \<Longrightarrow> drop_first (\<lambda>rule. fst rule = p) tbl = tbl"
  by (induction tbl) (auto simp: at_priority_def split: if_splits)

lemma not_at_priority_none: "at_priority p tbl = [] \<Longrightarrow> not_at_priority p tbl = tbl"
  by (induction tbl) (auto simp: at_priority_def not_at_priority_def split: if_splits)

lemma silent_cmd_inject [simp]:
  "silent_cmd c as = silent_cmd c' as' \<longleftrightarrow> c = c' \<and> as = as'"
  "output_cmd c as = output_cmd c' as' \<longleftrightarrow> c = c' \<and> as = as'"
  "silent_cmd c as \<noteq> output_cmd c' as'" "output_cmd c as \<noteq> silent_cmd c' as'"
  by (auto simp: silent_cmd_def output_cmd_def)

lemma rule_call_of_simps [simp]:
  "rule_call_of (silent_cmd ''ip'' (rule_del_args p)) = Some (DelAt p)"
  "rule_call_of (output_cmd ''ip'' (rule_add_args p selector)) = Some (AddAt p selector)"
  "rule_call_of (output_cmd ''ip'' [''rule'', ''show'']) = None"
  by (simp_all add: rule_call_of_def silent_cmd_def output_cmd_def rule_del_args_def rule_add_args_def
      digits_value_show_nat butlast_append show_nat_digits is_digit_def code_of_def)

lemma ip_step_simps:
  "ip_step rule_text tbl (ERun (silent_cmd ''ip'' (rule_del_args p)) r) =
     (if succeeded r = (at_priority p tbl \<noteq> []) then Some (drop_first (\<lambda>rule. fst rule = p) tbl) else None)"
  "ip_step rule_text tbl (ERun (output_cmd ''ip'' (rule_add_args p selector)) r) =
     (if succeeded r then Some (insert_ip_rule (p, rule_text selector) tbl) else None)"
  "ip_step rule_text tbl (ERun (output_cmd ''ip'' [''rule'', ''show'']) r) =
     (if success_text r = Some (unlines (map show_ip_rule tbl)) then Some tbl else None)"
  by (simp_all add: ip_step_def)

interpretation ip_rules: rule_table "ip_step rule_text" "\<lambda>tbl. length (at_priority p tbl)"
  "not_at_priority p" "''ip''" "rule_del_args p"
proof
  fix s s' r
  assume step: "ip_step rule_text s (ERun (silent_cmd ''ip'' (rule_del_args p)) r) = Some s'"
  show "succeeded r \<and> length (at_priority p s) = Suc (length (at_priority p s'))
      \<and> not_at_priority p s' = not_at_priority p s" if "0 < length (at_priority p s)"
    using step that at_priority_drop_first [of p s] unfolding ip_step_simps
    by (auto split: if_splits)
  show "\<not> succeeded r \<and> s' = s" if "length (at_priority p s) = 0"
    using step that drop_first_none [of p s] unfolding ip_step_simps by (auto split: if_splits)
next
  show "not_at_priority p s = s" if "length (at_priority p s) = 0" for s
    using that not_at_priority_none [of p s] by simp
qed

section \<open>Log lines\<close>

fun logs :: "event \<Rightarrow> bool" where
  "logs (EAct (AppendFile path line) r) = True"
| "logs (ESay s) = True"
| "logs e = False"

lemma emits_log_line [simp]: "emits logs (log_line logger message)"
  by (auto simp: log_line_def append_line_or_stdout_def split: logger.splits)

lemma emits_log_output [simp]: "emits logs (log_command_output logger bytes)"
  by (auto simp: log_command_output_def intro: emits_for_all)

lemma exec_run_logged:
  assumes "exec (run_logged logger command args False) t = Some b"
  shows "\<exists>r u. t = ERun (output_cmd command args) r # u \<and> list_all logs u \<and> b = succeeded r"
proof -
  have "holds (\<lambda>t b. \<exists>r u. t = ERun (output_cmd command args) r # u \<and> list_all logs u \<and> b = succeeded r)
      (run_logged logger command args False)"
  proof -
    have log: "holds (\<lambda>u _. list_all logs u) (log_line logger m)"
      "holds (\<lambda>u _. list_all logs u) (log_command_output logger m)" for m
      using emits_log_line emits_log_output by (simp_all add: emits_def)
    show ?thesis
      by (auto simp: run_logged_def command_output_def holds_then_do succeeded_def split: sum.splits
          intro!: holds_mono [OF log(1)] holds_mono [OF log(2)])
  qed
  with assms show ?thesis by (simp add: holds_exec)
qed

lemma runs_on_logs:
  assumes "list_all logs t" "\<And>e s. logs e \<Longrightarrow> step s e = Some s"
  shows "runs_on step t s = Some s"
  using assms by (intro runs_on_still) (auto simp: list_all_iff)

lemma ip_step_logs: "logs e \<Longrightarrow> ip_step rule_text s e = Some s"
  by (cases e) (auto simp: ip_step_def)

section \<open>Counting rules\<close>

definition printable :: "ip_table \<Rightarrow> bool" where
  "printable tbl \<longleftrightarrow> (\<forall>rule \<in> set tbl. LF \<notin> set (snd rule) \<and> CR \<notin> set (snd rule))"

lemma show_nat_plain: "list_all plain_char (show_nat n)"
  using show_nat_digits [of n] plain_char_digit by (auto simp: list_all_iff)

lemma show_nat_inject: "show_nat m = show_nat n \<longleftrightarrow> m = n"
  by (metis digits_value_show_nat)

lemma first_token: "nth_opt (split_whitespace (show_ip_rule rule)) 0 = Some (show_nat (fst rule) @ '':'')"
proof -
  have "split_whitespace ((show_nat (fst rule) @ '':'') @ TAB # snd rule)
      = (show_nat (fst rule) @ '':'') # split_whitespace (snd rule)"
    by (rule split_whitespace_word)
      (simp_all add: show_nat_plain plain_char_def is_space_def code_of_def)
  then show ?thesis by (simp add: show_ip_rule_def)
qed

lemma clean_show_ip_rule: "LF \<notin> set (snd rule) \<Longrightarrow> CR \<notin> set (snd rule) \<Longrightarrow> clean_line (show_ip_rule rule)"
  by (simp add: clean_line_def show_ip_rule_def strip_cr_noop show_nat_no_char is_digit_def code_of_def)

lemma count_rules_table:
  assumes "printable tbl"
  shows "count_rules_text p needle (unlines (map show_ip_rule tbl)) =
    (length (at_priority p tbl),
     length (filter (\<lambda>rule. str_contains needle (show_ip_rule rule)) (at_priority p tbl)))"
proof -
  have lines: "rust_lines (unlines (map show_ip_rule tbl)) = map show_ip_rule tbl"
    using assms by (intro rust_lines_unlines) (auto simp: printable_def intro: clean_show_ip_rule)
  have "rule_line_counts p needle (show_ip_rule rule) =
      (fst rule = p, fst rule = p \<and> str_contains needle (show_ip_rule rule))" for rule
    by (auto simp: rule_line_counts_def Let_def first_token show_nat_inject)
  then show ?thesis
    unfolding count_rules_text_def lines Let_def
    by (simp add: at_priority_def filter_map o_def conj_commute)
qed

lemma at_priority_insert:
  "at_priority p tbl = [] \<Longrightarrow> at_priority p (insert_ip_rule (p, body) tbl) = [(p, body)]"
  "not_at_priority p (insert_ip_rule (p, body) tbl) = not_at_priority p tbl"
proof -
  have split: "filter P tbl = filter P (takeWhile Q tbl) @ filter P (dropWhile Q tbl)" for P Q
    by (metis filter_append takeWhile_dropWhile_id)
  show "not_at_priority p (insert_ip_rule (p, body) tbl) = not_at_priority p tbl"
    unfolding not_at_priority_def insert_ip_rule_def
    using split [of "\<lambda>rule. fst rule \<noteq> p" "\<lambda>other. fst other \<le> p"] by simp
  assume "at_priority p tbl = []"
  with split [of "\<lambda>rule. fst rule = p" "\<lambda>other. fst other \<le> p"]
  show "at_priority p (insert_ip_rule (p, body) tbl) = [(p, body)]"
    by (simp add: at_priority_def insert_ip_rule_def)
qed

lemma at_priority_not_at: "at_priority p (not_at_priority p tbl) = []"
  by (simp add: at_priority_def not_at_priority_def)

lemma not_at_priority_idem [simp]: "not_at_priority p (not_at_priority p tbl) = not_at_priority p tbl"
  by (simp add: not_at_priority_def)

lemma show_ip_rule_contains: "str_contains needle body \<Longrightarrow> str_contains needle (show_ip_rule (p, body))"
  by (metis append.assoc append_Cons append_Nil fst_conv show_ip_rule_def snd_conv str_contains_iff)

text \<open>The two arms of \<open>ensure_ip_rule\<close>, over the table.\<close>

lemma ensure_ip_rule_cases:
  assumes "exec (ensure_ip_rule fuel p needle args False logger) t = Some r"
    and "runs_on (ip_step rule_text) t tbl = Some tbl'" "printable tbl"
  obtains (kept) out u body where "t = ERun (output_cmd ''ip'' [''rule'', ''show'']) out # u" "list_all logs u"
      "r = Inr ()" "tbl' = tbl" "at_priority p tbl = [(p, body)]" "str_contains needle (show_ip_rule (p, body))"
  | (stuck) out u e where "t = ERun (output_cmd ''ip'' [''rule'', ''show'']) out # u"
      "\<nexists>body. at_priority p tbl = [(p, body)] \<and> str_contains needle (show_ip_rule (p, body))"
      "exec (delete_loop fuel ''ip'' (rule_del_args p)) u = Some (Inl e)" "r = Inl e"
      "runs_on (ip_step rule_text) u tbl = Some tbl'"
  | (replaced) out u v b where "t = ERun (output_cmd ''ip'' [''rule'', ''show'']) out # u @ v"
      "\<nexists>body. at_priority p tbl = [(p, body)] \<and> str_contains needle (show_ip_rule (p, body))"
      "exec (delete_loop fuel ''ip'' (rule_del_args p)) u = Some (Inr ())" "r = Inr ()"
      "exec (run_logged logger ''ip'' (rule_add_args p args) False) v = Some b"
      "runs_on (ip_step rule_text) (u @ v) tbl = Some tbl'"
proof -
  let ?show = "output_cmd ''ip'' [''rule'', ''show'']"
  obtain out w where t: "t = ERun ?show out # w"
    and rest: "exec (if (case success_text out of None \<Rightarrow> (0, 0) | Some s \<Rightarrow> count_rules_text p needle s) = (1, 1)
        then then_do (log_line logger (''ok: ip rule priority '' @ show_nat p @ '' '' @ needle)) (\<lambda>_. ok ())
        else try_do (delete_loop fuel ''ip'' (rule_del_args p)) (\<lambda>_.
             then_do (run_logged logger ''ip'' (rule_add_args p args) False) (\<lambda>_. ok ()))) w = Some r"
    using assms(1) unfolding ensure_ip_rule_def delete_ip_rules_at_priority_def if_False
    by (auto simp: count_ip_rules_at_priority_def command_output_def exec_node)
  from assms(2) t have shown: "success_text out = Some (unlines (map show_ip_rule tbl))"
    and run: "runs_on (ip_step rule_text) w tbl = Some tbl'"
    by (auto simp: runs_on_Cons ip_step_simps simp del: runs_on.simps split: if_splits)
  let ?one = "\<exists>body. at_priority p tbl = [(p, body)] \<and> str_contains needle (show_ip_rule (p, body))"
  have counts: "(case success_text out of None \<Rightarrow> (0, 0) | Some s \<Rightarrow> count_rules_text p needle s) = (1, 1) \<longleftrightarrow> ?one"
  proof -
    have "length (at_priority p tbl) = 1 \<longleftrightarrow> (\<exists>body. at_priority p tbl = [(p, body)])"
    proof
      assume "length (at_priority p tbl) = 1"
      then obtain rule where one: "at_priority p tbl = [rule]" by (auto simp: length_Suc_conv)
      then have "rule \<in> set (at_priority p tbl)" by simp
      then have "fst rule = p" by (simp add: at_priority_def)
      with one show "\<exists>body. at_priority p tbl = [(p, body)]" by (cases rule) auto
    qed auto
    then show ?thesis
      unfolding shown option.case count_rules_table [OF assms(3)] by (auto split: if_splits)
  qed
  show thesis
  proof (cases ?one)
    case True
    then obtain body where one: "at_priority p tbl = [(p, body)]" "str_contains needle (show_ip_rule (p, body))"
      by blast
    from rest True counts have "exec (then_do (log_line logger (''ok: ip rule priority '' @ show_nat p @ '' '' @ needle))
        (\<lambda>_. ok ())) w = Some r" by simp
    then have logs: "list_all logs w" and r: "r = Inr ()"
      by (auto simp: exec_then_do dest: emits_holds [OF emits_log_line])
    from runs_on_logs [OF logs, of "ip_step rule_text" tbl] run ip_step_logs have "tbl' = tbl" by auto
    with kept t logs r one show thesis by blast
  next
    case False
    with rest counts have "exec (try_do (delete_loop fuel ''ip'' (rule_del_args p)) (\<lambda>_.
        then_do (run_logged logger ''ip'' (rule_add_args p args) False) (\<lambda>_. ok ()))) w = Some r" by simp
    then consider (deleting) e where "exec (delete_loop fuel ''ip'' (rule_del_args p)) w = Some (Inl e)" "r = Inl e"
      | (added) u v b where "w = u @ v" "exec (delete_loop fuel ''ip'' (rule_del_args p)) u = Some (Inr ())"
          "exec (run_logged logger ''ip'' (rule_add_args p args) False) v = Some b" "r = Inr ()"
      by (auto simp: exec_try_do exec_then_do)
    then show thesis
    proof cases
      case deleting
      with stuck t False run show thesis by blast
    next
      case added
      with replaced [of out u v] t False run show thesis by blast
    qed
  qed
qed

section \<open>Policy rules are set once\<close>

text \<open>
  C17. Repairing a policy rule converges: against a routing table the tool keeps, and with as
  many rounds as rules of the priority and one more, the operation ends without error, the
  table has exactly one rule of the priority, that rule carries the wanted selector, and the
  rules of other priorities are the ones it had.
\<close>

theorem ensure_ip_rule_sets_rule:
  assumes "exec (ensure_ip_rule fuel p needle args False logger) t = Some r"
    and "runs_on (ip_step rule_text) t tbl = Some tbl'" "printable tbl"
    and "length (at_priority p tbl) < fuel" "str_contains needle (rule_text args)"
  shows "r = Inr () \<and> not_at_priority p tbl' = not_at_priority p tbl
    \<and> (\<exists>body. at_priority p tbl' = [(p, body)] \<and> str_contains needle (show_ip_rule (p, body)))"
  using assms(1-3)
proof (cases rule: ensure_ip_rule_cases)
  case (stuck out u e)
  with ip_rules.delete_loop_purges [of fuel p u "Inl e"] assms(4) show ?thesis by blast
next
  case (replaced out u v b)
  from replaced(6) obtain m where u: "runs_on (ip_step rule_text) u tbl = Some m"
    and v: "runs_on (ip_step rule_text) v m = Some tbl'"
    by (auto simp: runs_on_append)
  from ip_rules.delete_loop_purges [OF replaced(3) u assms(4)] have m: "m = not_at_priority p tbl" by blast
  from exec_run_logged [OF replaced(5)] obtain x w
    where vw: "v = ERun (output_cmd ''ip'' (rule_add_args p args)) x # w" and w: "list_all logs w" by blast
  from v vw have "tbl' = insert_ip_rule (p, rule_text args) m"
    using runs_on_logs [OF w, of "ip_step rule_text"] ip_step_logs
    by (auto simp: runs_on_Cons ip_step_simps simp del: runs_on.simps split: if_splits)
  with m replaced(4) assms(5) show ?thesis
    by (simp add: at_priority_insert at_priority_not_at show_ip_rule_contains)
qed auto

definition tool_answer :: "int \<Rightarrow> string \<Rightarrow> cmd_output io" where
  "tool_answer code stdout = Inr \<lparr>out_code = Some code, out_stdout = stdout, out_stderr = []\<rparr>"

definition demo_table :: ip_table where
  "demo_table = [(0, ''from all lookup local''), (9, ''from all to 10.0.0.0/8 lookup main''),
     (9, ''from all lookup 7''), (12, ''from all lookup main'')]"

theorem ensure_ip_rule_sets_rule_witness:
  "\<exists>t tbl'. exec (ensure_ip_rule 3 9 ''to 10.1.0.0/16 lookup main'' [''to'', ''10.1.0.0/16'', ''lookup'', ''main'']
       False Stdout) t = Some (Inr ())
    \<and> not_at_priority 9 tbl' = [(0, ''from all lookup local''), (12, ''from all lookup main'')]
    \<and> (\<exists>body. at_priority 9 tbl' = [(9, body)]
         \<and> str_contains ''to 10.1.0.0/16 lookup main'' (show_ip_rule (9, body)))"
proof -
  let ?args = "[''to'', ''10.1.0.0/16'', ''lookup'', ''main'']"
  let ?needle = "''to 10.1.0.0/16 lookup main''"
  let ?text = "\<lambda>args. ''from all '' @ str_join '' '' args"
  let ?del = "silent_cmd ''ip'' (rule_del_args 9)"
  let ?t = "[ERun (output_cmd ''ip'' [''rule'', ''show'']) (tool_answer 0 (unlines (map show_ip_rule demo_table))),
     ERun ?del (tool_answer 0 []), ERun ?del (tool_answer 0 []), ERun ?del (tool_answer 2 []),
     ERun (output_cmd ''ip'' (rule_add_args 9 ?args)) (tool_answer 0 [])]"
  have run: "exec (ensure_ip_rule 3 9 ?needle ?args False Stdout) ?t = Some (Inr ())"
    by code_simp
  obtain tbl' where tbl': "runs_on (ip_step ?text) ?t demo_table = Some tbl'"
    and left: "not_at_priority 9 demo_table = [(0, ''from all lookup local''), (12, ''from all lookup main'')]"
  proof -
    have "runs_on (ip_step ?text) ?t demo_table \<noteq> None" by code_simp
    moreover have "not_at_priority 9 demo_table = [(0, ''from all lookup local''), (12, ''from all lookup main'')]"
      by code_simp
    ultimately show thesis using that by blast
  qed
  have "printable demo_table" "length (at_priority 9 demo_table) < 3" "str_contains ?needle (?text ?args)"
    by code_simp+
  with ensure_ip_rule_sets_rule [OF run tbl'] run left show ?thesis by metis
qed

text \<open>
  C19. A rule that is in place is left alone: the repair then only lists the rules. The test
  is whether the line contains the selector, so a rule for an interface whose name only
  begins with the uplink's name counts as well and is not repaired.
\<close>

theorem source_rule_longer_name_kept:
  assumes "exec (ensure_source_policy_rule fuel config subnet uplink logger) t = Some r"
    and "runs_on (ip_step rule_text) t tbl = Some tbl'" "printable tbl"
    and "rc_policy_rules config = ''1''" "\<not> rc_dry_run config"
    and "at_priority (rc_source_rule_priority config) tbl =
           [(rc_source_rule_priority config, start @ ''from '' @ subnet @ '' lookup '' @ uplink @ rest)]"
  shows "r = Inr () \<and> tbl' = tbl
    \<and> (\<forall>c x. ERun c x \<in> set t \<longrightarrow> c = output_cmd ''ip'' [''rule'', ''show''])"
proof -
  let ?p = "rc_source_rule_priority config"
  let ?needle = "''from '' @ subnet @ '' lookup '' @ uplink"
  have "str_contains ?needle (show_ip_rule (?p, start @ ?needle @ rest))"
    by (rule show_ip_rule_contains) (simp only: str_contains_iff, blast)
  then have inside: "str_contains ?needle (show_ip_rule (?p, start @ ''from '' @ subnet @ '' lookup '' @ uplink @ rest))"
    by simp
  have "exec (ensure_ip_rule fuel ?p ?needle [''from'', subnet, ''lookup'', uplink] False logger) t = Some r"
    using assms(1,4,5) by (simp add: ensure_source_policy_rule_def)
  then show ?thesis using assms(2,3)
  proof (cases rule: ensure_ip_rule_cases)
    case (kept out u body)
    have "ERun c x \<notin> set u" for c x using kept(2) by (auto simp: list_all_iff)
    with kept show ?thesis by auto
  next
    case (stuck out u e)
    with inside assms(6) show ?thesis by blast
  next
    case (replaced out u v b)
    with inside assms(6) show ?thesis by blast
  qed
qed

definition demo_runtime :: runtime_config where
  "demo_runtime = \<lparr>rc_bridge = ''docker0'', rc_docker_subnet = Some ''10.1.0.0/16'', rc_uplink = Some ''rmnet_data1'',
     rc_target = ''1.1.1.1'', rc_iptables = Some ''iptables'', rc_dry_run = False, rc_policy_rules = ''1'',
     rc_return_rule_priority = 11, rc_source_rule_priority = 12\<rparr>"

theorem source_rule_longer_name_kept_witness:
  "\<exists>t. exec (ensure_source_policy_rule 3 demo_runtime ''10.1.0.0/16'' ''rmnet_data1'' Stdout) t = Some (Inr ())
    \<and> runs_on (ip_step (str_join '' '')) t [(12, ''from 10.1.0.0/16 lookup rmnet_data10'')]
        = Some [(12, ''from 10.1.0.0/16 lookup rmnet_data10'')]
    \<and> (\<forall>c x. ERun c x \<in> set t \<longrightarrow> c = output_cmd ''ip'' [''rule'', ''show''])"
proof -
  let ?tbl = "[(12, ''from 10.1.0.0/16 lookup rmnet_data10'')]"
  let ?t = "[ERun (output_cmd ''ip'' [''rule'', ''show'']) (tool_answer 0 (unlines (map show_ip_rule ?tbl))),
     ESay (''ok: ip rule priority 12 from 10.1.0.0/16 lookup rmnet_data1'' @ [LF])]"
  have run: "exec (ensure_source_policy_rule 3 demo_runtime ''10.1.0.0/16'' ''rmnet_data1'' Stdout) ?t = Some (Inr ())"
    by code_simp
  have tbl: "runs_on (ip_step (str_join '' '')) ?t ?tbl = Some ?tbl" by code_simp
  have "printable ?tbl" "rc_policy_rules demo_runtime = ''1''" "\<not> rc_dry_run demo_runtime"
    "at_priority (rc_source_rule_priority demo_runtime) ?tbl =
       [(rc_source_rule_priority demo_runtime, [] @ ''from '' @ ''10.1.0.0/16'' @ '' lookup '' @ ''rmnet_data1'' @ ''0'')]"
    by code_simp+
  from source_rule_longer_name_kept [OF run tbl this] run tbl show ?thesis by blast
qed

section \<open>A packet-filter chain\<close>

text \<open>
  The rules of one chain, each the list of its arguments: \<open>-D\<close> deletes the first equal rule
  or fails, \<open>-I\<close> puts a rule at the head, \<open>-A\<close> at the end.
\<close>

definition after_prefix :: "string list \<Rightarrow> string list \<Rightarrow> string list option" where
  "after_prefix pre args = (if take (length pre) args = pre then Some (drop (length pre) args) else None)"

lemma after_prefix_append [simp]: "after_prefix pre (pre @ args) = Some args"
  by (simp add: after_prefix_def)

definition chain_step ::
  "string \<Rightarrow> string \<Rightarrow> string \<Rightarrow> string list list \<Rightarrow> event \<Rightarrow> string list list option" where
  "chain_step iptables table chain rules e =
     (case e of
        ERun c r \<Rightarrow>
          if cmd_program c \<noteq> iptables then Some rules
          else case after_prefix (delete_rule_args table chain []) (cmd_args c) of
                 Some args \<Rightarrow>
                   if succeeded r = (args \<in> set rules) then Some (remove1 args rules) else None
               | None \<Rightarrow>
                   (case after_prefix (insert_rule_args table chain []) (cmd_args c) of
                      Some args \<Rightarrow>
                        if succeeded r
                        then Some (if table = ''filter'' then args # rules else rules @ [args]) else None
                    | None \<Rightarrow> Some rules)
      | _ \<Rightarrow> Some rules)"

lemma chain_step_simps:
  "chain_step iptables table chain rules (ERun (silent_cmd iptables (delete_rule_args table chain args)) r) =
     (if succeeded r = (args \<in> set rules) then Some (remove1 args rules) else None)"
  "chain_step iptables table chain rules (ERun (output_cmd iptables (insert_rule_args table chain args)) r) =
     (if succeeded r then Some (if table = ''filter'' then args # rules else rules @ [args]) else None)"
proof -
  have del: "delete_rule_args table chain args = delete_rule_args table chain [] @ args"
    by (simp add: delete_rule_args_def)
  have ins: "insert_rule_args table chain args = insert_rule_args table chain [] @ args"
    by (simp add: insert_rule_args_def)
  have other: "after_prefix (delete_rule_args table chain []) (insert_rule_args table chain args) = None"
    by (auto simp: delete_rule_args_def insert_rule_args_def table_args_def after_prefix_def)
  show "chain_step iptables table chain rules (ERun (silent_cmd iptables (delete_rule_args table chain args)) r) =
     (if succeeded r = (args \<in> set rules) then Some (remove1 args rules) else None)"
    unfolding chain_step_def silent_cmd_def del by simp
  show "chain_step iptables table chain rules (ERun (output_cmd iptables (insert_rule_args table chain args)) r) =
     (if succeeded r then Some (if table = ''filter'' then args # rules else rules @ [args]) else None)"
    using other unfolding chain_step_def output_cmd_def ins by simp
qed

lemma chain_step_logs: "logs e \<Longrightarrow> chain_step iptables table chain rules e = Some rules"
  by (cases e) (auto simp: chain_step_def)

lemma count_list_remove1:
  "x \<in> set xs \<Longrightarrow> count_list xs x = Suc (count_list (remove1 x xs) x)"
  "filter (\<lambda>y. y \<noteq> x) (remove1 x xs) = filter (\<lambda>y. y \<noteq> x) xs"
  by (induction xs) auto

interpretation chains: rule_table "chain_step iptables table chain" "\<lambda>rules. count_list rules args"
  "filter (\<lambda>rule. rule \<noteq> args)" iptables "delete_rule_args table chain args"
proof
  fix s s' r
  assume step: "chain_step iptables table chain s
      (ERun (silent_cmd iptables (delete_rule_args table chain args)) r) = Some s'"
  show "succeeded r \<and> count_list s args = Suc (count_list s' args)
      \<and> filter (\<lambda>rule. rule \<noteq> args) s' = filter (\<lambda>rule. rule \<noteq> args) s" if "0 < count_list s args"
  proof -
    have "args \<in> set s" using that by (metis count_notin less_irrefl)
    with step count_list_remove1 [of args s] show ?thesis
      unfolding chain_step_simps by (auto split: if_splits)
  qed
  show "\<not> succeeded r \<and> s' = s" if "count_list s args = 0"
    using step that unfolding chain_step_simps
    by (auto simp: count_list_0_iff remove1_idem split: if_splits)
next
  show "filter (\<lambda>rule. rule \<noteq> args) s = s" if "count_list s args = 0" for s
    using that by (auto simp: count_list_0_iff filter_id_conv)
qed

text \<open>What a repair promises of a chain: the rule once, first in a filter chain, last in any other.\<close>

definition put_rule :: "string \<Rightarrow> 'r \<Rightarrow> 'r list \<Rightarrow> 'r list" where
  "put_rule table args rules =
     (if table = ''filter'' then args # filter (\<lambda>rule. rule \<noteq> args) rules
      else filter (\<lambda>rule. rule \<noteq> args) rules @ [args])"

lemma put_rule_again: "put_rule table args (put_rule table args rules) = put_rule table args rules"
  by (simp add: put_rule_def)

text \<open>
  C18. Repairing a packet-filter rule implements \<open>put_rule\<close>: against a chain the tool keeps, and with as
  many rounds as copies of the rule and one more, the rule is there exactly once, at the head
  of a filter chain and at the end of any other, and the other rules keep their order; so
  repairing again changes nothing.
\<close>

theorem ensure_rule_exactly_once:
  assumes "exec (ensure_rule fuel iptables table chain args False logger) t = Some r"
    and "runs_on (chain_step iptables table chain) t rules = Some rules'" "count_list rules args < fuel"
  shows "r = Inr () \<and> rules' = put_rule table args rules"
proof -
  from assms(1) consider (stuck) e where
      "exec (delete_loop fuel iptables (delete_rule_args table chain args)) t = Some (Inl e)"
    | (deleted) u v b where "t = u @ v"
      "exec (delete_loop fuel iptables (delete_rule_args table chain args)) u = Some (Inr ())"
      "exec (run_logged logger iptables (insert_rule_args table chain args) False) v = Some b" "r = Inr ()"
    unfolding ensure_rule_def delete_existing_rules_def if_False
    by (auto simp: exec_try_do exec_then_do)
  then show ?thesis
  proof cases
    case stuck
    with chains.delete_loop_purges [OF stuck assms(2,3)] show ?thesis by simp
  next
    case deleted
    from assms(2) deleted(1) obtain m where u: "runs_on (chain_step iptables table chain) u rules = Some m"
      and v: "runs_on (chain_step iptables table chain) v m = Some rules'" by (auto simp: runs_on_append)
    from chains.delete_loop_purges [OF deleted(2) u assms(3)]
    have m: "m = filter (\<lambda>rule. rule \<noteq> args) rules" by simp
    from exec_run_logged [OF deleted(3)] obtain x w
      where "v = ERun (output_cmd iptables (insert_rule_args table chain args)) x # w" "list_all logs w" by blast
    with v m deleted(4) show ?thesis
      using runs_on_logs [of w "chain_step iptables table chain"] chain_step_logs
      by (auto simp: put_rule_def runs_on_Cons chain_step_simps simp del: runs_on.simps split: if_splits)
  qed
qed

theorem ensure_rule_exactly_once_witness:
  "\<exists>t. exec (ensure_rule 3 ''iptables'' ''nat'' ''POSTROUTING'' [''-j'', ''MASQUERADE''] False Stdout) t = Some (Inr ())
    \<and> runs_on (chain_step ''iptables'' ''nat'' ''POSTROUTING'') t
        [[''-j'', ''MASQUERADE''], [''-j'', ''A''], [''-j'', ''MASQUERADE'']]
      = Some [[''-j'', ''A''], [''-j'', ''MASQUERADE'']]"
proof -
  let ?args = "[''-j'', ''MASQUERADE'']"
  let ?rules = "[?args, [''-j'', ''A''], ?args]"
  let ?del = "silent_cmd ''iptables'' (delete_rule_args ''nat'' ''POSTROUTING'' ?args)"
  let ?t = "[ERun ?del (tool_answer 0 []), ERun ?del (tool_answer 0 []), ERun ?del (tool_answer 1 []),
     ERun (output_cmd ''iptables'' (insert_rule_args ''nat'' ''POSTROUTING'' ?args)) (tool_answer 0 [])]"
  have run: "exec (ensure_rule 3 ''iptables'' ''nat'' ''POSTROUTING'' ?args False Stdout) ?t = Some (Inr ())"
    by code_simp
  have "runs_on (chain_step ''iptables'' ''nat'' ''POSTROUTING'') ?t ?rules \<noteq> None" by code_simp
  then obtain rules' where rules': "runs_on (chain_step ''iptables'' ''nat'' ''POSTROUTING'') ?t ?rules = Some rules'"
    by blast
  have "count_list ?rules ?args < 3" by code_simp
  from ensure_rule_exactly_once [OF run rules' this] rules' run show ?thesis by (auto simp: put_rule_def)
qed

end
