(* ===== verification/CoreWatch.thy ===== *)
theory CoreWatch
  imports CoreRules
begin

text \<open>
  The long-running side of \<open>achost-runtime-core\<close>: the network watchdog and its state, the
  protection of daemons from the out-of-memory killer, and the command line. \<open>Terminated\<close>
  is the flag the signal handler sets; the main loop gets a number of rounds as its first
  argument, \<open>StillRunning\<close> when they are used up.
\<close>

section \<open>Watchdog\<close>

record watchdog_config =
  wc_runtime :: runtime_config
  wc_watch_interval :: nat
  wc_repair_interval :: nat
  wc_log_file :: string
  wc_pid_file :: string

definition watchdog_config_from_env :: "environment \<Rightarrow> watchdog_config" where
  "watchdog_config_from_env e =
     \<lparr>wc_runtime = runtime_config_from_env e,
      wc_watch_interval = env_u64 e ''ACHOST_NET_WATCH_INTERVAL'' 5,
      wc_repair_interval = env_u64 e ''ACHOST_NET_REPAIR_INTERVAL'' 30,
      wc_log_file = unwrap_or ''/data/local/tmp/achost-network-watchdog.log'' (env_nonempty e ''ACHOST_NET_LOG''),
      wc_pid_file = unwrap_or ''/data/local/tmp/achost-network-watchdog.pid'' (env_nonempty e ''ACHOST_NET_PID'')\<rparr>"

text \<open>The variables of the main loop.\<close>

record watch_state =
  ws_last_state :: string
  ws_last_wait :: string
  ws_cycles :: nat

definition U64_MAX :: nat where
  "U64_MAX = 18446744073709551615"

definition saturating_add :: "nat \<Rightarrow> nat \<Rightarrow> nat" where
  "saturating_add a b = min (a + b) U64_MAX"

definition read_trimmed :: "string \<Rightarrow> string option prog" where
  "read_trimmed path =
     then_do (get (ReadText path)) (\<lambda>r. Ret (case r of Inl _ \<Rightarrow> None | Inr v \<Rightarrow> Some (trim v)))"

definition read_pid_file :: "string \<Rightarrow> nat option prog" where
  "read_pid_file path =
     then_do (read_trimmed path) (\<lambda>v. Ret (Option.bind v (parse_uint U32_BOUND)))"

definition pid_alive :: "nat \<Rightarrow> bool prog" where
  "pid_alive pid = ask (Exists (''/proc/'' @ show_nat pid))"

definition ensure_parent_dir :: "string \<Rightarrow> unit prog" where
  "ensure_parent_dir path =
     (case parent_path path of
        None \<Rightarrow> Ret ()
      | Some parent \<Rightarrow> then_do (act (CreateDirAll parent)) (\<lambda>_. Ret ()))"

definition timestamp :: "string prog" where
  "timestamp =
     then_do (command_output ''date'' [''+%Y-%m-%d %H:%M:%S'']) (\<lambda>r.
       Ret (unwrap_or ''now'' (filter_opt (\<lambda>v. v \<noteq> []) (map_option trim (success_text r)))))"

definition watchdog_log :: "string \<Rightarrow> string \<Rightarrow> unit prog" where
  "watchdog_log path message =
     then_do timestamp (\<lambda>now. append_line_or_stdout path (now @ '' '' @ message))"

text \<open>Logs the reason of a wait unless it is the last one logged; the new last reason.\<close>

definition log_wait_once :: "string \<Rightarrow> string \<Rightarrow> string \<Rightarrow> string \<Rightarrow> string prog" where
  "log_wait_once path last_wait key message =
     (if last_wait \<noteq> key then then_do (watchdog_log path message) (\<lambda>_. Ret key) else Ret last_wait)"

definition sleep_watch :: "nat \<Rightarrow> unit prog" where
  "sleep_watch seconds = sleep (1000 * seconds)"

text \<open>The arm \<open>cycles >= repair_interval\<close>: one reconciliation, its result logged.\<close>

definition watch_repair ::
  "nat \<Rightarrow> environment \<Rightarrow> watchdog_config \<Rightarrow> string \<Rightarrow> string option \<Rightarrow> string \<Rightarrow> (stop + unit) prog" where
  "watch_repair fuel e config subnet uplink uplink_label =
     (let repair_config = (wc_runtime config)\<lparr>rc_docker_subnet := Some subnet, rc_uplink := uplink\<rparr>;
          bridge = rc_bridge (wc_runtime config);
          log = watchdog_log (wc_log_file config)
      in then_do (net_reconcile fuel e repair_config (LogFile (wc_log_file config))) (\<lambda>r.
         case r of
           Inr _ \<Rightarrow> then_do (log (''reconcile ok: bridge='' @ bridge @ '' uplink='' @ uplink_label)) (\<lambda>_. ok ())
         | Inl StillRunning \<Rightarrow> fail StillRunning
         | Inl (Failed err) \<Rightarrow>
             then_do (log (''reconcile failed: bridge='' @ bridge @ '' uplink='' @ uplink_label
               @ '' exit='' @ show_int (re_code err))) (\<lambda>_. ok ())))"

text \<open>The end of a round, with the subnet and the uplink known.\<close>

definition watch_round ::
  "nat \<Rightarrow> environment \<Rightarrow> watchdog_config \<Rightarrow> watch_state \<Rightarrow> string \<Rightarrow> string option \<Rightarrow> (stop + watch_state) prog" where
  "watch_round fuel e config st subnet uplink =
     (let rt = wc_runtime config;
          log = watchdog_log (wc_log_file config);
          uplink_label = unwrap_or ''unavailable'' uplink;
          needle = ''to '' @ subnet @ '' lookup main''
      in then_do (ip_rule_present (rc_return_rule_priority rt) needle) (\<lambda>present.
         then_do (if present then Ret (ws_cycles st)
                  else then_do (log (''repair: missing ip rule priority='' @ show_nat (rc_return_rule_priority rt)
                         @ '' '' @ needle)) (\<lambda>_. Ret (wc_repair_interval config))) (\<lambda>cycles.
         let state = rc_bridge rt @ ''|'' @ subnet @ ''|'' @ uplink_label @ ''|'' @ unwrap_or [] (rc_iptables rt)
         in then_do (if state \<noteq> ws_last_state st
                     then then_do (log (''state: bridge='' @ rc_bridge rt @ '' subnet='' @ subnet @ '' uplink='' @ uplink_label
                            @ '' iptables='' @ unwrap_or ''auto'' (rc_iptables rt))) (\<lambda>_. Ret (wc_repair_interval config))
                     else Ret cycles) (\<lambda>cycles.
            try_do (if cycles \<ge> wc_repair_interval config
                    then try_do (watch_repair fuel e config subnet uplink uplink_label) (\<lambda>_. ok 0)
                    else ok cycles) (\<lambda>cycles.
            then_do (sleep_watch (wc_watch_interval config)) (\<lambda>_.
              ok (st\<lparr>ws_last_state := state,
                    ws_cycles := saturating_add cycles (wc_watch_interval config)\<rparr>)))))))"

definition watch_wait :: "watchdog_config \<Rightarrow> watch_state \<Rightarrow> string \<Rightarrow> string \<Rightarrow> (stop + watch_state) prog" where
  "watch_wait config st key message =
     then_do (log_wait_once (wc_log_file config) (ws_last_wait st) key message) (\<lambda>w.
     then_do (sleep_watch (wc_watch_interval config)) (\<lambda>_. ok (st\<lparr>ws_last_wait := w\<rparr>)))"

text \<open>One round of the main loop.\<close>

definition watch_step ::
  "nat \<Rightarrow> environment \<Rightarrow> watchdog_config \<Rightarrow> watch_state \<Rightarrow> (stop + watch_state) prog" where
  "watch_step fuel e config st =
     (let rt = wc_runtime config
      in then_do (have_command e ''ip'') (\<lambda>have.
         if \<not> have then watch_wait config st ''missing-ip'' ''waiting: ip command not found''
         else
           then_do (command_success_silent ''ip'' [''addr'', ''show'', rc_bridge rt]) (\<lambda>shown.
           if \<not> shown then watch_wait config st ''missing-bridge'' (''waiting: '' @ rc_bridge rt @ '' not found'')
           else
             then_do (bridge_subnet_for_watchdog rt) (\<lambda>sn.
             case sn of
               None \<Rightarrow> watch_wait config st ''missing-subnet''
                         (''waiting: cannot determine IPv4 subnet for '' @ rc_bridge rt)
             | Some subnet \<Rightarrow>
                 then_do (resolve_uplink e rt) (\<lambda>uplink.
                 then_do (if uplink = None
                          then log_wait_once (wc_log_file config) (ws_last_wait st) ''missing-uplink''
                                 (''waiting: cannot determine uplink for target '' @ rc_target rt
                                  @ ''; repairing host route only'')
                          else Ret []) (\<lambda>w.
                   watch_round fuel e config (st\<lparr>ws_last_wait := w\<rparr>) subnet uplink))))))"

fun watch_loop ::
  "nat \<Rightarrow> nat \<Rightarrow> environment \<Rightarrow> watchdog_config \<Rightarrow> watch_state \<Rightarrow> (stop + unit) prog" where
  "watch_loop 0 fuel e config st = fail StillRunning"
| "watch_loop (Suc rounds) fuel e config st =
     then_do (ask Terminated) (\<lambda>stopped.
       if stopped then ok ()
       else try_do (watch_step fuel e config st) (watch_loop rounds fuel e config))"

text \<open>\<open>net_watchdog\<close> once no other watchdog is found.\<close>

definition watchdog_main :: "nat \<Rightarrow> nat \<Rightarrow> environment \<Rightarrow> watchdog_config \<Rightarrow> (stop + unit) prog" where
  "watchdog_main rounds fuel e config =
     then_do (query ProcessId) (\<lambda>own.
     then_do (act (WriteFile (wc_pid_file config) (show_nat own @ [LF]))) (\<lambda>_.
     then_do (act InstallHandlers) (\<lambda>_.
     then_do (query ProcessId) (\<lambda>own.
     then_do (watchdog_log (wc_log_file config)
               (''watchdog starting pid='' @ show_nat own @ '' bridge='' @ rc_bridge (wc_runtime config)
                @ '' target='' @ rc_target (wc_runtime config) @ '' interval='' @ show_nat (wc_watch_interval config)
                @ '' repair_interval='' @ show_nat (wc_repair_interval config))) (\<lambda>_.
     try_do (watch_loop rounds fuel e config
               \<lparr>ws_last_state = [], ws_last_wait = [], ws_cycles = wc_repair_interval config\<rparr>) (\<lambda>_.
     then_do (act (RemoveFile (wc_pid_file config))) (\<lambda>_. ok ())))))))"

definition net_watchdog :: "nat \<Rightarrow> nat \<Rightarrow> environment \<Rightarrow> watchdog_config \<Rightarrow> (stop + unit) prog" where
  "net_watchdog rounds fuel e config =
     then_do (ensure_parent_dir (wc_log_file config)) (\<lambda>_.
     then_do (ensure_parent_dir (wc_pid_file config)) (\<lambda>_.
     then_do (read_pid_file (wc_pid_file config)) (\<lambda>old.
     then_do (case old of None \<Rightarrow> Ret False | Some pid \<Rightarrow> pid_alive pid) (\<lambda>alive.
       if alive
       then then_do (watchdog_log (wc_log_file config)
                       (''watchdog already running pid='' @ show_nat (unwrap_or 0 old))) (\<lambda>_. ok ())
       else watchdog_main rounds fuel e config))))"

section \<open>Daemon protection\<close>

primrec pids_loop :: "string \<Rightarrow> string io list \<Rightarrow> nat list prog" where
  "pids_loop name [] = Ret []"
| "pids_loop name (entry # entries) =
     (case entry of
        Inl _ \<Rightarrow> pids_loop name entries
      | Inr fname \<Rightarrow>
          (case parse_uint U32_BOUND fname of
             None \<Rightarrow> pids_loop name entries
           | Some pid \<Rightarrow>
               then_do (read_trimmed (path_join (path_join ''/proc'' fname) ''comm'')) (\<lambda>comm.
               then_do (pids_loop name entries) (\<lambda>rest.
                 Ret (if comm = Some name then pid # rest else rest)))))"

definition pids_for_name :: "string \<Rightarrow> nat list prog" where
  "pids_for_name name =
     Ls ''/proc'' (\<lambda>r. case r of
       Inl _ \<Rightarrow> Ret []
     | Inr entries \<Rightarrow> then_do (pids_loop name entries) (\<lambda>pids. Ret (sort pids)))"

definition oom_adj_path :: "nat \<Rightarrow> string" where
  "oom_adj_path pid = ''/proc/'' @ show_nat pid @ ''/oom_score_adj''"

definition write_oom_score_adj :: "nat \<Rightarrow> string \<Rightarrow> string \<Rightarrow> bool \<Rightarrow> unit prog" where
  "write_oom_score_adj pid name oom_score_adj dry_run =
     (let path = oom_adj_path pid;
          score_path = ''/proc/'' @ show_nat pid @ ''/oom_score'';
          skip = println (''skip '' @ name @ '' pid='' @ show_nat pid @ '': '' @ path @ '' not writable'')
      in then_do (ask (PathWritable path)) (\<lambda>writable.
         if \<not> writable then skip
         else
           then_do (read_trimmed path) (\<lambda>old.
           then_do (read_trimmed score_path) (\<lambda>sc.
           let old = unwrap_or ''unknown'' old; score = unwrap_or ''unknown'' sc
           in if dry_run
              then println (''+ echo '' @ oom_score_adj @ '' > '' @ path @ '' (old='' @ old @ '' oom_score='' @ score
                     @ '' name='' @ name @ '')'')
              else
                then_do (act (WriteFile path (oom_score_adj @ [LF]))) (\<lambda>r.
                if is_ok r
                then then_do (read_trimmed path) (\<lambda>new.
                       println (''protected '' @ name @ '' pid='' @ show_nat pid @ '' oom_score_adj '' @ old @ ''->''
                         @ unwrap_or ''unknown'' new @ '' oom_score='' @ score))
                else skip)))))"

definition protected_daemons :: "string \<Rightarrow> string list" where
  "protected_daemons protect_shims =
     [''dockerd'', ''containerd'']
     @ (if protect_shims = ''1'' then [''containerd-shim'', ''containerd-shim-runc-v2''] else [])"

definition protect_report :: "environment \<Rightarrow> unit prog" where
  "protect_report e =
     then_do (have_command e ''getprop'') (\<lambda>have.
     then_do (if have
              then then_do (command_stdout_trim ''getprop'' [''ro.lmk.use_psi'']) (\<lambda>v.
                   then_do (println (''ro.lmk.use_psi='' @ v)) (\<lambda>_.
                   then_do (command_stdout_trim ''getprop'' [''ro.lmk.debug'']) (\<lambda>v.
                     println (''ro.lmk.debug='' @ v))))
              else Ret ()) (\<lambda>_.
     then_do (get (ReadText ''/proc/pressure/memory'')) (\<lambda>r.
       case r of
         Inl _ \<Rightarrow> Ret ()
       | Inr memory_pressure \<Rightarrow>
           then_do (println ''memory pressure:'') (\<lambda>_. say memory_pressure))))"

definition protect_daemons :: "environment \<Rightarrow> unit prog" where
  "protect_daemons e =
     (let oom_score_adj = unwrap_or ''-900'' (env_var e ''OOM_SCORE_ADJ'');
          protect_shims = unwrap_or ''0'' (env_var e ''PROTECT_SHIMS'');
          dry_run = (env_var e ''ACHOST_DRY_RUN'' = Some ''1'')
      in then_do (println (''oom_score_adj_target='' @ oom_score_adj)) (\<lambda>_.
         then_do (println (''protect_shims='' @ protect_shims)) (\<lambda>_.
         then_do (for_all (protected_daemons protect_shims) (\<lambda>daemon.
           then_do (pids_for_name daemon) (\<lambda>pids.
             if pids = [] then println (''not running: '' @ daemon)
             else for_all pids (\<lambda>pid. write_oom_score_adj pid daemon oom_score_adj dry_run)))) (\<lambda>_.
           protect_report e))))"

section \<open>Command line\<close>

text \<open>The exit code of an operation that may fail; \<open>None\<close> while it is still running.\<close>

definition exit_with :: "(stop + unit) prog \<Rightarrow> int option prog" where
  "exit_with p =
     then_do p (\<lambda>r. case r of
       Inr _ \<Rightarrow> Ret (Some 0)
     | Inl StillRunning \<Rightarrow> Ret None
     | Inl (Failed err) \<Rightarrow> then_do (eprintln (''error: '' @ re_message err)) (\<lambda>_. Ret (Some (re_code err))))"

definition run_detect_uplink :: "environment \<Rightarrow> string list \<Rightarrow> int option prog" where
  "run_detect_uplink e args =
     then_do (detect_uplink_iface e (unwrap_or ''1.1.1.1'' (nth_opt args 0))) (\<lambda>r. case r of
       Inr iface \<Rightarrow> then_do (println iface) (\<lambda>_. Ret (Some 0))
     | Inl StillRunning \<Rightarrow> Ret None
     | Inl (Failed err) \<Rightarrow> then_do (eprintln (re_message err)) (\<lambda>_. Ret (Some (re_code err))))"

definition run_net_reconcile :: "nat \<Rightarrow> environment \<Rightarrow> int option prog" where
  "run_net_reconcile fuel e = exit_with (net_reconcile fuel e (runtime_config_from_env e) Stdout)"

definition bridge_reconcile_config :: "environment \<Rightarrow> bridge_reconcile_args \<Rightarrow> runtime_config" where
  "bridge_reconcile_config e args =
     (let c = runtime_config_from_env e;
          c = (case ba_bridge args of None \<Rightarrow> c | Some bridge \<Rightarrow> c\<lparr>rc_bridge := bridge\<rparr>)
      in case ba_subnet args of None \<Rightarrow> c | Some subnet \<Rightarrow> c\<lparr>rc_docker_subnet := Some subnet\<rparr>)"

definition run_bridge_reconcile :: "nat \<Rightarrow> environment \<Rightarrow> string list \<Rightarrow> int option prog" where
  "run_bridge_reconcile fuel e args =
     (case parse_bridge_reconcile_args args of
        Inl message \<Rightarrow> then_do (eprintln (''error: '' @ message)) (\<lambda>_. Ret (Some 2))
      | Inr bridge_args \<Rightarrow>
          let config = bridge_reconcile_config e bridge_args
          in then_do (println (''bridge_owner='' @ ba_owner bridge_args)) (\<lambda>_.
             exit_with
               (try_do (case rc_docker_subnet config of
                          None \<Rightarrow> ok ()
                        | Some subnet \<Rightarrow>
                            ensure_bridge_ready e (rc_bridge config) subnet (rc_dry_run config) Stdout)
                  (\<lambda>_. net_reconcile fuel e config Stdout))))"

definition run_net_watchdog :: "nat \<Rightarrow> nat \<Rightarrow> environment \<Rightarrow> int option prog" where
  "run_net_watchdog rounds fuel e = exit_with (net_watchdog rounds fuel e (watchdog_config_from_env e))"

definition run_protect_daemons :: "environment \<Rightarrow> int option prog" where
  "run_protect_daemons e = then_do (protect_daemons e) (\<lambda>_. Ret (Some 0))"

text \<open>\<open>main\<close>, with the arguments after the program's name.\<close>

definition core_main :: "nat \<Rightarrow> nat \<Rightarrow> environment \<Rightarrow> string list \<Rightarrow> int option prog" where
  "core_main rounds fuel e args =
     (case args of
        [] \<Rightarrow>
          then_do (eprintln (''usage: achost-runtime-core <detect-uplink|net-reconcile|bridge-reconcile|''
            @ ''net-watchdog|protect-daemons>'')) (\<lambda>_. Ret (Some 2))
      | command # rest \<Rightarrow>
          if command = ''detect-uplink'' then run_detect_uplink e rest
          else if command = ''net-reconcile'' then run_net_reconcile fuel e
          else if command = ''bridge-reconcile'' then run_bridge_reconcile fuel e rest
          else if command = ''net-watchdog'' then run_net_watchdog rounds fuel e
          else if command = ''protect-daemons'' then run_protect_daemons e
          else then_do (eprintln (''unsupported command: '' @ command)) (\<lambda>_. Ret (Some 2)))"

end
