(* ===== verification/CoreSafety.thy ===== *)
theory CoreSafety
  imports CoreTables CoreWatch
begin

text \<open>
  What \<open>achost-runtime-core\<close> may change, and when: dry runs, failing reconciliations, uplink
  detection, the daemons it protects, the rounds of the watchdog and its pid file.
\<close>

section \<open>Calls that change nothing\<close>

text \<open>Queries of \<open>ip\<close> and of the packet filter, by their arguments.\<close>

fun reads_only :: "string list \<Rightarrow> bool" where
  "reads_only (a # b # rest) \<longleftrightarrow>
     (a, b) \<in> {(''link'', ''show''), (''addr'', ''show''), (''-4'', ''route''), (''-4'', ''addr''),
       (''route'', ''get''), (''rule'', ''show''), (''-S'', ''FORWARD'')}"
| "reads_only args \<longleftrightarrow> False"

fun harmless :: "event \<Rightarrow> bool" where
  "harmless (EAct (AppendFile path line) r) = True"
| "harmless (EAct c r) = False"
| "harmless (ERun c r) = reads_only (cmd_args c)"
| "harmless e = True"

definition cleans_bridge :: "string \<Rightarrow> event \<Rightarrow> bool" where
  "cleans_bridge bridge e \<longleftrightarrow>
     (\<exists>iptables out r. e = ERun (silent_cmd iptables (delete_forward_args bridge out)) r \<and> out \<noteq> [])"

lemma harmless_logs: "logs e \<Longrightarrow> harmless e"
  by (cases e rule: logs.cases) auto

lemma cmd_fields [simp]:
  "cmd_args (output_cmd c args) = args" "cmd_args (silent_cmd c args) = args"
  "cmd_program (output_cmd c args) = c" "cmd_program (silent_cmd c args) = c"
  by (simp_all add: output_cmd_def silent_cmd_def)

named_theorems harmless_intros \<open>programs that change nothing\<close>

lemma harmless_log_line [harmless_intros]: "emits harmless (log_line logger m)"
  by (rule emits_mono [OF emits_log_line harmless_logs])

lemma harmless_have_command [harmless_intros]: "emits harmless (have_command e c)"
  by (auto simp: have_command_def core_is_executable_def split: option.split intro!: emits_intros)

lemma harmless_queries [harmless_intros]:
  "reads_only args \<Longrightarrow> emits harmless (command_output c args)"
  "reads_only args \<Longrightarrow> emits harmless (command_success_silent c args)"
  by (auto simp: command_output_def command_success_silent_def intro!: emits_intros)

lemma harmless_run_logged_dry [harmless_intros]: "emits harmless (run_logged logger c args True)"
  by (auto simp: run_logged_def intro!: emits_intros harmless_intros)

lemma harmless_else_do [harmless_intros]:
  "emits P p \<Longrightarrow> emits P q \<Longrightarrow> emits P (else_do p q)"
  by (auto simp: else_do_def intro!: emits_intros split: option.split)

lemma harmless_subnets [harmless_intros]:
  "emits harmless (subnet_from_route b)" "emits harmless (subnet_from_addr b)"
  "emits harmless (resolve_docker_subnet config)"
  by (auto simp: subnet_from_route_def subnet_from_addr_def resolve_docker_subnet_def
      intro!: emits_intros harmless_intros)

lemma harmless_uplink [harmless_intros]:
  "emits harmless (detect_uplink_iface e target)" "emits harmless (resolve_uplink e config)"
  "emits harmless (pick_iptables e config)"
  by (auto simp: detect_uplink_iface_def link_is_usable_def resolve_uplink_def pick_iptables_def Let_def
      intro!: emits_intros harmless_intros split: option.split)

lemma harmless_sysctl_dry [harmless_intros]: "emits harmless (set_sysctl_value e key v True logger)"
  by (auto simp: set_sysctl_value_def Let_def intro!: emits_intros harmless_intros)

lemma harmless_ip_rule_dry [harmless_intros]:
  "emits harmless (ensure_ip_rule fuel p needle args True logger)"
  by (auto simp: ensure_ip_rule_def delete_ip_rules_at_priority_def intro!: emits_intros harmless_intros)

lemma harmless_policy_dry [harmless_intros]:
  "rc_dry_run config \<Longrightarrow> emits harmless (ensure_return_policy_rule fuel config subnet logger)"
  "rc_dry_run config \<Longrightarrow> emits harmless (ensure_source_policy_rule fuel config subnet uplink logger)"
  by (auto simp: ensure_return_policy_rule_def ensure_source_policy_rule_def intro!: harmless_intros)

lemma harmless_rule_dry [harmless_intros]:
  "emits harmless (ensure_rule fuel iptables table chain args True logger)"
  by (auto simp: ensure_rule_def delete_existing_rules_def intro!: emits_intros harmless_intros)

lemma emits_delete_loop:
  "(\<And>r. P (ERun (silent_cmd c args) r)) \<Longrightarrow> emits P (delete_loop fuel c args)"
  by (induction fuel) (auto simp: command_success_null_def intro!: emits_intros)

lemma cleanup_emits:
  "emits (\<lambda>e. harmless e \<or> cleans_bridge bridge e) (cleanup_bridge_forward_rules fuel iptables bridge)"
proof -
  have "out \<noteq> []" if "stale_forward bridge line = Some out" for line out
    using that by (auto simp: stale_forward_def Let_def split: if_splits prod.splits)
  then show ?thesis
    by (auto simp: cleanup_bridge_forward_rules_def command_output_def cleans_bridge_def
        intro!: emits_intros emits_delete_loop split: option.split) (metis option.exhaust)
qed

lemma harmless_weaken: "emits harmless p \<Longrightarrow> emits (\<lambda>e. harmless e \<or> Q e) p"
  by (erule emits_mono) simp

lemmas reconcile_pieces = harmless_intros [THEN harmless_weaken]

lemma reconcile_dry:
  assumes "rc_dry_run config"
  shows "emits (\<lambda>e. harmless e \<or> cleans_bridge (rc_bridge config) e) (net_reconcile fuel e config logger)"
  unfolding net_reconcile_def reconcile_uplink_def
  by (auto simp: assms intro!: emits_intros reconcile_pieces cleanup_emits split: option.split)

text \<open>
  C20. In a dry run the reconciliation appends to the log and reads, with one exception: rules
  of the \<open>FORWARD\<close> chain that accept traffic from the bridge to some interface are deleted
  in a dry run too.
\<close>

theorem dry_run_changes:
  assumes "rc_dry_run config" "exec (net_reconcile fuel e config logger) t = Some r" "ev \<in> set t"
  shows "harmless ev \<or> cleans_bridge (rc_bridge config) ev"
  using emits_holds [OF reconcile_dry [OF assms(1)] assms(2)] assms(3) by (auto simp: list_all_iff)

text \<open>A system for examples: tests succeed, reads fail, commands are answered by \<open>f\<close>.\<close>

definition demo_sys ::
  "('s \<Rightarrow> cmd \<Rightarrow> cmd_output io \<times> 's) \<Rightarrow> ('s \<Rightarrow> act \<Rightarrow> unit io \<times> 's) \<times> ('s \<Rightarrow> ask \<Rightarrow> bool \<times> 's)
    \<times> ('s \<Rightarrow> get \<Rightarrow> string io \<times> 's) \<times> ('s \<Rightarrow> query \<Rightarrow> nat \<times> 's) \<times> ('s \<Rightarrow> string \<Rightarrow> (string io) list io \<times> 's)
    \<times> ('s \<Rightarrow> string \<Rightarrow> bool \<Rightarrow> (tar_entry io) list io \<times> 's) \<times> ('s \<Rightarrow> cmd \<Rightarrow> cmd_output io \<times> 's)
    \<times> ('s \<Rightarrow> nat \<Rightarrow> 's) \<times> ('s \<Rightarrow> num \<Rightarrow> nat io \<times> 's) \<times> ('s \<Rightarrow> wait \<Rightarrow> wait_answer \<times> 's)
    \<times> ('s \<Rightarrow> nat \<Rightarrow> cmd_output io \<times> 's)" where
  "demo_sys f = (\<lambda>s c. (Inr (), s), \<lambda>s c. (True, s), \<lambda>s c. (Inl NotFound, s), \<lambda>s c. (1, s),
     \<lambda>s c. (Inl NotFound, s), \<lambda>s c z. (Inl NotFound, s), f, \<lambda>s n. s,
     \<lambda>s c. (Inl NotFound, s), \<lambda>s c. (NotYet, s), \<lambda>s c. (Inl NotFound, s))"

definition path_env :: environment where
  "path_env name = (if name = ''PATH'' then Utf8 ''/b'' else Unset)"

text \<open>One stale rule in the chain; the state is the number of copies of it.\<close>

definition demo_commands :: "nat \<Rightarrow> cmd \<Rightarrow> cmd_output io \<times> nat" where
  "demo_commands n c =
     (if cmd_args c = [''-S'', ''FORWARD'']
      then (tool_answer 0 (''-P FORWARD ACCEPT'' @ [LF] @ ''-A FORWARD -i docker0 -o wlan0 -j ACCEPT''), n)
      else if take 1 (cmd_args c) = [''-D''] then (tool_answer (if n = 0 then 1 else 0) [], n - 1)
      else (tool_answer 0 [], n))"

theorem dry_run_changes_witness:
  "\<exists>t ev. exec (net_reconcile 2 path_env (demo_runtime\<lparr>rc_dry_run := True\<rparr>) Stdout) t = Some (Inr ())
     \<and> ev \<in> set t \<and> \<not> harmless ev \<and> cleans_bridge ''docker0'' ev"
proof -
  let ?config = "demo_runtime\<lparr>rc_dry_run := True\<rparr>"
  let ?p = "net_reconcile 2 path_env ?config Stdout"
  let ?del = "silent_cmd ''iptables'' (delete_forward_args ''docker0'' ''wlan0'')"
  have "case run (demo_sys demo_commands) ?p 1 of (t, r, s) \<Rightarrow>
      r = Inr () \<and> list_ex (\<lambda>ev. ev = ERun ?del (tool_answer 0 [])) t"
    by code_simp
  then obtain t s where "run (demo_sys demo_commands) ?p 1 = (t, Inr (), s)"
    and ev: "ERun ?del (tool_answer 0 []) \<in> set t"
    by (auto simp: list_ex_iff split: prod.splits)
  from exec_run [OF this(1)] have run: "exec ?p t = Some (Inr ())" .
  have "\<not> harmless (ERun ?del (tool_answer 0 []))" by code_simp
  moreover have "rc_dry_run ?config" "rc_bridge ?config = ''docker0''" by (simp_all add: demo_runtime_def)
  ultimately show ?thesis using dry_run_changes [OF _ run ev] run ev by metis
qed

section \<open>Where an error may come from\<close>

definition never_fails :: "(stop + 'a) prog \<Rightarrow> bool" where
  "never_fails p \<longleftrightarrow> holds (\<lambda>t r. \<forall>err. r \<noteq> Inl (Failed err)) p"

definition fails_clean :: "(stop + 'a) prog \<Rightarrow> bool" where
  "fails_clean p \<longleftrightarrow>
     holds (\<lambda>t r. \<forall>err. r = Inl (Failed err) \<longrightarrow> re_code err = 1 \<and> list_all harmless t) p"

lemma never_fails_simps [simp]:
  "never_fails (ok x)" "never_fails (fail StillRunning)" "\<not> never_fails (fail (Failed err))"
  by (auto simp: never_fails_def)

lemma never_fails_then_do: "(\<And>x. never_fails (f x)) \<Longrightarrow> never_fails (then_do p f)"
  by (simp add: never_fails_def holds_then_do)

lemma never_fails_try_do: "never_fails p \<Longrightarrow> (\<And>x. never_fails (f x)) \<Longrightarrow> never_fails (try_do p f)"
  unfolding never_fails_def holds_exec exec_try_do by fastforce

lemma never_fails_for_each: "(\<And>x. x \<in> set xs \<Longrightarrow> never_fails (f x)) \<Longrightarrow> never_fails (for_each xs f)"
  by (induction xs) (auto intro: never_fails_try_do)

lemma never_fails_delete_loop: "never_fails (delete_loop fuel c args)"
  by (induction fuel) (auto intro: never_fails_then_do)

lemmas never_fails_intros = never_fails_then_do never_fails_try_do never_fails_for_each never_fails_delete_loop

lemma never_fails_rules:
  "never_fails (ensure_return_policy_rule fuel config subnet logger)"
  "never_fails (reconcile_uplink fuel config logger iptables subnet uplink)"
  by (auto simp: ensure_return_policy_rule_def reconcile_uplink_def ensure_source_policy_rule_def ensure_ip_rule_def
      delete_ip_rules_at_priority_def cleanup_bridge_forward_rules_def ensure_rule_def delete_existing_rules_def
      intro!: never_fails_intros split: option.split)

lemma fails_clean_never: "never_fails p \<Longrightarrow> fails_clean p"
  by (simp add: never_fails_def fails_clean_def holds_exec)

lemma fails_clean_fail [simp]: "fails_clean (fail (runtime_err 1 m))"
  by (simp add: fails_clean_def runtime_err_def)

lemma fails_clean_then_do: "emits harmless p \<Longrightarrow> (\<And>x. fails_clean (f x)) \<Longrightarrow> fails_clean (then_do p f)"
  by (auto simp: fails_clean_def emits_def holds_exec exec_then_do)

lemma fails_clean_ok_or: "(\<And>x. fails_clean (f x)) \<Longrightarrow> fails_clean (try_do (Ret (ok_or (runtime_err 1 m) v)) f)"
  by (cases v) auto

lemma reconcile_fails_clean: "fails_clean (net_reconcile fuel e config logger)"
  unfolding net_reconcile_def
  by ((rule fails_clean_never, intro never_fails_intros never_fails_rules, simp split: option.split add: never_fails_intros never_fails_rules; fail)
      | rule fails_clean_then_do fails_clean_ok_or
      | simp add: harmless_intros split: if_split del: emits_simps; intro impI)+

text \<open>
  C21. A reconciliation that ends with an error has exit code 1 and has changed nothing: the
  checks for the tools, the bridge and its subnet all come before the first change.
\<close>

theorem failed_reconcile_changes_nothing:
  assumes "exec (net_reconcile fuel e config logger) t = Some (Inl (Failed err))"
  shows "re_code err = 1 \<and> list_all harmless t"
  using reconcile_fails_clean [of fuel e config logger] assms
  by (simp add: fails_clean_def holds_exec)

theorem failed_reconcile_changes_nothing_witness:
  "\<exists>t err. exec (net_reconcile 2 path_env demo_runtime Stdout) t = Some (Inl (Failed err))
     \<and> re_code err = 1 \<and> list_all harmless t"
proof -
  let ?p = "net_reconcile 2 path_env demo_runtime Stdout"
  have "\<exists>t err. exec ?p t = Some (Inl (Failed err))"
  proof -
    have "case run (demo_sys (\<lambda>s c. (tool_answer 1 [], s))) ?p () of (t, r, s) \<Rightarrow>
        r = Inl (runtime_err 1 ''docker0 not found'')"
      by code_simp
    then show ?thesis
      by (auto simp: runtime_err_def split: prod.splits dest!: exec_run)
  qed
  then show ?thesis using failed_reconcile_changes_nothing by blast
qed

end
