(* ===== verification/CoreDaemon.thy ===== *)
theory CoreDaemon
  imports CoreSafety
begin

text \<open>
  Correctness of the uplink detection, of the watchdog's rounds and pid file, and of the
  daemon protection.
\<close>

section \<open>Uplink detection\<close>

lemma nth_opt_0_Some: "nth_opt ws 0 = Some v \<longleftrightarrow> (\<exists>post. ws = v # post)"
  by (cases ws) auto

lemma next_token_Some_iff:
  "next_token needle ws = Some v \<longleftrightarrow> (\<exists>pre post. ws = pre @ needle # v # post \<and> needle \<notin> set pre)"
proof (induction ws)
  case (Cons w ws)
  show ?case
  proof (cases "w = needle")
    case True
    then show ?thesis
      by (auto simp: nth_opt_0_Some Cons_eq_append_conv intro: exI [of _ "[]"])
  next
    case False
    then have "(\<exists>pre post. w # ws = pre @ needle # v # post \<and> needle \<notin> set pre) \<longleftrightarrow>
        (\<exists>pre post. ws = pre @ needle # v # post \<and> needle \<notin> set pre)"
    proof (intro iffI; elim exE conjE)
      fix pre post
      assume "ws = pre @ needle # v # post" "needle \<notin> set pre"
      with False have "w # ws = (w # pre) @ needle # v # post" "needle \<notin> set (w # pre)" by auto
      then show "\<exists>pre post. w # ws = pre @ needle # v # post \<and> needle \<notin> set pre" by blast
    qed (use False in \<open>auto simp: Cons_eq_append_conv\<close>)
    with False Cons.IH show ?thesis by simp
  qed
qed simp

definition routes_through :: "string \<Rightarrow> string \<Rightarrow> bool" where
  "routes_through route iface \<longleftrightarrow>
     (\<exists>pre post. split_whitespace (trim route) = pre @ ''dev'' # iface # post \<and> ''dev'' \<notin> set pre)"

definition link_up :: "string \<Rightarrow> bool" where
  "link_up link \<longleftrightarrow> trim link \<noteq> [] \<and> \<not> str_contains ''NO-CARRIER'' link \<and> \<not> str_contains ''state DOWN'' link"

text \<open>
  An uplink is only reported on the word of the tools: the last two commands were the
  route to the target, whose first \<open>dev\<close> field names the interface, and a query of that
  interface that shows a carrier and no \<open>state DOWN\<close>.
\<close>

lemma detect_uplink_sound:
  assumes "exec (detect_uplink_iface e target) t = Some (Inr iface)"
  shows "\<exists>u r1 r2 route link.
      t = u @ [ERun (output_cmd ''ip'' [''route'', ''get'', target]) r1,
               ERun (output_cmd ''ip'' [''link'', ''show'', iface]) r2]
    \<and> success_text r1 = Some route \<and> routes_through route iface
    \<and> success_text r2 = Some link \<and> link_up link"
proof -
  have "exec (map_err f (command_output c args)) t = Some (Inr out) \<longleftrightarrow>
      t = [ERun (output_cmd c args) (Inr out)]" for f :: "io_error \<Rightarrow> stop" and c args t out
  proof -
    have "Inr out = (case x of Inl e \<Rightarrow> Inl (f e) | Inr y \<Rightarrow> Inr y) \<longleftrightarrow> x = Inr out" for x
      by (cases x) auto
    then show ?thesis by (simp add: exec_map_err command_output_def)
  qed
  moreover have "Inr y = ok_or e x \<longleftrightarrow> x = Some y" for e :: stop and x :: "string option" and y
    by (cases x) auto
  ultimately show ?thesis using assms
    by (auto simp: detect_uplink_iface_def exec_ok Let_def link_is_usable_def command_output_def exec_node
        link_up_def routes_through_def parse_dev_field_def token_after_def next_token_Some_iff success_text_def
        split: if_splits option.splits) blast
qed

section \<open>Protected daemons\<close>

text \<open>A process of one of the names, found by its entry of \<open>/proc\<close>.\<close>

definition named_process :: "string list \<Rightarrow> event list \<Rightarrow> nat \<Rightarrow> bool" where
  "named_process names t pid \<longleftrightarrow>
     (\<exists>entry comm. parse_uint U32_BOUND entry = Some pid
        \<and> EGet (ReadText (path_join (path_join ''/proc'' entry) ''comm'')) (Inr comm) \<in> set t
        \<and> trim comm \<in> set names)"

definition protects_only :: "string list \<Rightarrow> event list \<Rightarrow> bool" where
  "protects_only names t \<longleftrightarrow>
     (\<forall>c x. EAct c x \<in> set t \<longrightarrow>
        (\<exists>pid score. c = WriteFile (oom_adj_path pid) score \<and> named_process names t pid))"

lemma named_process_mono: "named_process names t pid \<Longrightarrow> set t \<subseteq> set u \<Longrightarrow> named_process names u pid"
  by (auto simp: named_process_def)

lemma protects_only_append:
  "protects_only names t \<Longrightarrow> protects_only names u \<Longrightarrow> protects_only names (t @ u)"
  unfolding protects_only_def by (metis Un_iff named_process_mono set_append sup_ge1 sup_ge2)

lemma protects_onlyD:
  "protects_only names s \<Longrightarrow> EAct c x \<in> set s \<Longrightarrow> set s \<subseteq> set t \<Longrightarrow>
     \<exists>pid score. c = WriteFile (oom_adj_path pid) score \<and> named_process names t pid"
  unfolding protects_only_def by (blast intro: named_process_mono)

lemma protects_only_quiet: "list_all (\<lambda>e. \<forall>c x. e \<noteq> EAct c x) t \<Longrightarrow> protects_only names t"
  by (auto simp: protects_only_def list_all_iff)

lemma pids_loop_named:
  "exec (pids_loop name entries) t = Some pids \<Longrightarrow>
     (\<forall>pid \<in> set pids. named_process [name] t pid) \<and> protects_only names t"
proof (induction entries arbitrary: t pids)
  case (Cons entry entries)
  show ?case
  proof (cases "Option.bind (case entry of Inl _ \<Rightarrow> None | Inr fname \<Rightarrow> Some fname) (parse_uint U32_BOUND)")
    case None
    with Cons.prems have "exec (pids_loop name entries) t = Some pids"
      by (auto split: sum.splits option.splits)
    then show ?thesis by (rule Cons.IH)
  next
    case (Some pid)
    then obtain fname where entry: "entry = Inr fname" "parse_uint U32_BOUND fname = Some pid"
      by (auto split: sum.splits)
    with Cons.prems obtain r u rest where t: "t = EGet (ReadText (path_join (path_join ''/proc'' fname) ''comm'')) r # u"
      and rest: "exec (pids_loop name entries) u = Some rest"
      and pids: "pids = (if (case r of Inl _ \<Rightarrow> None | Inr v \<Rightarrow> Some (trim v)) = Some name then pid # rest else rest)"
      by (auto simp: read_trimmed_def exec_node exec_then_do)
    from Cons.IH [OF rest] have all: "\<forall>pid \<in> set rest. named_process [name] t pid" "protects_only names u"
      unfolding t by (auto intro: named_process_mono)
    moreover have "named_process [name] t pid"
      if "(case r of Inl _ \<Rightarrow> None | Inr v \<Rightarrow> Some (trim v)) = Some name"
      using that entry t by (auto simp: named_process_def split: sum.splits)
    moreover have "protects_only names t"
      using protects_only_append [OF protects_only_quiet all(2), of "[EGet (ReadText (path_join (path_join ''/proc'' fname) ''comm'')) r]"]
      by (simp add: t)
    ultimately show ?thesis unfolding pids by (auto split: if_splits)
  qed
qed (simp add: protects_only_def)

lemma protects_only_for_all:
  assumes "\<And>x u. x \<in> set xs \<Longrightarrow> exec (f x) u = Some () \<Longrightarrow> protects_only names (pre @ u)"
  shows "exec (for_all xs f) t = Some () \<Longrightarrow> protects_only names pre \<Longrightarrow> protects_only names (pre @ t)"
  using assms
proof (induction xs arbitrary: t)
  case (Cons x xs)
  from Cons.prems(1) obtain u v where t: "t = u @ v" "exec (f x) u = Some ()" "exec (for_all xs f) v = Some ()"
    by (auto simp: exec_then_do)
  have left: "protects_only names (pre @ u)" by (rule Cons.prems(3) [of x u]) (simp_all add: t)
  have right: "protects_only names (pre @ v)" by (rule Cons.IH [OF t(3) Cons.prems(2)]) (rule Cons.prems(3), simp_all)
  have "\<exists>pid score. c = WriteFile (oom_adj_path pid) score \<and> named_process names (pre @ u @ v) pid"
    if call: "EAct c x \<in> set (pre @ u @ v)" for c x
  proof (cases "EAct c x \<in> set (pre @ u)")
    case True
    show ?thesis by (rule protects_onlyD [OF left True]) auto
  next
    case False
    with call have later: "EAct c x \<in> set (pre @ v)" by simp
    show ?thesis by (rule protects_onlyD [OF right later]) auto
  qed
  then show ?case unfolding t protects_only_def by blast
qed simp

lemma write_oom_emits:
  "emits (\<lambda>e. \<forall>c x. e = EAct c x \<longrightarrow> c = WriteFile (oom_adj_path pid) (score @ [LF]))
     (write_oom_score_adj pid name score dry_run)"
  by (auto simp: write_oom_score_adj_def read_trimmed_def Let_def intro!: emits_intros)

lemma protect_one_daemon:
  assumes "exec (then_do (pids_for_name daemon) (\<lambda>pids.
      if pids = [] then println m
      else for_all pids (\<lambda>pid. write_oom_score_adj pid daemon score dry_run))) t = Some ()"
    and "daemon \<in> set names"
  shows "protects_only names t"
proof -
  from assms(1) obtain u v pids where t: "t = u @ v" and u: "exec (pids_for_name daemon) u = Some pids"
    and v: "exec (if pids = [] then println m
       else for_all pids (\<lambda>pid. write_oom_score_adj pid daemon score dry_run)) v = Some ()"
    by (auto simp: exec_then_do)
  have found: "(\<forall>pid \<in> set pids. named_process names u pid) \<and> protects_only names u"
  proof -
    from u obtain r w where w: "u = ELs ''/proc'' r # w" by (auto simp: pids_for_name_def exec_node)
    have "(\<forall>pid \<in> set pids. named_process [daemon] w pid) \<and> protects_only [daemon] w"
    proof (cases r)
      case (Inl e)
      with u w show ?thesis by (auto simp: pids_for_name_def exec_node protects_only_def)
    next
      case (Inr entries)
      with u w obtain found where "exec (pids_loop daemon entries) w = Some found" "pids = sort found"
        by (auto simp: pids_for_name_def exec_node exec_then_do)
      with pids_loop_named [OF this(1)] show ?thesis by simp
    qed
    with assms(2) w show ?thesis
      unfolding protects_only_def named_process_def by fastforce
  qed
  show ?thesis
  proof (cases "pids = []")
    case True
    with v have "v = [ESay (m @ [LF])]" by simp
    with found t show ?thesis by (simp add: protects_only_append protects_only_quiet)
  next
    case False
    with v have run: "exec (for_all pids (\<lambda>pid. write_oom_score_adj pid daemon score dry_run)) v = Some ()" by simp
    show ?thesis unfolding t
    proof (rule protects_only_for_all [OF _ run conjunct2 [OF found]])
      fix pid w
      assume "pid \<in> set pids" "exec (write_oom_score_adj pid daemon score dry_run) w = Some ()"
      then have "named_process names (u @ w) pid"
        "\<And>c x. EAct c x \<in> set w \<Longrightarrow> c = WriteFile (oom_adj_path pid) (score @ [LF])"
        using found emits_holds [OF write_oom_emits]
        by (auto simp: list_all_iff intro: named_process_mono [of names u])
      moreover have "\<exists>pid score. c = WriteFile (oom_adj_path pid) score \<and> named_process names (u @ w) pid"
        if "EAct c x \<in> set u" for c x
        using protects_onlyD [OF conjunct2 [OF found] that, of "u @ w"] by auto
      ultimately show "protects_only names (u @ w)"
        unfolding protects_only_def by (metis Un_iff set_append)
    qed
  qed
qed

text \<open>
  C22. The protection writes to nothing but the \<open>oom_score_adj\<close> of processes: each of them
  was found as an entry of \<open>/proc\<close> whose \<open>comm\<close> is the name of one of the container daemons
  that are to be protected, the shims only when they are asked for.
\<close>

theorem protect_daemons_only_named:
  assumes "exec (protect_daemons e) t = Some ()"
  shows "protects_only (protected_daemons (unwrap_or ''0'' (env_var e ''PROTECT_SHIMS''))) t"
proof -
  let ?names = "protected_daemons (unwrap_or ''0'' (env_var e ''PROTECT_SHIMS''))"
  let ?score = "unwrap_or ''-900'' (env_var e ''OOM_SCORE_ADJ'')"
  let ?loop = "\<lambda>daemon. then_do (pids_for_name daemon) (\<lambda>pids.
      if pids = [] then println (''not running: '' @ daemon)
      else for_all pids (\<lambda>pid. write_oom_score_adj pid daemon ?score (env_var e ''ACHOST_DRY_RUN'' = Some ''1'')))"
  from assms obtain a b c d where t: "t = ESay a # ESay b # c @ d"
    and loop: "exec (for_all ?names ?loop) c = Some ()" and rest: "exec (protect_report e) d = Some ()"
    unfolding protect_daemons_def Let_def by (auto simp: exec_then_do)
  have "protects_only ?names c"
    using protects_only_for_all [OF _ loop, of ?names "[]"] protect_one_daemon
    by (simp add: protects_only_def [of _ "[]"])
  moreover have "protects_only ?names d"
    by (rule protects_only_quiet, rule emits_holds [OF _ rest])
      (auto simp: protect_report_def have_command_def core_is_executable_def command_stdout_trim_def command_output_def
        intro!: emits_intros split: option.split sum.split)
  ultimately show ?thesis
    using protects_only_append [of ?names "[ESay a, ESay b] @ c" d]
      protects_only_append [of ?names "[ESay a, ESay b]" c] by (simp add: t protects_only_quiet)
qed

theorem protect_daemons_only_named_witness:
  "\<exists>t. exec (protect_daemons path_env) t = Some ()
     \<and> EAct (WriteFile (oom_adj_path 7) (''-900'' @ [LF])) (Inr ()) \<in> set t
     \<and> protects_only (protected_daemons ''0'') t"
proof -
  let ?score = "''-900'' @ [LF]"
  let ?t = "[ESay (''oom_score_adj_target=-900'' @ [LF]), ESay (''protect_shims=0'' @ [LF]),
     ELs ''/proc'' (Inr [Inr ''7'']), EGet (ReadText (path_join (path_join ''/proc'' ''7'') ''comm'')) (Inr ''dockerd''),
     EAsk (PathWritable (oom_adj_path 7)) True, EGet (ReadText (oom_adj_path 7)) (Inl NotFound),
     EGet (ReadText ''/proc/7/oom_score'') (Inl NotFound), EAct (WriteFile (oom_adj_path 7) ?score) (Inr ()),
     EGet (ReadText (oom_adj_path 7)) (Inl NotFound),
     ESay (''protected dockerd pid=7 oom_score_adj unknown->unknown oom_score=unknown'' @ [LF]),
     ELs ''/proc'' (Inr []), ESay (''not running: containerd'' @ [LF]),
     EAsk (IsFile (path_join ''/b'' ''getprop'')) False, EGet (ReadText ''/proc/pressure/memory'') (Inl NotFound)]"
  have facts: "parse_uint U32_BOUND ''7'' = Some 7" "trim ''dockerd'' = ''dockerd''" "show_nat 7 = ''7''"
    "env_var path_env ''OOM_SCORE_ADJ'' = None" "env_var path_env ''PROTECT_SHIMS'' = None"
    "env_var path_env ''ACHOST_DRY_RUN'' = None" "env_var_os path_env ''PATH'' = Some ''/b''"
    "split_char (CHR ''/'') ''b'' = [''b'']"
    by (simp add: parse_uint_def is_digit_def code_of_def digits_value_def digit_val_def) code_simp+
  have run: "exec (protect_daemons path_env) ?t = Some ()"
    by (simp add: protect_daemons_def protect_report_def protected_daemons_def pids_for_name_def read_trimmed_def
        write_oom_score_adj_def have_command_def core_is_executable_def and_also_def println_def Let_def facts
        exec.simps)
  have shims: "unwrap_or ''0'' (env_var path_env ''PROTECT_SHIMS'') = ''0''" by (simp add: facts)
  from protect_daemons_only_named [OF run] have "protects_only (protected_daemons ''0'') ?t"
    unfolding shims .
  with run show ?thesis by auto
qed

section \<open>Rounds of the watchdog\<close>

text \<open>A record with a complete reconciliation for the given subnet and uplink inside.\<close>

definition reconciles ::
  "nat \<Rightarrow> environment \<Rightarrow> watchdog_config \<Rightarrow> string \<Rightarrow> string option \<Rightarrow> event list \<Rightarrow> bool" where
  "reconciles fuel e config subnet uplink t \<longleftrightarrow>
     (\<exists>u v w r. t = u @ v @ w \<and>
        exec (net_reconcile fuel e ((wc_runtime config)\<lparr>rc_docker_subnet := Some subnet, rc_uplink := uplink\<rparr>)
          (LogFile (wc_log_file config))) v = Some r)"

lemma reconciles_mono: "reconciles fuel e config subnet uplink t \<Longrightarrow> reconciles fuel e config subnet uplink (a @ t @ b)"
  unfolding reconciles_def by (metis append.assoc)

lemma exec_watch_repair:
  assumes "exec (watch_repair fuel e config subnet uplink label) t = Some r"
  shows "reconciles fuel e config subnet uplink t"
proof -
  from assms obtain u v x where "t = u @ v"
    "exec (net_reconcile fuel e ((wc_runtime config)\<lparr>rc_docker_subnet := Some subnet, rc_uplink := uplink\<rparr>)
       (LogFile (wc_log_file config))) u = Some x"
    by (auto simp: watch_repair_def Let_def exec_then_do)
  then show ?thesis unfolding reconciles_def by (metis append_Nil)
qed

text \<open>The result of the first call of a round, the rules \<open>ip\<close> lists.\<close>

definition return_rule_listed :: "watchdog_config \<Rightarrow> string \<Rightarrow> event list \<Rightarrow> bool" where
  "return_rule_listed config subnet t \<longleftrightarrow>
     (\<exists>r u. t = ERun (output_cmd ''ip'' [''rule'', ''show'']) r # u \<and>
        (case success_text r of None \<Rightarrow> False
         | Some stdout \<Rightarrow> snd (count_rules_text (rc_return_rule_priority (wc_runtime config))
             (''to '' @ subnet @ '' lookup main'') stdout) > 0))"

lemma watch_round_cases:
  assumes "exec (watch_round fuel e config st subnet uplink) t = Some (Inr st')"
  shows "ws_last_wait st' = ws_last_wait st \<and>
    (reconciles fuel e config subnet uplink t \<and> ws_cycles st' = saturating_add 0 (wc_watch_interval config)
     \<or> return_rule_listed config subnet t \<and> ws_last_state st' = ws_last_state st
       \<and> ws_cycles st < wc_repair_interval config
       \<and> ws_cycles st' = saturating_add (ws_cycles st) (wc_watch_interval config))"
proof -
  let ?rt = "wc_runtime config"
  let ?needle = "''to '' @ subnet @ '' lookup main''"
  let ?label = "unwrap_or ''unavailable'' uplink"
  let ?log = "watchdog_log (wc_log_file config)"
  let ?state = "rc_bridge ?rt @ ''|'' @ subnet @ ''|'' @ ?label @ ''|'' @ unwrap_or [] (rc_iptables ?rt)"
  from assms obtain r u1 u2 u3 u4 c1 c2 c3 where t: "t = ERun (output_cmd ''ip'' [''rule'', ''show'']) r # u1 @ u2 @ u3 @ u4"
    and c1: "exec (if snd (case success_text r of None \<Rightarrow> (0, 0)
          | Some stdout \<Rightarrow> count_rules_text (rc_return_rule_priority ?rt) ?needle stdout) > 0
        then Ret (ws_cycles st)
        else then_do (?log (''repair: missing ip rule priority='' @ show_nat (rc_return_rule_priority ?rt)
               @ '' '' @ ?needle)) (\<lambda>_. Ret (wc_repair_interval config))) u1 = Some c1"
    and c2: "exec (if ?state \<noteq> ws_last_state st
        then then_do (?log (''state: bridge='' @ rc_bridge ?rt @ '' subnet='' @ subnet @ '' uplink='' @ ?label
               @ '' iptables='' @ unwrap_or ''auto'' (rc_iptables ?rt))) (\<lambda>_. Ret (wc_repair_interval config))
        else Ret c1) u2 = Some c2"
    and c3: "exec (if c2 \<ge> wc_repair_interval config
        then try_do (watch_repair fuel e config subnet uplink ?label) (\<lambda>_. ok 0) else ok c2) u3 = Some (Inr c3)"
    and u4: "exec (then_do (sleep_watch (wc_watch_interval config)) (\<lambda>_.
        ok (st\<lparr>ws_last_state := ?state, ws_cycles := saturating_add c3 (wc_watch_interval config)\<rparr>))) u4
        = Some (Inr st')"
    unfolding watch_round_def Let_def ip_rule_present_def count_ip_rules_at_priority_def command_output_def
      exec_try_do_ok exec_then_do then_do.simps then_do_assoc
    by (auto simp: exec_node exec_try_do_ok exec_then_do)
  from u4 have st': "st' = st\<lparr>ws_last_state := ?state, ws_cycles := saturating_add c3 (wc_watch_interval config)\<rparr>"
    by (auto simp: sleep_watch_def exec_node)
  show ?thesis
  proof (cases "c2 \<ge> wc_repair_interval config")
    case True
    with c3 obtain x where "exec (watch_repair fuel e config subnet uplink ?label) u3 = Some x" "c3 = 0"
      by (auto simp: exec_try_do_ok)
    with exec_watch_repair [OF this(1)] reconciles_mono [of fuel e config subnet uplink u3
        "ERun (output_cmd ''ip'' [''rule'', ''show'']) r # u1 @ u2" u4]
    show ?thesis by (simp add: t st')
  next
    case False
    with c3 have "c3 = c2" by simp
    moreover from c2 False have "c2 = c1 \<and> ?state = ws_last_state st"
      by (auto simp: exec_then_do split: if_splits)
    moreover from c1 False this have "c1 = ws_cycles st \<and> return_rule_listed config subnet t"
      by (auto simp: exec_then_do t return_rule_listed_def split: if_splits option.splits)
    ultimately show ?thesis using False by (simp add: st')
  qed
qed

text \<open>
  \<open>n\<close> rounds in a row, each with the bridge and its subnet there, none of which reconciles;
  the uplink may come and go between them.
\<close>

inductive idle_rounds ::
  "nat \<Rightarrow> environment \<Rightarrow> watchdog_config \<Rightarrow> string \<Rightarrow> nat \<Rightarrow> watch_state \<Rightarrow> watch_state \<Rightarrow> bool"
  for fuel e config subnet where
  no_round: "idle_rounds fuel e config subnet 0 st st"
| one_more: "idle_rounds fuel e config subnet n st st1
    \<Longrightarrow> exec (watch_round fuel e config (st1\<lparr>ws_last_wait := w\<rparr>) subnet uplink) t = Some (Inr st2)
    \<Longrightarrow> \<not> reconciles fuel e config subnet uplink t \<Longrightarrow> idle_rounds fuel e config subnet (Suc n) st st2"

inductive_cases idle_roundsE: "idle_rounds fuel e config subnet n st st'"

lemma saturating_add_less: "saturating_add a b < n \<Longrightarrow> n \<le> U64_MAX \<Longrightarrow> saturating_add a b = a + b"
  by (auto simp: saturating_add_def min_def split: if_splits)

lemma idle_rounds_cycles:
  assumes "idle_rounds fuel e config subnet n st st'" "wc_repair_interval config \<le> U64_MAX" "n > 0"
  shows "ws_cycles st + (n - 1) * wc_watch_interval config < wc_repair_interval config
    \<and> ws_cycles st' = saturating_add (ws_cycles st + (n - 1) * wc_watch_interval config) (wc_watch_interval config)"
  using assms
proof (induction rule: idle_rounds.induct)
  case (one_more n st st1 w uplink t st2)
  from watch_round_cases [OF one_more.hyps(2)] one_more.hyps(3)
  have now: "ws_cycles st1 < wc_repair_interval config"
    "ws_cycles st2 = saturating_add (ws_cycles st1) (wc_watch_interval config)" by auto
  show ?case
  proof (cases n)
    case 0
    with one_more.hyps(1) have "st1 = st" by (auto elim: idle_roundsE)
    with now 0 show ?thesis by simp
  next
    case (Suc m)
    with one_more.IH one_more.prems have before:
      "ws_cycles st1 = saturating_add (ws_cycles st + m * wc_watch_interval config) (wc_watch_interval config)"
      by simp
    from saturating_add_less [OF now(1) [unfolded before] one_more.prems(1)] before
    have "ws_cycles st1 = ws_cycles st + m * wc_watch_interval config + wc_watch_interval config" by simp
    with now Suc show ?thesis by (simp add: algebra_simps)
  qed
qed simp

text \<open>
  C23. The watchdog does not leave the network unrepaired for longer than the repair interval:
  the time counted in a row of rounds without a reconciliation stays below it, so there are
  at most repair interval divided by watch interval of them, rounded up; and a round that
  does not find the return rule of the subnet in the routing table always reconciles.
\<close>

theorem watchdog_repairs_in_time:
  assumes "idle_rounds fuel e config subnet n st st'" "wc_repair_interval config \<le> U64_MAX"
    and "exec (watch_round fuel e config st' subnet uplink) t = Some (Inr st'')"
    and "\<not> reconciles fuel e config subnet uplink t"
  shows "ws_cycles st + n * wc_watch_interval config < wc_repair_interval config
    \<and> return_rule_listed config subnet t"
proof
  from watch_round_cases [OF assms(3)] assms(4) show "return_rule_listed config subnet t" by blast
  have "exec (watch_round fuel e config (st'\<lparr>ws_last_wait := ws_last_wait st'\<rparr>) subnet uplink) t = Some (Inr st'')"
    using assms(3) by simp
  from idle_rounds.one_more [OF assms(1) this assms(4)]
  show "ws_cycles st + n * wc_watch_interval config < wc_repair_interval config"
    using idle_rounds_cycles [of fuel e config subnet "Suc n"] assms(2) by simp
qed

definition demo_watchdog :: watchdog_config where
  "demo_watchdog = \<lparr>wc_runtime = demo_runtime, wc_watch_interval = 5, wc_repair_interval = 30,
     wc_log_file = ''/l'', wc_pid_file = ''/p''\<rparr>"

theorem watchdog_repairs_in_time_witness:
  "\<exists>st st' t st''. idle_rounds 2 path_env demo_watchdog ''10.1.0.0/16'' 0 st st' \<and> ws_cycles st = 20
     \<and> exec (watch_round 2 path_env demo_watchdog st' ''10.1.0.0/16'' (Some ''wlan0'')) t = Some (Inr st'')
     \<and> ws_cycles st'' = 25 \<and> return_rule_listed demo_watchdog ''10.1.0.0/16'' t"
proof -
  let ?subnet = "''10.1.0.0/16''"
  let ?st = "\<lparr>ws_last_state = ''docker0|10.1.0.0/16|wlan0|iptables'', ws_last_wait = [], ws_cycles = 20\<rparr>"
  let ?show = "tool_answer 0 (unlines [show_ip_rule (11, ''from all to 10.1.0.0/16 lookup main'')])"
  let ?t = "[ERun (output_cmd ''ip'' [''rule'', ''show'']) ?show, ESleep 5000]"
  have listed: "count_rules_text 11 ''to 10.1.0.0/16 lookup main''
      (unlines [show_ip_rule (11, ''from all to 10.1.0.0/16 lookup main'')]) = (1, 1)"
    by code_simp
  have answer: "success_text (tool_answer 0 x) = Some x" for x
    by (simp add: tool_answer_def success_text_def out_success_def)
  have sum: "saturating_add 20 5 = 25" by (simp add: saturating_add_def U64_MAX_def)
  have run: "exec (watch_round 2 path_env demo_watchdog ?st ?subnet (Some ''wlan0'')) ?t
      = Some (Inr (?st\<lparr>ws_cycles := 25\<rparr>))"
    using listed
    by (simp add: watch_round_def Let_def demo_watchdog_def demo_runtime_def ip_rule_present_def
        count_ip_rules_at_priority_def command_output_def sleep_watch_def exec.simps sum answer)
  have "\<not> reconciles 2 path_env demo_watchdog ?subnet (Some ''wlan0'') ?t"
  proof
    assume "reconciles 2 path_env demo_watchdog ?subnet (Some ''wlan0'') ?t"
    then obtain u v w r where t: "?t = u @ v @ w" and "exec (net_reconcile 2 path_env
        ((wc_runtime demo_watchdog)\<lparr>rc_docker_subnet := Some ?subnet, rc_uplink := Some ''wlan0''\<rparr>)
        (LogFile (wc_log_file demo_watchdog))) v = Some r"
      unfolding reconciles_def by blast
    moreover have "env_var_os path_env ''PATH'' = Some ''/b''" by code_simp
    ultimately obtain b v' where "v = EAsk (IsFile (path_join ''/b'' ''ip'')) b # v'" 
      by (auto simp: net_reconcile_def have_command_def core_is_executable_def and_also_def exec_node exec_then_do)
    with t show False by (auto simp: Cons_eq_append_conv)
  qed
  with watchdog_repairs_in_time [OF idle_rounds.no_round _ run this] run show ?thesis
    by (force intro: idle_rounds.no_round simp: demo_watchdog_def U64_MAX_def)
qed

section \<open>The pid file\<close>

lemma watch_loop_terminated:
  "exec (watch_loop rounds fuel e config st) t = Some (Inr ()) \<Longrightarrow> \<exists>u. t = u @ [EAsk Terminated True]"
proof (induction rounds arbitrary: st t)
  case (Suc rounds)
  from Suc.prems obtain b u where t: "t = EAsk Terminated b # u"
    and rest: "exec (if b then ok () else try_do (watch_step fuel e config st) (watch_loop rounds fuel e config)) u
      = Some (Inr ())"
    by (auto simp: exec_node)
  show ?case
  proof (cases b)
    case True
    with rest t show ?thesis by simp
  next
    case False
    with rest obtain v w st' where "u = v @ w" "exec (watch_loop rounds fuel e config st') w = Some (Inr ())"
      by (auto simp: exec_try_do_ok)
    with Suc.IH [OF this(2)] t show ?thesis by auto
  qed
qed simp

definition touches :: "string \<Rightarrow> event \<Rightarrow> bool" where
  "touches path e \<longleftrightarrow> (\<exists>line r. e = EAct (WriteFile path line) r) \<or> (\<exists>r. e = EAct (RemoveFile path) r)"

lemma watchdog_prefix_untouched:
  "emits (\<lambda>e. \<not> touches path e) (ensure_parent_dir p)" "emits (\<lambda>e. \<not> touches path e) (read_pid_file p)"
  "emits (\<lambda>e. \<not> touches path e) (watchdog_log p m)" "emits (\<lambda>e. \<not> touches path e) (pid_alive pid)"
  by (auto simp: ensure_parent_dir_def read_pid_file_def read_trimmed_def watchdog_log_def timestamp_def
      append_line_or_stdout_def command_output_def pid_alive_def touches_def
      intro!: emits_intros split: option.split)

text \<open>The process id a pid file holds, if it can be read.\<close>

definition recorded_pid :: "string io \<Rightarrow> nat option" where
  "recorded_pid x = (case x of Inl _ \<Rightarrow> None | Inr s \<Rightarrow> parse_uint U32_BOUND (trim s))"

lemma exec_read_pid_file:
  "exec (read_pid_file p) t = Some old \<longleftrightarrow> (\<exists>x. t = [EGet (ReadText p) x] \<and> old = recorded_pid x)"
proof -
  have "exec (read_pid_file p) t = Some old \<longleftrightarrow> (\<exists>x. t = [EGet (ReadText p) x]
      \<and> old = Option.bind (case x of Inl _ \<Rightarrow> None | Inr v \<Rightarrow> Some (trim v)) (parse_uint U32_BOUND))"
    by (auto simp: read_pid_file_def read_trimmed_def exec_node)
  also have "\<dots> \<longleftrightarrow> (\<exists>x. t = [EGet (ReadText p) x] \<and> old = recorded_pid x)"
    by (intro arg_cong [where f = Ex] ext) (auto simp: recorded_pid_def split: sum.splits)
  finally show ?thesis .
qed

text \<open>A run that takes the pid file, and removes it as its last call when it is told to end.\<close>

definition takes_pid_file :: "string \<Rightarrow> event list \<Rightarrow> bool" where
  "takes_pid_file path t \<longleftrightarrow> (\<exists>own x v y. t = [EQuery ProcessId own, EAct (WriteFile path (show_nat own @ [LF])) x]
     @ v @ [EAsk Terminated True, EAct (RemoveFile path) y])"

lemma watchdog_main_takes:
  assumes "exec (watchdog_main rounds fuel e config) w = Some (Inr ())"
  shows "takes_pid_file (wc_pid_file config) w"
proof -
  from assms obtain own x h own' v1 v2 y where w: "w = EQuery ProcessId own
      # EAct (WriteFile (wc_pid_file config) (show_nat own @ [LF])) x # EAct InstallHandlers h
      # EQuery ProcessId own' # v1 @ v2 @ [EAct (RemoveFile (wc_pid_file config)) y]"
    and v2: "exec (watch_loop rounds fuel e config
      \<lparr>ws_last_state = [], ws_last_wait = [], ws_cycles = wc_repair_interval config\<rparr>) v2 = Some (Inr ())"
    by (auto simp: watchdog_main_def exec_node exec_then_do exec_try_do_ok)
  from watch_loop_terminated [OF v2] obtain v3 where "v2 = v3 @ [EAsk Terminated True]" by blast
  with w have "w = [EQuery ProcessId own, EAct (WriteFile (wc_pid_file config) (show_nat own @ [LF])) x]
       @ (EAct InstallHandlers h # EQuery ProcessId own' # v1 @ v3)
       @ [EAsk Terminated True, EAct (RemoveFile (wc_pid_file config)) y]" by simp
  then show ?thesis unfolding takes_pid_file_def by blast
qed

text \<open>
  C24. A second watchdog leaves the first one's pid file alone. Every run reads the pid file
  before anything could write it. If it holds a process id, the next call asks whether that
  process exists, and if it does, nothing after it writes or removes the file. In all other
  cases, and only then, the run writes its own process id, and whenever it returns, it has
  been asked to terminate and its last call removes the file.
\<close>

theorem watchdog_pid_file:
  assumes "exec (net_watchdog rounds fuel e config) t = Some (Inr ())"
  shows "\<exists>u x v. t = u @ [EGet (ReadText (wc_pid_file config)) x] @ v
    \<and> list_all (\<lambda>ev. \<not> touches (wc_pid_file config) ev) u
    \<and> (case recorded_pid x of
         None \<Rightarrow> takes_pid_file (wc_pid_file config) v
       | Some pid \<Rightarrow> \<exists>alive w. v = EAsk (Exists (''/proc/'' @ show_nat pid)) alive # w
           \<and> (if alive then list_all (\<lambda>ev. \<not> touches (wc_pid_file config) ev) w
              else takes_pid_file (wc_pid_file config) w))"
proof -
  let ?quiet = "list_all (\<lambda>ev. \<not> touches (wc_pid_file config) ev)"
  from assms obtain a b c d w old alive where t: "t = a @ b @ c @ d @ w"
    and a: "exec (ensure_parent_dir (wc_log_file config)) a = Some ()"
    and b: "exec (ensure_parent_dir (wc_pid_file config)) b = Some ()"
    and c: "exec (read_pid_file (wc_pid_file config)) c = Some old"
    and d: "exec (case old of None \<Rightarrow> Ret False | Some pid \<Rightarrow> pid_alive pid) d = Some alive"
    and rest: "exec (if alive
       then then_do (watchdog_log (wc_log_file config)
                       (''watchdog already running pid='' @ show_nat (unwrap_or 0 old))) (\<lambda>_. ok ())
       else watchdog_main rounds fuel e config) w = Some (Inr ())"
    unfolding net_watchdog_def exec_then_do by (elim exE conjE) simp
  from c obtain x where x: "c = [EGet (ReadText (wc_pid_file config)) x]" "old = recorded_pid x"
    by (auto simp: exec_read_pid_file)
  have quiet: "?quiet (a @ b)"
    using emits_holds [OF watchdog_prefix_untouched(1) a] emits_holds [OF watchdog_prefix_untouched(1) b] by simp
  have "if alive then ?quiet w else takes_pid_file (wc_pid_file config) w"
    using rest watchdog_main_takes [of rounds fuel e config w]
    by (auto simp: exec_then_do dest: emits_holds [OF watchdog_prefix_untouched(3)])
  moreover have "case old of None \<Rightarrow> d = [] \<and> \<not> alive | Some pid \<Rightarrow> d = [EAsk (Exists (''/proc/'' @ show_nat pid)) alive]"
    using d by (auto simp: pid_alive_def split: option.splits)
  ultimately have "case recorded_pid x of
         None \<Rightarrow> takes_pid_file (wc_pid_file config) (d @ w)
       | Some pid \<Rightarrow> \<exists>alive w'. d @ w = EAsk (Exists (''/proc/'' @ show_nat pid)) alive # w'
           \<and> (if alive then ?quiet w' else takes_pid_file (wc_pid_file config) w')"
    unfolding x(2) by (cases "recorded_pid x") simp_all
  with quiet t x(1) show ?thesis by (intro exI [of _ "a @ b"] exI [of _ x] exI [of _ "d @ w"] conjI) simp_all
qed

theorem watchdog_pid_file_witness:
  "\<exists>t u v. exec (net_watchdog 1 2 path_env demo_watchdog) t = Some (Inr ())
     \<and> t = u @ [EGet (ReadText ''/p'') (Inl NotFound)] @ v \<and> takes_pid_file ''/p'' v"
proof -
  let ?p = "net_watchdog 1 2 path_env demo_watchdog"
  have "case run (demo_sys (\<lambda>s c. (tool_answer 0 [], s))) ?p () of (t, r, s) \<Rightarrow>
      r = Inr () \<and> list_all (\<lambda>ev. case ev of EGet g x \<Rightarrow> x = Inl NotFound | _ \<Rightarrow> True) t"
    by code_simp
  then obtain t where run: "exec ?p t = Some (Inr ())"
    and none: "list_all (\<lambda>ev. case ev of EGet g x \<Rightarrow> x = Inl NotFound | _ \<Rightarrow> True) t"
    by (auto split: prod.splits dest!: exec_run)
  have pid_path: "wc_pid_file demo_watchdog = ''/p''" by (simp add: demo_watchdog_def)
  from watchdog_pid_file [OF run] obtain u x v where t: "t = u @ [EGet (ReadText ''/p'') x] @ v"
    and v: "case recorded_pid x of None \<Rightarrow> takes_pid_file ''/p'' v
       | Some pid \<Rightarrow> \<exists>alive w. v = EAsk (Exists (''/proc/'' @ show_nat pid)) alive # w
           \<and> (if alive then list_all (\<lambda>ev. \<not> touches ''/p'' ev) w else takes_pid_file ''/p'' w)"
    unfolding pid_path by blast
  from none t have x: "x = Inl NotFound" by simp
  with v have "takes_pid_file ''/p'' v" by (simp add: recorded_pid_def)
  with run t x show ?thesis by blast
qed

end
