(* ===== verification/Utf8.thy ===== *)
theory Utf8
  imports RustStr
begin

text \<open>
  \<open>String::from_utf8_lossy\<close>: what is not UTF-8 becomes U+FFFD, one for each piece the
  decoder gives up on. Used for the paths and the collected output of the binaries that cut
  bytes before they decode them.
\<close>

text \<open>
  The first sequence of a text: how many bytes the decoder has looked at, and whether they
  are a character. A byte that is missing counts as 0.
\<close>

definition second_ok :: "nat \<Rightarrow> nat \<Rightarrow> bool" where
  "second_ok a b \<longleftrightarrow>
     (if a = 224 then 160 else if a = 240 then 144 else 128) \<le> b \<and>
     b < (if a = 237 then 160 else if a = 244 then 144 else 192)"

definition byte_at :: "nat list \<Rightarrow> nat \<Rightarrow> nat" where
  "byte_at r i = unwrap_or 0 (nth_opt r i)"

definition utf8_seq :: "nat \<Rightarrow> nat list \<Rightarrow> nat \<times> bool" where
  "utf8_seq a r =
     (if a < 128 then (1, True)
      else if 194 \<le> a \<and> a < 224
      then if is_cont (byte_at r 0) then (2, True) else (1, False)
      else if 224 \<le> a \<and> a < 240
      then if \<not> second_ok a (byte_at r 0) then (1, False)
           else if is_cont (byte_at r 1) then (3, True) else (2, False)
      else if 240 \<le> a \<and> a < 245
      then if \<not> second_ok a (byte_at r 0) then (1, False)
           else if \<not> is_cont (byte_at r 1) then (2, False)
           else if is_cont (byte_at r 2) then (4, True) else (3, False)
      else (1, False))"

definition REPLACEMENT :: string where
  "REPLACEMENT = [CHR 0xEF, CHR 0xBF, CHR 0xBD]"

lemma utf8_seq_pos: "0 < fst (utf8_seq a r)"
  by (simp add: utf8_seq_def)

function from_utf8_lossy :: "string \<Rightarrow> string" where
  "from_utf8_lossy [] = []"
| "from_utf8_lossy (c # s) =
     (let (n, valid) = utf8_seq (code_of c) (map code_of s)
      in (if valid then take n (c # s) else REPLACEMENT) @ from_utf8_lossy (drop n (c # s)))"
  by pat_completeness auto
termination
  by (relation "measure length") (auto simp: utf8_seq_def split: if_splits)

section \<open>Decoding\<close>

lemma second_ok_bounds: "second_ok a b \<Longrightarrow> is_cont b"
  by (auto simp: second_ok_def is_cont_def split: if_splits)

lemma byte_at_simps [simp]:
  "byte_at [] i = 0" "byte_at (b # r) 0 = b" "byte_at (b # r) (Suc i) = byte_at r i"
  by (simp_all add: byte_at_def nth_opt_def)

lemma is_cont_zero [simp]: "\<not> is_cont 0"
  by (simp add: is_cont_def)

lemma second_ok_zero [simp]: "\<not> second_ok a 0"
  by (simp add: second_ok_def)

text \<open>A text is UTF-8 exactly when its first sequence is a character and the rest is UTF-8.\<close>

lemma utf8_codes_seq:
  "utf8_codes (a # r) \<longleftrightarrow> snd (utf8_seq a r) \<and> utf8_codes (drop (fst (utf8_seq a r)) (a # r))"
proof (cases r)
  case Nil
  then show ?thesis by (subst utf8_codes.simps) (auto simp: utf8_seq_def)
next
  case r: (Cons b r2)
  show ?thesis
  proof (cases r2)
    case Nil
    with r show ?thesis
      by (subst utf8_codes.simps) (auto simp: utf8_seq_def)
  next
    case r2: (Cons c r3)
    have two: "224 \<le> a \<and> a < 240 \<Longrightarrow>
        second_ok a b \<longleftrightarrow> is_cont b \<and> (a = 224 \<longrightarrow> 160 \<le> b) \<and> (a = 237 \<longrightarrow> b < 160)"
      "240 \<le> a \<and> a < 245 \<Longrightarrow>
        second_ok a b \<longleftrightarrow> is_cont b \<and> (a = 240 \<longrightarrow> 144 \<le> b) \<and> (a = 244 \<longrightarrow> b < 144)"
      by (auto simp: second_ok_def is_cont_def)
    show ?thesis
      by (subst utf8_codes.simps, cases r3)
        (auto simp: r r2 utf8_seq_def two numeral_2_eq_2 numeral_3_eq_3 take_Cons' split: if_splits)
  qed
qed

lemma utf8_seq_length: "snd (utf8_seq a r) \<Longrightarrow> fst (utf8_seq a r) \<le> length (a # r)"
  by (cases r; cases "tl r"; cases "tl (tl r)") (auto simp: utf8_seq_def numeral_2_eq_2 split: if_splits)

lemma byte_at_take: "i < n \<Longrightarrow> n \<le> length r \<Longrightarrow> byte_at (take n r @ x) i = byte_at r i"
  by (simp add: byte_at_def nth_opt_def nth_append)

lemma utf8_seq_take:
  assumes "utf8_seq a r = (n, True)"
  shows "utf8_seq a (take (n - 1) r @ x) = (n, True)"
proof -
  have "n - 1 \<le> length r" using utf8_seq_length [of a r] assms by simp
  with assms show ?thesis
    by (auto simp: utf8_seq_def byte_at_take split: if_splits)
qed

lemma utf8_codes_char:
  assumes "utf8_seq a r = (n, True)"
  shows "utf8_codes (take n (a # r) @ x) \<longleftrightarrow> utf8_codes x"
proof -
  have n: "0 < n" "n \<le> length (a # r)" using utf8_seq_pos [of a r] utf8_seq_length [of a r] assms by simp_all
  then have "take n (a # r) @ x = a # take (n - 1) r @ x" by (cases n) simp_all
  moreover have "drop n (a # take (n - 1) r @ x) = x" using n by (cases n) simp_all
  ultimately show ?thesis
    using utf8_codes_seq [of a "take (n - 1) r @ x"] utf8_seq_take [OF assms, of x] by simp
qed

text \<open>Text that is UTF-8 is left as it is, and every result is UTF-8.\<close>

lemma from_utf8_lossy_utf8: "is_utf8 s \<Longrightarrow> from_utf8_lossy s = s"
proof (induction s rule: from_utf8_lossy.induct)
  case (2 c s)
  obtain n valid where seq: "utf8_seq (code_of c) (map code_of s) = (n, valid)" by force
  with 2 show ?case
    using utf8_codes_seq [of "code_of c" "map code_of s"]
    by (simp add: is_utf8_def flip: drop_map list.map(2))
qed simp

lemma is_utf8_lossy: "is_utf8 (from_utf8_lossy s)"
proof (induction s rule: from_utf8_lossy.induct)
  case 1
  show ?case by (simp add: is_utf8_def utf8_codes.simps [of "[]"])
next
  case (2 c s)
  obtain n valid where seq: "utf8_seq (code_of c) (map code_of s) = (n, valid)" by force
  have mark: "utf8_codes (map code_of REPLACEMENT @ x) = utf8_codes x" for x
    using utf8_codes_char [of 239 "[191, 189]" 3 x]
    by (simp add: REPLACEMENT_def utf8_seq_def second_ok_def is_cont_def code_of_def)
  have IH: "is_utf8 (from_utf8_lossy (drop n (c # s)))" using 2 [OF seq [symmetric] refl] .
  show ?case
  proof (cases valid)
    case True
    with IH seq utf8_codes_char [of "code_of c" "map code_of s" n] show ?thesis
      by (simp add: is_utf8_def flip: take_map list.map(2))
  next
    case False
    with IH seq mark show ?thesis by (simp add: is_utf8_def)
  qed
qed

lemma length_from_utf8_lossy: "length (from_utf8_lossy s) \<le> 3 * length s"
proof (induction s rule: from_utf8_lossy.induct)
  case (2 c s)
  obtain n valid where seq: "utf8_seq (code_of c) (map code_of s) = (n, valid)" by force
  then have "0 < n" using utf8_seq_pos [of "code_of c" "map code_of s"] by simp
  moreover have "length (from_utf8_lossy (drop n (c # s))) \<le> 3 * (length (c # s) - n)"
    using 2 [OF seq [symmetric] refl] by (simp only: length_drop)
  moreover have "length (if valid then take n (c # s) else REPLACEMENT) \<le> 3 * min n (length (c # s))"
    using \<open>0 < n\<close> by (cases valid) (auto simp: REPLACEMENT_def min_def)
  moreover have "3 * min n (length (c # s)) + 3 * (length (c # s) - n) = 3 * length (c # s)"
    by (auto simp: min_def)
  ultimately have "length (if valid then take n (c # s) else REPLACEMENT) + length (from_utf8_lossy (drop n (c # s)))
      \<le> 3 * length (c # s)"
    by linarith
  then show ?case by (simp only: from_utf8_lossy.simps(2) seq Let_def prod.case length_append)
qed simp

text \<open>UTF-8 is kept by concatenation and by dropping ASCII characters at the end.\<close>

lemma is_utf8_append: "is_utf8 s \<Longrightarrow> is_utf8 t \<Longrightarrow> is_utf8 (s @ t)"
proof -
  have "utf8_codes x \<Longrightarrow> utf8_codes y \<Longrightarrow> utf8_codes (x @ y)" for x y
  proof (induction x rule: length_induct)
    case (1 x)
    show ?case
    proof (cases x)
      case (Cons a r)
      obtain n where seq: "utf8_seq a r = (n, True)" and rest: "utf8_codes (drop n x)"
        using 1(2) utf8_codes_seq [of a r] by (cases "utf8_seq a r") (simp add: Cons)
      have "length (drop n x) < length x" using seq utf8_seq_pos [of a r] by (simp add: Cons)
      with 1 rest have "utf8_codes (drop n x @ y)" by blast
      then show ?thesis using utf8_codes_char [OF seq, of "drop n x @ y"] by (simp add: Cons flip: append_assoc)
    qed (simp add: 1)
  qed
  then show "is_utf8 s \<Longrightarrow> is_utf8 t \<Longrightarrow> is_utf8 (s @ t)" by (simp add: is_utf8_def)
qed

lemma utf8_seq_last: "utf8_seq a r = (n, True) \<Longrightarrow> n = 1 \<or> is_cont (byte_at r (n - 2))"
  by (auto simp: utf8_seq_def second_ok_bounds numeral_2_eq_2 split: if_splits)

lemma utf8_codes_snoc: "utf8_codes (x @ [b]) \<Longrightarrow> b < 128 \<Longrightarrow> utf8_codes x"
proof (induction x rule: length_induct)
  case (1 x)
  show ?case
  proof (cases x)
    case (Cons a r)
    obtain n where seq: "utf8_seq a (r @ [b]) = (n, True)" and rest: "utf8_codes (drop n (x @ [b]))"
      using 1(2) utf8_codes_seq [of a "r @ [b]"] by (cases "utf8_seq a (r @ [b])") (simp add: Cons)
    have n: "0 < n" "n \<le> length x + 1"
      using utf8_seq_pos [of a "r @ [b]"] utf8_seq_length [of a "r @ [b]"] seq by (simp_all add: Cons)
    have "n \<noteq> length x + 1"
    proof
      assume n: "n = length x + 1"
      then have "byte_at (r @ [b]) (n - 2) = b" by (simp add: Cons byte_at_def nth_opt_def)
      with utf8_seq_last [OF seq] n 1(3) show False by (simp add: Cons is_cont_def)
    qed
    with n have le: "n \<le> length x" by simp
    then have "utf8_seq a r = (n, True)"
      using utf8_seq_take [OF seq, of "drop (n - 1) r"] by (simp add: Cons)
    from utf8_codes_char [OF this, of "drop n x"] have "utf8_codes x \<longleftrightarrow> utf8_codes (drop n x)"
      by (simp add: Cons)
    moreover have "length (drop n x) < length x" using n le by (simp add: Cons)
    ultimately show ?thesis using 1 rest le by simp
  qed (simp add: utf8_codes.simps [of "[]"])
qed

lemma is_utf8_cut: "is_utf8 (u @ v) \<Longrightarrow> \<forall>c \<in> set v. code_of c < 128 \<Longrightarrow> is_utf8 u"
proof (induction v rule: rev_induct)
  case (snoc c v)
  then have "utf8_codes (map code_of (u @ v) @ [code_of c])" by (simp add: is_utf8_def)
  then have "is_utf8 (u @ v)" unfolding is_utf8_def by (rule utf8_codes_snoc) (use snoc.prems in simp)
  with snoc show ?case by simp
qed simp

lemma is_utf8_trim_newlines:
  assumes "is_utf8 s"
  shows "is_utf8 (trim_trailing_newlines s)"
proof -
  obtain v where s: "s = trim_trailing_newlines s @ v" and v: "set v \<subseteq> {LF, CR}"
    using trim_trailing_newlines_prefix [of s] by blast
  have "\<forall>c \<in> set v. code_of c < 128"
  proof
    fix c
    assume "c \<in> set v"
    with v consider "c = LF" | "c = CR" by blast
    then show "code_of c < 128" by cases (simp_all add: code_of_def)
  qed
  moreover have "is_utf8 (trim_trailing_newlines s @ v)" using assms s by simp
  ultimately show ?thesis by (rule is_utf8_cut [rotated])
qed

end
