(* ===== verification/DockerConfig.thy ===== *)
theory DockerConfig
  imports CoreWatch Utf8
begin

text \<open>
  \<open>achost-docker-runtime\<close>: the configurations of start and stop, the values they parse, and
  the rendered configuration files. \<open>h_exe\<close> is \<open>current_exe\<close>; the test whether the runtime
  configuration lies two directories above the program is a call.
\<close>

section \<open>Values\<close>

definition docker_env_path :: "environment \<Rightarrow> string \<Rightarrow> string option" where
  "docker_env_path e name = filter_opt (\<lambda>v. v \<noteq> []) (env_var e name)"

definition parse_pid :: "string \<Rightarrow> nat option" where
  "parse_pid v =
     (if v = [] \<or> \<not> list_all is_digit v then None
      else case parse_uint U32_BOUND v of
             None \<Rightarrow> None
           | Some pid \<Rightarrow> if pid \<noteq> 0 then Some pid else None)"

definition unix_socket_path :: "string \<Rightarrow> string option" where
  "unix_socket_path v = filter_opt (\<lambda>p. p \<noteq> []) (strip_prefix ''unix://'' v)"

text \<open>The escapes of \<open>/proc/mounts\<close>; the backslash comes last.\<close>

abbreviation BACKSLASH :: char where "BACKSLASH \<equiv> CHR 0x5C"

definition mount_escape :: "string \<Rightarrow> string" where
  "mount_escape digits = BACKSLASH # digits"

definition decode_mount_field :: "string \<Rightarrow> string" where
  "decode_mount_field v =
     str_replace (mount_escape ''134'') [BACKSLASH]
       (str_replace (mount_escape ''012'') [LF]
          (str_replace (mount_escape ''011'') [TAB]
             (str_replace (mount_escape ''040'') '' '' v)))"

definition strip_absolute :: "string \<Rightarrow> string" where
  "strip_absolute p =
     (case path_strip_prefix p ''/'' of
        None \<Rightarrow> p
      | Some rest \<Rightarrow> str_join ''/'' (map (\<lambda>c. case c of Normal n \<Rightarrow> n | ParentDir \<Rightarrow> ''..''
                       | CurDir \<Rightarrow> ''.'' | RootDir \<Rightarrow> []) rest))"

definition docker_path_starts_with :: "string \<Rightarrow> string \<Rightarrow> bool" where
  "docker_path_starts_with p base \<longleftrightarrow> path_eq p base \<or> path_starts_with p base"

definition path_string :: "string \<Rightarrow> string" where
  "path_string p = from_utf8_lossy p"

definition unique_paths :: "string list \<Rightarrow> string list" where
  "unique_paths paths = fold (\<lambda>path out. if list_ex (\<lambda>existing. path_eq existing path) out then out else out @ [path]) paths []"

definition join_pids :: "nat list \<Rightarrow> string" where
  "join_pids pids = str_join '' '' (map show_nat pids)"

definition join_paths :: "string list \<Rightarrow> string" where
  "join_paths paths = str_join '' '' paths"

section \<open>Default places\<close>

definition SHARED_DATA :: string where
  "SHARED_DATA = ''/data/adb/achost''"

definition split_module_data_root :: "string \<Rightarrow> string option" where
  "split_module_data_root achost =
     (if path_starts_with achost ''/data/adb/modules'' then Some SHARED_DATA else None)"

definition default_achost_var :: "string \<Rightarrow> string" where
  "default_achost_var achost = unwrap_or (path_join achost ''var'') (split_module_data_root achost)"

definition default_common_bin :: "string \<Rightarrow> string \<Rightarrow> string" where
  "default_common_bin achost achost_bin =
     (if split_module_data_root achost \<noteq> None then ''/data/adb/modules/achost-base/achost/bin'' else achost_bin)"

definition default_achost_root :: "string option \<Rightarrow> string prog" where
  "default_achost_root exe =
     (case Option.bind (Option.bind exe parent_path) parent_path of
        None \<Rightarrow> Ret SHARED_DATA
      | Some path \<Rightarrow>
          then_do (ask (IsFile (path_join path ''etc/achost-runtime.conf''))) (\<lambda>b.
            Ret (if b then path else SHARED_DATA)))"

definition achost_root :: "environment \<Rightarrow> string option \<Rightarrow> string prog" where
  "achost_root e exe =
     (case docker_env_path e ''ACHOST'' of Some v \<Rightarrow> Ret v | None \<Rightarrow> default_achost_root exe)"

section \<open>Configurations\<close>

record docker_config =
  dc_achost :: string
  dc_achost_bin :: string
  dc_common_bin :: string
  dc_runtime_mode :: string
  dc_use_chroot :: bool
  dc_cgroup_mode :: string
  dc_chroot :: string
  dc_chroot_launch_mode :: string
  dc_native_root :: string
  dc_run :: string
  dc_docker_root :: string
  dc_docker_exec_root :: string
  dc_containerd_root :: string
  dc_containerd_state :: string
  dc_docker_config :: string
  dc_dockerd_config :: string
  dc_containerd_config :: string
  dc_docker_host :: string
  dc_docker_socket :: "string option"
  dc_compat_host :: "string option"
  dc_compat_socket :: "string option"
  dc_containerd_address :: string
  dc_dns_servers :: "string list"
  dc_supervise :: string
  dc_use_supervisor :: bool
  dc_supervisor_pid :: string
  dc_supervisor_socket :: string
  dc_supervisor_log :: string
  dc_dockerd_pid :: string
  dc_dockerd_launch_pid :: string
  dc_dockerd_log :: string
  dc_containerd_pid :: string
  dc_containerd_log :: string
  dc_external_containerd :: bool
  dc_container_bridge :: string
  dc_network_watchdog_pid :: string
  dc_network_watchdog_log :: string

definition docker_host_of :: "environment \<Rightarrow> string \<Rightarrow> string" where
  "docker_host_of e run_dir =
     (case e ''DOCKER_HOST'' of
        Utf8 v \<Rightarrow> v
      | Unset \<Rightarrow> ''unix://'' @ path_join run_dir ''docker.sock''
      | NotUnicode _ \<Rightarrow> [])"

definition compat_host_of :: "environment \<Rightarrow> string option" where
  "compat_host_of e =
     (let v = unwrap_or ''unix:///var/run/docker.sock'' (env_var e ''ACHOST_DOCKER_COMPAT_HOST'')
      in if v \<in> {[], ''0'', ''none''} then None else Some v)"

definition docker_config_with :: "environment \<Rightarrow> string \<Rightarrow> docker_config" where
  "docker_config_with e achost =
     (let achost_var = unwrap_or (default_achost_var achost) (docker_env_path e ''ACHOST_VAR'');
          achost_bin = unwrap_or (path_join achost ''bin'') (docker_env_path e ''ACHOST_BIN'');
          common_bin = unwrap_or (default_common_bin achost achost_bin) (docker_env_path e ''ACHOST_COMMON_BIN'');
          run_dir = unwrap_or (path_join achost_var ''run'') (docker_env_path e ''ACHOST_RUN'');
          log_dir = unwrap_or (path_join achost_var ''log'') (docker_env_path e ''ACHOST_LOG_DIR'');
          runtime_mode = unwrap_or ''native'' (env_var e ''ACHOST_RUNTIME_MODE'');
          place = (\<lambda>name d. unwrap_or d (docker_env_path e name));
          docker_host = docker_host_of e run_dir
      in \<lparr>dc_achost = achost, dc_achost_bin = achost_bin, dc_common_bin = common_bin,
          dc_runtime_mode = runtime_mode,
          dc_use_chroot = (case env_var e ''ACHOST_USE_CHROOT'' of Some v \<Rightarrow> v = ''1'' | None \<Rightarrow> runtime_mode = ''chroot''),
          dc_cgroup_mode = unwrap_or ''v1'' (env_var e ''ACHOST_CGROUP_MODE''),
          dc_chroot = place ''ACHOST_CHROOT'' (path_join achost_var ''chroot''),
          dc_chroot_launch_mode = unwrap_or ''pivot'' (env_var e ''ACHOST_CHROOT_LAUNCH_MODE''),
          dc_native_root = place ''ACHOST_NATIVE_ROOT'' (path_join achost_var ''native-root''),
          dc_run = run_dir,
          dc_docker_root = place ''ACHOST_DOCKER_ROOT'' (path_join achost_var ''docker''),
          dc_docker_exec_root = place ''ACHOST_DOCKER_EXEC_ROOT'' (path_join run_dir ''docker-exec''),
          dc_containerd_root = place ''ACHOST_CONTAINERD_ROOT'' (path_join achost_var ''containerd/root''),
          dc_containerd_state = place ''ACHOST_CONTAINERD_STATE'' (path_join achost_var ''containerd/state''),
          dc_docker_config = place ''DOCKER_CONFIG'' (path_join achost ''etc/docker''),
          dc_dockerd_config = place ''ACHOST_DOCKERD_CONFIG'' (path_join run_dir ''dockerd-daemon.json''),
          dc_containerd_config = place ''ACHOST_CONTAINERD_CONFIG'' (path_join achost ''etc/containerd/config.toml''),
          dc_docker_host = docker_host, dc_docker_socket = unix_socket_path docker_host,
          dc_compat_host = compat_host_of e, dc_compat_socket = Option.bind (compat_host_of e) unix_socket_path,
          dc_containerd_address = place ''CONTAINERD_ADDRESS'' (path_join run_dir ''containerd.sock''),
          dc_dns_servers = split_whitespace (unwrap_or ''1.1.1.1 8.8.8.8'' (env_var e ''ACHOST_DNS_SERVERS'')),
          dc_supervise = place ''ACHOST_SUPERVISE'' (path_join common_bin ''achost-supervise''),
          dc_use_supervisor = (env_var e ''ACHOST_USE_SUPERVISOR'' \<noteq> Some ''0''),
          dc_supervisor_pid = place ''ACHOST_SUPERVISOR_PID'' (path_join run_dir ''achost-supervise.pid''),
          dc_supervisor_socket = place ''ACHOST_SUPERVISOR_SOCKET'' (path_join run_dir ''achost-supervise.sock''),
          dc_supervisor_log = place ''ACHOST_SUPERVISOR_LOG'' (path_join log_dir ''achost-supervise.log''),
          dc_dockerd_pid = place ''ACHOST_DOCKERD_PID'' (path_join run_dir ''dockerd.pid''),
          dc_dockerd_launch_pid = place ''ACHOST_DOCKERD_LAUNCH_PID'' (path_join run_dir ''dockerd-launch.pid''),
          dc_dockerd_log = place ''ACHOST_DOCKERD_LOG'' (path_join log_dir ''dockerd.log''),
          dc_containerd_pid = place ''ACHOST_CONTAINERD_PID'' (path_join run_dir ''containerd.pid''),
          dc_containerd_log = place ''ACHOST_CONTAINERD_LOG'' (path_join log_dir ''containerd.log''),
          dc_external_containerd = (case env_var e ''ACHOST_EXTERNAL_CONTAINERD'' of None \<Rightarrow> True | Some v \<Rightarrow> v = ''1''),
          dc_container_bridge = unwrap_or ''docker0'' (or_else (env_var e ''CONTAINER_BRIDGE'') (env_var e ''DOCKER_BRIDGE'')),
          dc_network_watchdog_pid = place ''ACHOST_NET_PID'' ''/data/local/tmp/achost-network-watchdog.pid'',
          dc_network_watchdog_log = place ''ACHOST_NET_LOG'' ''/data/local/tmp/achost-network-watchdog.log''\<rparr>)"

definition docker_config_from_env :: "environment \<Rightarrow> string option \<Rightarrow> docker_config prog" where
  "docker_config_from_env e exe = then_do (achost_root e exe) (\<lambda>achost. Ret (docker_config_with e achost))"

record docker_stop_config =
  ds_use_chroot :: bool
  ds_chroot :: string
  ds_achost_bin :: string
  ds_common_bin :: string
  ds_supervise :: string
  ds_dockerd_pid :: string
  ds_dockerd_launch_pid :: string
  ds_containerd_pid :: string
  ds_supervisor_pid :: string
  ds_supervisor_socket :: string
  ds_docker_socket :: "string option"
  ds_compat_socket :: "string option"
  ds_containerd_address :: string
  ds_network_watchdog_pid :: string
  ds_network_watchdog_log :: string

definition stop_config_with :: "environment \<Rightarrow> string \<Rightarrow> docker_stop_config" where
  "stop_config_with e achost =
     (let achost_var = unwrap_or (default_achost_var achost) (docker_env_path e ''ACHOST_VAR'');
          achost_bin = unwrap_or (path_join achost ''bin'') (docker_env_path e ''ACHOST_BIN'');
          common_bin = unwrap_or (default_common_bin achost achost_bin) (docker_env_path e ''ACHOST_COMMON_BIN'');
          run_dir = unwrap_or (path_join achost_var ''run'') (docker_env_path e ''ACHOST_RUN'');
          place = (\<lambda>name d. unwrap_or d (docker_env_path e name))
      in \<lparr>ds_use_chroot = (env_var e ''ACHOST_USE_CHROOT'' = Some ''1''),
          ds_chroot = place ''ACHOST_CHROOT'' (path_join achost_var ''chroot''),
          ds_achost_bin = achost_bin, ds_common_bin = common_bin,
          ds_supervise = place ''ACHOST_SUPERVISE'' (path_join common_bin ''achost-supervise''),
          ds_dockerd_pid = place ''ACHOST_DOCKERD_PID'' (path_join run_dir ''dockerd.pid''),
          ds_dockerd_launch_pid = place ''ACHOST_DOCKERD_LAUNCH_PID'' (path_join run_dir ''dockerd-launch.pid''),
          ds_containerd_pid = place ''ACHOST_CONTAINERD_PID'' (path_join run_dir ''containerd.pid''),
          ds_supervisor_pid = place ''ACHOST_SUPERVISOR_PID'' (path_join run_dir ''achost-supervise.pid''),
          ds_supervisor_socket = place ''ACHOST_SUPERVISOR_SOCKET'' (path_join run_dir ''achost-supervise.sock''),
          ds_docker_socket = (case e ''DOCKER_HOST'' of
             Utf8 v \<Rightarrow> unix_socket_path v | Unset \<Rightarrow> Some (path_join run_dir ''docker.sock'') | NotUnicode _ \<Rightarrow> None),
          ds_compat_socket = Option.bind (env_var e ''ACHOST_DOCKER_COMPAT_HOST'') unix_socket_path,
          ds_containerd_address = place ''CONTAINERD_ADDRESS'' (path_join run_dir ''containerd.sock''),
          ds_network_watchdog_pid = place ''ACHOST_NET_PID'' ''/data/local/tmp/achost-network-watchdog.pid'',
          ds_network_watchdog_log = place ''ACHOST_NET_LOG'' ''/data/local/tmp/achost-network-watchdog.log''\<rparr>)"

definition stop_config_from_env :: "environment \<Rightarrow> string option \<Rightarrow> docker_stop_config prog" where
  "stop_config_from_env e exe = then_do (achost_root e exe) (\<lambda>achost. Ret (stop_config_with e achost))"

section \<open>Configuration files\<close>

definition write_dockerd_config :: "docker_config \<Rightarrow> unit io prog" where
  "write_dockerd_config config =
     try_do (get (ReadText (path_join (dc_docker_config config) ''daemon.json''))) (\<lambda>raw.
     let rendered = str_replace ''@ACHOST_PREFIX@'' (path_string (dc_achost config)) raw
     in try_do (case parent_path (dc_dockerd_config config) of
                  None \<Rightarrow> ok () | Some parent \<Rightarrow> act (CreateDirAll parent)) (\<lambda>_.
        act (WriteFile (dc_dockerd_config config) rendered)))"

definition containerd_config_text :: "docker_config \<Rightarrow> string" where
  "containerd_config_text config =
     (let q = (\<lambda>s. CHR 0x27 # s @ [CHR 0x27])
      in unlines
       [''version = 3'', ''root = '' @ q (path_string (dc_containerd_root config)),
        ''state = '' @ q (path_string (dc_containerd_state config)),
        ''temp = '' @ q (path_string (dc_run config) @ ''/containerd-tmp''),
        ''disabled_plugins = ['' @ q ''io.containerd.grpc.v1.cri'' @ '', '' @ q ''io.containerd.cri.v1.images''
          @ '', '' @ q ''io.containerd.cri.v1.runtime'' @ '']'',
        ''required_plugins = []'', ''oom_score = 0'', ''imports = []'', [], ''[grpc]'',
        ''  address = '' @ q (path_string (dc_containerd_address config)), ''  tcp_address = '' @ q [],
        ''  uid = 0'', ''  gid = 0'', [], ''[debug]'', ''  address = '' @ q [], ''  uid = 0'', ''  gid = 0'',
        ''  level = '' @ q ''debug'', [], ''[metrics]'', ''  address = '' @ q [], ''  grpc_histogram = false'', [],
        ''[plugins.'' @ q ''io.containerd.cri.v1.runtime'' @ '']'', ''  enable_cdi = false'', ''  cdi_spec_dirs = []'', [],
        ''[plugins.'' @ q ''io.containerd.nri.v1.nri'' @ '']'', ''  disable = true'',
        ''  socket_path = '' @ q (path_string (dc_run config) @ ''/nri.sock'')])"

definition write_containerd_config :: "docker_config \<Rightarrow> unit io prog" where
  "write_containerd_config config =
     try_do (case parent_path (dc_containerd_config config) of
               None \<Rightarrow> ok () | Some parent \<Rightarrow> act (CreateDirAll parent)) (\<lambda>_.
       act (WriteFile (dc_containerd_config config) (containerd_config_text config)))"

definition write_configs :: "docker_config \<Rightarrow> unit io prog" where
  "write_configs config = try_do (write_dockerd_config config) (\<lambda>_. write_containerd_config config)"

end
