(* ===== verification/SupWire.thy ===== *)
theory SupWire
  imports CoreTables
begin

text \<open>
  \<open>achost-supervise\<close>: the request a client sends over the supervisor's socket and its
  server side, the start of a child, exit codes and the command-line options. A stream is a
  number, the handle \<open>AcceptStream\<close> or \<open>ConnectStream\<close> answered; the lengths are written in
  the byte order of the target, little-endian on aarch64. \<open>Fork argv\<close> answers the parent;
  what the child then does is \<open>child_main argv\<close>.
\<close>

section \<open>Strings and numbers on the wire\<close>

definition MAX_ARGS :: nat where "MAX_ARGS = 128"
definition MAX_STRING :: nat where "MAX_STRING = 65535"

definition u32_bytes :: "nat \<Rightarrow> string" where
  "u32_bytes n = map (\<lambda>i. char_of (n div 256 ^ i mod 256)) [0, 1, 2, 3]"

definition u32_of_bytes :: "string \<Rightarrow> nat" where
  "u32_of_bytes bs = foldr (\<lambda>c n. code_of c + 256 * n) bs 0"

definition write_u32 :: "nat \<Rightarrow> nat \<Rightarrow> unit io prog" where
  "write_u32 stream v = act (SendBytes stream (u32_bytes v))"

definition write_string :: "nat \<Rightarrow> string \<Rightarrow> unit io prog" where
  "write_string stream v =
     (if length v > MAX_STRING then fail (Io ''string too long'')
      else try_do (act (SendBytes stream (u32_bytes (length v)))) (\<lambda>_. act (SendBytes stream v)))"

definition read_u32 :: "nat \<Rightarrow> nat io prog" where
  "read_u32 stream = try_do (get (RecvBytes stream 4)) (\<lambda>bs. ok (u32_of_bytes bs))"

definition read_string :: "nat \<Rightarrow> string io prog" where
  "read_string stream =
     try_do (get (RecvBytes stream 4)) (\<lambda>len_bytes.
     let len = u32_of_bytes len_bytes
     in if len > MAX_STRING then fail (Io ''string too long'')
        else try_do (get (RecvBytes stream len)) (\<lambda>bytes.
          if is_utf8 bytes then ok bytes else fail (Io ''invalid utf-8'')))"

section \<open>Children\<close>

text \<open>The macros \<open>WIFEXITED\<close>, \<open>WEXITSTATUS\<close>, \<open>WIFSIGNALED\<close>, \<open>WTERMSIG\<close> on a raw status.\<close>

definition exit_code_from_status :: "nat \<Rightarrow> bool \<Rightarrow> nat" where
  "exit_code_from_status status have_status =
     (if \<not> have_status then 0
      else if status mod 128 = 0 then status div 256 mod 256
      else if status mod 128 \<noteq> 127 then 128 + status mod 128
      else 1)"

definition SIGHUP :: nat where "SIGHUP = 1"
definition SIGINT :: nat where "SIGINT = 2"
definition SIGQUIT :: nat where "SIGQUIT = 3"
definition SIGPIPE :: nat where "SIGPIPE = 13"
definition SIGTERM :: nat where "SIGTERM = 15"
definition SIGCHLD :: nat where "SIGCHLD = 17"
definition SIG_DFL :: nat where "SIG_DFL = 0"
definition SIG_IGN :: nat where "SIG_IGN = 1"

definition set_signal :: "nat \<Rightarrow> nat \<Rightarrow> unit prog" where
  "set_signal sig handler = then_do (act (SetSignal sig handler)) (\<lambda>_. Ret ())"

definition reset_child_signals :: "unit prog" where
  "reset_child_signals = for_all [SIGTERM, SIGINT, SIGHUP, SIGQUIT, SIGCHLD, SIGPIPE] (\<lambda>sig. set_signal sig SIG_DFL)"

definition install_handlers :: "unit io prog" where
  "install_handlers = for_each [SIGTERM, SIGINT, SIGHUP, SIGQUIT, SIGCHLD] (\<lambda>sig. act (InstallHandler sig))"

text \<open>\<open>exec_command\<close>: \<open>None\<close> when the process image has been replaced, else the exit code.\<close>

definition nul_free :: "string \<Rightarrow> bool" where
  "nul_free s \<longleftrightarrow> NUL \<notin> set s"

definition exec_command :: "string list \<Rightarrow> int option prog" where
  "exec_command argv =
     (case find (\<lambda>arg. \<not> nul_free arg) argv of
        Some arg \<Rightarrow> then_do (eprintln (arg @ '': string contains nul byte'')) (\<lambda>_. Ret (Some 126))
      | None \<Rightarrow>
          then_do (act (Exec argv)) (\<lambda>r.
            case r of
              Inr _ \<Rightarrow> Ret None
            | Inl err \<Rightarrow>
                then_do (eprintln (hd argv @ '': '' @ show_io err)) (\<lambda>_.
                  Ret (Some (if errno_of err = Some 2 then 127 else 126)))))"

definition child_main :: "string list \<Rightarrow> int option prog" where
  "child_main argv =
     then_do reset_child_signals (\<lambda>_.
     then_do (act (SetGroup 0 0)) (\<lambda>_. exec_command argv))"

definition fork_exec :: "string list \<Rightarrow> nat io prog" where
  "fork_exec argv =
     try_do (num (Fork argv)) (\<lambda>child.
     then_do (act (SetGroup child child)) (\<lambda>_. ok child))"

definition forward_signal :: "nat \<Rightarrow> nat \<Rightarrow> unit prog" where
  "forward_signal child sig =
     (if child = 0 then Ret ()
      else then_do (act (SendSignal (- int child) sig)) (\<lambda>_.
           then_do (act (SendSignal (int child) sig)) (\<lambda>_. Ret ())))"

text \<open>\<open>reap_children\<close>; the loop ends when the system has no more ended child to report.\<close>

fun reap_children :: "nat \<Rightarrow> string \<Rightarrow> (stop + unit) prog" where
  "reap_children 0 name = fail StillRunning"
| "reap_children (Suc fuel) name =
     then_do (wait WaitAny) (\<lambda>r.
       case r of
         Reaped pid status \<Rightarrow>
           then_do (eprintln (name @ '': reaped pid='' @ show_nat pid @ '' status=''
                     @ show_nat (exit_code_from_status status True))) (\<lambda>_. reap_children fuel name)
       | NotYet \<Rightarrow> ok ()
       | WaitError err \<Rightarrow>
           if errno_of err \<noteq> Some 10 \<and> errno_of err \<noteq> Some 4
           then then_do (eprintln (''waitpid: '' @ show_io err)) (\<lambda>_. ok ())
           else ok ())"

section \<open>Requests\<close>

definition write_pid_file :: "string \<Rightarrow> nat \<Rightarrow> unit io prog" where
  "write_pid_file path pid = act (WriteFile path (show_nat pid @ [LF]))"

definition reply :: "nat \<Rightarrow> string \<Rightarrow> unit prog" where
  "reply stream line = then_do (act (SendBytes stream (line @ [LF]))) (\<lambda>_. Ret ())"

text \<open>The loop that reads the arguments.\<close>

fun read_argv :: "nat \<Rightarrow> nat \<Rightarrow> string list io prog" where
  "read_argv stream 0 = ok []"
| "read_argv stream (Suc argc) =
     try_do (read_string stream) (\<lambda>arg. try_do (read_argv stream argc) (\<lambda>rest. ok (arg # rest)))"

definition record_child :: "nat \<Rightarrow> string \<Rightarrow> string \<Rightarrow> nat \<Rightarrow> unit prog" where
  "record_child stream name pid_file child =
     then_do (write_pid_file pid_file child) (\<lambda>w.
       case w of
         Inl err \<Rightarrow>
           then_do (act (SendSignal (int child) SIGTERM)) (\<lambda>_.
             reply stream (''ERR write pid file failed: '' @ show_io err))
       | Inr _ \<Rightarrow>
           then_do (reply stream (''OK '' @ name @ '' pid='' @ show_nat child)) (\<lambda>_.
             eprintln (''achost-supervise: started '' @ name @ '' pid='' @ show_nat child)))"

definition start_child :: "nat \<Rightarrow> string \<Rightarrow> string \<Rightarrow> string list \<Rightarrow> unit prog" where
  "start_child stream name pid_file argv =
     then_do (fork_exec argv) (\<lambda>r.
       case r of
         Inl err \<Rightarrow> reply stream (''ERR fork failed: '' @ show_io err)
       | Inr child \<Rightarrow> record_child stream name pid_file child)"

text \<open>A read whose error ends the request with a line.\<close>

definition or_refuse :: "nat \<Rightarrow> string \<Rightarrow> 'a io prog \<Rightarrow> ('a \<Rightarrow> unit prog) \<Rightarrow> unit prog" where
  "or_refuse stream line p f =
     then_do p (\<lambda>r. case r of Inl _ \<Rightarrow> reply stream line | Inr x \<Rightarrow> f x)"

definition handle_client :: "nat \<Rightarrow> unit prog" where
  "handle_client stream =
     or_refuse stream ''ERR malformed request'' (read_string stream) (\<lambda>name.
     or_refuse stream ''ERR malformed request'' (read_string stream) (\<lambda>pid_file.
     or_refuse stream ''ERR malformed request'' (read_u32 stream) (\<lambda>argc.
       if argc = 0 \<or> argc > MAX_ARGS then reply stream ''ERR malformed request''
       else or_refuse stream ''ERR malformed argv'' (read_argv stream argc) (\<lambda>argv.
              start_child stream name pid_file argv))))"

text \<open>
  The client. The test of the three first writes is lazy; their error text is the one of the
  last failed call, or of none (\<open>errno\<close>), and is printed as the third argument.
\<close>

fun send_argv :: "nat \<Rightarrow> string list \<Rightarrow> (string + unit) prog" where
  "send_argv stream [] = ok ()"
| "send_argv stream (arg # args) =
     then_do (write_string stream arg) (\<lambda>r.
       case r of Inl err \<Rightarrow> fail (''write supervisor argv: '' @ show_io err)
       | Inr _ \<Rightarrow> send_argv stream args)"

definition client_header :: "nat \<Rightarrow> string \<Rightarrow> string \<Rightarrow> nat \<Rightarrow> unit io prog" where
  "client_header stream name pid_file argc =
     try_do (write_string stream name) (\<lambda>_.
     try_do (write_string stream pid_file) (\<lambda>_.
       write_u32 stream (argc mod 2 ^ 32)))"

definition client_response :: "nat \<Rightarrow> int prog" where
  "client_response stream =
     then_do (get (RecvAll stream)) (\<lambda>r.
       case r of
         Inl err \<Rightarrow> then_do (eprintln (''read supervisor response: '' @ show_io err)) (\<lambda>_. Ret 1)
       | Inr response \<Rightarrow>
           then_do (warn response) (\<lambda>_. Ret (if starts_with ''OK '' response then 0 else 1)))"

definition send_client_request ::
  "(io_error \<Rightarrow> string) \<Rightarrow> string \<Rightarrow> string \<Rightarrow> string \<Rightarrow> string list \<Rightarrow> int prog" where
  "send_client_request last_os_error socket_path pid_file name argv =
     then_do (num (ConnectStream socket_path)) (\<lambda>c.
       case c of
         Inl err \<Rightarrow> then_do (eprintln (''connect supervisor socket: '' @ show_io err)) (\<lambda>_. Ret 1)
       | Inr stream \<Rightarrow>
           then_do (client_header stream name pid_file (length argv)) (\<lambda>r.
             case r of
               Inl err \<Rightarrow> then_do (eprintln (''write supervisor request: '' @ last_os_error err)) (\<lambda>_. Ret 1)
             | Inr _ \<Rightarrow>
                 then_do (send_argv stream argv) (\<lambda>r.
                   case r of
                     Inl message \<Rightarrow> then_do (eprintln message) (\<lambda>_. Ret 1)
                   | Inr _ \<Rightarrow> client_response stream)))"

end
