(* ===== verification/SupRoot.thy ===== *)
theory SupRoot
  imports SupWire
begin

text \<open>
  \<open>achost-supervise\<close>: the private mount namespace and the native root, the seccomp filter,
  and \<open>--launch\<close>. \<open>libc\<close> constants are spelled out below.
\<close>

section \<open>Constants of the system\<close>

definition CLONE_NEWNS :: int where "CLONE_NEWNS = 131072"
definition MS_BIND :: int where "MS_BIND = 4096"
definition MS_REC :: int where "MS_REC = 16384"
definition MS_PRIVATE :: int where "MS_PRIVATE = 262144"
definition MNT_DETACH :: int where "MNT_DETACH = 2"
definition PR_SET_SECCOMP :: int where "PR_SET_SECCOMP = 22"
definition PR_SET_CHILD_SUBREAPER :: int where "PR_SET_CHILD_SUBREAPER = 36"
definition PR_SET_NO_NEW_PRIVS :: int where "PR_SET_NO_NEW_PRIVS = 38"
definition ENOSYS :: int where "ENOSYS = 38"
definition SECCOMP_RET_ERRNO :: int where "SECCOMP_RET_ERRNO = 0x50000"
definition SECCOMP_RET_ALLOW :: int where "SECCOMP_RET_ALLOW = 0x7fff0000"
definition BPF_LD_W_ABS :: int where "BPF_LD_W_ABS = 0x20"
definition BPF_JMP_JEQ_K :: int where "BPF_JMP_JEQ_K = 0x15"
definition BPF_RET_K :: int where "BPF_RET_K = 0x06"
definition SECCOMP_DATA_NR_OFFSET :: int where "SECCOMP_DATA_NR_OFFSET = 0"
definition AARCH64_NR_CLOSE_RANGE :: int where "AARCH64_NR_CLOSE_RANGE = 436"

section \<open>The seccomp filter\<close>

text \<open>\<open>SockFilter\<close>: code, jump if true, jump if false, operand.\<close>

type_synonym sock_filter = "int \<times> nat \<times> nat \<times> int"

definition bpf_stmt :: "int \<Rightarrow> int \<Rightarrow> sock_filter" where
  "bpf_stmt code k = (code, 0, 0, k)"

definition bpf_jump :: "int \<Rightarrow> int \<Rightarrow> nat \<Rightarrow> nat \<Rightarrow> sock_filter" where
  "bpf_jump code k jt jf = (code, jt, jf, k)"

definition close_range_filter :: "sock_filter list" where
  "close_range_filter =
     [bpf_stmt BPF_LD_W_ABS SECCOMP_DATA_NR_OFFSET,
      bpf_jump BPF_JMP_JEQ_K AARCH64_NR_CLOSE_RANGE 0 1,
      bpf_stmt BPF_RET_K (or SECCOMP_RET_ERRNO ENOSYS),
      bpf_stmt BPF_RET_K SECCOMP_RET_ALLOW]"

definition install_close_range_enosys_filter :: "unit io prog" where
  "install_close_range_enosys_filter =
     then_do (act (Seccomp close_range_filter)) (\<lambda>r.
       case r of
         Inr _ \<Rightarrow> then_do (eprintln ''achost-supervise: close_range ENOSYS seccomp=ready'') (\<lambda>_. ok ())
       | Inl err \<Rightarrow>
           if errno_of err \<noteq> Some 13 \<and> errno_of err \<noteq> Some 1 then fail err
           else
             try_do (act (Prctl PR_SET_NO_NEW_PRIVS 1)) (\<lambda>_.
             try_do (act (Seccomp close_range_filter)) (\<lambda>_.
             then_do (eprintln ''achost-supervise: close_range ENOSYS seccomp=ready no-new-privs=1'') (\<lambda>_. ok ()))))"

section \<open>Mounts\<close>

definition cstring :: "string \<Rightarrow> string io" where
  "cstring v = (if nul_free v then Inr v else Inl (Io ''string contains nul byte''))"

definition cstring_opt :: "string option \<Rightarrow> string option io" where
  "cstring_opt v = (case v of None \<Rightarrow> Inr None | Some s \<Rightarrow> (case cstring s of Inl e \<Rightarrow> Inl e | Inr s \<Rightarrow> Inr (Some s)))"

definition ensure_directory :: "string \<Rightarrow> int \<Rightarrow> unit io prog" where
  "ensure_directory path mode = try_do (act (CreateDirAll path)) (\<lambda>_. act (SetMode path mode))"

definition mount_call ::
  "string option \<Rightarrow> string \<Rightarrow> string option \<Rightarrow> int \<Rightarrow> string option \<Rightarrow> unit io prog" where
  "mount_call source target fstype flags data =
     try_do (Ret (cstring_opt source)) (\<lambda>s.
     try_do (Ret (cstring target)) (\<lambda>t.
     try_do (Ret (cstring_opt fstype)) (\<lambda>f.
     try_do (Ret (cstring_opt data)) (\<lambda>d. act (MountFs s t f flags d)))))"

definition detach_mount_if_present :: "string \<Rightarrow> unit io prog" where
  "detach_mount_if_present path =
     try_do (Ret (cstring path)) (\<lambda>p.
     then_do (act (Unmount p MNT_DETACH)) (\<lambda>r.
       case r of
         Inr _ \<Rightarrow> ok ()
       | Inl err \<Rightarrow> if errno_of err = Some 22 \<or> errno_of err = Some 2 then ok () else fail err))"

definition make_private_mount_namespace :: "unit io prog" where
  "make_private_mount_namespace =
     try_do (act (Unshare CLONE_NEWNS)) (\<lambda>_. mount_call None ''/'' None (or MS_REC MS_PRIVATE) None)"

text \<open>
  The error of a failed \<open>pivot_root\<close> is read (\<open>last_os_error\<close>) after the directory is removed: it
  is the removal's own error when that failed, too.
\<close>

definition pivot_into_root :: "string \<Rightarrow> unit io prog" where
  "pivot_into_root new_root =
     try_do (act (ChangeDir new_root)) (\<lambda>_.
     then_do (act (RemoveDir ''.achost-old-root'')) (\<lambda>_.
     try_do (ensure_directory ''.achost-old-root'' 448) (\<lambda>_.
     then_do (act (PivotRoot ''.'' ''.achost-old-root'')) (\<lambda>r.
       case r of
         Inl err \<Rightarrow>
           then_do (act (RemoveDir ''.achost-old-root'')) (\<lambda>removed.
             fail (case removed of Inl last_err \<Rightarrow> last_err | Inr _ \<Rightarrow> err))
       | Inr _ \<Rightarrow>
           try_do (act (ChangeDir ''/'')) (\<lambda>_.
           try_do (act (Unmount ''/.achost-old-root'' MNT_DETACH)) (\<lambda>_.
           then_do (act (RemoveDir ''/.achost-old-root'')) (\<lambda>_. ok ())))))))"

definition pivot_to_root :: "string \<Rightarrow> unit io prog" where
  "pivot_to_root new_root = try_do make_private_mount_namespace (\<lambda>_. pivot_into_root new_root)"

definition join_root :: "string \<Rightarrow> string \<Rightarrow> string" where
  "join_root root path =
     (case strip_prefix ''/'' path of Some stripped \<Rightarrow> root @ ''/'' @ stripped | None \<Rightarrow> root @ ''/'' @ path)"

text \<open>
  \<open>fs::metadata\<close> is \<open>StatFile\<close>, its file type the test \<open>IsDir\<close>.
\<close>

definition bind_native_path :: "string \<Rightarrow> string \<Rightarrow> bool \<Rightarrow> unit io prog" where
  "bind_native_path native_root source required =
     then_do (act (StatFile source)) (\<lambda>m.
       case m of
         Inl err \<Rightarrow>
           if required
           then then_do (eprintln (''required native path missing: '' @ source)) (\<lambda>_. fail err)
           else ok ()
       | Inr _ \<Rightarrow>
           then_do (ask (IsDir source)) (\<lambda>dir.
           if \<not> dir then ok ()
           else
             let destination = join_root native_root source
             in then_do (ensure_directory destination 493) (\<lambda>r.
                case r of
                  Inl err \<Rightarrow> if required then fail err else ok ()
                | Inr _ \<Rightarrow>
                    then_do (mount_call (Some source) destination None (or MS_BIND MS_REC) None) (\<lambda>r.
                    case r of
                      Inl err \<Rightarrow>
                        then_do (eprintln (''bind '' @ source @ '' to '' @ destination @ '': '' @ show_io err)) (\<lambda>_.
                          if required then fail err else ok ())
                    | Inr _ \<Rightarrow> ok ()))))"

definition mount_native_cgroup_controller :: "string \<Rightarrow> string \<Rightarrow> unit io prog" where
  "mount_native_cgroup_controller cgroup_root controller =
     (let destination = join_root cgroup_root controller
      in try_do (ensure_directory destination 493) (\<lambda>_.
         then_do (mount_call (Some ''none'') destination (Some ''cgroup'') 0 (Some controller)) (\<lambda>r.
           case r of
             Inl err \<Rightarrow>
               then_do (eprintln (''warning: unable to mount '' @ controller @ '' cgroup: '' @ show_io err)) (\<lambda>_. ok ())
           | Inr _ \<Rightarrow> ok ())))"

definition native_controllers :: "string list" where
  "native_controllers =
     [''devices'', ''pids'', ''cpu'', ''cpuacct'', ''cpuset'', ''blkio'', ''freezer'', ''memory'']"

definition setup_native_cgroups :: "string \<Rightarrow> unit io prog" where
  "setup_native_cgroups native_root =
     (let cgroup_root = join_root native_root ''/sys/fs/cgroup''
      in try_do (ensure_directory cgroup_root 493) (\<lambda>_.
         then_do (detach_mount_if_present cgroup_root) (\<lambda>r.
         then_do (case r of
                    Inl err \<Rightarrow> eprintln (''warning: unable to detach native cgroup root: '' @ show_io err)
                  | Inr _ \<Rightarrow> Ret ()) (\<lambda>_.
         try_do (mount_call (Some ''tmpfs'') cgroup_root (Some ''tmpfs'') 0 (Some ''mode=755,size=1m'')) (\<lambda>_.
           for_each native_controllers (mount_native_cgroup_controller cgroup_root))))))"

definition android_cgroups :: "string list" where
  "android_cgroups =
     [''/acct'', ''/dev/blkio'', ''/dev/cpuctl'', ''/dev/cpuset'', ''/dev/stune'',
      ''/dev/achost-cgroup/devices'', ''/dev/memcg'']"

definition detach_native_android_cgroups :: "string \<Rightarrow> unit prog" where
  "detach_native_android_cgroups native_root =
     for_all android_cgroups (\<lambda>path.
       then_do (detach_mount_if_present (join_root native_root path)) (\<lambda>r.
         case r of
           Inl err \<Rightarrow> eprintln (''warning: unable to detach native '' @ path @ '': '' @ show_io err)
         | Inr _ \<Rightarrow> Ret ()))"

text \<open>
  \<open>symlink_metadata\<close> is \<open>StatFile\<close> on the link itself: \<open>IsSymlink\<close> and
  \<open>IsDirNoFollow\<close> are its file type.
\<close>

definition setup_native_run :: "string \<Rightarrow> unit io prog" where
  "setup_native_run native_root =
     (let run_path = join_root native_root ''/run'';
          var_path = join_root native_root ''/var'';
          var_run_path = join_root native_root ''/var/run'';
          tmp_path = join_root native_root ''/tmp'';
          relink = then_do (act (RemoveFile var_run_path)) (\<lambda>_. act (MakeSymlink ''/run'' var_run_path))
      in try_do (ensure_directory run_path 493) (\<lambda>_.
         try_do (ensure_directory var_path 493) (\<lambda>_.
         try_do (ensure_directory tmp_path 1023) (\<lambda>_.
         try_do (mount_call (Some ''tmpfs'') run_path (Some ''tmpfs'') 0 (Some ''mode=755,size=64m'')) (\<lambda>_.
         try_do (then_do (act (StatLink var_run_path)) (\<lambda>m.
                   case m of
                     Inr _ \<Rightarrow>
                       then_do (ask (IsSymlink var_run_path)) (\<lambda>link.
                       if link then relink
                       else then_do (ask (IsDirNoFollow var_run_path)) (\<lambda>dir.
                         if dir
                         then mount_call (Some run_path) var_run_path None (or MS_BIND MS_REC) None
                         else relink))
                   | Inl NotFound \<Rightarrow> act (MakeSymlink ''/run'' var_run_path)
                   | Inl err \<Rightarrow> fail err)) (\<lambda>_.
         then_do (mount_call (Some ''tmpfs'') tmp_path (Some ''tmpfs'') 0 (Some ''mode=1777,size=64m'')) (\<lambda>r.
         then_do (case r of
                    Inl err \<Rightarrow> eprintln (''warning: unable to mount private /tmp: '' @ show_io err)
                  | Inr _ \<Rightarrow> Ret ()) (\<lambda>_. ok ()))))))))"

definition native_paths :: "(string \<times> bool) list" where
  "native_paths =
     [(''/data'', True), (''/proc'', True), (''/sys'', True), (''/system'', True), (''/apex'', True),
      (''/vendor'', False), (''/product'', False), (''/odm'', False), (''/mnt'', False), (''/storage'', False),
      (''/metadata'', False), (''/linkerconfig'', False), (''/config'', False), (''/debug_ramdisk'', False),
      (''/second_stage_resources'', False), (''/sdcard'', False)]"

definition setup_native_root :: "string \<Rightarrow> unit io prog" where
  "setup_native_root native_root =
     try_do (ensure_directory native_root 493) (\<lambda>_.
     try_do make_private_mount_namespace (\<lambda>_.
     try_do (mount_call (Some native_root) native_root None MS_BIND None) (\<lambda>_.
     try_do (for_each native_paths (\<lambda>(path, required). bind_native_path native_root path required)) (\<lambda>_.
     try_do (setup_native_cgroups native_root) (\<lambda>_.
     try_do (for_each [(''/dev'', True), (''/acct'', False)]
               (\<lambda>(path, required). bind_native_path native_root path required)) (\<lambda>_.
     then_do (detach_native_android_cgroups native_root) (\<lambda>_.
     try_do (setup_native_run native_root) (\<lambda>_.
     then_do (eprintln (''achost-supervise: native root='' @ native_root
                @ '' private-run=ready private-cgroup=ready'')) (\<lambda>_.
       pivot_into_root native_root)))))))))"

section \<open>Launch\<close>

text \<open>\<open>redirect_log\<close>: opens the file and makes it standard output and standard error.\<close>

definition redirect_log :: "string \<Rightarrow> unit io prog" where
  "redirect_log log_file = act (RedirectOutput log_file)"

definition launch_root :: "string option \<Rightarrow> string option \<Rightarrow> string option \<Rightarrow> unit result prog" where
  "launch_root chroot_path pivot_root_path native_root_path =
     (case native_root_path of
        Some root \<Rightarrow> io_context ''native root'' (setup_native_root root)
      | None \<Rightarrow>
          (case pivot_root_path of
             Some root \<Rightarrow> io_context ''pivot_root'' (pivot_to_root root)
           | None \<Rightarrow>
               (case chroot_path of
                  Some path \<Rightarrow>
                    try_do (io_context ''chroot'' (try_do (Ret (cstring path)) (\<lambda>p. act (Chroot p)))) (\<lambda>_.
                      io_context ''chdir'' (act (ChangeDir ''/'')))
                | None \<Rightarrow> ok ())))"

text \<open>The exit code, or \<open>None\<close> when the command runs in the place of the program.\<close>

definition run_launch ::
  "string option \<Rightarrow> string option \<Rightarrow> string option \<Rightarrow> string option \<Rightarrow> bool \<Rightarrow> string list \<Rightarrow> int option prog" where
  "run_launch chroot_path pivot_root_path native_root_path log_file close_range_enosys command =
     then_do (try_do (case log_file of None \<Rightarrow> ok () | Some f \<Rightarrow> io_context ''open log file'' (redirect_log f)) (\<lambda>_.
              try_do (launch_root chroot_path pivot_root_path native_root_path) (\<lambda>_.
              if close_range_enosys
              then io_context ''close_range ENOSYS seccomp'' install_close_range_enosys_filter else ok ()))) (\<lambda>r.
       case r of
         Inl message \<Rightarrow> then_do (eprintln message) (\<lambda>_. Ret (Some 1))
       | Inr _ \<Rightarrow> exec_command command)"

end
