(* ===== verification/DockerStop.thy ===== *)
theory DockerStop
  imports DockerConfig SupRoot "HOL-Library.Product_Lexorder" "HOL-Library.List_Lexorder" "HOL-Library.Char_ord"
begin

text \<open>
  \<open>achost-docker-runtime\<close>: owned processes and their signals, the mount table, the packet
  filter left by an earlier daemon, and \<open>stop\<close>. A process id is a \<open>u32\<close>; \<open>kill\<close> takes it
  as an \<open>i32\<close>, so the upper half would name process groups.
\<close>

section \<open>Commands and files\<close>

definition quiet_cmd :: "string \<Rightarrow> string list \<Rightarrow> cmd" where
  "quiet_cmd command args =
     \<lparr>cmd_program = command, cmd_args = args, cmd_env = [], cmd_stdin = NullIn, cmd_out = NullOut,
      cmd_timeout = None\<rparr>"

definition docker_command_success_null :: "string \<Rightarrow> string list \<Rightarrow> bool prog" where
  "docker_command_success_null command args =
     then_do (run_cmd (quiet_cmd command args)) (\<lambda>r. Ret (succeeded r))"

definition remove_file_quiet :: "string \<Rightarrow> unit prog" where
  "remove_file_quiet path = then_do (act (RemoveFile path)) (\<lambda>_. Ret ())"

definition remove_path_quiet :: "string \<Rightarrow> unit prog" where
  "remove_path_quiet path =
     then_do (act (StatLink path)) (\<lambda>m.
       case m of
         Inl _ \<Rightarrow> Ret ()
       | Inr _ \<Rightarrow>
           then_do (and_also (ask (IsDirNoFollow path)) (then_do (ask (IsSymlink path)) (\<lambda>l. Ret (\<not> l)))) (\<lambda>dir.
           then_do (act (if dir then RemoveDirAll path else RemoveFile path)) (\<lambda>_. Ret ())))"

section \<open>Processes\<close>

definition pid_t :: "nat \<Rightarrow> int" where
  "pid_t pid = (if pid < 2 ^ 31 then int pid else int pid - 2 ^ 32)"

definition SIGKILL :: nat where "SIGKILL = 9"

definition signal_pid :: "nat \<Rightarrow> nat \<Rightarrow> bool prog" where
  "signal_pid pid sig = then_do (act (SendSignal (pid_t pid) sig)) (\<lambda>r. Ret (is_ok r))"

definition proc_path :: "nat \<Rightarrow> string" where
  "proc_path pid = ''/proc/'' @ show_nat pid"

definition docker_pid_alive :: "nat \<Rightarrow> bool prog" where
  "docker_pid_alive pid =
     then_do (signal_pid pid 0) (\<lambda>alive. if alive then Ret True else ask (Exists (proc_path pid)))"

definition cmdline_args :: "string \<Rightarrow> string list" where
  "cmdline_args cmdline = filter is_utf8 (filter (\<lambda>arg. arg \<noteq> []) (split_char NUL cmdline))"

definition read_cmdline_args :: "nat \<Rightarrow> string list prog" where
  "read_cmdline_args pid =
     then_do (get (ReadBytes (proc_path pid @ ''/cmdline''))) (\<lambda>r.
       Ret (case r of Inl _ \<Rightarrow> [] | Inr cmdline \<Rightarrow> cmdline_args cmdline))"

definition process_uses_executable :: "nat \<Rightarrow> string \<Rightarrow> bool prog" where
  "process_uses_executable pid expected =
     then_do (get (ReadLink (proc_path pid @ ''/exe''))) (\<lambda>r.
       if (case r of Inl _ \<Rightarrow> False | Inr path \<Rightarrow> path_eq path expected) then Ret True
       else then_do (read_cmdline_args pid) (\<lambda>args.
              Ret (case args of [] \<Rightarrow> False | arg0 # _ \<Rightarrow> path_eq arg0 expected)))"

definition process_uses_any_executable :: "nat \<Rightarrow> string list \<Rightarrow> bool prog" where
  "process_uses_any_executable pid expected = any_do (process_uses_executable pid) expected"

definition process_has_arg :: "nat \<Rightarrow> string \<Rightarrow> bool prog" where
  "process_has_arg pid arg = then_do (read_cmdline_args pid) (\<lambda>args. Ret (arg \<in> set (drop 1 args)))"

text \<open>The loops over the entries of \<open>/proc\<close> whose name is a number.\<close>

primrec proc_loop :: "(string \<Rightarrow> nat \<Rightarrow> bool prog) \<Rightarrow> string io list \<Rightarrow> nat list prog" where
  "proc_loop wanted [] = Ret []"
| "proc_loop wanted (entry # entries) =
     (case entry of
        Inl _ \<Rightarrow> proc_loop wanted entries
      | Inr fname \<Rightarrow>
          (case parse_uint U32_BOUND fname of
             None \<Rightarrow> proc_loop wanted entries
           | Some pid \<Rightarrow>
               then_do (wanted fname pid) (\<lambda>b.
               then_do (proc_loop wanted entries) (\<lambda>rest. Ret (if b then pid # rest else rest)))))"

definition proc_pids :: "(string \<Rightarrow> nat \<Rightarrow> bool prog) \<Rightarrow> nat list prog" where
  "proc_pids wanted =
     Ls ''/proc'' (\<lambda>r. case r of
       Inl _ \<Rightarrow> Ret []
     | Inr entries \<Rightarrow> then_do (proc_loop wanted entries) (\<lambda>pids. Ret (sort pids)))"

definition pids_for_executable :: "string \<Rightarrow> string \<Rightarrow> nat list prog" where
  "pids_for_executable name expected =
     proc_pids (\<lambda>fname pid.
       then_do (read_trimmed (path_join (path_join ''/proc'' fname) ''comm'')) (\<lambda>comm.
         if comm \<noteq> Some name then Ret False else process_uses_executable pid expected))"

definition pids_for_executables_with_arg :: "string list \<Rightarrow> string \<Rightarrow> nat list prog" where
  "pids_for_executables_with_arg expected arg =
     proc_pids (\<lambda>fname pid. and_also (process_uses_any_executable pid expected) (process_has_arg pid arg))"

section \<open>Stopping processes\<close>

text \<open>At most ten seconds for the process to end.\<close>

fun wait_gone :: "nat \<Rightarrow> nat \<Rightarrow> unit prog" where
  "wait_gone 0 pid = Ret ()"
| "wait_gone (Suc n) pid =
     then_do (docker_pid_alive pid) (\<lambda>alive.
       if \<not> alive then Ret () else then_do (sleep 1000) (\<lambda>_. wait_gone n pid))"

definition kill_if_alive :: "nat \<Rightarrow> unit prog" where
  "kill_if_alive pid =
     then_do (docker_pid_alive pid) (\<lambda>alive.
       if alive then then_do (signal_pid pid SIGKILL) (\<lambda>_. Ret ()) else Ret ())"

definition end_process :: "nat \<Rightarrow> unit prog" where
  "end_process pid =
     then_do (signal_pid pid SIGTERM) (\<lambda>_.
     then_do (wait_gone 10 pid) (\<lambda>_. kill_if_alive pid))"

definition stop_pid_file_any :: "string \<Rightarrow> string \<Rightarrow> string list \<Rightarrow> unit prog" where
  "stop_pid_file_any name pid_file expected =
     then_do (ask (IsFile pid_file)) (\<lambda>present.
     if \<not> present then println (name @ '' pid file missing: '' @ pid_file)
     else
       then_do (get (ReadText pid_file)) (\<lambda>r.
       let raw_pid = trim (case r of Inl _ \<Rightarrow> [] | Inr s \<Rightarrow> s)
       in case parse_pid raw_pid of
            None \<Rightarrow>
              then_do (println (name @ '' pid invalid: '' @ raw_pid)) (\<lambda>_. remove_file_quiet pid_file)
          | Some pid \<Rightarrow>
              then_do (docker_pid_alive pid) (\<lambda>alive.
              if \<not> alive
              then then_do (println (name @ '' not running pid='' @ show_nat pid)) (\<lambda>_. remove_file_quiet pid_file)
              else
                then_do (process_uses_any_executable pid expected) (\<lambda>owned.
                if \<not> owned
                then then_do (println (name @ '' pid='' @ show_nat pid @ '' not achost-owned expected=''
                                @ join_paths expected @ ''; skipping signal'')) (\<lambda>_. remove_file_quiet pid_file)
                else
                  then_do (end_process pid) (\<lambda>_.
                  then_do (remove_file_quiet pid_file) (\<lambda>_.
                    println (name @ '' stopped pid='' @ show_nat pid)))))))"

definition stop_pid_file :: "string \<Rightarrow> string \<Rightarrow> string \<Rightarrow> unit prog" where
  "stop_pid_file name pid_file expected = stop_pid_file_any name pid_file [expected]"

definition stop_pid_list :: "string \<Rightarrow> nat list \<Rightarrow> unit prog" where
  "stop_pid_list name pids =
     (if pids = [] then Ret ()
      else then_do (for_all pids (\<lambda>pid. then_do (signal_pid pid SIGTERM) (\<lambda>_. Ret ()))) (\<lambda>_.
           then_do (sleep 1000) (\<lambda>_.
           then_do (for_all pids kill_if_alive) (\<lambda>_.
             println (name @ '' stopped achost-owned leftover pids='' @ join_pids pids)))))"

definition stop_owned_processes :: "string \<Rightarrow> string \<Rightarrow> unit prog" where
  "stop_owned_processes name expected = then_do (pids_for_executable name expected) (stop_pid_list name)"

definition stop_owned_processes_with_arg_any :: "string \<Rightarrow> string list \<Rightarrow> string \<Rightarrow> unit prog" where
  "stop_owned_processes_with_arg_any name expected arg =
     then_do (pids_for_executables_with_arg expected arg) (stop_pid_list name)"

definition runtime_core_candidates :: "docker_stop_config \<Rightarrow> string list" where
  "runtime_core_candidates config =
     unique_paths [path_join (ds_common_bin config) ''achost-runtime-core'',
       ''/data/adb/modules/achost-base/achost/bin/achost-runtime-core'',
       ''/data/adb/achost/bin/achost-runtime-core'']"

definition stop_network_watchdog :: "docker_stop_config \<Rightarrow> unit prog" where
  "stop_network_watchdog config =
     (let runtime_core = runtime_core_candidates config
      in then_do (stop_pid_file_any ''network-watchdog'' (ds_network_watchdog_pid config) runtime_core) (\<lambda>_.
           stop_owned_processes_with_arg_any ''network-watchdog'' runtime_core ''net-watchdog''))"

section \<open>The mount table\<close>

record mount_record =
  mr_destination :: string
  mr_fs_type :: string
  mr_options :: string

definition mount_line :: "string \<Rightarrow> mount_record option" where
  "mount_line line =
     (case split_whitespace line of
        _ # dest # fs # opts # _ \<Rightarrow>
          Some \<lparr>mr_destination = decode_mount_field dest, mr_fs_type = fs, mr_options = opts\<rparr>
      | _ \<Rightarrow> None)"

definition mount_records :: "string \<Rightarrow> mount_record list" where
  "mount_records mounts = List.map_filter mount_line (rust_lines mounts)"

definition read_mount_records :: "mount_record list prog" where
  "read_mount_records =
     then_do (get (ReadText ''/proc/mounts'')) (\<lambda>r. Ret (case r of Inl _ \<Rightarrow> [] | Inr mounts \<Rightarrow> mount_records mounts))"

definition read_mount_destinations :: "string list prog" where
  "read_mount_destinations = then_do read_mount_records (\<lambda>ms. Ret (map mr_destination ms))"

definition mount_is_present :: "string \<Rightarrow> bool prog" where
  "mount_is_present path = then_do read_mount_destinations (\<lambda>ms. Ret (path_string path \<in> set ms))"

text \<open>
  \<open>sort_by\<close> with the comparison of component counts, lengths and bytes, each descending;
  equal elements are identical, so sorting ascending and reversing is the same.
\<close>

definition mount_depth :: "string \<Rightarrow> nat \<times> nat \<times> string" where
  "mount_depth m = (length (components m), length (path_string m), path_string m)"

definition sort_mounts_deepest_first :: "string list \<Rightarrow> string list" where
  "sort_mounts_deepest_first mounts = rev (sort_key mount_depth mounts)"

definition trim_end_char :: "char \<Rightarrow> string \<Rightarrow> string" where
  "trim_end_char c s = rev (dropWhile (\<lambda>d. d = c) (rev s))"

definition chroot_mounts :: "string \<Rightarrow> string list prog" where
  "chroot_mounts chroot =
     (let pre = trim_end_char (CHR ''/'') (path_string chroot) @ ''/''
      in then_do read_mount_destinations (\<lambda>ms.
           Ret (sort_mounts_deepest_first (filter (starts_with pre) ms))))"

definition mount_private :: "string \<Rightarrow> int \<Rightarrow> bool prog" where
  "mount_private path flags =
     (if nul_free path then then_do (act (MountFs None path None flags None)) (\<lambda>r. Ret (is_ok r)) else Ret False)"

definition make_mount_private :: "string \<Rightarrow> unit prog" where
  "make_mount_private path =
     then_do (mount_private path (or MS_PRIVATE MS_REC)) (\<lambda>b.
       if b then Ret () else then_do (mount_private path MS_PRIVATE) (\<lambda>_. Ret ()))"

definition mount_fs :: "string \<Rightarrow> string \<Rightarrow> string \<Rightarrow> string \<Rightarrow> bool prog" where
  "mount_fs source target fs_type data =
     (if nul_free source \<and> nul_free target \<and> nul_free fs_type \<and> nul_free data
      then then_do (act (MountFs (Some source) target (Some fs_type) 0 (Some data))) (\<lambda>r. Ret (is_ok r))
      else Ret False)"

definition umount :: "string \<Rightarrow> int \<Rightarrow> bool prog" where
  "umount path flags = (if nul_free path then then_do (act (Unmount path flags)) (\<lambda>r. Ret (is_ok r)) else Ret False)"

definition unmount_path :: "string \<Rightarrow> bool prog" where
  "unmount_path path = then_do (umount path 0) (\<lambda>b. if b then Ret True else umount path MNT_DETACH)"

fun unmount_rounds :: "nat \<Rightarrow> string \<Rightarrow> unit prog" where
  "unmount_rounds 0 chroot = Ret ()"
| "unmount_rounds (Suc n) chroot =
     then_do (chroot_mounts chroot) (\<lambda>mounts.
       if mounts = [] then Ret ()
       else then_do (for_all mounts (\<lambda>m. then_do (unmount_path m) (\<lambda>_. Ret ()))) (\<lambda>_. unmount_rounds n chroot))"

fun unmount_self :: "nat \<Rightarrow> string \<Rightarrow> unit prog" where
  "unmount_self 0 chroot = Ret ()"
| "unmount_self (Suc n) chroot =
     then_do (mount_is_present chroot) (\<lambda>present.
       if \<not> present then Ret ()
       else then_do (unmount_path chroot) (\<lambda>b. if \<not> b then Ret () else unmount_self n chroot))"

definition unmount_chroot :: "docker_stop_config \<Rightarrow> unit prog" where
  "unmount_chroot config =
     (if \<not> ds_use_chroot config then Ret ()
      else then_do (ask (IsFile ''/proc/mounts'')) (\<lambda>b.
        if \<not> b then Ret ()
        else then_do (make_mount_private (ds_chroot config)) (\<lambda>_.
             then_do (unmount_rounds 8 (ds_chroot config)) (\<lambda>_. unmount_self 4 (ds_chroot config)))))"

definition DEVICES_CGROUP :: string where
  "DEVICES_CGROUP = ''/dev/achost-cgroup/devices''"

definition unmount_devices_cgroup :: "unit prog" where
  "unmount_devices_cgroup =
     then_do (mount_is_present DEVICES_CGROUP) (\<lambda>present.
     then_do (if present then then_do (unmount_path DEVICES_CGROUP) (\<lambda>_. Ret ()) else Ret ()) (\<lambda>_.
     then_do (act (RemoveDir DEVICES_CGROUP)) (\<lambda>_.
     then_do (act (RemoveDir ''/dev/achost-cgroup'')) (\<lambda>_. Ret ()))))"

section \<open>Stop\<close>

definition print_runtime_path_state :: "string \<Rightarrow> string option \<Rightarrow> unit prog" where
  "print_runtime_path_state label path =
     (case path of
        None \<Rightarrow> println (label @ ''=unset'')
      | Some p \<Rightarrow>
          then_do (ask (Exists p)) (\<lambda>b.
            println (label @ ''='' @ (if b then ''present'' else ''missing'') @ '' path='' @ p)))"

definition report_stop_state :: "docker_stop_config \<Rightarrow> unit prog" where
  "report_stop_state config =
     then_do (pids_for_executable ''dockerd'' (path_join (ds_achost_bin config) ''dockerd'')) (\<lambda>dockerd.
     then_do (pids_for_executable ''containerd'' (path_join (ds_achost_bin config) ''containerd'')) (\<lambda>containerd.
     then_do (pids_for_executables_with_arg (runtime_core_candidates config) ''net-watchdog'') (\<lambda>watchdog.
     then_do (println (''remaining_dockerd_pids='' @ join_pids dockerd)) (\<lambda>_.
     then_do (println (''remaining_containerd_pids='' @ join_pids containerd)) (\<lambda>_.
     then_do (println (''remaining_network_watchdog_pids='' @ join_pids watchdog)) (\<lambda>_.
       for_all [(''docker_socket'', ds_docker_socket config), (''compat_socket'', ds_compat_socket config),
                (''containerd_socket'', Some (ds_containerd_address config)),
                (''supervisor_socket'', Some (ds_supervisor_socket config)),
                (''network_watchdog_pid'', Some (ds_network_watchdog_pid config)),
                (''network_watchdog_log'', Some (ds_network_watchdog_log config))]
         (\<lambda>(label, path). print_runtime_path_state label path)))))))"

definition remove_opt_quiet :: "string option \<Rightarrow> unit prog" where
  "remove_opt_quiet path = (case path of None \<Rightarrow> Ret () | Some p \<Rightarrow> remove_file_quiet p)"

definition stop_all :: "docker_stop_config \<Rightarrow> unit prog" where
  "stop_all config =
     (let dockerd = path_join (ds_achost_bin config) ''dockerd'';
          containerd = path_join (ds_achost_bin config) ''containerd''
      in then_do (stop_network_watchdog config) (\<lambda>_.
         then_do (stop_pid_file ''dockerd'' (ds_dockerd_pid config) dockerd) (\<lambda>_.
         then_do (stop_pid_file ''dockerd-launch'' (ds_dockerd_launch_pid config) dockerd) (\<lambda>_.
         then_do (stop_pid_file ''containerd'' (ds_containerd_pid config) containerd) (\<lambda>_.
         then_do (stop_owned_processes ''dockerd'' dockerd) (\<lambda>_.
         then_do (stop_owned_processes ''containerd'' containerd) (\<lambda>_.
           stop_pid_file ''achost-supervise'' (ds_supervisor_pid config) (ds_supervise config))))))))"

definition clean_all :: "docker_stop_config \<Rightarrow> unit prog" where
  "clean_all config =
     then_do (remove_file_quiet (ds_supervisor_socket config)) (\<lambda>_.
     then_do (unmount_chroot config) (\<lambda>_.
     then_do unmount_devices_cgroup (\<lambda>_.
     then_do (remove_opt_quiet (ds_docker_socket config)) (\<lambda>_.
     then_do (remove_opt_quiet (ds_compat_socket config)) (\<lambda>_.
       remove_file_quiet (ds_containerd_address config))))))"

definition docker_run_stop :: "environment \<Rightarrow> string option \<Rightarrow> int prog" where
  "docker_run_stop e exe =
     then_do (query EffectiveUid) (\<lambda>uid.
       if uid \<noteq> 0 then then_do (eprintln ''achost-docker-runtime stop requires root'') (\<lambda>_. Ret 1)
       else
         then_do (stop_config_from_env e exe) (\<lambda>config.
         then_do (stop_all config) (\<lambda>_.
         then_do (clean_all config) (\<lambda>_.
         then_do (report_stop_state config) (\<lambda>_. Ret 0)))))"

section \<open>Packet filter\<close>

definition FILTER_FORWARD_CHAINS :: "string list" where
  "FILTER_FORWARD_CHAINS =
     [''DOCKER-FORWARD'', ''DOCKER-BRIDGE'', ''DOCKER-CT'', ''DOCKER-INTERNAL'', ''DOCKER-ISOLATION'',
      ''DOCKER-ISOLATION-STAGE-1'', ''DOCKER-ISOLATION-STAGE-2'', ''DOCKER'']"

definition FILTER_DELETE_CHAINS :: "string list" where
  "FILTER_DELETE_CHAINS =
     [''DOCKER-INTERNAL'', ''DOCKER-CT'', ''DOCKER-BRIDGE'', ''DOCKER-FORWARD'', ''DOCKER'',
      ''DOCKER-ISOLATION-STAGE-2'', ''DOCKER-ISOLATION-STAGE-1'', ''DOCKER-ISOLATION'']"

definition docker_pick_iptables :: "environment \<Rightarrow> string option prog" where
  "docker_pick_iptables e = find_do (have_command e) [''iptables'', ''/system/bin/iptables'']"

definition stale_args :: "string \<Rightarrow> string \<Rightarrow> string \<Rightarrow> string list \<Rightarrow> string list" where
  "stale_args table operation chain args =
     (if table \<noteq> ''filter'' then [''-t'', table] else []) @ [operation, chain] @ args"

fun check_delete_loop :: "nat \<Rightarrow> string \<Rightarrow> string list \<Rightarrow> string list \<Rightarrow> (stop + unit) prog" where
  "check_delete_loop 0 iptables check delete = fail StillRunning"
| "check_delete_loop (Suc fuel) iptables check delete =
     then_do (docker_command_success_null iptables check) (\<lambda>there.
       if \<not> there then ok ()
       else then_do (docker_command_success_null iptables delete) (\<lambda>deleted.
              if \<not> deleted then ok () else check_delete_loop fuel iptables check delete))"

definition remove_iptables_rule ::
  "nat \<Rightarrow> string \<Rightarrow> string \<Rightarrow> string \<Rightarrow> string list \<Rightarrow> (stop + unit) prog" where
  "remove_iptables_rule fuel iptables table chain args =
     check_delete_loop fuel iptables (stale_args table ''-C'' chain args) (stale_args table ''-D'' chain args)"

definition local_match :: "string list" where
  "local_match = [''-m'', ''addrtype'', ''--dst-type'', ''LOCAL'']"

definition stale_rules :: "(string \<times> string \<times> string list) list" where
  "stale_rules =
     map (\<lambda>chain. (''filter'', ''FORWARD'', [''-j'', chain])) FILTER_FORWARD_CHAINS
     @ [(''nat'', ''PREROUTING'', local_match @ [''-j'', ''DOCKER'']),
        (''nat'', ''OUTPUT'', local_match @ [''!'', ''--dst'', ''127.0.0.0/8'', ''-j'', ''DOCKER'']),
        (''nat'', ''OUTPUT'', local_match @ [''-j'', ''DOCKER''])]"

definition chain_deletions :: "string list list" where
  "chain_deletions =
     concat (map (\<lambda>chain. [[''-F'', chain], [''-X'', chain]]) FILTER_DELETE_CHAINS)
     @ [[''-t'', ''nat'', ''-F'', ''DOCKER''], [''-t'', ''nat'', ''-X'', ''DOCKER'']]"

definition cleanup_stale_iptables :: "nat \<Rightarrow> environment \<Rightarrow> (stop + unit) prog" where
  "cleanup_stale_iptables fuel e =
     then_do (docker_pick_iptables e) (\<lambda>found.
       case found of
         None \<Rightarrow> ok ()
       | Some iptables \<Rightarrow>
           try_do (for_each stale_rules (\<lambda>(table, chain, args). remove_iptables_rule fuel iptables table chain args)) (\<lambda>_.
           then_do (for_all chain_deletions (\<lambda>args.
             then_do (docker_command_success_null iptables args) (\<lambda>_. Ret ()))) (\<lambda>_. ok ())))"

end
