(* ===== verification/DockerStart.thy ===== *)
theory DockerStart
  imports DockerStop
begin

text \<open>
  \<open>achost-docker-runtime\<close>: the native root, cgroups, the supervisor, the daemons, the
  diagnostics, \<open>start\<close> and \<open>main\<close>. An error of \<open>start\<close> is \<open>Failed\<close> with its text and exit
  code 1; \<open>StillRunning\<close> only comes from the loops that clean the packet filter.
\<close>

section \<open>Waiting\<close>

text \<open>\<open>for _ in 0..n { if p { return true } sleep(1 s) } false\<close>\<close>

fun poll :: "nat \<Rightarrow> bool prog \<Rightarrow> bool prog" where
  "poll 0 p = Ret False"
| "poll (Suc n) p =
     then_do p (\<lambda>b. if b then Ret True else then_do (sleep 1000) (\<lambda>_. poll n p))"

definition wait_for_socket :: "string \<Rightarrow> bool prog" where
  "wait_for_socket path = poll 30 (ask (IsSocket path))"

definition wait_for_containerd_api :: "docker_config \<Rightarrow> bool prog" where
  "wait_for_containerd_api config =
     poll 15 (docker_command_success_null (path_join (dc_achost_bin config) ''ctr'')
       [''--address'', dc_containerd_address config, ''version''])"

definition wait_for_docker_api :: "docker_config \<Rightarrow> bool prog" where
  "wait_for_docker_api config =
     poll 30 (docker_command_success_null (path_join (dc_achost_bin config) ''docker'')
       [''--host'', dc_docker_host config, ''info''])"

definition wait_for_bridge :: "string \<Rightarrow> bool prog" where
  "wait_for_bridge bridge = poll 30 (docker_command_success_null ''ip'' [''addr'', ''show'', bridge])"

section \<open>Native root and compatibility socket\<close>

definition symlink_replace :: "string \<Rightarrow> string \<Rightarrow> unit prog" where
  "symlink_replace src dst =
     then_do (remove_path_quiet dst) (\<lambda>_. then_do (act (MakeSymlink src dst)) (\<lambda>_. Ret ()))"

definition write_native_resolv_conf :: "docker_config \<Rightarrow> unit io prog" where
  "write_native_resolv_conf config =
     (let etc = path_join (dc_native_root config) ''etc''
      in try_do (act (CreateDirAll etc)) (\<lambda>_.
         try_do (act (WriteFile (path_join etc ''resolv.conf'')
                   (unlines (map (\<lambda>server. ''nameserver '' @ server) (dc_dns_servers config))))) (\<lambda>_.
           act (WriteFile (path_join etc ''hosts'') (unlines [''127.0.0.1 localhost'', ''::1 localhost''])))))"

definition setup_native_ca_certs :: "docker_config \<Rightarrow> unit prog" where
  "setup_native_ca_certs config =
     then_do (ask (IsDir ''/system/etc/security/cacerts'')) (\<lambda>b.
       if \<not> b then Ret ()
       else let ssl = path_join (dc_native_root config) ''etc/ssl''
            in then_do (act (CreateDirAll ssl)) (\<lambda>_.
                 symlink_replace ''/system/etc/security/cacerts'' (path_join ssl ''certs'')))"

definition prepare_native_root :: "docker_config \<Rightarrow> unit io prog" where
  "prepare_native_root config =
     (let root = dc_native_root config
      in try_do (act (CreateDirAll root)) (\<lambda>_.
         try_do (for_each [''etc'', ''run'', ''tmp'', ''var''] (\<lambda>d. act (CreateDirAll (path_join root d)))) (\<lambda>_.
         then_do (symlink_replace ''/run'' (path_join root ''var/run'')) (\<lambda>_.
         try_do (write_native_resolv_conf config) (\<lambda>_.
         then_do (setup_native_ca_certs config) (\<lambda>_. ok ()))))))"

definition compat_root :: "docker_config \<Rightarrow> string option" where
  "compat_root config =
     (if dc_use_chroot config then Some (dc_chroot config)
      else if dc_runtime_mode config = ''native'' then Some (dc_native_root config)
      else None)"

definition quietly :: "act \<Rightarrow> unit prog" where
  "quietly c = then_do (act c) (\<lambda>_. Ret ())"

text \<open>The two arms that place the socket below a root; the suffix of \<open>/var/run\<close> is relative.\<close>

definition compat_in_root :: "string \<Rightarrow> string \<Rightarrow> unit prog" where
  "compat_in_root root socket =
     (if docker_path_starts_with socket ''/var/run''
      then then_do (quietly (CreateDirAll (path_join root ''run''))) (\<lambda>_.
           then_do (quietly (CreateDirAll (path_join root ''var''))) (\<lambda>_.
           then_do (remove_file_quiet (path_join root ''var/run'')) (\<lambda>_.
           then_do (quietly (MakeSymlink ''/run'' (path_join root ''var/run''))) (\<lambda>_.
             case path_strip_prefix socket ''/var/run'' of
               None \<Rightarrow> Ret ()
             | Some inner \<Rightarrow>
                 remove_file_quiet (path_join (path_join root ''run'')
                   (str_join ''/'' (map (\<lambda>c. case c of Normal n \<Rightarrow> n | ParentDir \<Rightarrow> ''..''
                      | CurDir \<Rightarrow> ''.'' | RootDir \<Rightarrow> []) inner)))))))
      else if is_absolute socket
      then then_do (case parent_path socket of
                      None \<Rightarrow> Ret ()
                    | Some parent \<Rightarrow> quietly (CreateDirAll (path_join root (strip_absolute parent)))) (\<lambda>_.
             remove_file_quiet (path_join root (strip_absolute socket)))
      else Ret ())"

definition prepare_compat_socket :: "docker_config \<Rightarrow> string option prog" where
  "prepare_compat_socket config =
     (case (dc_compat_host config, dc_compat_socket config) of
        (Some host, Some socket) \<Rightarrow>
          if (case dc_docker_socket config of None \<Rightarrow> False | Some s \<Rightarrow> path_eq s socket) then Ret None
          else (case compat_root config of
             Some root \<Rightarrow> then_do (compat_in_root root socket) (\<lambda>_. Ret (Some host))
           | None \<Rightarrow>
               then_do (case parent_path socket of
                          None \<Rightarrow> ok ()
                        | Some parent \<Rightarrow> act (CreateDirAll parent)) (\<lambda>r.
                 case r of
                   Inl err \<Rightarrow>
                     then_do (eprintln (''warning: unable to create Docker compatibility socket dir: ''
                       @ unwrap_or [] (parent_path socket) @ '': '' @ show_io err)) (\<lambda>_. Ret None)
                 | Inr _ \<Rightarrow> then_do (remove_file_quiet socket) (\<lambda>_. Ret (Some host))))
      | _ \<Rightarrow> Ret None)"

section \<open>Cgroups\<close>

definition cgroup_row :: "string \<Rightarrow> string \<Rightarrow> bool" where
  "cgroup_row controller line =
     (case split_whitespace line of
        name # _ # _ # enabled # _ \<Rightarrow> enabled = ''1'' \<and> name = controller
      | _ \<Rightarrow> False)"

definition cgroup_controller_available :: "string \<Rightarrow> bool prog" where
  "cgroup_controller_available controller =
     then_do (get (ReadText ''/proc/cgroups'')) (\<lambda>r.
       Ret (case r of Inl _ \<Rightarrow> False | Inr cgroups \<Rightarrow> list_ex (cgroup_row controller) (rust_lines cgroups)))"

definition cgroup_mount_of :: "string \<Rightarrow> mount_record \<Rightarrow> bool" where
  "cgroup_mount_of controller m \<longleftrightarrow>
     mr_fs_type m = ''cgroup'' \<and> controller \<in> set (split_char (CHR '','') (mr_options m))"

definition find_cgroup_mount :: "string \<Rightarrow> string option \<Rightarrow> mount_record list \<Rightarrow> string option" where
  "find_cgroup_mount controller preferred mounts =
     map_option mr_destination
       (or_else (Option.bind preferred (\<lambda>p. find (\<lambda>m. mr_destination m = path_string p \<and> cgroup_mount_of controller m) mounts))
                (find (cgroup_mount_of controller) mounts))"

definition cgroup_v1_mount_point :: "string \<Rightarrow> string option \<Rightarrow> string option prog" where
  "cgroup_v1_mount_point controller preferred =
     then_do read_mount_records (\<lambda>mounts. Ret (find_cgroup_mount controller preferred mounts))"

definition has_cgroup_mount :: "string \<Rightarrow> bool prog" where
  "has_cgroup_mount controller = then_do (cgroup_v1_mount_point controller None) (\<lambda>m. Ret (m \<noteq> None))"

definition mount_cgroup :: "string \<Rightarrow> string \<Rightarrow> bool prog" where
  "mount_cgroup controller target = mount_fs ''none'' target ''cgroup'' controller"

definition setup_devices_cgroup :: "unit prog" where
  "setup_devices_cgroup =
     then_do (cgroup_controller_available ''devices'') (\<lambda>available.
     then_do (if available then has_cgroup_mount ''devices'' else Ret True) (\<lambda>skip.
       if skip then Ret ()
       else then_do (act (CreateDirAll DEVICES_CGROUP)) (\<lambda>r.
            then_do (if is_ok r then mount_cgroup ''devices'' DEVICES_CGROUP else Ret False) (\<lambda>mounted.
              if mounted then Ret () else eprintln ''warning: unable to mount devices cgroup''))))"

definition MEMCG :: string where "MEMCG = ''/dev/memcg''"

definition warn_cgroup2_memory :: "unit prog" where
  "warn_cgroup2_memory =
     then_do (get (ReadText ''/sys/fs/cgroup/cgroup.controllers'')) (\<lambda>r.
       if (case r of Inl _ \<Rightarrow> False | Inr s \<Rightarrow> ''memory'' \<in> set (split_whitespace s))
       then eprintln ''warning: memory still exposed in cgroup2; confirm cgroup_no_v2=memory is active''
       else Ret ())"

definition mount_memcg :: "string option prog" where
  "mount_memcg =
     then_do (act (CreateDirAll MEMCG)) (\<lambda>r.
       if \<not> is_ok r then then_do (eprintln ''warning: unable to create /dev/memcg'') (\<lambda>_. Ret None)
       else
         then_do (mount_cgroup ''memory'' MEMCG) (\<lambda>mounted.
           if \<not> mounted
           then then_do (eprintln ''warning: unable to mount memory cgroup at /dev/memcg'') (\<lambda>_. Ret None)
           else then_do (make_mount_private MEMCG) (\<lambda>_. Ret (Some MEMCG))))"

definition ensure_host_memory_cgroup :: "string option prog" where
  "ensure_host_memory_cgroup =
     then_do (cgroup_v1_mount_point ''memory'' (Some MEMCG)) (\<lambda>found.
       case found of
         Some path \<Rightarrow> Ret (Some path)
       | None \<Rightarrow>
           then_do (cgroup_controller_available ''memory'') (\<lambda>available.
             if \<not> available
             then then_do (eprintln ''warning: memory cgroup controller unavailable'') (\<lambda>_. Ret None)
             else then_do warn_cgroup2_memory (\<lambda>_. mount_memcg)))"

definition prepare_cgroups :: "string option prog" where
  "prepare_cgroups = then_do setup_devices_cgroup (\<lambda>_. ensure_host_memory_cgroup)"

section \<open>The supervisor\<close>

definition pid_from_file :: "string \<Rightarrow> nat option prog" where
  "pid_from_file pid_file = then_do (read_trimmed pid_file) (\<lambda>v. Ret (Option.bind v parse_pid))"

definition pid_running_file :: "string \<Rightarrow> bool prog" where
  "pid_running_file pid_file =
     then_do (pid_from_file pid_file) (\<lambda>pid. case pid of None \<Rightarrow> Ret False | Some p \<Rightarrow> docker_pid_alive p)"

definition supervisor_server_running :: "docker_config \<Rightarrow> bool prog" where
  "supervisor_server_running config =
     and_also (pid_running_file (dc_supervisor_pid config)) (ask (IsSocket (dc_supervisor_socket config)))"

definition probe_args :: "docker_config \<Rightarrow> string \<Rightarrow> string list" where
  "probe_args config probe_pid =
     [''--client'', ''--socket'', dc_supervisor_socket config, ''--name'', ''supervisor-probe'', ''--pid-file'',
      probe_pid, ''--'', ''/system/bin/sh'', ''-c'', ''exit 0'']"

definition supervisor_client_usable :: "docker_config \<Rightarrow> bool prog" where
  "supervisor_client_usable config =
     (let probe_pid = path_join (dc_run config) ''achost-supervise.probe.pid''
      in then_do (remove_file_quiet probe_pid) (\<lambda>_.
         then_do (docker_command_success_null (dc_supervise config) (probe_args config probe_pid)) (\<lambda>usable.
         then_do (remove_file_quiet probe_pid) (\<lambda>_. Ret usable))))"

text \<open>\<open>log_stdio\<close> opens the log twice for appending; nothing is written to it here.\<close>

definition log_stdio :: "string \<Rightarrow> unit io prog" where
  "log_stdio path =
     try_do (case parent_path path of None \<Rightarrow> ok () | Some parent \<Rightarrow> act (CreateDirAll parent)) (\<lambda>_.
     try_do (act (AppendFile path [])) (\<lambda>_. act (AppendFile path [])))"

definition server_args :: "docker_config \<Rightarrow> string list" where
  "server_args config =
     [''--server'', ''--socket'', dc_supervisor_socket config, ''--pid-file'', dc_supervisor_pid config,
      ''--native-root'', dc_native_root config]"

definition launch_supervisor :: "docker_config \<Rightarrow> bool prog" where
  "launch_supervisor config =
     then_do (remove_file_quiet (dc_supervisor_pid config)) (\<lambda>_.
     then_do (remove_file_quiet (dc_supervisor_socket config)) (\<lambda>_.
     then_do (log_stdio (dc_supervisor_log config)) (\<lambda>r.
       if \<not> is_ok r
       then then_do (eprintln (''warning: unable to open supervisor log: '' @ dc_supervisor_log config)) (\<lambda>_. Ret False)
       else
         then_do (act (SpawnDaemon (dc_supervise config) (server_args config) [] (Some (dc_supervisor_log config)))) (\<lambda>s.
           if \<not> is_ok s then Ret False
           else poll 10 (and_also (supervisor_server_running config) (supervisor_client_usable config))))))"

definition ensure_supervisor_server :: "docker_config \<Rightarrow> bool prog" where
  "ensure_supervisor_server config =
     then_do (if dc_use_supervisor config then core_is_executable (dc_supervise config) else Ret False) (\<lambda>can.
       if \<not> can then Ret False
       else then_do (supervisor_server_running config) (\<lambda>running.
              if running then supervisor_client_usable config else launch_supervisor config))"

section \<open>The daemons\<close>

definition daemon_client_args :: "docker_config \<Rightarrow> string \<Rightarrow> string \<Rightarrow> string \<Rightarrow> string list \<Rightarrow> string list" where
  "daemon_client_args config name pid_file log_file argv =
     [''--client'', ''--socket'', dc_supervisor_socket config, ''--name'', name, ''--pid-file'', pid_file, ''--'',
      dc_supervise config, ''--launch'', ''--log-file'', log_file, ''--''] @ argv"

definition start_daemon_command :: "docker_config \<Rightarrow> string \<Rightarrow> string \<Rightarrow> string \<Rightarrow> string list \<Rightarrow> bool prog" where
  "start_daemon_command config name pid_file log_file argv =
     then_do (ensure_supervisor_server config) (\<lambda>ready.
       if \<not> ready
       then then_do (eprintln (''error: achost-supervise server unavailable for '' @ name)) (\<lambda>_. Ret False)
       else
         then_do (run_cmd \<lparr>cmd_program = dc_supervise config,
             cmd_args = daemon_client_args config name pid_file log_file argv, cmd_env = [],
             cmd_stdin = InheritIn, cmd_out = InheritOut, cmd_timeout = None\<rparr>) (\<lambda>r.
           if succeeded r then Ret True
           else then_do (eprintln (''error: achost-supervise client failed for '' @ name)) (\<lambda>_. Ret False)))"

definition start_containerd_daemon :: "docker_config \<Rightarrow> bool prog" where
  "start_containerd_daemon config =
     start_daemon_command config ''containerd'' (dc_containerd_pid config) (dc_containerd_log config)
       [path_string (path_join (dc_achost_bin config) ''containerd''), ''--config'',
        path_string (dc_containerd_config config), ''--log-level'', ''debug'']"

definition dockerd_argv :: "docker_config \<Rightarrow> string option \<Rightarrow> string list \<Rightarrow> string list" where
  "dockerd_argv config compat_host extra =
     [path_string (path_join (dc_achost_bin config) ''dockerd''),
      ''--config-file'', path_string (dc_dockerd_config config), ''--data-root'', path_string (dc_docker_root config),
      ''--exec-root'', path_string (dc_docker_exec_root config), ''--pidfile'', path_string (dc_dockerd_pid config),
      ''--host'', dc_docker_host config]
     @ (case compat_host of None \<Rightarrow> [] | Some host \<Rightarrow> [''--host'', host])
     @ (if dc_external_containerd config then [''--containerd'', path_string (dc_containerd_address config)] else [])
     @ extra"

definition start_dockerd :: "docker_config \<Rightarrow> string option \<Rightarrow> string list \<Rightarrow> bool prog" where
  "start_dockerd config compat_host extra =
     start_daemon_command config ''dockerd'' (dc_dockerd_launch_pid config) (dc_dockerd_log config)
       (dockerd_argv config compat_host extra)"

definition core_helper :: "docker_config \<Rightarrow> string" where
  "core_helper config = path_join (dc_common_bin config) ''achost-runtime-core''"

definition reconcile_network_once :: "docker_config \<Rightarrow> bool prog" where
  "reconcile_network_once config =
     then_do (wait_for_bridge (dc_container_bridge config)) (\<lambda>up.
       if \<not> up then Ret False
       else then_do (core_is_executable (core_helper config)) (\<lambda>can.
              if can then docker_command_success_null (core_helper config) [''net-reconcile''] else Ret True))"

definition docker_protect_daemons :: "docker_config \<Rightarrow> unit prog" where
  "docker_protect_daemons config =
     then_do (core_is_executable (core_helper config)) (\<lambda>can.
       if can then then_do (docker_command_success_null (core_helper config) [''protect-daemons'']) (\<lambda>_. Ret ())
       else Ret ())"

definition spawn_network_watchdog :: "docker_config \<Rightarrow> unit prog" where
  "spawn_network_watchdog config =
     then_do (core_is_executable (core_helper config)) (\<lambda>can.
       if \<not> can then Ret ()
       else quietly (SpawnDaemon (core_helper config) [''net-watchdog'']
              [(''ACHOST_NET_LOG'', dc_network_watchdog_log config), (''ACHOST_NET_PID'', dc_network_watchdog_pid config)]
              None))"

section \<open>Diagnostics\<close>

definition print_path_state :: "string \<Rightarrow> unit prog" where
  "print_path_state path =
     then_do (ask (Exists path)) (\<lambda>present.
       if \<not> present then println (path @ ''=missing'')
       else then_do (if nul_free path then ask (PathWritable path) else Ret False) (\<lambda>w.
              println (path @ (if w then ''=present,writable'' else ''=present,not-writable''))))"

definition mount_namespace :: "nat \<Rightarrow> string option prog" where
  "mount_namespace pid =
     then_do (get (ReadLink (proc_path pid @ ''/ns/mnt''))) (\<lambda>r.
       Ret (case r of Inl _ \<Rightarrow> None | Inr p \<Rightarrow> Some (path_string p)))"

definition cgroup2_diagnostics :: "string \<Rightarrow> unit prog" where
  "cgroup2_diagnostics dir =
     then_do (println (''cgroup2_path='' @ dir)) (\<lambda>_.
     for_all [''cgroup.controllers'', ''cgroup.subtree_control'', ''cgroup.type'', ''memory.current'', ''memory.max'',
              ''memory.swap.current'', ''memory.swap.max'', ''memory.oom.group''] (\<lambda>file.
       then_do (get (ReadText (path_join dir file))) (\<lambda>r.
         println (''cgroup2_'' @ file @ ''='' @ (case r of Inl _ \<Rightarrow> ''missing'' | Inr v \<Rightarrow> trim_end v)))))"

definition print_controller_state :: "string \<Rightarrow> string \<Rightarrow> unit prog" where
  "print_controller_state label controller =
     then_do (cgroup_controller_available controller) (\<lambda>available.
       println (label @ (if available then ''=available-not-mounted'' else ''=unavailable'')))"

definition print_cgroup_mounts :: "unit prog" where
  "print_cgroup_mounts =
     then_do read_mount_records (\<lambda>mounts.
     then_do (for_all (filter (\<lambda>m. mr_fs_type m = ''cgroup'' \<or> mr_fs_type m = ''cgroup2'') mounts) (\<lambda>m.
       println (''cgroup_mount='' @ mr_destination m @ '':'' @ mr_fs_type m @ '':'' @ mr_options m))) (\<lambda>_.
     then_do read_mount_records (\<lambda>mounts.
       if list_ex (\<lambda>m. mr_destination m = ''/sys/fs/cgroup'' \<and> mr_fs_type m = ''cgroup2'') mounts
       then cgroup2_diagnostics ''/sys/fs/cgroup'' else Ret ())))"

definition print_cgroup_diagnostics :: "unit prog" where
  "print_cgroup_diagnostics =
     then_do (has_cgroup_mount ''devices'') (\<lambda>mounted.
     then_do (if mounted then println ''devices_cgroup=mounted''
              else print_controller_state ''devices_cgroup'' ''devices'') (\<lambda>_.
     then_do (cgroup_v1_mount_point ''memory'' (Some MEMCG)) (\<lambda>memory.
     then_do (case memory of
                Some path \<Rightarrow> println (''memory_cgroup=mounted path='' @ path)
              | None \<Rightarrow> print_controller_state ''memory_cgroup'' ''memory'') (\<lambda>_.
     then_do (print_path_state MEMCG) (\<lambda>_.
     then_do (print_path_state ''/dev/memcg/memory.limit_in_bytes'') (\<lambda>_.
     then_do (get (ReadText ''/sys/fs/cgroup/cgroup.controllers'')) (\<lambda>r.
     then_do (case r of
                Inl _ \<Rightarrow> Ret ()
              | Inr s \<Rightarrow>
                  then_do (println (''cgroup2_controllers='' @ trim_end s)) (\<lambda>_.
                    println (if ''memory'' \<in> set (split_whitespace (trim_end s))
                             then ''cgroup2_memory=present'' else ''cgroup2_memory=absent''))) (\<lambda>_.
       print_cgroup_mounts))))))))"

definition alive_pid :: "string \<Rightarrow> nat option prog" where
  "alive_pid pid_file =
     then_do (pid_from_file pid_file) (\<lambda>pid.
       case pid of
         None \<Rightarrow> Ret None
       | Some p \<Rightarrow> then_do (docker_pid_alive p) (\<lambda>alive. Ret (if alive then Some p else None)))"

definition print_link :: "string \<Rightarrow> string \<Rightarrow> unit prog" where
  "print_link label path =
     then_do (ask (Exists path)) (\<lambda>present.
       if \<not> present then Ret ()
       else then_do (get (ReadLink path)) (\<lambda>r.
              println (label @ ''='' @ (case r of Inl _ \<Rightarrow> [] | Inr p \<Rightarrow> path_string p))))"

definition supervisor_preflight :: "docker_config \<Rightarrow> nat \<Rightarrow> unit prog" where
  "supervisor_preflight config pid =
     (let root = proc_path pid @ ''/root''
      in then_do (println (''supervisor_pid='' @ show_nat pid)) (\<lambda>_.
         then_do (for_all ([''run'', ''var/run'', ''sys/fs/cgroup'', ''sys/fs/cgroup/memory/memory.limit_in_bytes'',
                            ''sys/fs/cgroup/cpuset/cpuset.cpus'']
                    @ (case dc_docker_socket config of None \<Rightarrow> [] | Some s \<Rightarrow> [strip_absolute s])
                    @ [strip_absolute (dc_containerd_address config)])
                    (\<lambda>p. print_path_state (path_join root p))) (\<lambda>_.
         then_do (print_link ''native_var_run_target'' (path_join root ''var/run'')) (\<lambda>_.
           print_link ''supervisor_mnt_ns'' (proc_path pid @ ''/ns/mnt'')))))"

definition native_preflight :: "docker_config \<Rightarrow> unit prog" where
  "native_preflight config =
     then_do (for_all [(''run'', dc_run config), (''native_root'', dc_native_root config),
                (''docker_root'', dc_docker_root config), (''containerd_root'', dc_containerd_root config),
                (''containerd_state'', dc_containerd_state config)]
                (\<lambda>(label, path). println (''native_path_'' @ label @ ''='' @ path))) (\<lambda>_.
     then_do (for_all [''/run'', ''/var/run'', ''/sys/fs/cgroup''] print_path_state) (\<lambda>_.
     then_do (mount_is_present ''/run'') (\<lambda>b.
     then_do (println (if b then ''global_run_mount=present'' else ''global_run_mount=absent'')) (\<lambda>_.
     then_do (alive_pid (dc_supervisor_pid config)) (\<lambda>pid.
     then_do (case pid of
                Some p \<Rightarrow> supervisor_preflight config p
              | None \<Rightarrow> println ''supervisor=not-running'') (\<lambda>_.
       print_cgroup_diagnostics))))))"

definition print_daemon_namespace :: "string \<Rightarrow> string \<Rightarrow> string \<Rightarrow> unit prog" where
  "print_daemon_namespace supervisor_ns name pid_file =
     then_do (pid_from_file pid_file) (\<lambda>pid.
       case pid of
         None \<Rightarrow> Ret ()
       | Some p \<Rightarrow>
           then_do (mount_namespace p) (\<lambda>ns.
             let daemon_ns = unwrap_or [] ns
             in println (name @ ''_mnt_ns='' @ daemon_ns
                  @ (if supervisor_ns \<noteq> [] \<and> daemon_ns = supervisor_ns then '' match=1''
                     else '' match=0 supervisor='' @ supervisor_ns))))"

definition namespace_diagnostics :: "docker_config \<Rightarrow> unit prog" where
  "namespace_diagnostics config =
     (if dc_runtime_mode config \<noteq> ''native'' then Ret ()
      else then_do (alive_pid (dc_supervisor_pid config)) (\<lambda>pid.
        case pid of
          None \<Rightarrow> Ret ()
        | Some p \<Rightarrow>
            then_do (mount_namespace p) (\<lambda>ns.
              for_all [(''containerd'', dc_containerd_pid config), (''dockerd'', dc_dockerd_pid config),
                       (''dockerd_launch'', dc_dockerd_launch_pid config)]
                (\<lambda>(name, pid_file). print_daemon_namespace (unwrap_or [] ns) name pid_file))))"

end
