(* ===== verification/DockerMain.thy ===== *)
theory DockerMain
  imports DockerStart
begin

text \<open>
  \<open>achost-docker-runtime\<close>: \<open>start_runtime\<close> and \<open>main\<close>. An error of \<open>start\<close> is \<open>Failed\<close> with
  its text; \<open>fuel\<close> bounds the loops that clean the packet filter.
\<close>

section \<open>Start\<close>

abbreviation refuse :: "string \<Rightarrow> (stop + 'a) prog" where
  "refuse message \<equiv> fail (runtime_err 1 message)"

definition start_try :: "'a result prog \<Rightarrow> (stop + 'a) prog" where
  "start_try p = map_err (runtime_err 1) p"

definition missing_executable :: "string \<Rightarrow> string" where
  "missing_executable path = ''missing executable: '' @ path"

definition require_start_executables :: "docker_config \<Rightarrow> unit result prog" where
  "require_start_executables config =
     for_each [''docker'', ''dockerd'', ''containerd'', ''containerd-shim-runc-v2'', ''ctr'', ''runc''] (\<lambda>name.
       let path = path_join (dc_achost_bin config) name
       in then_do (core_is_executable path) (\<lambda>b. if b then ok () else fail (missing_executable path)))"

definition create_parent :: "string \<Rightarrow> string \<Rightarrow> unit result prog" where
  "create_parent what path =
     (case parent_path path of
        None \<Rightarrow> ok ()
      | Some parent \<Rightarrow> io_context (''create '' @ what @ '' directory failed'') (act (CreateDirAll parent)))"

definition create_start_dirs :: "docker_config \<Rightarrow> unit result prog" where
  "create_start_dirs config =
     try_do (for_each [dc_docker_root config, dc_docker_exec_root config, dc_containerd_root config,
                       dc_containerd_state config, dc_run config, dc_native_root config]
               (\<lambda>path. io_context (''create '' @ path @ '' failed'') (act (CreateDirAll path)))) (\<lambda>_.
     try_do (for_each [dc_supervisor_log config, dc_dockerd_log config, dc_containerd_log config]
               (create_parent ''log'')) (\<lambda>_.
     try_do (io_context ''create Docker config directory failed''
               (act (CreateDirAll (path_join (dc_docker_config config) ''cli-plugins'')))) (\<lambda>_.
       create_parent ''containerd config'' (dc_containerd_config config))))"

definition bool01 :: "bool \<Rightarrow> string" where
  "bool01 b = (if b then ''1'' else ''0'')"

definition start_checks :: "docker_config \<Rightarrow> unit result prog" where
  "start_checks config =
     try_do (require_start_executables config) (\<lambda>_.
     try_do (create_start_dirs config) (\<lambda>_.
     then_do (println (''runtime_mode='' @ dc_runtime_mode config)) (\<lambda>_.
     then_do (println (''use_chroot='' @ bool01 (dc_use_chroot config))) (\<lambda>_.
     then_do (println (''cgroup_mode='' @ dc_cgroup_mode config)) (\<lambda>_.
     then_do (println (''chroot_launch_mode='' @ dc_chroot_launch_mode config)) (\<lambda>_.
     if \<not> dc_use_supervisor config
     then fail ''Docker native startup requires achost-supervise; ACHOST_USE_SUPERVISOR=0 is unsupported''
     else then_do (core_is_executable (dc_supervise config)) (\<lambda>can.
       if \<not> can then fail (missing_executable (dc_supervise config))
       else if dc_use_chroot config
       then fail ''Docker chroot startup is not supported by achost-docker-runtime start; use native runtime''
       else ok ())))))))"

definition start_host :: "docker_config \<Rightarrow> unit result prog" where
  "start_host config =
     try_do (io_context ''prepare native root failed'' (prepare_native_root config)) (\<lambda>_.
     then_do prepare_cgroups (\<lambda>_.
     then_do (ensure_supervisor_server config) (\<lambda>ready.
       if \<not> ready then fail (''native supervisor server not ready: '' @ dc_supervisor_socket config)
       else
         then_do (native_preflight config) (\<lambda>_.
         then_do (docker_protect_daemons config) (\<lambda>_.
         then_do (spawn_network_watchdog config) (\<lambda>_.
           io_context ''write Docker runtime configs failed'' (write_configs config)))))))"

definition say_pid :: "string \<Rightarrow> string \<Rightarrow> unit prog" where
  "say_pid label pid_file =
     then_do (read_trimmed pid_file) (\<lambda>pid. case pid of None \<Rightarrow> Ret () | Some p \<Rightarrow> println (label @ p))"

definition not_ready :: "string \<Rightarrow> string \<Rightarrow> string \<Rightarrow> string" where
  "not_ready what path log = what @ '' not ready: '' @ path @ '' log='' @ log"

definition start_containerd :: "docker_config \<Rightarrow> unit result prog" where
  "start_containerd config =
     (if \<not> dc_external_containerd config
      then then_do (remove_file_quiet (dc_containerd_pid config)) (\<lambda>_.
           then_do (remove_file_quiet (dc_containerd_address config)) (\<lambda>_.
           then_do (println ''external containerd disabled; dockerd will manage containerd'') (\<lambda>_. ok ())))
      else
        then_do (pid_running_file (dc_containerd_pid config)) (\<lambda>running.
        try_do (if running
                then then_do (say_pid ''containerd already running pid='' (dc_containerd_pid config)) (\<lambda>_. ok ())
                else
                  then_do (remove_file_quiet (dc_containerd_pid config)) (\<lambda>_.
                  then_do (remove_file_quiet (dc_containerd_address config)) (\<lambda>_.
                  then_do (start_containerd_daemon config) (\<lambda>started.
                    if started then ok () else fail ''containerd launch failed through achost-supervise'')))) (\<lambda>_.
        then_do (wait_for_socket (dc_containerd_address config)) (\<lambda>up.
          if \<not> up then fail (not_ready ''containerd socket'' (dc_containerd_address config) (dc_containerd_log config))
          else
            then_do (say_pid ''containerd started pid='' (dc_containerd_pid config)) (\<lambda>_.
            then_do (wait_for_containerd_api config) (\<lambda>api.
              if api then then_do (println ''containerd_api=ready'') (\<lambda>_. ok ())
              else fail (not_ready ''containerd API'' (dc_containerd_address config) (dc_containerd_log config))))))))"

definition run_docker_daemon ::
  "nat \<Rightarrow> environment \<Rightarrow> docker_config \<Rightarrow> string option \<Rightarrow> string list \<Rightarrow> (stop + unit) prog" where
  "run_docker_daemon fuel e config compat_host extra =
     then_do (pid_running_file (dc_dockerd_pid config)) (\<lambda>running.
       if running then then_do (say_pid ''dockerd already running pid='' (dc_dockerd_pid config)) (\<lambda>_. ok ())
       else
         then_do (remove_file_quiet (dc_dockerd_pid config)) (\<lambda>_.
         then_do (remove_file_quiet (dc_dockerd_launch_pid config)) (\<lambda>_.
         then_do (remove_opt_quiet (dc_docker_socket config)) (\<lambda>_.
         then_do (remove_opt_quiet (dc_compat_socket config)) (\<lambda>_.
         try_do (cleanup_stale_iptables fuel e) (\<lambda>_.
         then_do (start_dockerd config compat_host extra) (\<lambda>started.
           if started then ok () else refuse ''dockerd launch failed through achost-supervise'')))))))"

definition dockerd_pid_for_display :: "docker_config \<Rightarrow> string option prog" where
  "dockerd_pid_for_display config =
     then_do (pid_running_file (dc_dockerd_pid config)) (\<lambda>running.
       if running then read_trimmed (dc_dockerd_pid config) else Ret None)"

definition await_docker :: "docker_config \<Rightarrow> unit result prog" where
  "await_docker config =
     (case dc_docker_socket config of
        None \<Rightarrow> ok ()
      | Some socket \<Rightarrow>
          then_do (wait_for_socket socket) (\<lambda>up.
            if \<not> up then fail (not_ready ''dockerd socket'' socket (dc_dockerd_log config))
            else
              then_do (dockerd_pid_for_display config) (\<lambda>pid.
              then_do (case pid of None \<Rightarrow> Ret () | Some p \<Rightarrow> println (''dockerd started pid='' @ p)) (\<lambda>_.
              then_do (supervisor_server_running config) (\<lambda>supervised.
              then_do (if supervised then say_pid ''supervisor_pid='' (dc_supervisor_pid config) else Ret ()) (\<lambda>_.
              then_do (wait_for_docker_api config) (\<lambda>api.
                if api then then_do (println ''dockerd_api=ready'') (\<lambda>_. ok ())
                else fail (not_ready ''dockerd API'' socket (dc_dockerd_log config)))))))))"

definition start_report :: "docker_config \<Rightarrow> string option \<Rightarrow> unit prog" where
  "start_report config compat_host =
     then_do (namespace_diagnostics config) (\<lambda>_.
     then_do (reconcile_network_once config) (\<lambda>reconciled.
     then_do (if reconciled then println (''network reconciled bridge='' @ dc_container_bridge config)
              else eprintln (''warning: network reconciliation pending bridge='' @ dc_container_bridge config
                     @ '' log='' @ dc_network_watchdog_log config)) (\<lambda>_.
     then_do (println (''DOCKER_HOST='' @ dc_docker_host config)) (\<lambda>_.
     then_do (case compat_host of None \<Rightarrow> Ret () | Some host \<Rightarrow> println (''DOCKER_COMPAT_HOST='' @ host)) (\<lambda>_.
     then_do (println (''dockerd_log='' @ dc_dockerd_log config)) (\<lambda>_.
       println (''containerd_log='' @ dc_containerd_log config)))))))"

definition start_runtime :: "nat \<Rightarrow> environment \<Rightarrow> docker_config \<Rightarrow> string list \<Rightarrow> (stop + unit) prog" where
  "start_runtime fuel e config extra =
     try_do (start_try (start_checks config)) (\<lambda>_.
     try_do (start_try (start_host config)) (\<lambda>_.
     try_do (start_try (start_containerd config)) (\<lambda>_.
     then_do (prepare_compat_socket config) (\<lambda>compat_host.
     try_do (run_docker_daemon fuel e config compat_host extra) (\<lambda>_.
     try_do (start_try (await_docker config)) (\<lambda>_.
     then_do (start_report config compat_host) (\<lambda>_. ok ())))))))"

section \<open>Main\<close>

definition run_prepare_native_root :: "docker_config \<Rightarrow> int prog" where
  "run_prepare_native_root config =
     then_do (prepare_native_root config) (\<lambda>r.
       case r of
         Inl err \<Rightarrow> then_do (eprintln (''prepare native root failed: '' @ show_io err)) (\<lambda>_. Ret 1)
       | Inr _ \<Rightarrow> Ret 0)"

definition run_prepare_compat_socket :: "docker_config \<Rightarrow> int prog" where
  "run_prepare_compat_socket config =
     then_do (prepare_compat_socket config) (\<lambda>host.
       case host of None \<Rightarrow> Ret 0 | Some h \<Rightarrow> then_do (println h) (\<lambda>_. Ret 0))"

definition run_prepare_cgroups :: "bool \<Rightarrow> int prog" where
  "run_prepare_cgroups print_memory =
     then_do prepare_cgroups (\<lambda>memory_mount.
       if \<not> print_memory then Ret 0
       else case memory_mount of None \<Rightarrow> Ret 1 | Some path \<Rightarrow> then_do (println path) (\<lambda>_. Ret 0))"

definition docker_run_write_configs :: "docker_config \<Rightarrow> int prog" where
  "docker_run_write_configs config =
     then_do (write_configs config) (\<lambda>r.
       case r of
         Inl err \<Rightarrow> then_do (eprintln (''write Docker runtime configs failed: '' @ show_io err)) (\<lambda>_. Ret 1)
       | Inr _ \<Rightarrow> Ret 0)"

definition docker_run_start :: "nat \<Rightarrow> environment \<Rightarrow> docker_config \<Rightarrow> string list \<Rightarrow> (stop + int) prog" where
  "docker_run_start fuel e config extra =
     then_do (start_runtime fuel e config extra) (\<lambda>r.
       case r of
         Inr _ \<Rightarrow> ok 0
       | Inl StillRunning \<Rightarrow> fail StillRunning
       | Inl (Failed err) \<Rightarrow> then_do (eprintln (re_message err)) (\<lambda>_. ok 1))"

definition docker_usage :: string where
  "docker_usage = ''usage: achost-docker-runtime <cleanup-stale-iptables|prepare-native-root|native-preflight|''
     @ ''prepare-compat-socket|prepare-cgroups|write-configs|namespace-diagnostics|start|stop>''"

definition docker_main :: "nat \<Rightarrow> environment \<Rightarrow> string option \<Rightarrow> string list \<Rightarrow> (stop + int) prog" where
  "docker_main fuel e exe args =
     (let with_config = (\<lambda>f. then_do (docker_config_from_env e exe) f);
          code = (\<lambda>p. then_do p (\<lambda>c. ok c))
      in case nth_opt args 1 of
           None \<Rightarrow> then_do (eprintln docker_usage) (\<lambda>_. ok 2)
         | Some command \<Rightarrow>
             if command = ''cleanup-stale-iptables'' then try_do (cleanup_stale_iptables fuel e) (\<lambda>_. ok 0)
             else if command = ''prepare-native-root'' then with_config (\<lambda>c. code (run_prepare_native_root c))
             else if command = ''native-preflight''
             then with_config (\<lambda>c. then_do (native_preflight c) (\<lambda>_. ok 0))
             else if command = ''prepare-compat-socket'' then with_config (\<lambda>c. code (run_prepare_compat_socket c))
             else if command = ''prepare-cgroups'' then code (run_prepare_cgroups (''--print-memory'' \<in> set (drop 2 args)))
             else if command = ''write-configs'' then with_config (\<lambda>c. code (docker_run_write_configs c))
             else if command = ''namespace-diagnostics''
             then with_config (\<lambda>c. then_do (namespace_diagnostics c) (\<lambda>_. ok 0))
             else if command = ''start'' then with_config (\<lambda>c. docker_run_start fuel e c (drop 2 args))
             else if command = ''stop'' then code (docker_run_stop e exe)
             else then_do (eprintln (''unsupported command: '' @ command)) (\<lambda>_. ok 2))"

end
