(* ===== verification/SupMain.thy ===== *)
theory SupMain
  imports SupRoot
begin

text \<open>
  \<open>achost-supervise\<close>: the accept loop of the server, the loop that supervises one command,
  the options and \<open>main\<close>. The flags the signal handler sets are answers of the system:
  \<open>Terminated\<close> for \<open>STOP_SERVER\<close>, \<open>TakeSignal\<close> for \<open>PENDING_SIGNAL\<close>. The loops take the
  number of rounds they may make; running out is \<open>StillRunning\<close>.
\<close>

section \<open>Server\<close>

text \<open>The listener is named by its path; \<open>bind\<close>, \<open>set_permissions\<close>, \<open>set_nonblocking\<close>.\<close>

definition create_server_socket :: "string \<Rightarrow> unit io prog" where
  "create_server_socket socket_path =
     then_do (act (RemoveFile socket_path)) (\<lambda>_.
     try_do (act (BindListener socket_path)) (\<lambda>_.
     try_do (act (SetMode socket_path 384)) (\<lambda>_. act (SetNonblocking socket_path))))"

definition set_subreaper :: "unit io prog" where
  "set_subreaper = act (Prctl PR_SET_CHILD_SUBREAPER 1)"

text \<open>What comes before the loop; the error is the line that is printed.\<close>

definition server_setup :: "string \<Rightarrow> string \<Rightarrow> string option \<Rightarrow> string option \<Rightarrow> unit result prog" where
  "server_setup socket_path pid_file pivot_root_path native_root_path =
     try_do (io_context ''sigaction'' install_handlers) (\<lambda>_.
     then_do (set_signal SIGPIPE SIG_IGN) (\<lambda>_.
     try_do (io_context ''prctl(PR_SET_CHILD_SUBREAPER)'' set_subreaper) (\<lambda>_.
     try_do (case pivot_root_path of None \<Rightarrow> ok () | Some p \<Rightarrow> io_context ''pivot_root'' (pivot_to_root p)) (\<lambda>_.
     try_do (case native_root_path of None \<Rightarrow> ok () | Some p \<Rightarrow> io_context ''native root'' (setup_native_root p)) (\<lambda>_.
       io_context ''create supervisor socket'' (create_server_socket socket_path))))))"

definition accept_client :: "unit prog" where
  "accept_client =
     then_do (num AcceptStream) (\<lambda>r.
       case r of
         Inr stream \<Rightarrow> handle_client stream
       | Inl err \<Rightarrow>
           if errno_of err = Some 11 then sleep 250
           else if errno_of err = Some 4 then Ret ()
           else then_do (eprintln (''accept: '' @ show_io err)) (\<lambda>_. sleep 1000))"

fun server_loop :: "nat \<Rightarrow> (stop + unit) prog" where
  "server_loop 0 = fail StillRunning"
| "server_loop (Suc fuel) =
     then_do (ask Terminated) (\<lambda>stop.
       if stop then ok ()
       else try_do (reap_children fuel ''achost-supervise'') (\<lambda>_.
            then_do accept_client (\<lambda>_. server_loop fuel)))"

definition server_stop :: "nat \<Rightarrow> string \<Rightarrow> string \<Rightarrow> (stop + int) prog" where
  "server_stop fuel socket_path pid_file =
     then_do (act (RemoveFile socket_path)) (\<lambda>_.
     then_do (act (RemoveFile pid_file)) (\<lambda>_.
     try_do (reap_children fuel ''achost-supervise'') (\<lambda>_. ok 0)))"

text \<open>From the pid file to the end.\<close>

definition server_serve :: "nat \<Rightarrow> string \<Rightarrow> string \<Rightarrow> (stop + int) prog" where
  "server_serve fuel socket_path pid_file =
     then_do (query ProcessId) (\<lambda>pid.
     then_do (write_pid_file pid_file pid) (\<lambda>w.
       case w of
         Inl err \<Rightarrow>
           then_do (eprintln (''write supervisor pid file: '' @ show_io err)) (\<lambda>_.
           then_do (act (RemoveFile socket_path)) (\<lambda>_. ok 1))
       | Inr _ \<Rightarrow>
           then_do (query ProcessId) (\<lambda>pid.
           then_do (eprintln (''achost-supervise: server pid='' @ show_nat pid @ '' socket='' @ socket_path)) (\<lambda>_.
           try_do (server_loop fuel) (\<lambda>_. server_stop fuel socket_path pid_file)))))"

definition run_server :: "nat \<Rightarrow> string \<Rightarrow> string \<Rightarrow> string option \<Rightarrow> string option \<Rightarrow> (stop + int) prog" where
  "run_server fuel socket_path pid_file pivot_root_path native_root_path =
     then_do (server_setup socket_path pid_file pivot_root_path native_root_path) (\<lambda>r.
       case r of
         Inl message \<Rightarrow> then_do (eprintln message) (\<lambda>_. ok 1)
       | Inr _ \<Rightarrow> server_serve fuel socket_path pid_file)"

section \<open>One supervised command\<close>

definition forward_pending :: "nat \<Rightarrow> string \<Rightarrow> unit prog" where
  "forward_pending child name =
     then_do (query TakeSignal) (\<lambda>sig.
       if sig = 0 then Ret ()
       else then_do (forward_signal child sig) (\<lambda>_.
            eprintln (name @ '': forwarded signal='' @ show_nat sig)))"

text \<open>
  The loop of \<open>run_legacy\<close>; \<open>main_status\<close> is \<open>None\<close> until the command itself has ended.
  10 is \<open>ECHILD\<close>, 4 \<open>EINTR\<close>.
\<close>

definition legacy_exit_code :: "nat option \<Rightarrow> nat" where
  "legacy_exit_code main_status =
     (case main_status of None \<Rightarrow> exit_code_from_status 0 False | Some status \<Rightarrow> exit_code_from_status status True)"

fun legacy_loop :: "nat \<Rightarrow> nat \<Rightarrow> string \<Rightarrow> string \<Rightarrow> nat option \<Rightarrow> (stop + int) prog" where
  "legacy_loop 0 child pid_file name main_status = fail StillRunning"
| "legacy_loop (Suc fuel) child pid_file name main_status =
     (let pause = then_do (forward_pending child name) (\<lambda>_.
                  then_do (sleep 1000) (\<lambda>_. legacy_loop fuel child pid_file name main_status))
      in then_do (wait WaitAny) (\<lambda>r.
         case r of
           Reaped pid status \<Rightarrow>
             if pid = child
             then then_do (eprintln (name @ '': main pid='' @ show_nat child @ '' exited status=''
                             @ show_nat (exit_code_from_status status True))) (\<lambda>_.
                  legacy_loop fuel child pid_file name (Some status))
             else legacy_loop fuel child pid_file name main_status
         | WaitError err \<Rightarrow>
             if errno_of err = Some 4 then legacy_loop fuel child pid_file name main_status
             else if errno_of err = Some 10
             then then_do (act (RemoveFile pid_file)) (\<lambda>_. ok (int (legacy_exit_code main_status)))
             else then_do (eprintln (''waitpid: '' @ show_io err)) (\<lambda>_. pause)
         | NotYet \<Rightarrow> pause))"

definition run_legacy :: "nat \<Rightarrow> string \<Rightarrow> string \<Rightarrow> string list \<Rightarrow> (stop + int) prog" where
  "run_legacy fuel pid_file name command =
     then_do (try_do (io_context ''sigaction'' install_handlers) (\<lambda>_.
              try_do (io_context ''prctl(PR_SET_CHILD_SUBREAPER)'' set_subreaper) (\<lambda>_.
              then_do (query ProcessId) (\<lambda>pid.
                io_context ''write pid file'' (write_pid_file pid_file pid))))) (\<lambda>r.
       case r of
         Inl message \<Rightarrow> then_do (eprintln message) (\<lambda>_. ok 1)
       | Inr _ \<Rightarrow>
           then_do (fork_exec command) (\<lambda>f.
             case f of
               Inl err \<Rightarrow>
                 then_do (eprintln (''fork: '' @ show_io err)) (\<lambda>_.
                 then_do (act (RemoveFile pid_file)) (\<lambda>_. ok 1))
             | Inr child \<Rightarrow>
                 then_do (eprintln (name @ '': supervising pid='' @ show_nat child)) (\<lambda>_.
                   legacy_loop fuel child pid_file name None)))"

section \<open>Options\<close>

record sup_options =
  so_pid_file :: "string option"
  so_socket_path :: "string option"
  so_name :: string
  so_launch_chroot :: "string option"
  so_launch_pivot_root :: "string option"
  so_native_root :: "string option"
  so_launch_log_file :: "string option"
  so_command_index :: "nat option"
  so_server_mode :: bool
  so_client_mode :: bool
  so_launch_mode :: bool
  so_close_range_enosys :: bool

definition default_options :: sup_options where
  "default_options =
     \<lparr>so_pid_file = None, so_socket_path = None, so_name = ''achost-supervise'', so_launch_chroot = None,
      so_launch_pivot_root = None, so_native_root = None, so_launch_log_file = None, so_command_index = None,
      so_server_mode = False, so_client_mode = False, so_launch_mode = False, so_close_range_enosys = False\<rparr>"

text \<open>The options without a value, and those with one.\<close>

definition set_switch :: "string \<Rightarrow> sup_options \<Rightarrow> sup_options option" where
  "set_switch arg opts =
     (if arg = ''--server'' then Some (opts\<lparr>so_server_mode := True\<rparr>)
      else if arg = ''--client'' then Some (opts\<lparr>so_client_mode := True\<rparr>)
      else if arg = ''--launch'' then Some (opts\<lparr>so_launch_mode := True\<rparr>)
      else if arg = ''--close-range-enosys'' then Some (opts\<lparr>so_close_range_enosys := True\<rparr>)
      else None)"

definition set_value :: "string \<Rightarrow> string \<Rightarrow> sup_options \<Rightarrow> sup_options option" where
  "set_value arg v opts =
     (if arg = ''--socket'' then Some (opts\<lparr>so_socket_path := Some v\<rparr>)
      else if arg = ''--pid-file'' then Some (opts\<lparr>so_pid_file := Some v\<rparr>)
      else if arg = ''--name'' then Some (opts\<lparr>so_name := v\<rparr>)
      else if arg = ''--chroot'' then Some (opts\<lparr>so_launch_chroot := Some v\<rparr>)
      else if arg = ''--pivot-root'' then Some (opts\<lparr>so_launch_pivot_root := Some v\<rparr>)
      else if arg = ''--native-root'' then Some (opts\<lparr>so_native_root := Some v\<rparr>)
      else if arg = ''--log-file'' then Some (opts\<lparr>so_launch_log_file := Some v\<rparr>)
      else None)"

text \<open>The loop, from argument \<open>i\<close> on; \<open>None\<close> is the error.\<close>

fun options_loop :: "string list \<Rightarrow> nat \<Rightarrow> sup_options \<Rightarrow> sup_options option" where
  "options_loop [] i opts = Some opts"
| "options_loop (arg # rest) i opts =
     (case set_switch arg opts of
        Some opts' \<Rightarrow> options_loop rest (i + 1) opts'
      | None \<Rightarrow>
          if arg = ''--'' then Some (opts\<lparr>so_command_index := Some (i + 1)\<rparr>)
          else (case rest of
                  [] \<Rightarrow> None
                | v # rest' \<Rightarrow>
                    (case set_value arg v opts of
                       None \<Rightarrow> None
                     | Some opts' \<Rightarrow> options_loop rest' (i + 2) opts')))"

definition sup_parse_args :: "string list \<Rightarrow> sup_options option" where
  "sup_parse_args args = options_loop (drop 1 args) 1 default_options"

section \<open>Main\<close>

definition sup_usage :: "string \<Rightarrow> unit prog" where
  "sup_usage argv0 =
     eprintln (''usage:'' @ LF # ''  '' @ argv0
       @ '' --server --socket PATH --pid-file PATH [--pivot-root PATH|--native-root PATH]'' @ LF # ''  '' @ argv0
       @ '' --client --socket PATH --pid-file PATH [--name NAME] -- COMMAND [ARG...]'' @ LF # ''  '' @ argv0
       @ '' --launch [--log-file PATH] [--close-range-enosys] [--chroot PATH|--pivot-root PATH|--native-root PATH] -- COMMAND [ARG...]''
       @ LF # ''  '' @ argv0 @ '' --pid-file PATH [--name NAME] -- COMMAND [ARG...]'')"

text \<open>
  The command after \<open>--\<close>; \<open>None\<close> for the tests \<open>command_index == 0\<close> and
  \<open>command_index >= args.len()\<close>, \<open>usize::MAX\<close> standing for no \<open>--\<close>.
\<close>

definition command_of :: "string list \<Rightarrow> sup_options \<Rightarrow> string list option" where
  "command_of args opts =
     (case so_command_index opts of
        None \<Rightarrow> None
      | Some i \<Rightarrow> if i = 0 \<or> i \<ge> length args then None else Some (drop i args))"

datatype sup_mode =
    Launch "string list"
  | Server string string
  | Client string string "string list"
  | Legacy string "string list"

definition launch_mode :: "string list \<Rightarrow> sup_options \<Rightarrow> sup_mode option" where
  "launch_mode args opts =
     (let root_modes = length (filter (\<lambda>enabled. enabled)
            [so_launch_chroot opts \<noteq> None, so_launch_pivot_root opts \<noteq> None, so_native_root opts \<noteq> None])
      in case command_of args opts of
           None \<Rightarrow> None
         | Some command \<Rightarrow>
             if so_server_mode opts \<or> so_client_mode opts \<or> so_pid_file opts \<noteq> None
               \<or> so_socket_path opts \<noteq> None \<or> root_modes > 1
             then None else Some (Launch command))"

definition server_mode :: "sup_options \<Rightarrow> sup_mode option" where
  "server_mode opts =
     (case (so_socket_path opts, so_pid_file opts) of
        (Some socket, Some pid_file) \<Rightarrow>
          if so_client_mode opts \<or> so_launch_chroot opts \<noteq> None \<or> so_launch_log_file opts \<noteq> None
            \<or> so_close_range_enosys opts \<or> so_command_index opts \<noteq> None
            \<or> (so_launch_pivot_root opts \<noteq> None \<and> so_native_root opts \<noteq> None)
          then None else Some (Server socket pid_file)
      | _ \<Rightarrow> None)"

text \<open>The options only \<open>--launch\<close> takes (\<open>--pivot-root\<close> and \<open>--native-root\<close> also \<open>--server\<close>).\<close>

definition launch_only :: "sup_options \<Rightarrow> bool" where
  "launch_only opts \<longleftrightarrow> so_launch_chroot opts \<noteq> None \<or> so_launch_pivot_root opts \<noteq> None
     \<or> so_native_root opts \<noteq> None \<or> so_launch_log_file opts \<noteq> None \<or> so_close_range_enosys opts"

definition client_mode :: "string list \<Rightarrow> sup_options \<Rightarrow> sup_mode option" where
  "client_mode args opts =
     (case (so_socket_path opts, so_pid_file opts, command_of args opts) of
        (Some socket, Some pid_file, Some command) \<Rightarrow>
          if launch_only opts then None else Some (Client socket pid_file command)
      | _ \<Rightarrow> None)"

definition legacy_mode :: "string list \<Rightarrow> sup_options \<Rightarrow> sup_mode option" where
  "legacy_mode args opts =
     (case (so_pid_file opts, command_of args opts) of
        (Some pid_file, Some command) \<Rightarrow> if launch_only opts then None else Some (Legacy pid_file command)
      | _ \<Rightarrow> None)"

definition mode_of :: "string list \<Rightarrow> sup_options \<Rightarrow> sup_mode option" where
  "mode_of args opts =
     (if so_launch_mode opts then launch_mode args opts
      else if so_server_mode opts then server_mode opts
      else if so_client_mode opts then client_mode args opts
      else legacy_mode args opts)"

text \<open>The exit code; \<open>None\<close> when a launched command runs in the place of the program.\<close>

definition sup_main :: "nat \<Rightarrow> (io_error \<Rightarrow> string) \<Rightarrow> string list \<Rightarrow> (stop + int option) prog" where
  "sup_main fuel last_os_error args =
     (let argv0 = (case args of [] \<Rightarrow> ''achost-supervise'' | a # _ \<Rightarrow> a);
          refuse = then_do (sup_usage argv0) (\<lambda>_. ok (Some 2));
          exit_int = (\<lambda>p. try_do p (\<lambda>code. ok (Some code)))
      in case sup_parse_args args of
           None \<Rightarrow> refuse
         | Some opts \<Rightarrow>
             (case mode_of args opts of
                None \<Rightarrow> refuse
              | Some (Launch command) \<Rightarrow>
                  then_do (run_launch (so_launch_chroot opts) (so_launch_pivot_root opts) (so_native_root opts)
                             (so_launch_log_file opts) (so_close_range_enosys opts) command) (\<lambda>code. ok code)
              | Some (Server socket pid_file) \<Rightarrow>
                  exit_int (run_server fuel socket pid_file (so_launch_pivot_root opts) (so_native_root opts))
              | Some (Client socket pid_file command) \<Rightarrow>
                  then_do (send_client_request last_os_error socket pid_file (so_name opts) command)
                    (\<lambda>code. ok (Some code))
              | Some (Legacy pid_file command) \<Rightarrow>
                  exit_int (run_legacy fuel pid_file (so_name opts) command)))"

end
