(* ===== verification/SupRequest.thy ===== *)
theory SupRequest
  imports SupMain
begin

text \<open>
  The request of a client arrives as it was sent. Sockets are not under src/: what the code
  relies on is \<open>recv_step\<close>, a reliable byte stream, which answers a read with the next bytes
  of its buffer and fails when there are too few. The interface between writer and reader is
  the locale \<open>stream_codec\<close>; strings and numbers are its two instances.
\<close>

section \<open>Byte streams\<close>

definition recv_step :: "nat \<Rightarrow> string \<Rightarrow> event \<Rightarrow> string option" where
  "recv_step stream buf e =
     (case e of
        EGet (RecvBytes s n) r \<Rightarrow>
          if s \<noteq> stream then Some buf
          else if n \<le> length buf then (if r = Inr (take n buf) then Some (drop n buf) else None)
          else (case r of Inl _ \<Rightarrow> Some buf | Inr _ \<Rightarrow> None)
      | _ \<Rightarrow> Some buf)"

text \<open>The bytes a program has written to a stream.\<close>

fun sent_bytes :: "nat \<Rightarrow> event \<Rightarrow> string" where
  "sent_bytes stream (EAct (SendBytes s bytes) r) = (if s = stream \<and> r = Inr () then bytes else [])"
| "sent_bytes stream e = []"

definition sent :: "nat \<Rightarrow> event list \<Rightarrow> string" where
  "sent stream t = concat (map (sent_bytes stream) t)"

lemma sent_simps [simp]:
  "sent stream [] = []"
  "sent stream (e # t) = sent_bytes stream e @ sent stream t"
  "sent stream (t @ u) = sent stream t @ sent stream u"
  by (simp_all add: sent_def)

lemma recv_step_take:
  "recv_step stream (bytes @ rest) (EGet (RecvBytes stream (length bytes)) r) = Some buf \<longleftrightarrow>
     r = Inr bytes \<and> buf = rest"
  by (auto simp: recv_step_def)

locale stream_codec =
  fixes enc :: "'a \<Rightarrow> string"
    and dec :: "nat \<Rightarrow> 'a io prog"
    and valid :: "'a \<Rightarrow> bool"
  assumes decodes: "valid x \<Longrightarrow> exec (dec stream) t = Some r
      \<Longrightarrow> runs_on (recv_step stream) t (enc x @ rest) = Some buf \<Longrightarrow> r = Inr x \<and> buf = rest"
begin

lemma decodes_then:
  assumes "valid x" "exec (then_do (dec stream) f) t = Some z"
    and "runs_on (recv_step stream) t (enc x @ rest) = Some buf"
  obtains u v where "t = u @ v" "exec (dec stream) u = Some (Inr x)" "exec (f (Inr x)) v = Some z"
    "runs_on (recv_step stream) v rest = Some buf"
proof -
  from assms(2) obtain u v r where t: "t = u @ v" and u: "exec (dec stream) u = Some r"
    and v: "exec (f r) v = Some z" by (auto simp: exec_then_do)
  from assms(3) t obtain mid where mid: "runs_on (recv_step stream) u (enc x @ rest) = Some mid"
    and run: "runs_on (recv_step stream) v mid = Some buf" by (auto simp: runs_on_append)
  from decodes [OF assms(1) u mid] u v run t that show thesis by auto
qed

lemma decodes_list:
  assumes "list_all valid xs" "length ks = length xs"
    and "exec (collect ks (\<lambda>_. dec stream)) t = Some r"
    and "runs_on (recv_step stream) t (concat (map enc xs) @ rest) = Some buf"
  shows "r = Inr xs \<and> buf = rest"
  using assms
proof (induction xs arbitrary: ks t r)
  case (Cons x xs)
  then obtain k ks' where ks: "ks = k # ks'" "length ks' = length xs" by (cases ks) auto
  from Cons.prems(3) ks have "exec (then_do (dec stream) (\<lambda>a. case a of Inl e \<Rightarrow> fail e
      | Inr y \<Rightarrow> try_do (collect ks' (\<lambda>_. dec stream)) (\<lambda>ys. ok (y # ys)))) t = Some r"
    by (simp only: collect.simps try_do_def)
  then have dec: "exec (then_do (dec stream) (\<lambda>a. case a of Inl e \<Rightarrow> fail e
      | Inr y \<Rightarrow> try_do (collect ks' (\<lambda>_. dec stream)) (\<lambda>ys. ok (y # ys)))) t = Some r" .
  have "valid x" "runs_on (recv_step stream) t (enc x @ concat (map enc xs) @ rest) = Some buf"
    using Cons.prems(1,4) by simp_all
  from decodes_then [OF this(1) dec this(2)] obtain u v
    where v: "exec (try_do (collect ks' (\<lambda>_. dec stream)) (\<lambda>ys. ok (x # ys))) v = Some r"
      and run: "runs_on (recv_step stream) v (concat (map enc xs) @ rest) = Some buf"
    by auto
  from v obtain p q z where vs: "v = p @ z" "exec (collect ks' (\<lambda>_. dec stream)) p = Some q"
    and z: "exec (case q of Inl e \<Rightarrow> fail e | Inr ys \<Rightarrow> ok (x # ys)) z = Some r"
    by (auto simp: try_do_def exec_then_do)
  from z have r: "z = []" "r = (case q of Inl e \<Rightarrow> Inl e | Inr ys \<Rightarrow> Inr (x # ys))"
    by (auto split: sum.splits)
  from Cons.IH [OF _ ks(2), of p q] vs r(1) run Cons.prems(1) have "q = Inr xs \<and> buf = rest" by simp
  with r(2) show ?case by simp
qed simp

end

section \<open>Strings and numbers\<close>

lemma u32_roundtrip: "n < 2 ^ 32 \<Longrightarrow> u32_of_bytes (u32_bytes n) = n"
proof -
  assume n: "n < 2 ^ 32"
  define a where "a = n div 256"
  define b where "b = a div 256"
  define c where "c = b div 256"
  have parts: "n = 256 * a + n mod 256" "a = 256 * b + a mod 256" "b = 256 * c + b mod 256"
    by (simp_all add: a_def b_def c_def)
  have pow: "n div 256 ^ 1 = a" "n div 256 ^ 2 = b" "n div 256 ^ 3 = c"
    by (simp_all add: a_def b_def c_def power2_eq_square power3_eq_cube div_mult2_eq)
  have "c < 256" using n by (simp add: a_def b_def c_def div_mult2_eq [symmetric])
  then have c: "c mod 256 = c" by simp
  then have "n mod 256 + 256 * (a mod 256 + 256 * (b mod 256 + 256 * c)) = n"
    using parts by simp
  then show ?thesis
    using pow c by (simp add: u32_of_bytes_def u32_bytes_def code_of_def of_char_of)
qed

lemma length_u32_bytes [simp]: "length (u32_bytes n) = 4"
  by (simp add: u32_bytes_def)

definition wire_string :: "string \<Rightarrow> string" where
  "wire_string s = u32_bytes (length s) @ s"

definition sendable :: "string \<Rightarrow> bool" where
  "sendable s \<longleftrightarrow> length s \<le> MAX_STRING \<and> is_utf8 s"

lemma exec_recv_then:
  assumes "exec (try_do (get (RecvBytes stream (length bytes))) f) t = Some r"
    and "runs_on (recv_step stream) t (bytes @ rest) = Some buf"
  shows "\<exists>u. exec (f bytes) u = Some r \<and> runs_on (recv_step stream) u rest = Some buf"
proof -
  from assms(1) obtain x u where t: "t = EGet (RecvBytes stream (length bytes)) x # u"
    and u: "exec (case x of Inl e \<Rightarrow> fail e | Inr y \<Rightarrow> f y) u = Some r"
    by (auto simp: try_do_def exec_node)
  from assms(2) t have "x = Inr bytes" "runs_on (recv_step stream) u rest = Some buf"
    by (auto simp: runs_on_Cons recv_step_take simp del: runs_on.simps)
  with u show ?thesis by auto
qed

interpretation numbers: stream_codec u32_bytes read_u32 "\<lambda>n. n < 2 ^ 32"
proof
  fix x stream t r rest buf
  assume x: "x < (2 :: nat) ^ 32" and t: "exec (read_u32 stream) t = Some r"
    and run: "runs_on (recv_step stream) t (u32_bytes x @ rest) = Some buf"
  from t have "exec (try_do (get (RecvBytes stream (length (u32_bytes x)))) (\<lambda>bs. ok (u32_of_bytes bs))) t = Some r"
    by (simp add: read_u32_def)
  from exec_recv_then [OF this run] u32_roundtrip [OF x] show "r = Inr x \<and> buf = rest" by auto
qed

interpretation strings: stream_codec wire_string read_string sendable
proof
  fix x stream t r rest buf
  assume x: "sendable x" and t: "exec (read_string stream) t = Some r"
    and run: "runs_on (recv_step stream) t (wire_string x @ rest) = Some buf"
  from x have len: "length x \<le> MAX_STRING" and utf8: "is_utf8 x" by (simp_all add: sendable_def)
  from len have small: "u32_of_bytes (u32_bytes (length x)) = length x"
    by (intro u32_roundtrip) (simp add: MAX_STRING_def)
  let ?f = "\<lambda>len_bytes. let len = u32_of_bytes len_bytes
     in if len > MAX_STRING then fail (Io ''string too long'')
        else try_do (get (RecvBytes stream len)) (\<lambda>bytes.
          if is_utf8 bytes then ok bytes else fail (Io ''invalid utf-8''))"
  from t have "exec (try_do (get (RecvBytes stream (length (u32_bytes (length x))))) ?f) t = Some r"
    by (simp add: read_string_def)
  from exec_recv_then [OF this] run obtain u
    where u: "exec (?f (u32_bytes (length x))) u = Some r"
      and run: "runs_on (recv_step stream) u (x @ rest) = Some buf"
    by (auto simp: wire_string_def)
  from u len small have "exec (try_do (get (RecvBytes stream (length x))) (\<lambda>bytes.
      if is_utf8 bytes then ok bytes else fail (Io ''invalid utf-8''))) u = Some r"
    by (simp add: Let_def)
  from exec_recv_then [OF this run] utf8 show "r = Inr x \<and> buf = rest" by auto
qed

section \<open>What the client sends\<close>

definition wire_request :: "string \<Rightarrow> string \<Rightarrow> string list \<Rightarrow> string" where
  "wire_request name pid_file argv =
     wire_string name @ wire_string pid_file @ u32_bytes (length argv mod 2 ^ 32)
       @ concat (map wire_string argv)"

lemma write_string_sends:
  "exec (write_string stream v) t = Some (Inr u) \<Longrightarrow> sent stream t = wire_string v \<and> length v \<le> MAX_STRING"
  by (auto simp: write_string_def exec_try_do_ok wire_string_def split: if_splits)

lemma write_u32_sends: "exec (write_u32 stream v) t = Some (Inr u) \<Longrightarrow> sent stream t = u32_bytes v"
  by (auto simp: write_u32_def)

lemma send_argv_sends:
  "exec (send_argv stream argv) t = Some (Inr u) \<Longrightarrow>
     sent stream t = concat (map wire_string argv) \<and> list_all (\<lambda>arg. length arg \<le> MAX_STRING) argv"
proof (induction argv arbitrary: t)
  case (Cons arg argv)
  from Cons.prems obtain v w x where t: "t = v @ w" and v: "exec (write_string stream arg) v = Some (Inr x)"
    and w: "exec (send_argv stream argv) w = Some (Inr u)"
    by (auto simp: exec_then_do_sum)
  from Cons.IH [OF w] write_string_sends [OF v] t show ?case by simp
qed simp

lemma client_header_sends:
  "exec (client_header stream name pid_file argc) t = Some (Inr u) \<Longrightarrow>
     sent stream t = wire_string name @ wire_string pid_file @ u32_bytes (argc mod 2 ^ 32)
     \<and> length name \<le> MAX_STRING \<and> length pid_file \<le> MAX_STRING"
  unfolding client_header_def exec_try_do_ok
  by (elim exE conjE) (auto dest!: write_string_sends write_u32_sends)

lemma client_response_sends: "exec (client_response stream) t = Some r \<Longrightarrow> sent stream t = []"
proof -
  have "holds (\<lambda>t r. sent stream t = []) (client_response stream)"
    by (auto simp: client_response_def eprintln_def split: sum.splits)
  then show "exec (client_response stream) t = Some r \<Longrightarrow> sent stream t = []" by (simp add: holds_exec)
qed

text \<open>A result the error branch does not give comes from the other one.\<close>

lemma exec_not_error:
  assumes "exec (then_do p (\<lambda>r. case r of Inl err \<Rightarrow> f err | Inr x \<Rightarrow> g x)) t = Some z"
    and "\<And>err u. exec (f err) u \<noteq> Some z"
  obtains u v x where "t = u @ v" "exec p u = Some (Inr x)" "exec (g x) v = Some z"
proof -
  from assms(1) obtain u v r where t: "t = u @ v" "exec p u = Some r"
    and v: "exec (case r of Inl err \<Rightarrow> f err | Inr x \<Rightarrow> g x) v = Some z" by (auto simp: exec_then_do)
  from v assms(2) obtain x where "r = Inr x" by (cases r) auto
  with t v that show thesis by simp
qed

text \<open>The parts of a client's run that was accepted.\<close>

lemma client_steps:
  assumes "exec (send_client_request e path pid_file name argv) t = Some 0"
  obtains stream u v w x y where "t = ENum (ConnectStream path) (Inr stream) # u @ v @ w"
    "exec (client_header stream name pid_file (length argv)) u = Some (Inr x)"
    "exec (send_argv stream argv) v = Some (Inr y)" "exec (client_response stream) w = Some 0"
proof -
  have stop: "exec (then_do (eprintln m) (\<lambda>_. Ret 1)) u \<noteq> Some (0 :: int)" for m u
    by (simp add: exec_then_do)
  from exec_not_error [OF assms [unfolded send_client_request_def] stop]
  obtain q0 q stream where q0: "t = q0 @ q" "exec (num (ConnectStream path)) q0 = Some (Inr stream)"
    and q: "exec (then_do (client_header stream name pid_file (length argv)) (\<lambda>r.
             case r of
               Inl err \<Rightarrow> then_do (eprintln (''write supervisor request: '' @ e err)) (\<lambda>_. Ret 1)
             | Inr _ \<Rightarrow>
                 then_do (send_argv stream argv) (\<lambda>r.
                   case r of
                     Inl message \<Rightarrow> then_do (eprintln message) (\<lambda>_. Ret 1)
                   | Inr _ \<Rightarrow> client_response stream))) q = Some 0" .
  from exec_not_error [OF q stop] obtain u1 u2 x
    where u1: "q = u1 @ u2" "exec (client_header stream name pid_file (length argv)) u1 = Some (Inr x)"
    and u2: "exec (then_do (send_argv stream argv) (\<lambda>r.
                   case r of
                     Inl message \<Rightarrow> then_do (eprintln message) (\<lambda>_. Ret 1)
                   | Inr _ \<Rightarrow> client_response stream)) u2 = Some 0" .
  from exec_not_error [OF u2 stop] obtain u3 u4 y where u3: "u2 = u3 @ u4" "exec (send_argv stream argv) u3 = Some (Inr y)"
    and u4: "exec (client_response stream) u4 = Some 0" .
  from q0 u1 u3 u4 show ?thesis by (intro that) simp_all
qed

lemma client_sends:
  assumes "exec (send_client_request e path pid_file name argv) t = Some 0"
  shows "\<exists>stream u. t = ENum (ConnectStream path) (Inr stream) # u \<and> sent stream t = wire_request name pid_file argv
    \<and> list_all (\<lambda>s. length s \<le> MAX_STRING) (name # pid_file # argv)"
proof -
  from client_steps [OF assms] obtain stream u v w x y where t: "t = ENum (ConnectStream path) (Inr stream) # u @ v @ w"
    and u: "exec (client_header stream name pid_file (length argv)) u = Some (Inr x)"
    and v: "exec (send_argv stream argv) v = Some (Inr y)" and w: "exec (client_response stream) w = Some 0" .
  from client_header_sends [OF u] send_argv_sends [OF v] client_response_sends [OF w] t
  show ?thesis by (simp add: wire_request_def)
qed

text \<open>An accepted client has read nothing but an answer that says OK.\<close>

fun hears :: "event \<Rightarrow> bool" where
  "hears (EGet (RecvAll s) r) \<longleftrightarrow> True"
| "hears e \<longleftrightarrow> False"

lemma client_hears:
  assumes "exec (send_client_request e path pid_file name argv) t = Some 0" "EGet (RecvAll s) (Inr response) \<in> set t"
  shows "starts_with ''OK '' response"
proof -
  from client_steps [OF assms(1)] obtain stream u v w x y where t: "t = ENum (ConnectStream path) (Inr stream) # u @ v @ w"
    and u: "exec (client_header stream name pid_file (length argv)) u = Some (Inr x)"
    and v: "exec (send_argv stream argv) v = Some (Inr y)" and w: "exec (client_response stream) w = Some 0" .
  have quiet: "emits (\<lambda>e. \<not> hears e) (write_string stream z)" for z
    by (auto simp: write_string_def intro!: emits_try_do)
  then have "emits (\<lambda>e. \<not> hears e) (client_header stream name pid_file (length argv))"
    by (auto simp: client_header_def write_u32_def intro!: emits_try_do)
  from emits_holds [OF this u] have "EGet (RecvAll s) (Inr response) \<notin> set u" by (force simp: list_all_iff)
  moreover have "emits (\<lambda>e. \<not> hears e) (send_argv stream argv)"
    by (induction argv) (auto intro!: emits_then_do quiet split: sum.splits)
  from emits_holds [OF this v] have "EGet (RecvAll s) (Inr response) \<notin> set v" by (force simp: list_all_iff)
  ultimately have "EGet (RecvAll s) (Inr response) \<in> set w" using assms(2) t by auto
  moreover have "holds (\<lambda>t r. r = 0 \<longrightarrow> (\<exists>x. t = [EGet (RecvAll stream) (Inr x), EWarn x] \<and> starts_with ''OK '' x))
      (client_response stream)"
    by (auto simp: client_response_def eprintln_def split: sum.splits)
  ultimately show ?thesis using w by (auto simp: holds_exec)
qed

section \<open>What the server reads\<close>

lemma read_argv_collect: "read_argv stream argc = collect (replicate argc ()) (\<lambda>_. read_string stream)"
  by (induction argc) simp_all

lemma read_argv_decodes:
  assumes "list_all sendable argv" "exec (read_argv stream (length argv)) t = Some r"
    and "runs_on (recv_step stream) t (concat (map wire_string argv) @ rest) = Some buf"
  shows "r = Inr argv \<and> buf = rest"
  using assms strings.decodes_list [of argv "replicate (length argv) ()" stream t r rest buf]
  by (simp add: read_argv_collect)

fun receives :: "nat \<Rightarrow> event \<Rightarrow> bool" where
  "receives stream (EGet (RecvBytes s n) r) \<longleftrightarrow> s = stream"
| "receives stream e \<longleftrightarrow> False"

lemma emits_reads [simp]:
  "emits (receives stream) (read_string stream)"
  "emits (receives stream) (read_u32 stream)"
  "emits (receives stream) (read_argv stream n)"
proof -
  show s: "emits (receives stream) (read_string stream)"
    by (auto simp: read_string_def Let_def intro!: emits_try_do)
  show "emits (receives stream) (read_u32 stream)"
    by (auto simp: read_u32_def intro!: emits_try_do)
  show "emits (receives stream) (read_argv stream n)"
    by (induction n) (auto intro!: emits_try_do s)
qed

lemma handle_client_decodes:
  assumes server: "exec (handle_client stream) t = Some ()"
    and run: "runs_on (recv_step stream) t (wire_request name pid_file argv) = Some buf"
    and valid: "sendable name" "sendable pid_file" "list_all sendable argv"
    and argc: "argv \<noteq> []" "length argv \<le> MAX_ARGS"
  shows "\<exists>u v. t = u @ v \<and> list_all (receives stream) u \<and> exec (start_child stream name pid_file argv) v = Some ()
    \<and> runs_on (recv_step stream) v [] = Some buf"
proof -
  let ?argc = "length argv mod 2 ^ 32"
  let ?start = "\<lambda>name pid_file argc. if argc = 0 \<or> argc > MAX_ARGS then reply stream ''ERR malformed request''
       else or_refuse stream ''ERR malformed argv'' (read_argv stream argc) (\<lambda>argv. start_child stream name pid_file argv)"
  let ?rest = "concat (map wire_string argv)"
  from argc have small: "?argc = length argv" "?argc < 2 ^ 32" by (simp_all add: MAX_ARGS_def)
  from strings.decodes_then [OF valid(1) server [unfolded handle_client_def or_refuse_def [of _ _ "read_string _"]]
      run [unfolded wire_request_def]]
  obtain u1 t1 where 1: "t = u1 @ t1" "exec (read_string stream) u1 = Some (Inr name)"
    and t1: "exec (then_do (read_string stream) (\<lambda>r. case r of Inl _ \<Rightarrow> reply stream ''ERR malformed request''
       | Inr pid_file \<Rightarrow> or_refuse stream ''ERR malformed request'' (read_u32 stream) (?start name pid_file))) t1 = Some ()"
    and run1: "runs_on (recv_step stream) t1 (wire_string pid_file @ u32_bytes ?argc @ ?rest) = Some buf"
    by auto
  from strings.decodes_then [OF valid(2) t1 run1]
  obtain u2 t2 where 2: "t1 = u2 @ t2" "exec (read_string stream) u2 = Some (Inr pid_file)"
    and t2: "exec (or_refuse stream ''ERR malformed request'' (read_u32 stream) (?start name pid_file)) t2 = Some ()"
    and run2: "runs_on (recv_step stream) t2 (u32_bytes ?argc @ ?rest) = Some buf"
    by auto
  from numbers.decodes_then [OF small(2) t2 [unfolded or_refuse_def [of _ _ "read_u32 _"]] run2] small(1) argc
  obtain u3 t3 where 3: "t2 = u3 @ t3" "exec (read_u32 stream) u3 = Some (Inr ?argc)"
    and t3: "exec (or_refuse stream ''ERR malformed argv'' (read_argv stream (length argv))
        (\<lambda>argv. start_child stream name pid_file argv)) t3 = Some ()"
    and run3: "runs_on (recv_step stream) t3 (?rest @ []) = Some buf"
    by auto
  from t3 obtain u4 v r where 4: "t3 = u4 @ v" "exec (read_argv stream (length argv)) u4 = Some r"
    and v: "exec (case r of Inl _ \<Rightarrow> reply stream ''ERR malformed argv''
           | Inr argv \<Rightarrow> start_child stream name pid_file argv) v = Some ()"
    by (auto simp: or_refuse_def exec_then_do)
  from run3 4(1) obtain mid where mid: "runs_on (recv_step stream) u4 (?rest @ []) = Some mid"
    and run4: "runs_on (recv_step stream) v mid = Some buf" by (auto simp: runs_on_append)
  from read_argv_decodes [OF valid(3) 4(2) mid] have "r = Inr argv" "mid = []" by simp_all
  moreover have "list_all (receives stream) (u1 @ u2 @ u3 @ u4)"
    using emits_holds [OF emits_reads(1) 1(2)] emits_holds [OF emits_reads(1) 2(2)]
      emits_holds [OF emits_reads(2) 3(2)] emits_holds [OF emits_reads(3) 4(2)] by simp
  ultimately show ?thesis using v run4 1(1) 2(1) 3(1) 4(1)
    by (intro exI [of _ "u1 @ u2 @ u3 @ u4"] exI [of _ v]) simp
qed

lemma read_argv_length: "exec (read_argv stream argc) t = Some (Inr argv) \<Longrightarrow> length argv = argc"
  by (induction argc arbitrary: t argv) (auto simp: exec_try_do_ok)

definition after_reads :: "nat \<Rightarrow> (event list \<Rightarrow> bool) \<Rightarrow> event list \<Rightarrow> bool" where
  "after_reads stream Q t \<longleftrightarrow> (\<exists>u v. t = u @ v \<and> list_all (receives stream) u \<and> Q v)"

lemma after_reads_now: "Q t \<Longrightarrow> after_reads stream Q t"
  unfolding after_reads_def by (intro exI [of _ "[]"] exI [of _ t]) simp

lemma after_reads_or_refuse:
  assumes "exec (or_refuse stream m p f) t = Some ()" "emits (receives stream) p"
    and "\<And>v. exec (reply stream m) v = Some () \<Longrightarrow> Q v"
    and "\<And>x u v. exec p u = Some (Inr x) \<Longrightarrow> exec (f x) v = Some () \<Longrightarrow> after_reads stream Q v"
  shows "after_reads stream Q t"
proof -
  from assms(1) obtain u v r where t: "t = u @ v" "exec p u = Some r"
    and v: "exec (case r of Inl _ \<Rightarrow> reply stream m | Inr x \<Rightarrow> f x) v = Some ()"
    by (auto simp: or_refuse_def exec_then_do)
  have "after_reads stream Q v" using v t(2) assms(3,4) by (cases r) (auto intro: after_reads_now)
  then obtain v1 v2 where "v = v1 @ v2" "list_all (receives stream) v1" "Q v2"
    by (auto simp: after_reads_def)
  with t(1) emits_holds [OF assms(2) t(2)] show ?thesis
    unfolding after_reads_def by (intro exI [of _ "u @ v1"] exI [of _ v2]) simp
qed

text \<open>A request is either refused, after reads only, or a start with 1 to \<open>MAX_ARGS\<close> arguments.\<close>

inductive served :: "nat \<Rightarrow> event list \<Rightarrow> bool" for stream where
  refused: "exec (reply stream m) t = Some () \<Longrightarrow> m = ''ERR malformed request'' \<or> m = ''ERR malformed argv''
    \<Longrightarrow> served stream t"
| started: "exec (start_child stream name pid_file argv) t = Some () \<Longrightarrow> argv \<noteq> [] \<Longrightarrow> length argv \<le> MAX_ARGS
    \<Longrightarrow> served stream t"

lemma handle_client_cases:
  assumes "exec (handle_client stream) t = Some ()"
  shows "after_reads stream (served stream) t"
proof -
  have command: "after_reads stream (served stream) v" if "exec (if argc = 0 \<or> argc > MAX_ARGS
       then reply stream ''ERR malformed request''
       else or_refuse stream ''ERR malformed argv'' (read_argv stream argc) (\<lambda>argv.
              start_child stream name pid_file argv)) v = Some ()" for name pid_file argc v
    using that by (auto simp: not_less split: if_splits intro: after_reads_now served.intros dest!: read_argv_length
        elim!: after_reads_or_refuse [OF _ emits_reads(3)])
  show ?thesis
    using assms unfolding handle_client_def
    by (elim after_reads_or_refuse [OF _ emits_reads(1)] after_reads_or_refuse [OF _ emits_reads(2)] command)
      (auto intro: served.intros)
qed

section \<open>What a request leads to\<close>

lemma receives_keeps: "list_all (receives stream) t \<Longrightarrow> runs_on (recv_step stream') t buf = Some buf'
    \<Longrightarrow> sent stream t = []"
  by (induction t arbitrary: buf) (auto elim!: receives.elims split: option.splits)

definition no_read :: "event \<Rightarrow> bool" where
  "no_read e \<longleftrightarrow> (\<forall>stream buf. recv_step stream buf e = Some buf)"

lemma emits_start_child: "emits no_read (start_child stream name pid_file argv)"
  by (auto simp: start_child_def record_child_def fork_exec_def write_pid_file_def reply_def no_read_def recv_step_def eprintln_def
      intro!: emits_then_do emits_try_do split: sum.splits)

text \<open>
  C25. Round trip: when a client's request was accepted (exit code 0) and the supervisor reads
  the bytes the client wrote, the supervisor starts exactly that: it reads the request to its
  last byte and then does what \<open>start_child\<close> does for the same name, pid file and command
  line. The texts are UTF-8, as every Rust string is, and there are 1 to 128 arguments.
\<close>

theorem request_roundtrip:
  assumes "exec (send_client_request e path pid_file name argv) t = Some 0"
    and "exec (handle_client stream) u = Some ()"
    and "runs_on (recv_step stream) u (sent c t) = Some buf" "ENum (ConnectStream path) (Inr c) \<in> set (take 1 t)"
    and "list_all is_utf8 (name # pid_file # argv)" "argv \<noteq> []" "length argv \<le> MAX_ARGS"
  shows "buf = [] \<and> (\<exists>v w. u = v @ w \<and> list_all (receives stream) v
    \<and> exec (start_child stream name pid_file argv) w = Some ())"
proof -
  from client_sends [OF assms(1)] assms(4) have sent: "sent c t = wire_request name pid_file argv"
    and short: "list_all (\<lambda>s. length s \<le> MAX_STRING) (name # pid_file # argv)" by auto
  from short assms(5) have valid: "sendable name" "sendable pid_file" "list_all sendable argv"
    by (auto simp: sendable_def list_all_iff)
  from handle_client_decodes [OF assms(2) assms(3) [unfolded sent] valid assms(6,7)]
  obtain v w where u: "u = v @ w" "list_all (receives stream) v"
    and w: "exec (start_child stream name pid_file argv) w = Some ()" "runs_on (recv_step stream) w [] = Some buf"
    by blast
  have "runs_on (recv_step stream) w [] = Some []"
    using emits_holds [OF emits_start_child w(1)] by (intro runs_on_still) (auto simp: no_read_def list_all_iff)
  with u w show ?thesis by auto
qed

definition demo_client :: "event list" where
  "demo_client = [ENum (ConnectStream ''/s'') (Inr 3)]
     @ map (\<lambda>bytes. EAct (SendBytes 3 bytes) (Inr ()))
         [u32_bytes 1, ''d'', u32_bytes 2, ''/p'', u32_bytes 2, u32_bytes 2, ''ls'', u32_bytes 1, ''x'']
     @ [EGet (RecvAll 3) (Inr ''OK d pid=9''), EWarn ''OK d pid=9'']"

definition demo_server :: "event list" where
  "demo_server = map (\<lambda>bytes. EGet (RecvBytes 5 (length bytes)) (Inr bytes))
       [u32_bytes 1, ''d'', u32_bytes 2, ''/p'', u32_bytes 2, u32_bytes 2, ''ls'', u32_bytes 1, ''x'']
     @ [ENum (Fork [''ls'', ''x'']) (Inr 9), EAct (SetGroup 9 9) (Inr ()), EAct (WriteFile ''/p'' (''9'' @ [LF])) (Inr ()),
        EAct (SendBytes 5 (''OK d pid=9'' @ [LF])) (Inr ()), EWarn (''achost-supervise: started d pid=9'' @ [LF])]"

lemma read_two: "read_argv stream 2 =
    try_do (read_string stream) (\<lambda>a. try_do (try_do (read_string stream) (\<lambda>b. try_do (ok []) (\<lambda>rest. ok (b # rest))))
      (\<lambda>rest. ok (a # rest)))"
  by (simp only: numeral_2_eq_2 read_argv.simps)

lemma demo_text: "show_nat 9 = ''9''" "is_utf8 ''d''" "is_utf8 ''/p''" "is_utf8 ''ls''" "is_utf8 ''x''"
  by code_simp+

lemma demo_server_runs: "exec (handle_client 5) demo_server = Some ()"
  using u32_roundtrip [of 1] u32_roundtrip [of 2]
  by (simp add: demo_server_def handle_client_def or_refuse_def read_string_def read_u32_def try_do_def Let_def
        MAX_STRING_def MAX_ARGS_def exec.simps start_child_def record_child_def fork_exec_def
        write_pid_file_def reply_def eprintln_def demo_text read_two)

theorem request_roundtrip_witness:
  "\<exists>v w. demo_server = v @ w \<and> list_all (receives 5) v
    \<and> exec (start_child 5 ''d'' ''/p'' [''ls'', ''x'']) w = Some ()"
proof -
  have "exec (send_client_request show_io ''/s'' ''/p'' ''d'' [''ls'', ''x'']) demo_client = Some 0"
    by (simp add: demo_client_def send_client_request_def client_header_def client_response_def write_string_def
        write_u32_def try_do_def MAX_STRING_def exec.simps starts_with_def)
      (simp add: numeral_2_eq_2)
  moreover have "runs_on (recv_step 5) demo_server (sent 3 demo_client) = Some []"
    by (simp add: demo_server_def demo_client_def recv_step_def)
  moreover have "list_all is_utf8 [''d'', ''/p'', ''ls'', ''x'']" by code_simp
  ultimately show ?thesis
    using demo_server_runs request_roundtrip [of show_io "''/s''" "''/p''" "''d''" "[''ls'', ''x'']" demo_client 5 demo_server 3 "[]"]
    by (simp add: demo_client_def MAX_ARGS_def)
qed

fun sends :: "nat \<Rightarrow> event \<Rightarrow> bool" where
  "sends stream (EAct (SendBytes s bytes) r) \<longleftrightarrow> s = stream"
| "sends stream e \<longleftrightarrow> False"

fun is_fork :: "event \<Rightarrow> bool" where
  "is_fork (ENum (Fork argv) r) \<longleftrightarrow> True"
| "is_fork e \<longleftrightarrow> False"

lemma receives_filter: "list_all (receives stream) t \<Longrightarrow> filter (sends stream) t = []"
  "list_all (receives stream) t \<Longrightarrow> filter is_fork t = []"
  by (induction t) (auto elim: receives.elims)

lemma exec_reply: "exec (reply stream line) t = Some () \<longleftrightarrow> (\<exists>r. t = [EAct (SendBytes stream (line @ [LF])) r])"
  by (auto simp: reply_def exec_node)

text \<open>The three ways a start can go.\<close>

lemma start_child_cases:
  assumes "exec (start_child stream name pid_file argv) t = Some ()"
  obtains (no_fork) err r where
      "t = [ENum (Fork argv) (Inl err), EAct (SendBytes stream (''ERR fork failed: '' @ show_io err @ [LF])) r]"
  | (no_pid_file) child g err k r where
      "t = [ENum (Fork argv) (Inr child), EAct (SetGroup child child) g,
            EAct (WriteFile pid_file (show_nat child @ [LF])) (Inl err), EAct (SendSignal (int child) SIGTERM) k,
            EAct (SendBytes stream (''ERR write pid file failed: '' @ show_io err @ [LF])) r]"
  | (started) child g r where
      "t = [ENum (Fork argv) (Inr child), EAct (SetGroup child child) g,
            EAct (WriteFile pid_file (show_nat child @ [LF])) (Inr ()),
            EAct (SendBytes stream (''OK '' @ name @ '' pid='' @ show_nat child @ [LF])) r,
            EWarn (''achost-supervise: started '' @ name @ '' pid='' @ show_nat child @ [LF])]"
proof -
  from assms obtain u v f where t: "t = u @ v" "exec (fork_exec argv) u = Some f"
    and v: "exec (case f of Inl err \<Rightarrow> reply stream (''ERR fork failed: '' @ show_io err)
       | Inr child \<Rightarrow> record_child stream name pid_file child) v = Some ()"
    by (auto simp: start_child_def exec_then_do)
  show thesis
  proof (cases f)
    case (Inl err)
    with t v no_fork show thesis by (auto simp: fork_exec_def exec_try_do exec_node exec_reply)
  next
    case (Inr child)
    with t(2) obtain g where u: "u = [ENum (Fork argv) (Inr child), EAct (SetGroup child child) g]"
      by (auto simp: fork_exec_def exec_try_do exec_node)
    from v Inr obtain w z where w: "v = EAct (WriteFile pid_file (show_nat child @ [LF])) w # z"
      and z: "exec (case w of
         Inl err \<Rightarrow>
           then_do (act (SendSignal (int child) SIGTERM)) (\<lambda>_.
             reply stream (''ERR write pid file failed: '' @ show_io err))
       | Inr _ \<Rightarrow>
           then_do (reply stream (''OK '' @ name @ '' pid='' @ show_nat child)) (\<lambda>_.
             eprintln (''achost-supervise: started '' @ name @ '' pid='' @ show_nat child))) z = Some ()"
      unfolding Inr sum.case record_child_def write_pid_file_def then_do.simps exec_node by blast
    show thesis
    proof (cases w)
      case (Inl err)
      with t(1) u w z no_pid_file show thesis by (auto simp: exec_node exec_reply)
    next
      case (Inr x)
      with t(1) u w z started show thesis by (auto simp: exec_then_do exec_reply)
    qed
  qed
qed

text \<open>
  C26. Every request gets one line, and the line is true: it starts with OK exactly when a
  child was forked and its process id written to a pid file, and then names that child; at
  most one child is forked, with 1 to 128 arguments; a child whose pid file could not be
  written is told to end.
\<close>

theorem handle_client_answers:
  assumes "exec (handle_client stream) t = Some ()"
  shows "\<exists>line r. filter (sends stream) t = [EAct (SendBytes stream (line @ [LF])) r]
    \<and> (filter is_fork t = [] \<or> (\<exists>argv f. filter is_fork t = [ENum (Fork argv) f]
        \<and> argv \<noteq> [] \<and> length argv \<le> MAX_ARGS
        \<and> (case f of Inl _ \<Rightarrow> \<not> starts_with ''OK '' line
           | Inr child \<Rightarrow> \<exists>pid_file w. EAct (WriteFile pid_file (show_nat child @ [LF])) w \<in> set t
               \<and> (if is_ok w then \<exists>name. line = ''OK '' @ name @ '' pid='' @ show_nat child
                  else \<not> starts_with ''OK '' line \<and> (\<exists>k. EAct (SendSignal (int child) SIGTERM) k \<in> set t)))))
    \<and> (filter is_fork t = [] \<longrightarrow> \<not> starts_with ''OK '' line)"
    (is "?P t")
proof -
  from handle_client_cases [OF assms] obtain u v where t: "t = u @ v" "list_all (receives stream) u"
    and v: "served stream v" by (auto simp: after_reads_def)
  from v have "?P v"
  proof cases
    case (refused m)
    then show ?thesis by (auto simp: exec_reply starts_with_def)
  next
    case (started name pid_file argv)
    from started(1) show ?thesis
      by (cases rule: start_child_cases) (use started(2,3) in \<open>auto simp: starts_with_def\<close>)
  qed
  then show ?thesis
    unfolding t(1) filter_append receives_filter [OF t(2)] append_Nil
    by (fastforce split: sum.splits if_splits)
qed

theorem handle_client_answers_witness:
  "\<exists>line r. filter (sends 5) demo_server = [EAct (SendBytes 5 (line @ [LF])) r]"
  using handle_client_answers [OF demo_server_runs] by blast

end
