(* ===== verification/SupSafety.thy ===== *)
theory SupSafety
  imports SupRequest
begin

text \<open>
  The order in which \<open>achost-supervise\<close> changes mounts and starts commands, as a monitor that
  follows the calls of a run, and the exit code of a supervised command.
\<close>

section \<open>Monitors\<close>

text \<open>
  Started in \<open>s\<close>, the monitor \<open>step\<close> accepts every run of \<open>p\<close>, and \<open>Q\<close> holds of the result
  and of the state it ends in.
\<close>

definition accepts :: "('s \<Rightarrow> event \<Rightarrow> 's option) \<Rightarrow> 's \<Rightarrow> 'a prog \<Rightarrow> ('a \<Rightarrow> 's \<Rightarrow> bool) \<Rightarrow> bool" where
  "accepts step s p Q \<longleftrightarrow> holds (\<lambda>t r. \<exists>m. runs_on step t s = Some m \<and> Q r m) p"

lemma accepts_Ret [simp]: "accepts step s (Ret x) Q \<longleftrightarrow> Q x s"
  by (simp add: accepts_def)

lemma accepts_then_do:
  assumes "accepts step s p Q" "\<And>x m. Q x m \<Longrightarrow> accepts step m (f x) R"
  shows "accepts step s (then_do p f) R"
  unfolding accepts_def holds_exec
proof (intro allI impI)
  fix t r assume "exec (then_do p f) t = Some r"
  then obtain u v x where t: "t = u @ v" "exec p u = Some x" "exec (f x) v = Some r"
    by (auto simp: exec_then_do)
  from assms(1) t(2) obtain m where m: "runs_on step u s = Some m" "Q x m"
    by (auto simp: accepts_def holds_exec)
  from assms(2) [OF m(2)] t(3) obtain m' where "runs_on step v m = Some m'" "R r m'"
    by (auto simp: accepts_def holds_exec)
  with t(1) m(1) show "\<exists>m. runs_on step t s = Some m \<and> R r m" by (auto simp: runs_on_append)
qed

lemma accepts_try_do:
  assumes "accepts step s p (\<lambda>r m. case r of Inl e \<Rightarrow> R (Inl e) m | Inr x \<Rightarrow> Q x m)"
    and "\<And>x m. Q x m \<Longrightarrow> accepts step m (f x) R"
  shows "accepts step s (try_do p f) R"
  unfolding try_do_def by (rule accepts_then_do [OF assms(1)]) (auto split: sum.splits intro: assms(2))

lemma accepts_mono: "accepts step s p Q \<Longrightarrow> (\<And>x m. Q x m \<Longrightarrow> R x m) \<Longrightarrow> accepts step s p R"
  unfolding accepts_def by (erule holds_mono) blast

lemma accepts_still: "emits (\<lambda>e. step s e = Some s) p \<Longrightarrow> accepts step s p (\<lambda>_ m. m = s)"
proof -
  have "list_all (\<lambda>e. step s e = Some s) t \<Longrightarrow> runs_on step t s = Some s" for t
    by (induction t) auto
  then show "emits (\<lambda>e. step s e = Some s) p \<Longrightarrow> accepts step s p (\<lambda>_ m. m = s)"
    unfolding accepts_def emits_def by (auto elim!: holds_mono)
qed

lemma accepts_then_still:
  assumes "emits (\<lambda>e. step s e = Some s) p" "\<And>x. accepts step s (f x) R"
  shows "accepts step s (then_do p f) R"
  by (rule accepts_then_do [OF accepts_still [where step = step, OF assms(1)]]) (simp add: assms(2))

lemma accepts_try_still:
  assumes "emits (\<lambda>e. step s e = Some s) p" "\<And>x. accepts step s (f x) (\<lambda>r m. r = Inr () \<longrightarrow> Q m)"
  shows "accepts step s (try_do p f) (\<lambda>r m. r = Inr () \<longrightarrow> Q m)"
  unfolding try_do_def
  by (rule accepts_then_still [where step = step, OF assms(1)]) (auto simp: assms(2) split: sum.splits)

lemma accepts_io_context:
  "accepts step s p (\<lambda>r m. is_ok r \<longrightarrow> Q m) \<Longrightarrow> accepts step s (io_context what p) (\<lambda>r m. is_ok r \<longrightarrow> Q m)"
  unfolding io_context_def map_err_def
  by (erule accepts_then_do) (auto simp: is_ok_def split: sum.split_asm)

section \<open>The root of a command\<close>

text \<open>
  What the process has done: nothing; an own mount namespace; with private propagation, so
  that its mounts stay its own; \<open>pivot_root\<close>; the old root detached; \<open>chroot\<close>.
\<close>

datatype root_state = Host | Own | Private | Pivoted | Rooted | Jailed

definition isolated :: "root_state \<Rightarrow> bool" where
  "isolated n \<longleftrightarrow> n = Private \<or> n = Pivoted \<or> n = Rooted"

text \<open>
  Mounts, unmounts and \<open>pivot_root\<close> are refused outside a private namespace; a command or a
  child is refused before the process has the root it was asked for.
\<close>

definition root_step :: "root_state \<Rightarrow> root_state \<Rightarrow> event \<Rightarrow> root_state option" where
  "root_step required n e =
     (case e of
        EAct (Unshare flags) r \<Rightarrow> Some (if n = Host \<and> flags = CLONE_NEWNS \<and> r = Inr () then Own else n)
      | EAct (MountFs source target fstype flags options) r \<Rightarrow>
          if n = Own \<and> source = None \<and> target = ''/'' \<and> flags = or MS_REC MS_PRIVATE
          then Some (if r = Inr () then Private else Own)
          else if isolated n then Some n else None
      | EAct (PivotRoot new old) r \<Rightarrow>
          if isolated n then Some (if r = Inr () then Pivoted else n) else None
      | EAct (Unmount path flags) r \<Rightarrow>
          if isolated n then Some (if n = Pivoted \<and> path = ''/.achost-old-root'' \<and> r = Inr () then Rooted else n)
          else None
      | EAct (Chroot path) r \<Rightarrow> Some (if n = Host \<and> r = Inr () then Jailed else n)
      | EAct (Exec argv) r \<Rightarrow> if required = Host \<or> n = required then Some n else None
      | ENum (Fork argv) r \<Rightarrow> if required = Host \<or> n = required then Some n else None
      | _ \<Rightarrow> Some n)"

abbreviation still :: "root_state \<Rightarrow> root_state \<Rightarrow> event \<Rightarrow> bool" where
  "still required n \<equiv> \<lambda>e. root_step required n e = Some n"

lemma emits_mount_call: "n = Private \<or> n = Rooted \<Longrightarrow> emits (still required n) (mount_call a b c d e)"
  by (auto simp: mount_call_def root_step_def isolated_def intro!: emits_try_do)

lemma emits_detach: "n = Private \<or> n = Rooted \<Longrightarrow> emits (still required n) (detach_mount_if_present p)"
  by (auto simp: detach_mount_if_present_def root_step_def isolated_def intro!: emits_try_do split: sum.splits)

lemma emits_ensure_directory [simp]: "emits (still required n) (ensure_directory p m)"
  by (auto simp: ensure_directory_def root_step_def intro!: emits_try_do)

lemma still_simps [simp]:
  "still required n (EWarn s)" "still required n (EAct (StatFile p) r)" "still required n (EAct (StatLink p) r)"
  "still required n (EAsk q b)" "still required n (EAct (RemoveFile p) r)" "still required n (EAct (MakeSymlink p q') r)"
  "still required n (EAct (RedirectOutput p) r)" "still required n (EAct (Prctl a b') r)" "still required n (EAct (Seccomp f) r)"
  "still required n (EAct (ChangeDir p) r)" "still required n (EAct (RemoveDir p) r)"
  "still required n (EGet g x)" "still required n (ENum AcceptStream y)" "still required n (EWait w a')"
  "still required n (EQuery q1 v)" "still required n (ESleep ms)" "still required n (EAct (SendBytes c bytes) r)"
  "still required n (EAct (WriteFile p bytes) r)" "still required n (EAct (SendSignal k sg) r)"
  "still required n (EAct (SetGroup k1 k2) r)" "still required n (EAct (BindListener p) r)"
  "still required n (EAct (SetMode p k) r)" "still required n (EAct (InstallHandler sg) r)"
  "still required n (EAct (SetSignal sg h) r)" "still required n (EAct (SetNonblocking p) r)"
  by (simp_all add: root_step_def)

lemma emits_bind_native_path: "n = Private \<or> n = Rooted \<Longrightarrow> emits (still required n) (bind_native_path root p req)"
  by (auto simp: bind_native_path_def Let_def emits_mount_call intro!: emits_then_do split: sum.splits)

lemma emits_native_cgroups: "n = Private \<or> n = Rooted \<Longrightarrow> emits (still required n) (setup_native_cgroups root)"
  by (auto simp: setup_native_cgroups_def mount_native_cgroup_controller_def Let_def emits_mount_call emits_detach
      intro!: emits_then_do emits_try_do emits_for_each split: sum.splits)

lemma emits_detach_android: "n = Private \<or> n = Rooted \<Longrightarrow> emits (still required n) (detach_native_android_cgroups root)"
  by (auto simp: detach_native_android_cgroups_def emits_detach intro!: emits_then_do emits_for_all split: sum.splits)

lemma emits_native_run: "n = Private \<or> n = Rooted \<Longrightarrow> emits (still required n) (setup_native_run root)"
  by (auto simp: setup_native_run_def Let_def emits_mount_call intro!: emits_then_do emits_try_do
      split: sum.splits io_error.splits)

text \<open>The calls that build the root, from \<open>Host\<close> or, after \<open>--pivot-root\<close>, from \<open>Rooted\<close>.\<close>

lemma accepts_calls [simp]:
  "accepts step s (Act c k) Q \<longleftrightarrow> (\<forall>r. case step s (EAct c r) of None \<Rightarrow> False | Some m \<Rightarrow> accepts step m (k r) Q)"
  "accepts step s (Warn w p) Q \<longleftrightarrow> (case step s (EWarn w) of None \<Rightarrow> False | Some m \<Rightarrow> accepts step m p Q)"
proof -
  have *: "holds (\<lambda>t ra. \<exists>m. runs_on step (e # t) s = Some m \<and> Q ra m) p \<longleftrightarrow>
      (case step s e of None \<Rightarrow> False | Some m \<Rightarrow> holds (\<lambda>t ra. \<exists>m'. runs_on step t m = Some m' \<and> Q ra m') p)" for e p
    by (cases "step s e") (simp_all add: holds_const)
  show "accepts step s (Act c k) Q \<longleftrightarrow> (\<forall>r. case step s (EAct c r) of None \<Rightarrow> False | Some m \<Rightarrow> accepts step m (k r) Q)"
    "accepts step s (Warn w p) Q \<longleftrightarrow> (case step s (EWarn w) of None \<Rightarrow> False | Some m \<Rightarrow> accepts step m p Q)"
    unfolding accepts_def holds.simps * by (rule refl)+
qed

lemma sup_is_ok_unit [simp]: "is_ok (r :: 'e + unit) \<longleftrightarrow> r = Inr ()"
  by (cases r) auto

lemma accepts_namespace:
  assumes "n = Host \<or> n = Rooted"
  shows "accepts (root_step required) n make_private_mount_namespace
    (\<lambda>r m. r = Inr () \<longrightarrow> m = (if n = Host then Private else Rooted))"
  using assms
  by (auto simp: make_private_mount_namespace_def mount_call_def cstring_opt_def cstring_def nul_free_def
      try_do_def root_step_def isolated_def CLONE_NEWNS_def split: sum.splits)

lemma accepts_pivot:
  assumes "n = Private \<or> n = Rooted"
  shows "accepts (root_step required) n (pivot_into_root root) (\<lambda>r m. r = Inr () \<longrightarrow> m = Rooted)"
  using assms
  by (auto simp: pivot_into_root_def ensure_directory_def try_do_def root_step_def isolated_def split: sum.splits)

lemma accepts_pivot_to_root:
  "accepts (root_step required) Host (pivot_to_root root) (\<lambda>r m. r = Inr () \<longrightarrow> m = Rooted)"
  unfolding pivot_to_root_def
  by (rule accepts_try_do [where Q = "\<lambda>x m. m = Private"])
    (auto intro!: accepts_mono [OF accepts_namespace] accepts_pivot split: sum.splits)

lemma accepts_native:
  assumes "n = Host \<or> n = Rooted"
  shows "accepts (root_step required) n (setup_native_root root) (\<lambda>r m. r = Inr () \<longrightarrow> m = Rooted)"
proof -
  define here where "here = (if n = Host then Private else Rooted)"
  then have here: "here = Private \<or> here = Rooted" by simp
  show ?thesis
    unfolding setup_native_root_def
  proof (rule accepts_try_still)
    fix x
    show "accepts (root_step required) n (try_do make_private_mount_namespace (\<lambda>_.
     try_do (mount_call (Some root) root None MS_BIND None) (\<lambda>_.
     try_do (for_each native_paths (\<lambda>(path, required). bind_native_path root path required)) (\<lambda>_.
     try_do (setup_native_cgroups root) (\<lambda>_.
     try_do (for_each [(''/dev'', True), (''/acct'', False)]
               (\<lambda>(path, required). bind_native_path root path required)) (\<lambda>_.
     then_do (detach_native_android_cgroups root) (\<lambda>_.
     try_do (setup_native_run root) (\<lambda>_.
     then_do (eprintln (''achost-supervise: native root='' @ root @ '' private-run=ready private-cgroup=ready'')) (\<lambda>_.
       pivot_into_root root))))))))) (\<lambda>r m. r = Inr () \<longrightarrow> m = Rooted)"
      by (rule accepts_try_do [where Q = "\<lambda>x m. m = here"], rule accepts_mono [OF accepts_namespace [OF assms]])
        (use here in \<open>auto simp: here_def emits_mount_call emits_native_cgroups emits_detach_android emits_native_run
          emits_bind_native_path intro!: accepts_try_still accepts_then_still emits_for_each emits_try_do accepts_pivot
          split: sum.splits\<close>)
  qed simp
qed

definition required_root :: "string option \<Rightarrow> string option \<Rightarrow> string option \<Rightarrow> root_state" where
  "required_root chroot_path pivot_root_path native_root_path =
     (if native_root_path \<noteq> None \<or> pivot_root_path \<noteq> None then Rooted
      else if chroot_path \<noteq> None then Jailed else Host)"

lemma accepts_io_context_unit:
  "accepts step s p (\<lambda>r m. r = Inr () \<longrightarrow> Q m) \<Longrightarrow> accepts step s (io_context what p) (\<lambda>r m. r = Inr () \<longrightarrow> Q m)"
  using accepts_io_context [of step s p Q what] by simp

lemma accepts_launch_root:
  "accepts (root_step required) Host (launch_root chroot pivot native) (\<lambda>r m. r = Inr () \<longrightarrow> m = required_root chroot pivot native)"
proof (cases native)
  case (Some root)
  then show ?thesis
    using accepts_io_context_unit [OF accepts_native [of Host required root]]
    by (simp add: launch_root_def required_root_def)
next
  case None
  note none = None
  show ?thesis
  proof (cases pivot)
    case (Some root)
    then show ?thesis
      using accepts_io_context_unit [OF accepts_pivot_to_root] none
      by (simp add: launch_root_def required_root_def)
  next
    case None
    have chroot: "accepts (root_step required) Host (launch_root (Some path) None None)
        (\<lambda>r m. r = Inr () \<longrightarrow> m = Jailed)" for path
      by (auto simp: launch_root_def io_context_def map_err_def try_do_def cstring_def root_step_def split: sum.splits)
    show ?thesis
    proof (cases chroot)
      case None
      with none \<open>pivot = None\<close> show ?thesis by (simp add: launch_root_def required_root_def)
    next
      case (Some path)
      with none \<open>pivot = None\<close> chroot show ?thesis by (simp add: required_root_def)
    qed
  qed
qed

text \<open>What runs in the state that was asked for.\<close>

lemma still_ready:
  assumes "required = Host \<or> n = required"
  shows "still required n (EAct (Exec argv) r)" "still required n (ENum (Fork argv) x)"
  using assms by (auto simp: root_step_def)

lemma emits_calls_still:
  assumes "required = Host \<or> n = required"
  shows "emits (still required n) (exec_command argv)" "emits (still required n) (handle_client stream)"
    "emits (still required n) (reap_children fuel name)"
    "emits (still required n) install_close_range_enosys_filter"
proof -
  show "emits (still required n) (exec_command argv)"
    by (auto simp: exec_command_def still_ready [OF assms] intro!: emits_then_do split: option.splits sum.splits)
  have "emits (still required n) p" if "emits (receives stream) p" for p :: "'p prog"
    using that by (rule emits_mono) (auto elim: receives.elims)
  note reads = this [OF emits_reads(1)] this [OF emits_reads(2)] this [OF emits_reads(3)]
  show "emits (still required n) (handle_client stream)"
    by (auto simp: handle_client_def or_refuse_def start_child_def record_child_def fork_exec_def write_pid_file_def
        reply_def still_ready [OF assms] reads intro!: emits_then_do emits_try_do split: sum.splits)
  show "emits (still required n) (reap_children fuel name)"
    by (induction fuel) (auto intro!: emits_then_do split: wait_answer.splits)
  show "emits (still required n) install_close_range_enosys_filter"
    by (auto simp: install_close_range_enosys_filter_def intro!: emits_then_do emits_try_do split: sum.splits)
qed

lemma emits_server_loop:
  assumes "required = Host \<or> n = required"
  shows "emits (still required n) (server_loop fuel)"
proof (induction fuel)
  case (Suc fuel)
  have "emits (still required n) accept_client"
    using emits_calls_still(2) [OF assms]
    by (auto simp: accept_client_def intro!: emits_then_do split: sum.splits)
  with Suc emits_calls_still(3) [OF assms] show ?case
    by (auto intro!: emits_try_do emits_then_do)
qed simp

lemma accepts_holds: "accepts step s p Q \<Longrightarrow> holds (\<lambda>t r. runs_on step t s \<noteq> None) p"
  unfolding accepts_def by (erule holds_mono) auto

lemma run_launch_accepted:
  "accepts (root_step (required_root chroot pivot native)) Host (run_launch chroot pivot native log close command) (\<lambda>r m. True)"
    (is "accepts (root_step ?req) _ _ _")
  unfolding run_launch_def
proof (rule accepts_then_do [where Q = "\<lambda>r m. r = Inr () \<longrightarrow> m = ?req"])
  fix x :: "unit result" and m assume "x = Inr () \<longrightarrow> m = ?req"
  then show "accepts (root_step ?req) m (case x of Inl message \<Rightarrow> then_do (eprintln message) (\<lambda>_. Ret (Some 1))
       | Inr _ \<Rightarrow> exec_command command) (\<lambda>r m. True)"
    by (cases x)
      (auto intro!: accepts_mono [OF accepts_still] emits_calls_still emits_then_do)
next
  show "accepts (root_step ?req) Host (try_do (case log of None \<Rightarrow> ok () | Some f \<Rightarrow> io_context ''open log file'' (redirect_log f)) (\<lambda>_.
              try_do (launch_root chroot pivot native) (\<lambda>_.
              if close then io_context ''close_range ENOSYS seccomp'' install_close_range_enosys_filter else ok ())))
      (\<lambda>r m. r = Inr () \<longrightarrow> m = ?req)"
  proof (rule accepts_try_do [where Q = "\<lambda>x m. m = Host"])
    show "accepts (root_step ?req) Host (case log of None \<Rightarrow> ok () | Some f \<Rightarrow> io_context ''open log file'' (redirect_log f))
       (\<lambda>r m. case r of Inl e \<Rightarrow> (Inl e :: unit result) = Inr () \<longrightarrow> m = ?req | Inr x \<Rightarrow> m = Host)"
      by (cases log) (auto simp: redirect_log_def io_context_def map_err_def split: sum.splits)
    fix x m assume m: "m = Host"
    show "accepts (root_step ?req) m (try_do (launch_root chroot pivot native) (\<lambda>_.
              if close then io_context ''close_range ENOSYS seccomp'' install_close_range_enosys_filter else ok ()))
      (\<lambda>r m. r = Inr () \<longrightarrow> m = ?req)"
      unfolding m
      by (rule accepts_try_do [where Q = "\<lambda>x m. m = ?req"])
        (auto intro!: accepts_mono [OF accepts_launch_root] accepts_mono [OF accepts_still] emits_calls_still
          split: sum.splits)
  qed
qed

lemma server_setup_accepted:
  "accepts (root_step required) Host (server_setup socket pid_file pivot native)
    (\<lambda>r m. r = Inr () \<longrightarrow> m = required_root None pivot native)"
proof -
  define mid where "mid = (if pivot = None then Host else Rooted)"
  define req where "req = required_root None pivot native"
  have pivot: "accepts (root_step required) Host
      (case pivot of None \<Rightarrow> ok () | Some p \<Rightarrow> io_context ''pivot_root'' (pivot_to_root p)) (\<lambda>r m. r = Inr () \<longrightarrow> m = mid)"
    by (cases pivot) (auto simp: mid_def intro!: accepts_io_context_unit accepts_pivot_to_root)
  have native: "accepts (root_step required) mid
      (case native of None \<Rightarrow> ok () | Some p \<Rightarrow> io_context ''native root'' (setup_native_root p)) (\<lambda>r m. r = Inr () \<longrightarrow> m = req)"
    by (cases native) (auto simp: mid_def req_def required_root_def intro!: accepts_io_context_unit accepts_native)
  have socket: "emits (still required req) (io_context ''create supervisor socket'' (create_server_socket socket))"
    by (auto simp: create_server_socket_def intro!: emits_then_do emits_try_do)
  have rest: "accepts (root_step required) Host
    (try_do (case pivot of None \<Rightarrow> ok () | Some p \<Rightarrow> io_context ''pivot_root'' (pivot_to_root p)) (\<lambda>_.
     try_do (case native of None \<Rightarrow> ok () | Some p \<Rightarrow> io_context ''native root'' (setup_native_root p)) (\<lambda>_.
       io_context ''create supervisor socket'' (create_server_socket socket)))) (\<lambda>r m. r = Inr () \<longrightarrow> m = req)"
    by (rule accepts_try_do [where Q = "\<lambda>x m. m = mid"], rule accepts_mono [OF pivot], simp split: sum.splits,
        simp only:, rule accepts_try_do [where Q = "\<lambda>x m. m = req"], rule accepts_mono [OF native],
        simp split: sum.splits, simp only:, rule accepts_mono [OF accepts_still [where step = "root_step required", OF socket]], simp)
  show ?thesis
    unfolding server_setup_def req_def [symmetric]
    by (intro accepts_try_still accepts_then_still rest)
      (auto simp: install_handlers_def set_signal_def set_subreaper_def intro!: emits_try_do)
qed

lemma emits_server_serve:
  assumes "required = Host \<or> n = required"
  shows "emits (still required n) (server_serve fuel socket_path pid_file)"
  using emits_server_loop [OF assms] emits_calls_still(3) [OF assms]
  by (auto simp: server_serve_def write_pid_file_def server_stop_def intro!: emits_then_do emits_try_do split: sum.splits)

text \<open>
  C27. Whatever the system answers, the supervisor never mounts, unmounts or pivots in the
  mount namespace of the host: all of that comes after \<open>unshare\<close> and the remount of / as
  private have succeeded. No command is executed by \<open>--launch\<close>, and no child forked by the
  server, before the root that was asked for is in place: with a native or a pivot root, the
  old root has been detached, with \<open>--chroot\<close>, the call has succeeded.
\<close>

theorem root_before_command:
  "holds (\<lambda>t r. runs_on (root_step (required_root chroot pivot native)) t Host \<noteq> None)
     (run_launch chroot pivot native log close command)
   \<and> holds (\<lambda>t r. runs_on (root_step (required_root None pivot native)) t Host \<noteq> None)
     (run_server fuel socket pid_file pivot native)"
proof
  show "holds (\<lambda>t r. runs_on (root_step (required_root chroot pivot native)) t Host \<noteq> None)
     (run_launch chroot pivot native log close command)"
    by (rule accepts_holds [OF run_launch_accepted])
  show "holds (\<lambda>t r. runs_on (root_step (required_root None pivot native)) t Host \<noteq> None)
     (run_server fuel socket pid_file pivot native)"
    unfolding run_server_def
  proof (rule accepts_holds [OF accepts_then_do [OF server_setup_accepted]], split sum.split, intro conjI allI impI)
    fix x m and message :: string
    show "accepts (root_step (required_root None pivot native)) m (then_do (eprintln message) (\<lambda>_. ok 1)) (\<lambda>r m. True)"
      by (rule accepts_mono [OF accepts_still]) (auto intro!: emits_then_do)
  qed (auto intro!: accepts_mono [OF accepts_still] emits_server_serve)
qed

section \<open>One supervised command\<close>

fun reaped_status :: "nat \<Rightarrow> event \<Rightarrow> nat option" where
  "reaped_status child (EWait WaitAny (Reaped pid status)) = (if pid = child then Some status else None)"
| "reaped_status child e = None"

text \<open>The last status reported for the child, \<open>known\<close> if there is none.\<close>

definition status_after :: "nat \<Rightarrow> event list \<Rightarrow> nat option \<Rightarrow> nat option" where
  "status_after child t known = fold (\<lambda>e acc. or_else (reaped_status child e) acc) t known"

lemma status_after_simps [simp]:
  "status_after child [] known = known"
  "status_after child (e # t) known = status_after child t (or_else (reaped_status child e) known)"
  "status_after child (t @ u) known = status_after child u (status_after child t known)"
  by (simp_all add: status_after_def)

fun polls :: "event \<Rightarrow> bool" where
  "polls (EWait w r) \<longleftrightarrow> True"
| "polls e \<longleftrightarrow> False"

definition no_child_left :: "event \<Rightarrow> bool" where
  "no_child_left e \<longleftrightarrow> (\<exists>err. e = EWait WaitAny (WaitError err) \<and> errno_of err = Some 10)"

definition no_wait :: "event \<Rightarrow> bool" where
  "no_wait e \<longleftrightarrow> \<not> polls e"

lemma no_wait_all:
  assumes "list_all no_wait t"
  shows "status_after child t known = known" "filter polls t = []" "\<not> list_ex no_child_left t"
proof -
  have one: "reaped_status child e = None \<and> \<not> no_child_left e" if "no_wait e" for e
    using that by (cases e) (auto simp: no_wait_def no_child_left_def)
  show "status_after child t known = known"
    using assms one by (induction t arbitrary: known) auto
  show "filter polls t = []" using assms by (induction t) (auto simp: no_wait_def)
  show "\<not> list_ex no_child_left t" using assms one by (induction t) auto
qed

lemma emits_forward_pending: "emits no_wait (forward_pending child name)"
  by (auto simp: forward_pending_def forward_signal_def no_wait_def intro!: emits_then_do)

text \<open>How a run of the loop ends.\<close>

definition loop_end :: "nat \<Rightarrow> nat \<Rightarrow> string \<Rightarrow> nat option \<Rightarrow> event list \<Rightarrow> stop + int \<Rightarrow> bool" where
  "loop_end fuel child pid_file known t r \<longleftrightarrow>
     (case r of
        Inr code \<Rightarrow> \<exists>u e x. t = u @ [e, EAct (RemoveFile pid_file) x] \<and> no_child_left e
          \<and> code = int (legacy_exit_code (status_after child u known))
      | Inl _ \<Rightarrow> length (filter polls t) = fuel \<and> \<not> list_ex no_child_left t)"

lemma loop_end_prepend:
  assumes "loop_end fuel child pid_file (status_after child (e # p) known) t r" "polls e" "\<not> no_child_left e" "list_all no_wait p"
  shows "loop_end (Suc fuel) child pid_file known (e # p @ t) r"
proof (cases r)
  case (Inl stop)
  with assms no_wait_all [OF assms(4)] show ?thesis by (auto simp: loop_end_def)
next
  case (Inr code)
  with assms(1) obtain u e' x where "t = u @ [e', EAct (RemoveFile pid_file) x]" "no_child_left e'"
    "code = int (legacy_exit_code (status_after child u (status_after child (e # p) known)))"
    by (auto simp: loop_end_def)
  with Inr show ?thesis
    by (auto simp: loop_end_def intro!: exI [of _ "e # p @ u"] exI [of _ e'] exI [of _ x])
qed

lemma legacy_loop_end:
  "exec (legacy_loop fuel child pid_file name known) t = Some r \<Longrightarrow> loop_end fuel child pid_file known t r"
proof (induction fuel arbitrary: known t)
  case (Suc fuel)
  let ?pause = "then_do (forward_pending child name) (\<lambda>_.
     then_do (sleep 1000) (\<lambda>_. legacy_loop fuel child pid_file name known))"
  from Suc.prems obtain a u where t: "t = EWait WaitAny a # u" and u: "exec (case a of
           Reaped pid status \<Rightarrow>
             if pid = child
             then then_do (eprintln (name @ '': main pid='' @ show_nat child @ '' exited status=''
                             @ show_nat (exit_code_from_status status True))) (\<lambda>_.
                  legacy_loop fuel child pid_file name (Some status))
             else legacy_loop fuel child pid_file name known
         | WaitError err \<Rightarrow>
             if errno_of err = Some 4 then legacy_loop fuel child pid_file name known
             else if errno_of err = Some 10
             then then_do (act (RemoveFile pid_file)) (\<lambda>_. ok (int (legacy_exit_code known)))
             else then_do (eprintln (''waitpid: '' @ show_io err)) (\<lambda>_. ?pause)
         | NotYet \<Rightarrow> ?pause) u = Some r"
    unfolding legacy_loop.simps Let_def then_do.simps exec_node by blast
  have again: "loop_end (Suc fuel) child pid_file known t r"
    if "u = p @ v" "list_all no_wait p" "exec (legacy_loop fuel child pid_file name known') v = Some r"
      "\<not> no_child_left (EWait WaitAny a)" "known' = or_else (reaped_status child (EWait WaitAny a)) known" for p v known'
    using loop_end_prepend [of fuel child pid_file "EWait WaitAny a" p known v r] Suc.IH [OF that(3)] that t
      no_wait_all(1) [OF that(2), of child] by simp
  have pause: "loop_end (Suc fuel) child pid_file known t r"
    if "exec ?pause v = Some r" "u = w @ v" "list_all no_wait w" "\<not> no_child_left (EWait WaitAny a)"
      "reaped_status child (EWait WaitAny a) = None" for v w
  proof -
    from that(1) obtain p q where v: "v = p @ q" "list_all no_wait p"
      and q: "exec (then_do (sleep 1000) (\<lambda>_. legacy_loop fuel child pid_file name known)) q = Some r"
      using emits_holds [OF emits_forward_pending] by (auto simp: exec_then_do [of "forward_pending _ _"])
    then obtain z where "q = ESleep 1000 # z" "exec (legacy_loop fuel child pid_file name known) z = Some r"
      by (auto simp: exec_node)
    with v that show ?thesis by (intro again [of "w @ p @ [ESleep 1000]" z known]) (auto simp: no_wait_def)
  qed
  show ?case
  proof (cases a)
    case NotYet
    with u pause [of u "[]"] show ?thesis by (simp add: no_child_left_def)
  next
    case (Reaped pid status)
    with u show ?thesis
      by (auto simp: no_child_left_def no_wait_def exec_then_do split: if_splits
          intro: again [of "[]" u] again [of "[w]" for w])
  next
    case (WaitError err)
    show ?thesis
    proof (cases "errno_of err = Some 4 \<or> errno_of err = Some 10")
      case True
      then show ?thesis
      proof
        assume "errno_of err = Some 4"
        with u WaitError again [of "[]" u known] show ?thesis by (simp add: no_child_left_def)
      next
        assume "errno_of err = Some 10"
        with u WaitError t show ?thesis
          by (auto simp: no_child_left_def loop_end_def exec_node intro!: exI [of _ "[]"])
      qed
    next
      case False
      with u WaitError obtain v where "u = [EWarn (''waitpid: '' @ show_io err @ [LF])] @ v" "exec ?pause v = Some r"
        by (auto simp: exec_then_do [of "eprintln _"])
      with pause False WaitError show ?thesis by (auto simp: no_child_left_def no_wait_def)
    qed
  qed
qed (simp add: loop_end_def)

lemma legacy_loop_no_fork: "emits (\<lambda>e. \<not> is_fork e) (legacy_loop fuel child pid_file name known)"
  by (induction fuel arbitrary: known)
    (auto simp: forward_pending_def forward_signal_def Let_def intro!: emits_then_do split: wait_answer.splits)

lemma exit_code_less: "exit_code_from_status status have < 256"
  by (simp add: exit_code_from_status_def)

lemma legacy_fork_started:
  assumes "exec (then_do (fork_exec command) (\<lambda>f. case f of
        Inl err \<Rightarrow> then_do (eprintln (''fork: '' @ show_io err)) (\<lambda>_. then_do (act (RemoveFile pid_file)) (\<lambda>_. ok 1))
      | Inr child \<Rightarrow> then_do (eprintln (name @ '': supervising pid='' @ show_nat child)) (\<lambda>_.
          legacy_loop fuel child pid_file name None))) v = Some r"
    and "ENum (Fork command) (Inr child) \<in> set v"
  obtains p w where "v = p @ w" "list_all no_wait p" "exec (legacy_loop fuel child pid_file name None) w = Some r"
proof -
  let ?next = "\<lambda>f. case f of
        Inl err \<Rightarrow> then_do (eprintln (''fork: '' @ show_io err)) (\<lambda>_. then_do (act (RemoveFile pid_file)) (\<lambda>_. ok 1))
      | Inr child \<Rightarrow> then_do (eprintln (name @ '': supervising pid='' @ show_nat child)) (\<lambda>_.
          legacy_loop fuel child pid_file name None)"
  from assms(1) obtain p q c where vs: "v = p @ q" "exec (fork_exec command) p = Some c"
    and q: "exec (?next c) q = Some r" unfolding exec_then_do by blast
  have "emits (\<lambda>e. \<not> is_fork e) (?next c)"
    by (auto intro!: emits_then_do legacy_loop_no_fork split: sum.splits)
  from emits_holds [OF this q] have no_fork: "ENum (Fork command) x \<notin> set q" for x by (force simp: list_all_iff)
  show thesis
  proof (cases c)
    case (Inl err)
    with vs assms(2) no_fork show ?thesis by (auto simp: fork_exec_def exec_try_do exec_node)
  next
    case (Inr c')
    with vs assms(2) no_fork obtain g where p: "p = [ENum (Fork command) (Inr child), EAct (SetGroup child child) g]"
      and "c' = child" by (auto simp: fork_exec_def exec_try_do exec_node)
    with q Inr obtain w where w: "q = EWarn (name @ '': supervising pid='' @ show_nat child @ [LF]) # w"
      "exec (legacy_loop fuel child pid_file name None) w = Some r"
      by (auto simp: exec_then_do [of "eprintln _"])
    show ?thesis
      by (rule that [of "p @ [EWarn (name @ '': supervising pid='' @ show_nat child @ [LF])]" w])
        (use vs p w in \<open>simp_all add: no_wait_def\<close>)
  qed
qed

lemma legacy_started:
  assumes "exec (run_legacy fuel pid_file name command) t = Some r" "ENum (Fork command) (Inr child) \<in> set t"
  obtains p w where "t = p @ w" "list_all no_wait p" "exec (legacy_loop fuel child pid_file name None) w = Some r"
proof -
  let ?pre = "try_do (io_context ''sigaction'' install_handlers) (\<lambda>_.
              try_do (io_context ''prctl(PR_SET_CHILD_SUBREAPER)'' set_subreaper) (\<lambda>_.
              then_do (query ProcessId) (\<lambda>pid.
                io_context ''write pid file'' (write_pid_file pid_file pid))))"
  have pre: "emits (\<lambda>e. no_wait e \<and> \<not> is_fork e) ?pre"
    by (auto simp: install_handlers_def set_subreaper_def write_pid_file_def no_wait_def intro!: emits_try_do emits_then_do)
  from assms(1) obtain u v f where t: "t = u @ v" "exec ?pre u = Some f" and v: "exec (case f of
         Inl message \<Rightarrow> then_do (eprintln message) (\<lambda>_. ok 1)
       | Inr _ \<Rightarrow>
           then_do (fork_exec command) (\<lambda>f. case f of
             Inl err \<Rightarrow> then_do (eprintln (''fork: '' @ show_io err)) (\<lambda>_. then_do (act (RemoveFile pid_file)) (\<lambda>_. ok 1))
           | Inr child \<Rightarrow> then_do (eprintln (name @ '': supervising pid='' @ show_nat child)) (\<lambda>_.
               legacy_loop fuel child pid_file name None))) v = Some r"
    unfolding run_legacy_def exec_then_do by blast
  from emits_holds [OF pre t(2)] have u: "list_all no_wait u" "\<not> list_ex is_fork u"
    by (auto simp: list_all_iff list_ex_iff)
  then have forked: "ENum (Fork command) (Inr child) \<in> set v" using assms(2) t(1) by (auto simp: list_ex_iff)
  show thesis
  proof (cases f)
    case (Inl message)
    with v forked show ?thesis by (auto simp: exec_then_do)
  next
    case (Inr _)
    from legacy_fork_started [OF v [unfolded Inr sum.case] forked] obtain p w where
      "v = p @ w" "list_all no_wait p" "exec (legacy_loop fuel child pid_file name None) w = Some r" .
    with t u show ?thesis by (intro that [of "u @ p" w]) simp_all
  qed
qed

text \<open>
  C28. A supervised command: when the loop ends, it ended because no child was left, its last
  call removes the pid file, and the exit code is the one of the last status reported for the
  command itself (not for another child the supervisor reaps), or 0 if none was, always below
  256. When the rounds are used up instead, every one of them has asked for ended children and
  none was told that no child is left.
\<close>

theorem supervised_exit:
  assumes "exec (run_legacy fuel pid_file name command) t = Some r" "ENum (Fork command) (Inr child) \<in> set t"
  shows "case r of
      Inr code \<Rightarrow> \<exists>u err x. t = u @ [EWait WaitAny (WaitError err), EAct (RemoveFile pid_file) x]
        \<and> errno_of err = Some 10 \<and> 0 \<le> code \<and> code < 256
        \<and> code = (case status_after child u None of None \<Rightarrow> 0 | Some status \<Rightarrow> int (exit_code_from_status status True))
    | Inl _ \<Rightarrow> length (filter polls t) = fuel \<and> \<not> list_ex no_child_left t"
proof -
  from legacy_started [OF assms] obtain p w where t: "t = p @ w" and quiet: "list_all no_wait p"
    and loop: "exec (legacy_loop fuel child pid_file name None) w = Some r" .
  show ?thesis
  proof (cases r)
    case (Inl stop)
    with legacy_loop_end [OF loop] no_wait_all [OF quiet] show ?thesis by (simp add: t loop_end_def)
  next
    case (Inr code)
    with legacy_loop_end [OF loop] obtain z err x where z: "w = z @ [EWait WaitAny (WaitError err), EAct (RemoveFile pid_file) x]"
      "errno_of err = Some 10" "code = int (legacy_exit_code (status_after child z None))"
      by (auto simp: loop_end_def no_child_left_def)
    have "code = (case status_after child (p @ z) None of None \<Rightarrow> 0 | Some status \<Rightarrow> int (exit_code_from_status status True))"
      using z(3) no_wait_all(1) [OF quiet]
      by (simp add: legacy_exit_code_def exit_code_from_status_def split: option.splits)
    moreover have "0 \<le> code" "code < 256"
      using z(3) exit_code_less by (simp_all add: legacy_exit_code_def split: option.splits)
    ultimately show ?thesis
      using z(1,2) unfolding t Inr sum.case
      by (intro exI [of _ "p @ z"] exI [of _ err] exI [of _ x] conjI) simp_all
  qed
qed

definition demo_supervised :: "event list" where
  "demo_supervised =
     map (\<lambda>sig. EAct (InstallHandler sig) (Inr ())) [SIGTERM, SIGINT, SIGHUP, SIGQUIT, SIGCHLD]
     @ [EAct (Prctl PR_SET_CHILD_SUBREAPER 1) (Inr ()), EQuery ProcessId 7, EAct (WriteFile ''/p'' (''7'' @ [LF])) (Inr ()),
        ENum (Fork [''ls'']) (Inr 9), EAct (SetGroup 9 9) (Inr ()), EWarn (''d: supervising pid=9'' @ [LF]),
        EWait WaitAny (Reaped 9 512), EWarn (''d: main pid=9 exited status=2'' @ [LF]),
        EWait WaitAny (Reaped 12 256), EWait WaitAny (WaitError (Os 10 ''No child processes'')), EAct (RemoveFile ''/p'') (Inr ())]"

theorem supervised_exit_witness:
  "\<exists>u err x. demo_supervised = u @ [EWait WaitAny (WaitError err), EAct (RemoveFile ''/p'') x]
     \<and> 2 = (case status_after 9 u None of None \<Rightarrow> 0 | Some status \<Rightarrow> int (exit_code_from_status status True))"
proof -
  have "exec (run_legacy (Suc (Suc (Suc 0))) ''/p'' ''d'' [''ls'']) demo_supervised = Some (Inr 2)" by code_simp
  moreover have "ENum (Fork [''ls'']) (Inr 9) \<in> set demo_supervised" by (simp add: demo_supervised_def)
  ultimately show ?thesis using supervised_exit [of "Suc (Suc (Suc 0))" "''/p''" "''d''" "[''ls'']" demo_supervised "Inr 2" 9]
    by auto
qed

end
