(* ===== verification/DockerClaims.thy ===== *)
theory DockerClaims
  imports DockerMain SupSafety
begin

text \<open>
  What \<open>achost-docker-runtime\<close> guarantees: the mount table is read back as the kernel wrote
  it, only own processes are signalled, mounts below the chroot go deepest first, and a
  start that succeeds has seen its daemons answer.
\<close>

section \<open>Mount fields\<close>

text \<open>The kernel writes blank, tab, line feed and backslash of a mount point as octal escapes.\<close>

fun octal_escape :: "char \<Rightarrow> string" where
  "octal_escape c =
     (if c = CHR '' '' then ''040'' else if c = TAB then ''011'' else if c = LF then ''012'' else ''134'')"

definition encode_char :: "char set \<Rightarrow> char \<Rightarrow> string" where
  "encode_char A c = (if c \<in> A then mount_escape (octal_escape c) else [c])"

definition encode_field :: "char set \<Rightarrow> string \<Rightarrow> string" where
  "encode_field A s = concat (map (encode_char A) s)"

lemma encode_field_simps [simp]:
  "encode_field A [] = []" "encode_field A (c # s) = encode_char A c @ encode_field A s"
  by (simp_all add: encode_field_def)

lemma encode_field_none: "encode_field {} s = s"
  by (induction s) (simp_all add: encode_char_def)

lemma replace_skip: "x \<noteq> b \<Longrightarrow> str_replace (b # p) q (x # s) = x # str_replace (b # p) q s"
  by (subst str_replace.simps) (simp add: starts_with_def)

lemma replace_hit: "p \<noteq> [] \<Longrightarrow> str_replace p q (p @ s) = q @ str_replace p q s"
  by (subst str_replace.simps) (simp add: starts_with_def)

lemma replace_other:
  "length d = 3 \<Longrightarrow> length e = 3 \<Longrightarrow> d \<noteq> e \<Longrightarrow> BACKSLASH \<notin> set e \<Longrightarrow>
     str_replace (BACKSLASH # d) q (BACKSLASH # e @ s) = BACKSLASH # e @ str_replace (BACKSLASH # d) q s"
proof -
  assume d: "length d = 3" "length e = 3" "d \<noteq> e" "BACKSLASH \<notin> set e"
  then obtain x y z where e: "e = [x, y, z]" by (auto simp: length_Suc_conv eval_nat_numeral)
  with d have "x \<noteq> BACKSLASH" "y \<noteq> BACKSLASH" "z \<noteq> BACKSLASH" "\<not> starts_with (BACKSLASH # d) (BACKSLASH # e @ s)"
    by (auto simp: starts_with_def)
  then show ?thesis
    by (subst str_replace.simps) (simp add: e replace_skip)
qed

lemma escape_facts:
  "length (octal_escape c) = 3" "BACKSLASH \<notin> set (octal_escape c)"
  "c \<in> {CHR '' '', TAB, LF, BACKSLASH} \<Longrightarrow> d \<in> {CHR '' '', TAB, LF, BACKSLASH} \<Longrightarrow> c \<noteq> d
     \<Longrightarrow> octal_escape c \<noteq> octal_escape d"
  by auto

lemma replace_stage:
  assumes "c \<notin> A" "insert c A \<subseteq> {CHR '' '', TAB, LF, BACKSLASH}" "BACKSLASH \<in> insert c A"
  shows "str_replace (mount_escape (octal_escape c)) [c] (encode_field (insert c A) s) = encode_field A s"
proof (induction s)
  case Nil
  show ?case by (simp add: str_replace.simps)
next
  case (Cons d s)
  consider "d = c" | "d \<in> A" "d \<noteq> c" | "d \<notin> insert c A" by auto
  then show ?case
  proof cases
    case 1
    with assms(1) Cons show ?thesis
      using replace_hit [of "mount_escape (octal_escape c)" "[c]"]
      by (simp add: encode_char_def mount_escape_def)
  next
    case 2
    have "octal_escape c \<noteq> octal_escape d" using assms(2) 2 by (intro escape_facts(3)) auto
    with 2 Cons escape_facts(1,2) show ?thesis
      by (simp add: encode_char_def mount_escape_def replace_other del: octal_escape.simps)
  next
    case 3
    with assms(3) have "d \<noteq> BACKSLASH" by auto
    with 3 Cons show ?thesis
      by (simp add: encode_char_def mount_escape_def replace_skip del: octal_escape.simps)
  qed
qed

text \<open>
  C32. Every mount point is read back from the mount table as it is, also with blanks, tabs,
  line feeds and backslashes in it, in any order: undoing the escapes one kind after the
  other never takes a decoded backslash for the start of an escape.
\<close>

theorem decode_mount_field_roundtrip:
  "decode_mount_field (encode_field {CHR '' '', TAB, LF, BACKSLASH} s) = s"
proof -
  have "str_replace (mount_escape ''040'') '' '' (encode_field {CHR '' '', TAB, LF, BACKSLASH} s)
      = encode_field {TAB, LF, BACKSLASH} s"
    using replace_stage [of "CHR '' ''" "{TAB, LF, BACKSLASH}" s] by simp
  moreover have "str_replace (mount_escape ''011'') [TAB] (encode_field {TAB, LF, BACKSLASH} s)
      = encode_field {LF, BACKSLASH} s"
    using replace_stage [of TAB "{LF, BACKSLASH}" s] by simp
  moreover have "str_replace (mount_escape ''012'') [LF] (encode_field {LF, BACKSLASH} s) = encode_field {BACKSLASH} s"
    using replace_stage [of LF "{BACKSLASH}" s] by simp
  moreover have "str_replace (mount_escape ''134'') [BACKSLASH] (encode_field {BACKSLASH} s) = s"
    using replace_stage [of BACKSLASH "{}" s] by (simp add: encode_field_none)
  ultimately show ?thesis by (simp add: decode_mount_field_def)
qed

section \<open>Unmounting\<close>

lemma sort_deepest_order:
  assumes "i < j" "j < length ms" "ms = sort_mounts_deepest_first dests"
  shows "length (components (ms ! j)) \<le> length (components (ms ! i))"
proof -
  let ?s = "sort_key mount_depth dests"
  have len: "length ms = length ?s" by (simp add: assms(3) sort_mounts_deepest_first_def)
  have "sorted (map mount_depth ?s)" by simp
  moreover have "ms ! i = ?s ! (length ?s - Suc i)" "ms ! j = ?s ! (length ?s - Suc j)"
    using assms len by (simp_all add: sort_mounts_deepest_first_def rev_nth)
  moreover have "length ?s - Suc j \<le> length ?s - Suc i" "length ?s - Suc i < length ?s"
    using assms(1,2) len by simp_all
  ultimately have "mount_depth (ms ! j) \<le> mount_depth (ms ! i)"
    by (metis (no_types, lifting) le_less_trans length_map nth_map sorted_iff_nth_mono)
  then show ?thesis by (auto simp: mount_depth_def less_eq_prod_def)
qed

definition below_chroot :: "string \<Rightarrow> string \<Rightarrow> bool" where
  "below_chroot chroot m \<longleftrightarrow> starts_with (trim_end_char (CHR ''/'') (path_string chroot) @ ''/'') m"

fun unmounts_only :: "(string \<Rightarrow> bool) \<Rightarrow> event \<Rightarrow> bool" where
  "unmounts_only P (EAct (Unmount path flags) r) \<longleftrightarrow> P path"
| "unmounts_only P e \<longleftrightarrow> True"

lemma emits_unmount_path: "P m \<Longrightarrow> emits (unmounts_only P) (unmount_path m)"
  by (auto simp: unmount_path_def umount_def)

lemma emits_read_mounts [simp]: "emits (unmounts_only P) read_mount_destinations"
  by (simp add: read_mount_destinations_def read_mount_records_def)

text \<open>What \<open>chroot_mounts\<close> can return.\<close>

lemma chroot_mounts_result:
  assumes "exec (chroot_mounts chroot) t = Some ms"
  shows "list_all (below_chroot chroot) ms \<and> (\<exists>dests. ms = sort_mounts_deepest_first dests)"
proof -
  from assms obtain dests where "ms = sort_mounts_deepest_first (filter (below_chroot chroot) dests)"
    by (auto simp: chroot_mounts_def Let_def exec_then_do below_chroot_def [abs_def])
  then show ?thesis by (auto simp: sort_mounts_deepest_first_def list_all_iff)
qed

lemma emits_then_result:
  assumes "emits P p" "\<And>t x. exec p t = Some x \<Longrightarrow> emits P (f x)"
  shows "emits P (then_do p f)"
  using assms unfolding emits_def holds_exec by (fastforce simp: exec_then_do)

lemma emits_chroot_mounts [simp]: "emits (unmounts_only P) (chroot_mounts chroot)"
  by (simp add: chroot_mounts_def Let_def emits_then_do)

lemma emits_unmount_rounds:
  "(\<And>m. below_chroot chroot m \<Longrightarrow> P m) \<Longrightarrow> emits (unmounts_only P) (unmount_rounds n chroot)"
proof (induction n)
  case (Suc n)
  have rounds: "emits (unmounts_only P) (if ms = [] then Ret ()
       else then_do (for_all ms (\<lambda>m. then_do (unmount_path m) (\<lambda>_. Ret ()))) (\<lambda>_. unmount_rounds n chroot))"
    if "exec (chroot_mounts chroot) t = Some ms" for t ms
    using Suc chroot_mounts_result [OF that]
    by (auto simp: list_all_iff intro!: emits_then_do emits_for_all emits_unmount_path)
  show ?case
    unfolding unmount_rounds.simps by (rule emits_then_result, simp, rule rounds)
qed simp

lemma emits_unmount_self: "P chroot \<Longrightarrow> emits (unmounts_only P) (unmount_self n chroot)"
  by (induction n) (auto simp: mount_is_present_def intro!: emits_then_do emits_unmount_path)

definition own_mount :: "docker_stop_config \<Rightarrow> string \<Rightarrow> bool" where
  "own_mount config m \<longleftrightarrow>
     (ds_use_chroot config \<and> (m = ds_chroot config \<or> below_chroot (ds_chroot config) m)) \<or> m = DEVICES_CGROUP"

lemma emits_unmount_chroot: "emits (unmounts_only (own_mount config)) (unmount_chroot config)"
  by (auto simp: unmount_chroot_def make_mount_private_def mount_private_def own_mount_def
      intro!: emits_then_do emits_unmount_rounds emits_unmount_self)

lemma emits_unmount_devices: "emits (unmounts_only (own_mount config)) unmount_devices_cgroup"
  by (auto simp: unmount_devices_cgroup_def mount_is_present_def own_mount_def
      intro!: emits_then_do emits_unmount_path)

lemma accepts_calls2 [simp]:
  "accepts step s (Get g k) Q \<longleftrightarrow> (\<forall>r. case step s (EGet g r) of None \<Rightarrow> False | Some m \<Rightarrow> accepts step m (k r) Q)"
  "accepts step s (Ls d k2) Q \<longleftrightarrow> (\<forall>r. case step s (ELs d r) of None \<Rightarrow> False | Some m \<Rightarrow> accepts step m (k2 r) Q)"
proof -
  have *: "holds (\<lambda>t ra. \<exists>m. runs_on step (e # t) s = Some m \<and> Q ra m) p \<longleftrightarrow>
      (case step s e of None \<Rightarrow> False | Some m \<Rightarrow> holds (\<lambda>t ra. \<exists>m'. runs_on step t m = Some m' \<and> Q ra m') p)" for e p
    by (cases "step s e") (simp_all add: holds_const)
  show "accepts step s (Get g k) Q \<longleftrightarrow> (\<forall>r. case step s (EGet g r) of None \<Rightarrow> False | Some m \<Rightarrow> accepts step m (k r) Q)"
    "accepts step s (Ls d k2) Q \<longleftrightarrow> (\<forall>r. case step s (ELs d r) of None \<Rightarrow> False | Some m \<Rightarrow> accepts step m (k2 r) Q)"
    unfolding accepts_def holds.simps * by (rule refl)+
qed

text \<open>
  A monitor of the unmount calls: what has been unmounted since the mount table was last read.
  It refuses a call for a mount that lies in one of those.
\<close>

definition order_step :: "string list \<Rightarrow> event \<Rightarrow> string list option" where
  "order_step tried e =
     (case e of
        EGet (ReadText path) x \<Rightarrow> Some (if path = ''/proc/mounts'' then [] else tried)
      | EAct (Unmount m flags) r \<Rightarrow>
          if list_ex (\<lambda>q. strict_prefix (components q) (components m)) tried then None else Some (m # tried)
      | _ \<Rightarrow> Some tried)"

text \<open>The mounts below the chroot that a reading of the mount table lists.\<close>

definition listed_below :: "string \<Rightarrow> string io \<Rightarrow> string list" where
  "listed_below chroot x = (case x of Inl _ \<Rightarrow> []
     | Inr mounts \<Rightarrow> filter (below_chroot chroot) (map mr_destination (mount_records mounts)))"

fun reads_mounts :: "event \<Rightarrow> bool" where
  "reads_mounts (EGet g x) \<longleftrightarrow> True"
| "reads_mounts e \<longleftrightarrow> False"

lemma exec_chroot_mounts:
  "exec (chroot_mounts chroot) t = Some ms \<longleftrightarrow>
     (\<exists>x. t = [EGet (ReadText ''/proc/mounts'') x] \<and> ms = sort_mounts_deepest_first (listed_below chroot x))"
  by (auto simp: chroot_mounts_def read_mount_destinations_def read_mount_records_def Let_def exec_node listed_below_def
      below_chroot_def [abs_def] split: sum.split_asm intro: sum.exhaust)

lemma deepest_first_sorted:
  "sorted_wrt (\<lambda>a b. \<not> strict_prefix (components a) (components b)) (sort_mounts_deepest_first dests)"
proof -
  let ?ms = "sort_mounts_deepest_first dests"
  have "\<not> strict_prefix (components (?ms ! i)) (components (?ms ! j))" if "i < j" "j < length ?ms" for i j
    using sort_deepest_order [OF that refl] prefix_length_less [of "components (?ms ! i)"] by (meson leD)
  then show ?thesis by (simp add: sorted_wrt_iff_nth_less)
qed

lemma accepts_unmount_path:
  assumes "\<not> list_ex (\<lambda>q. strict_prefix (components q) (components m)) tried"
  shows "accepts order_step tried (unmount_path m) (\<lambda>_ tried'. set tried' \<subseteq> insert m (set tried))"
  using assms by (auto simp: unmount_path_def umount_def order_step_def)

lemma accepts_unmount_all:
  assumes "sorted_wrt (\<lambda>a b. \<not> strict_prefix (components a) (components b)) ms"
    and "\<And>q m. q \<in> set tried \<Longrightarrow> m \<in> set ms \<Longrightarrow> \<not> strict_prefix (components q) (components m)"
  shows "accepts order_step tried (for_all ms (\<lambda>m. then_do (unmount_path m) (\<lambda>_. Ret ()))) (\<lambda>_ _. True)"
  using assms
proof (induction ms arbitrary: tried)
  case (Cons m ms)
  have "\<not> list_ex (\<lambda>q. strict_prefix (components q) (components m)) tried"
    using Cons.prems(2) by (auto simp: list_ex_iff)
  from accepts_unmount_path [OF this] show ?case
    unfolding for_all.simps then_do_assoc then_do.simps
  proof (rule accepts_then_do)
    fix tried' assume sub: "set tried' \<subseteq> insert m (set tried)"
    show "accepts order_step tried' (for_all ms (\<lambda>m. then_do (unmount_path m) (\<lambda>_. Ret ()))) (\<lambda>_ _. True)"
    proof (rule Cons.IH)
      show "sorted_wrt (\<lambda>a b. \<not> strict_prefix (components a) (components b)) ms" using Cons.prems(1) by simp
      fix q m' assume "q \<in> set tried'" "m' \<in> set ms"
      with sub Cons.prems show "\<not> strict_prefix (components q) (components m')" by fastforce
    qed
  qed
qed simp

lemma accepts_reading:
  assumes "\<And>ms. accepts order_step [] (f ms) Q"
  shows "accepts order_step tried (then_do read_mount_destinations f) Q"
  using assms by (simp add: read_mount_destinations_def read_mount_records_def order_step_def)

lemma accepts_unmount_rounds: "accepts order_step tried (unmount_rounds n chroot) (\<lambda>_ _. True)"
proof (induction n arbitrary: tried)
  case (Suc n)
  show ?case
    unfolding unmount_rounds.simps chroot_mounts_def Let_def then_do_assoc
    by (rule accepts_reading)
      (auto intro!: accepts_then_do [OF accepts_unmount_all [OF deepest_first_sorted]] Suc)
qed simp

lemma accepts_unmount_self: "accepts order_step tried (unmount_self n chroot) (\<lambda>_ _. True)"
proof (induction n arbitrary: tried)
  case (Suc n)
  show ?case
    unfolding unmount_self.simps mount_is_present_def then_do_assoc
    by (rule accepts_reading) (auto intro!: accepts_then_do [OF accepts_unmount_path] Suc)
qed simp

lemma accepts_plain_then:
  assumes "emits (\<lambda>e. \<forall>tried. order_step tried e = Some tried) p" "\<And>x. accepts order_step tried (f x) Q"
  shows "accepts order_step tried (then_do p f) Q"
  by (rule accepts_then_still [OF emits_mono [OF assms(1)]]) (simp_all add: assms(2))

lemma accepts_clean_all: "accepts order_step tried (clean_all config) (\<lambda>_ _. True)"
proof -
  have plain: "emits (\<lambda>e. \<forall>tried. order_step tried e = Some tried) (remove_file_quiet p)"
    "emits (\<lambda>e. \<forall>tried. order_step tried e = Some tried) (remove_opt_quiet q)"
    "emits (\<lambda>e. \<forall>tried. order_step tried e = Some tried) (make_mount_private p)" for p q
    by (auto simp: remove_file_quiet_def remove_opt_quiet_def make_mount_private_def mount_private_def order_step_def
        intro!: emits_then_do split: option.split)
  have still: "accepts order_step tried p (\<lambda>_ _. True)"
    if "emits (\<lambda>e. \<forall>tried. order_step tried e = Some tried) p" for p :: "unit prog" and tried
    using accepts_plain_then [OF that, of tried Ret] by simp
  have inner: "accepts order_step tried (then_do (make_mount_private (ds_chroot config)) (\<lambda>_.
      then_do (unmount_rounds 8 (ds_chroot config)) (\<lambda>_. unmount_self 4 (ds_chroot config)))) (\<lambda>_ _. True)" for tried
    by (intro accepts_plain_then plain accepts_then_do [OF accepts_unmount_rounds] accepts_unmount_self)
  have chroot: "accepts order_step tried (unmount_chroot config) (\<lambda>_ _. True)" for tried
  proof (cases "ds_use_chroot config")
    case True
    have "emits (\<lambda>e. \<forall>tried. order_step tried e = Some tried) (ask (IsFile ''/proc/mounts''))"
      by (simp add: order_step_def)
    moreover have "accepts order_step tried (if \<not> b then Ret () else then_do (make_mount_private (ds_chroot config)) (\<lambda>_.
        then_do (unmount_rounds 8 (ds_chroot config)) (\<lambda>_. unmount_self 4 (ds_chroot config)))) (\<lambda>_ _. True)" for b
      using inner by simp
    ultimately show ?thesis
      unfolding unmount_chroot_def using True by (simp only: not_True_eq_False if_False) (rule accepts_plain_then)
  qed (simp add: unmount_chroot_def)
  have devices: "accepts order_step tried unmount_devices_cgroup (\<lambda>_ _. True)" for tried
    unfolding unmount_devices_cgroup_def mount_is_present_def then_do_assoc
    by (rule accepts_reading)
      (auto simp: order_step_def intro!: accepts_then_do [OF accepts_unmount_path])
  show ?thesis
    unfolding clean_all_def
    by (intro accepts_then_do [where Q = "\<lambda>_ _. True"] chroot devices still plain)
qed

text \<open>
  C31. Stopping unmounts nothing but its own mounts: the chroot and what starts with its path
  and a slash, if a chroot is used, and the devices cgroup. Between two readings of the mount
  table no call unmounts something that lies in a mount unmounted before, so mounts go deepest
  first. And nothing is left out: a round tries every mount below the chroot that the table
  it has read lists, before it reads the table again.
\<close>

theorem unmount_deepest_first:
  "emits (unmounts_only (own_mount config)) (clean_all config)
   \<and> holds (\<lambda>t r. runs_on order_step t [] \<noteq> None) (clean_all config)
   \<and> holds (\<lambda>t r. \<exists>x u v. t = EGet (ReadText ''/proc/mounts'') x # u @ v \<and> list_all (\<lambda>e. \<not> reads_mounts e) u
        \<and> list_all (\<lambda>m. \<exists>r. EAct (Unmount m 0) r \<in> set u) (filter nul_free (listed_below chroot x)))
       (unmount_rounds (Suc n) chroot)"
proof (intro conjI)
  show "emits (unmounts_only (own_mount config)) (clean_all config)"
    by (auto simp: clean_all_def remove_file_quiet_def remove_opt_quiet_def
        intro!: emits_then_do emits_unmount_chroot emits_unmount_devices split: option.splits)
  show "holds (\<lambda>t r. runs_on order_step t [] \<noteq> None) (clean_all config)"
    using accepts_clean_all [of "[]" config] unfolding accepts_def by (rule holds_mono) auto
  have all: "exec (for_all ms (\<lambda>m. then_do (unmount_path m) (\<lambda>_. Ret ()))) u = Some y
      \<Longrightarrow> list_all (\<lambda>e. \<not> reads_mounts e) u \<and> list_all (\<lambda>m. \<exists>r. EAct (Unmount m 0) r \<in> set u) (filter nul_free ms)"
    for ms u y
  proof (induction ms arbitrary: u)
    case (Cons m ms)
    from Cons.prems obtain a b c where u: "u = a @ b" "exec (unmount_path m) a = Some c"
      and b: "exec (for_all ms (\<lambda>m. then_do (unmount_path m) (\<lambda>_. Ret ()))) b = Some y"
      by (auto simp: exec_then_do [of "unmount_path m"])
    from u(2) have "list_all (\<lambda>e. \<not> reads_mounts e) a" "nul_free m \<Longrightarrow> \<exists>r. EAct (Unmount m 0) r \<in> set a"
      by (auto simp: unmount_path_def umount_def exec_node split: if_splits)
    with Cons.IH [OF b] u(1) show ?case by (auto simp: list_all_iff)
  qed simp
  have members: "set (sort_mounts_deepest_first ms) = set ms" for ms by (simp add: sort_mounts_deepest_first_def)
  show "holds (\<lambda>t r. \<exists>x u v. t = EGet (ReadText ''/proc/mounts'') x # u @ v \<and> list_all (\<lambda>e. \<not> reads_mounts e) u
        \<and> list_all (\<lambda>m. \<exists>r. EAct (Unmount m 0) r \<in> set u) (filter nul_free (listed_below chroot x)))
       (unmount_rounds (Suc n) chroot)"
    unfolding holds_exec
  proof (intro allI impI)
    fix t r assume "exec (unmount_rounds (Suc n) chroot) t = Some r"
    then obtain x v where t: "t = EGet (ReadText ''/proc/mounts'') x # v"
      and v: "exec (if sort_mounts_deepest_first (listed_below chroot x) = [] then Ret ()
        else then_do (for_all (sort_mounts_deepest_first (listed_below chroot x)) (\<lambda>m. then_do (unmount_path m) (\<lambda>_. Ret ())))
          (\<lambda>_. unmount_rounds n chroot)) v = Some r"
      unfolding unmount_rounds.simps exec_then_do [of "chroot_mounts _"] exec_chroot_mounts by fastforce
    show "\<exists>x u v. t = EGet (ReadText ''/proc/mounts'') x # u @ v \<and> list_all (\<lambda>e. \<not> reads_mounts e) u
        \<and> list_all (\<lambda>m. \<exists>r. EAct (Unmount m 0) r \<in> set u) (filter nul_free (listed_below chroot x))"
    proof (cases "sort_mounts_deepest_first (listed_below chroot x) = []")
      case True
      then have "listed_below chroot x = []" using members [of "listed_below chroot x"] by auto
      with t show ?thesis by (intro exI [of _ x] exI [of _ "[]"] exI [of _ v]) simp
    next
      case False
      with v obtain u w where "v = u @ w"
        "exec (for_all (sort_mounts_deepest_first (listed_below chroot x)) (\<lambda>m. then_do (unmount_path m) (\<lambda>_. Ret ()))) u = Some ()"
        by (auto simp: exec_then_do [of "for_all _ _"])
      with all [OF this(2)] members t show ?thesis
        by (intro exI [of _ x] exI [of _ u] exI [of _ w]) (auto simp: list_all_iff)
    qed
  qed
qed

section \<open>Signals\<close>

text \<open>
  The processes that have been seen to run one of the given programs: by the link
  \<open>/proc/PID/exe\<close> or by the first word of \<open>/proc/PID/cmdline\<close>. Signal 0 is only a test.
\<close>

definition runs_program :: "string list \<Rightarrow> string \<Rightarrow> bool" where
  "runs_program programs path \<longleftrightarrow> list_ex (path_eq path) programs"

definition owned_step :: "string list \<Rightarrow> nat set \<Rightarrow> event \<Rightarrow> nat set option" where
  "owned_step programs owned e =
     (case e of
        EGet (ReadLink path) (Inr target) \<Rightarrow>
          Some (if runs_program programs target then owned \<union> {p. path = proc_path p @ ''/exe''} else owned)
      | EGet (ReadBytes path) (Inr cmdline) \<Rightarrow>
          Some (if cmdline_args cmdline \<noteq> [] \<and> runs_program programs (hd (cmdline_args cmdline))
                then owned \<union> {p. path = proc_path p @ ''/cmdline''} else owned)
      | EAct (SendSignal target sig) r \<Rightarrow>
          if sig = 0 \<or> (\<exists>p \<in> owned. target = pid_t p) then Some owned else None
      | _ \<Rightarrow> Some owned)"

definition knows :: "string list \<Rightarrow> nat set \<Rightarrow> 'a prog \<Rightarrow> ('a \<Rightarrow> nat set \<Rightarrow> bool) \<Rightarrow> bool" where
  "knows programs owned p Q \<longleftrightarrow> accepts (owned_step programs) owned p (\<lambda>r m. owned \<subseteq> m \<and> Q r m)"

text \<open>Programs that neither signal nor learn.\<close>

definition plain_event :: "string list \<Rightarrow> nat set \<Rightarrow> event \<Rightarrow> bool" where
  "plain_event programs owned e \<longleftrightarrow> owned_step programs owned e = Some owned"

lemma plain_event_simps [simp]:
  "plain_event programs owned (ESay s)" "plain_event programs owned (EAsk q b)" "plain_event programs owned (ESleep ms)"
  "plain_event programs owned (EAct (RemoveFile p) r)" "plain_event programs owned (EGet (ReadText p) x)"
  "plain_event programs owned (EAct (SendSignal k 0) r)"
  "pid \<in> owned \<Longrightarrow> plain_event programs owned (EAct (SendSignal (pid_t pid) sig) r)"
  by (auto simp: plain_event_def owned_step_def)

lemma knows_plain: "emits (plain_event programs owned) p \<Longrightarrow> knows programs owned p (\<lambda>r m. True)"
  unfolding plain_event_def knows_def
  by (rule accepts_mono [OF accepts_still [where step = "owned_step programs" and s = owned]]) auto

lemma knows_then:
  assumes "knows programs owned p Q" "\<And>x m. owned \<subseteq> m \<Longrightarrow> Q x m \<Longrightarrow> knows programs m (f x) R"
  shows "knows programs owned (then_do p f) R"
  using assms(1) unfolding knows_def
proof (rule accepts_then_do)
  fix x m assume "owned \<subseteq> m \<and> Q x m"
  with assms(2) [of m x] show "accepts (owned_step programs) m (f x) (\<lambda>r m'. owned \<subseteq> m' \<and> R r m')"
    by (auto simp: knows_def elim!: accepts_mono)
qed

lemma knows_Ret [simp]: "knows programs owned (Ret x) Q \<longleftrightarrow> Q x owned"
  by (simp add: knows_def)

lemma knows_plain_then:
  "emits (plain_event programs owned) p \<Longrightarrow> (\<And>x m. owned \<subseteq> m \<Longrightarrow> knows programs m (f x) R)
     \<Longrightarrow> knows programs owned (then_do p f) R"
  by (rule knows_then [OF knows_plain]) auto

lemma plain_programs [simp]:
  "emits (plain_event programs owned) (docker_pid_alive pid)"
  "emits (plain_event programs owned) (read_trimmed path)"
  "emits (plain_event programs owned) (remove_file_quiet path)"
  by (auto simp: docker_pid_alive_def signal_pid_def read_trimmed_def remove_file_quiet_def intro!: emits_then_do)

lemma plain_signals:
  assumes "pid \<in> owned"
  shows "emits (plain_event programs owned) (signal_pid pid sig)"
    "emits (plain_event programs owned) (kill_if_alive pid)" "emits (plain_event programs owned) (end_process pid)"
proof -
  show sig: "emits (plain_event programs owned) (signal_pid pid sig)" for sig
    using assms by (simp add: signal_pid_def)
  show kill: "emits (plain_event programs owned) (kill_if_alive pid)"
    by (auto simp: kill_if_alive_def sig intro!: emits_then_do)
  have "emits (plain_event programs owned) (wait_gone n pid)" for n
    by (induction n) (auto intro!: emits_then_do)
  with sig kill show "emits (plain_event programs owned) (end_process pid)"
    by (auto simp: end_process_def intro!: emits_then_do)
qed

lemma knows_uses_executable:
  assumes "program \<in> set programs"
  shows "knows programs owned (process_uses_executable pid program) (\<lambda>b m. b \<longrightarrow> pid \<in> m)"
  using assms
  by (auto simp: knows_def process_uses_executable_def read_cmdline_args_def owned_step_def runs_program_def list_ex_iff
      split: sum.splits list.splits)

lemma knows_mono: "knows programs owned p Q \<Longrightarrow> (\<And>x m. owned \<subseteq> m \<Longrightarrow> Q x m \<Longrightarrow> R x m) \<Longrightarrow> knows programs owned p R"
  unfolding knows_def by (erule accepts_mono) auto

lemma knows_uses_any:
  "set expected \<subseteq> set programs \<Longrightarrow>
     knows programs owned (process_uses_any_executable pid expected) (\<lambda>b m. b \<longrightarrow> pid \<in> m)"
  unfolding process_uses_any_executable_def
proof (induction expected arbitrary: owned)
  case (Cons program expected)
  then have "program \<in> set programs" by simp
  from knows_uses_executable [OF this] show ?case
    unfolding any_do.simps by (rule knows_then) (use Cons in auto)
qed simp

lemma plain_has_arg [simp]: "knows programs owned (process_has_arg pid arg) (\<lambda>b m. True)"
  by (auto simp: knows_def process_has_arg_def read_cmdline_args_def owned_step_def split: sum.splits)

text \<open>Listed processes are owned.\<close>

lemma knows_proc_loop:
  assumes "\<And>fname pid owned. knows programs owned (wanted fname pid) (\<lambda>b m. b \<longrightarrow> pid \<in> m)"
  shows "knows programs owned (proc_loop wanted entries) (\<lambda>pids m. set pids \<subseteq> m)"
proof (induction entries arbitrary: owned)
  case (Cons entry entries)
  have next_entry: "knows programs owned (then_do (wanted fname pid) (\<lambda>b.
       then_do (proc_loop wanted entries) (\<lambda>rest. Ret (if b then pid # rest else rest)))) (\<lambda>pids m. set pids \<subseteq> m)"
    for fname pid
    using assms [of owned fname pid]
  proof (rule knows_then)
    fix b m assume b: "b \<longrightarrow> pid \<in> m"
    from Cons [of m] show "knows programs m (then_do (proc_loop wanted entries)
        (\<lambda>rest. Ret (if b then pid # rest else rest))) (\<lambda>pids m. set pids \<subseteq> m)"
      by (rule knows_then) (use b in auto)
  qed
  with Cons [of owned] show ?case by (auto split: sum.splits option.splits)
qed simp

lemma knows_proc_pids:
  assumes "\<And>fname pid owned. knows programs owned (wanted fname pid) (\<lambda>b m. b \<longrightarrow> pid \<in> m)"
  shows "knows programs owned (proc_pids wanted) (\<lambda>pids m. set pids \<subseteq> m)"
proof -
  have "knows programs owned (then_do (proc_loop wanted entries) (\<lambda>pids. Ret (sort pids))) (\<lambda>pids m. set pids \<subseteq> m)"
    for entries
    by (rule knows_then [OF knows_proc_loop [OF assms]]) auto
  then show ?thesis by (auto simp: knows_def proc_pids_def owned_step_def split: sum.splits)
qed

lemma knows_pids_for_executable:
  assumes "program \<in> set programs"
  shows "knows programs owned (pids_for_executable name program) (\<lambda>pids m. set pids \<subseteq> m)"
  unfolding pids_for_executable_def
  by (rule knows_proc_pids, rule knows_plain_then) (auto intro!: knows_uses_executable assms)

lemma knows_pids_with_arg:
  assumes "set expected \<subseteq> set programs"
  shows "knows programs owned (pids_for_executables_with_arg expected arg) (\<lambda>pids m. set pids \<subseteq> m)"
  unfolding pids_for_executables_with_arg_def and_also_def
proof (rule knows_proc_pids, rule knows_then [OF knows_uses_any [OF assms]])
  fix pid b and m :: "nat set" assume "b \<longrightarrow> pid \<in> m"
  then show "knows programs m (if b then process_has_arg pid arg else Ret False) (\<lambda>b m. b \<longrightarrow> pid \<in> m)"
    by (auto intro: knows_mono [OF plain_has_arg])
qed

lemma knows_stop_pid_list: "set pids \<subseteq> owned \<Longrightarrow> knows programs owned (stop_pid_list name pids) (\<lambda>r m. True)"
  by (rule knows_plain)
    (auto simp: stop_pid_list_def plain_signals subset_iff intro!: emits_then_do emits_for_all)

lemma knows_stop_pid_file_any:
  assumes "set expected \<subseteq> set programs"
  shows "knows programs owned (stop_pid_file_any name pid_file expected) (\<lambda>r m. True)"
proof -
  have stop: "knows programs m (if \<not> b
      then then_do (println s) (\<lambda>_. remove_file_quiet pid_file)
      else then_do (end_process pid) (\<lambda>_. then_do (remove_file_quiet pid_file) (\<lambda>_. println s'))) (\<lambda>r m. True)"
    if "b \<longrightarrow> pid \<in> m" for b pid m s s'
    using that by (auto simp: plain_signals intro!: knows_plain emits_then_do)
  have tail: "knows programs m (then_do (process_uses_any_executable pid expected) (\<lambda>b. if \<not> b
      then then_do (println s) (\<lambda>_. remove_file_quiet pid_file)
      else then_do (end_process pid) (\<lambda>_. then_do (remove_file_quiet pid_file) (\<lambda>_. println s')))) (\<lambda>r m. True)"
    for m pid s s'
    by (rule knows_then [OF knows_uses_any [OF assms]]) (rule stop)
  have quiet: "knows programs m (then_do (println s) (\<lambda>_. remove_file_quiet pid_file)) (\<lambda>r m. True)"
    "knows programs m (println s) (\<lambda>r m. True)" for m s
    by (auto intro!: knows_plain emits_then_do)
  have alive: "knows programs m (then_do (docker_pid_alive pid) f) (\<lambda>r m. True)"
    if "\<And>b m. knows programs m (f b) (\<lambda>r m. True)" for m pid f
    by (rule knows_plain_then) (simp_all add: that)
  show ?thesis
    unfolding stop_pid_file_any_def Let_def
    by (rule knows_plain_then, simp, split if_split, intro conjI impI quiet, rule knows_plain_then, simp,
        split option.split, intro conjI impI allI quiet alive, split if_split, intro conjI impI quiet tail)
qed

lemma knows_stop_owned:
  "program \<in> set programs \<Longrightarrow> knows programs owned (stop_owned_processes name program) (\<lambda>r m. True)"
  "set expected \<subseteq> set programs \<Longrightarrow>
     knows programs owned (stop_owned_processes_with_arg_any name expected arg) (\<lambda>r m. True)"
  unfolding stop_owned_processes_def stop_owned_processes_with_arg_any_def
  by (auto intro!: knows_then [OF knows_pids_for_executable] knows_then [OF knows_pids_with_arg] knows_stop_pid_list)

definition own_programs :: "docker_stop_config \<Rightarrow> string list" where
  "own_programs config =
     [path_join (ds_achost_bin config) ''dockerd'', path_join (ds_achost_bin config) ''containerd'', ds_supervise config]
     @ runtime_core_candidates config"

text \<open>
  C30. Stopping signals its own processes only: before any signal is sent to a process id, a
  link \<open>/proc/PID/exe\<close> or the first word of \<open>/proc/PID/cmdline\<close> has been read for that id
  that names one of the programs of the installation, whatever the pid files contain. Also
  the ids a 32-bit \<open>kill\<close> would take for process groups are signalled on that condition only.
\<close>

theorem stop_signals_own_processes:
  "holds (\<lambda>t r. runs_on (owned_step (own_programs config)) t {} \<noteq> None) (stop_all config)"
proof -
  have "knows (own_programs config) {} (stop_all config) (\<lambda>r m. True)"
    unfolding stop_all_def stop_network_watchdog_def stop_pid_file_def Let_def then_do_assoc
    by (intro knows_then [where Q = "\<lambda>r m. True"] knows_stop_pid_file_any knows_stop_owned)
      (auto simp: own_programs_def)
  then show ?thesis unfolding knows_def by (rule accepts_holds)
qed

section \<open>A start that succeeds\<close>

lemma poll_true: "exec (poll n p) t = Some True \<Longrightarrow> \<exists>u v w. t = u @ v @ w \<and> exec p v = Some True"
proof (induction n arbitrary: t)
  case (Suc n)
  from Suc.prems obtain v w b where t: "t = v @ w" "exec p v = Some b"
    and w: "exec (if b then Ret True else then_do (sleep 1000) (\<lambda>_. poll n p)) w = Some True"
    by (auto simp: exec_then_do)
  show ?case
  proof (cases b)
    case True
    with t show ?thesis by (intro exI [of _ "[]"] exI [of _ v] exI [of _ w]) simp
  next
    case False
    with w obtain z where w: "w = ESleep 1000 # z" "exec (poll n p) z = Some True" by (auto simp: exec_node)
    from Suc.IH [OF w(2)] obtain a c d where "z = a @ c @ d" "exec p c = Some True" by blast
    with t(1) w(1) show ?thesis by (intro exI [of _ "v @ ESleep 1000 # a"] exI [of _ c] exI [of _ d]) simp
  qed
qed simp

definition ran :: "string \<Rightarrow> string list \<Rightarrow> event list \<Rightarrow> bool" where
  "ran command args t \<longleftrightarrow> (\<exists>r. ERun (quiet_cmd command args) r \<in> set t \<and> succeeded r)"

lemma ran_append [simp]: "ran command args (t @ u) \<longleftrightarrow> ran command args t \<or> ran command args u"
  by (auto simp: ran_def)

lemma poll_command: "exec (poll n (docker_command_success_null command args)) t = Some True \<Longrightarrow> ran command args t"
  by (drule poll_true) (auto simp: docker_command_success_null_def exec_node ran_def)

lemma wait_for_socket_true: "exec (wait_for_socket path) t = Some True \<Longrightarrow> EAsk (IsSocket path) True \<in> set t"
  unfolding wait_for_socket_def by (drule poll_true) auto

text \<open>The request that starts a daemon by its name.\<close>

fun starts_daemon :: "string \<Rightarrow> event \<Rightarrow> bool" where
  "starts_daemon name (ERun c r) \<longleftrightarrow> cmd_out c = InheritOut \<and> nth_opt (cmd_args c) 4 = Some name"
| "starts_daemon name e \<longleftrightarrow> False"

text \<open>A test that must have answered yes for the program to succeed.\<close>

lemma finishes_test:
  assumes "\<And>a c. exec p a = Some True \<Longrightarrow> P (a @ c)"
  shows "finishes r P (then_do p (\<lambda>b. if \<not> b then fail m else q))"
    "finishes r P (then_do p (\<lambda>b. if b then q else fail m))"
  using assms by (auto intro!: finishes_now simp: exec_then_do split: if_splits)

lemma finishes_ok: "finishes r P (if b then p else fail m) = (b \<longrightarrow> finishes r P p)"
  "finishes r P (if \<not> b then fail m else p) = (b \<longrightarrow> finishes r P p)"
  by (auto simp: finishes_def)

lemma finishes_set:
  "finishes r (\<lambda>t. e \<in> set t) p \<Longrightarrow> exec p t = Some (Inr r) \<Longrightarrow> e \<in> set t"
  "finishes r (ran command args) p \<Longrightarrow> exec p t = Some (Inr r) \<Longrightarrow> ran command args t"
  by (auto dest!: finishesD)

lemma start_containerd_ready:
  assumes "exec (start_containerd config) t = Some (Inr ())" "dc_external_containerd config"
  shows "EAsk (IsSocket (dc_containerd_address config)) True \<in> set t
    \<and> ran (path_join (dc_achost_bin config) ''ctr'') [''--address'', dc_containerd_address config, ''version''] t"
proof
  have "finishes () (\<lambda>t. EAsk (IsSocket (dc_containerd_address config)) True \<in> set t) (start_containerd config)"
    using assms(2) wait_for_socket_true
    by (auto simp: start_containerd_def intro!: finishes_then_do finishes_try_do finishes_test)
  then show "EAsk (IsSocket (dc_containerd_address config)) True \<in> set t"
    by (rule finishes_set) (rule assms(1))
  have "finishes () (ran (path_join (dc_achost_bin config) ''ctr'') [''--address'', dc_containerd_address config, ''version''])
      (start_containerd config)"
    unfolding start_containerd_def wait_for_containerd_api_def
    by (simp only: assms(2) not_True_eq_False if_False, rule finishes_then_do, rule finishes_try_do, rule finishes_then_do, simp only: finishes_ok, rule impI,
        rule finishes_then_do, rule finishes_test(2)) (simp add: poll_command)
  then show "ran (path_join (dc_achost_bin config) ''ctr'') [''--address'', dc_containerd_address config, ''version''] t"
    by (rule finishes_set) (rule assms(1))
qed

lemma await_docker_ready:
  assumes "exec (await_docker config) t = Some (Inr ())" "dc_docker_socket config = Some socket"
  shows "EAsk (IsSocket socket) True \<in> set t
    \<and> ran (path_join (dc_achost_bin config) ''docker'') [''--host'', dc_docker_host config, ''info''] t"
proof
  have "finishes () (\<lambda>t. EAsk (IsSocket socket) True \<in> set t) (await_docker config)"
    using assms(2) wait_for_socket_true by (auto simp: await_docker_def intro!: finishes_test)
  then show "EAsk (IsSocket socket) True \<in> set t" by (rule finishes_set) (rule assms(1))
  have "finishes () (ran (path_join (dc_achost_bin config) ''docker'') [''--host'', dc_docker_host config, ''info''])
      (await_docker config)"
    unfolding await_docker_def wait_for_docker_api_def assms(2) option.case
    by (rule finishes_then_do, simp only: finishes_ok, rule impI, rule finishes_then_do, rule finishes_then_do,
        rule finishes_then_do, rule finishes_then_do, rule finishes_test(2)) (simp add: poll_command)
  then show "ran (path_join (dc_achost_bin config) ''docker'') [''--host'', dc_docker_host config, ''info''] t"
    by (rule finishes_set) (rule assms(1))
qed

lemma exec_start_try_ok [simp]: "exec (start_try p) t = Some (Inr x) \<longleftrightarrow> exec p t = Some (Inr x)"
proof -
  have "Inr x = (case y of Inl e \<Rightarrow> Inl (runtime_err 1 e) | Inr z \<Rightarrow> Inr z) \<longleftrightarrow> y = Inr x" for y
    by (cases y) auto
  then show ?thesis by (simp add: start_try_def exec_map_err)
qed

lemma start_checks_ok:
  "exec (start_checks config) t = Some (Inr ()) \<Longrightarrow> dc_use_supervisor config \<and> \<not> dc_use_chroot config"
  by (auto simp: start_checks_def exec_try_do_ok exec_then_do split: if_splits)

text \<open>Everything but the requests to the supervisor runs without the terminal.\<close>

definition unattended :: "event \<Rightarrow> bool" where
  "unattended e \<longleftrightarrow> (case e of ERun c r \<Rightarrow> cmd_out c \<noteq> InheritOut | _ \<Rightarrow> True)"

lemma unattended_simps [simp]:
  "unattended (EAct c r)" "unattended (EAsk q b)" "unattended (EGet g x)" "unattended (ESay s)" "unattended (EWarn s)"
  "unattended (ESleep n)" "unattended (ERun (quiet_cmd command args) out)"
  by (simp_all add: unattended_def quiet_cmd_def)

lemma unattended_basic [simp]:
  "emits unattended (core_is_executable p)" "emits unattended (remove_file_quiet p)" "emits unattended (read_trimmed p)"
  "emits unattended (docker_command_success_null command args)" "emits unattended (pid_running_file p)"
  "emits unattended read_mount_records" "emits unattended (alive_pid p)" "emits unattended (mount_fs a b c d)"
  "emits unattended (make_mount_private p)" "emits unattended (print_path_state p)" "emits unattended (quietly call)"
  "emits unattended (remove_path_quiet p)" "emits unattended (say_pid label p)"
  by (auto simp: core_is_executable_def remove_file_quiet_def read_trimmed_def docker_command_success_null_def
      pid_running_file_def pid_from_file_def docker_pid_alive_def signal_pid_def read_mount_records_def alive_pid_def
      mount_fs_def make_mount_private_def mount_private_def print_path_state_def quietly_def remove_path_quiet_def
      say_pid_def intro!: emits_intros split: option.splits sum.splits)

lemma unattended_poll: "emits unattended p \<Longrightarrow> emits unattended (poll n p)"
  by (induction n) (auto intro!: emits_intros)

lemma unattended_helpers [simp]:
  "emits unattended (cgroup_controller_available c)" "emits unattended (cgroup_v1_mount_point c preferred)"
  "emits unattended (has_cgroup_mount c)" "emits unattended (mount_is_present p)" "emits unattended (symlink_replace a b)"
  "emits unattended (write_configs config)" "emits unattended (supervisor_server_running config)"
  "emits unattended (supervisor_client_usable config)" "emits unattended (wait_for_socket p)"
  "emits unattended (wait_for_containerd_api config)"
  by (auto simp: cgroup_controller_available_def cgroup_v1_mount_point_def has_cgroup_mount_def mount_is_present_def
      read_mount_destinations_def symlink_replace_def write_configs_def write_dockerd_config_def write_containerd_config_def
      supervisor_server_running_def supervisor_client_usable_def wait_for_socket_def wait_for_containerd_api_def Let_def
      intro!: emits_intros unattended_poll split: option.splits sum.splits)

lemma unattended_setup [simp]:
  "emits unattended (prepare_native_root config)" "emits unattended prepare_cgroups"
  "emits unattended (ensure_supervisor_server config)" "emits unattended (docker_protect_daemons config)"
  "emits unattended (spawn_network_watchdog config)"
  by (auto simp: prepare_native_root_def write_native_resolv_conf_def setup_native_ca_certs_def prepare_cgroups_def
      setup_devices_cgroup_def ensure_host_memory_cgroup_def mount_cgroup_def warn_cgroup2_memory_def mount_memcg_def
      ensure_supervisor_server_def launch_supervisor_def log_stdio_def docker_protect_daemons_def spawn_network_watchdog_def
      Let_def intro!: emits_intros unattended_poll split: option.splits sum.splits)

lemma unattended_preflight [simp]: "emits unattended (native_preflight config)"
  by (auto simp: native_preflight_def supervisor_preflight_def print_link_def print_cgroup_diagnostics_def
      print_controller_state_def print_cgroup_mounts_def cgroup2_diagnostics_def Let_def
      intro!: emits_intros split: option.splits sum.splits)

lemma unattended_checks [simp]: "emits unattended (start_checks config)"
proof -
  have "emits unattended (require_start_executables config)"
    unfolding require_start_executables_def Let_def
    by (rule emits_for_each) (auto intro!: emits_then_do)
  moreover have "emits unattended (create_start_dirs config)"
    unfolding create_start_dirs_def
    by (intro emits_try_do emits_for_each) (auto simp: create_parent_def split: option.splits)
  ultimately show ?thesis
    by (auto simp: start_checks_def intro!: emits_try_do emits_then_do)
qed

lemma unattended_host [simp]: "emits unattended (start_host config)"
  by (auto simp: start_host_def intro!: emits_try_do emits_then_do)

lemma unattended_compat [simp]: "emits unattended (prepare_compat_socket config)"
proof -
  have "emits unattended (compat_in_root root socket)" for root socket
    by (auto simp: compat_in_root_def intro!: emits_then_do split: option.splits)
  then show ?thesis
    by (auto simp: prepare_compat_socket_def intro!: emits_then_do split: option.splits sum.splits)
qed

lemma unattended_not_started: "unattended e \<Longrightarrow> \<not> starts_daemon name e"
  by (cases e) (auto simp: unattended_def)

lemma emits_not_started: "emits unattended p \<Longrightarrow> emits (\<lambda>e. \<not> starts_daemon name e) p"
  by (erule emits_mono) (rule unattended_not_started)

lemma start_containerd_not_dockerd: "emits (\<lambda>e. \<not> starts_daemon ''dockerd'' e) (start_containerd config)"
proof -
  have "emits (\<lambda>e. \<not> starts_daemon ''dockerd'' e) (start_containerd_daemon config)"
    using emits_not_started [OF unattended_setup(3)]
    by (auto simp: start_containerd_daemon_def start_daemon_command_def daemon_client_args_def intro!: emits_then_do)
  then show ?thesis
    by (auto simp: start_containerd_def emits_not_started intro!: emits_then_do emits_try_do)
qed

text \<open>
  C29. When \<open>start\<close> succeeds, the daemons have answered: the socket of dockerd was seen and
  \<open>docker info\<close> succeeded, and, unless dockerd manages containerd itself, the request that
  starts dockerd came only after the socket of containerd was seen and \<open>ctr version\<close> had
  succeeded. It never succeeds without the supervisor or in a chroot.
\<close>

theorem start_means_ready:
  assumes "exec (start_runtime fuel e config extra) t = Some (Inr ())" "dc_docker_socket config = Some socket"
  shows "dc_use_supervisor config \<and> \<not> dc_use_chroot config
    \<and> EAsk (IsSocket socket) True \<in> set t
    \<and> ran (path_join (dc_achost_bin config) ''docker'') [''--host'', dc_docker_host config, ''info''] t
    \<and> (dc_external_containerd config \<longrightarrow> (\<exists>u v. t = u @ v \<and> list_all (\<lambda>e. \<not> starts_daemon ''dockerd'' e) u
         \<and> EAsk (IsSocket (dc_containerd_address config)) True \<in> set u
         \<and> ran (path_join (dc_achost_bin config) ''ctr'') [''--address'', dc_containerd_address config, ''version''] u))"
proof -
  from assms(1) obtain t1 t2 t3 t4 t5 t6 t7 c where t: "t = t1 @ t2 @ t3 @ t4 @ t5 @ t6 @ t7"
    and 1: "exec (start_checks config) t1 = Some (Inr ())" and 2: "exec (start_host config) t2 = Some (Inr ())"
    and 3: "exec (start_containerd config) t3 = Some (Inr ())"
    and 4: "exec (prepare_compat_socket config) t4 = Some c"
    and 6: "exec (await_docker config) t6 = Some (Inr ())"
    unfolding start_runtime_def exec_try_do_ok exec_start_try_ok exec_then_do by auto
  have "\<exists>u v. t = u @ v \<and> list_all (\<lambda>e. \<not> starts_daemon ''dockerd'' e) u
      \<and> EAsk (IsSocket (dc_containerd_address config)) True \<in> set u
      \<and> ran (path_join (dc_achost_bin config) ''ctr'') [''--address'', dc_containerd_address config, ''version''] u"
    if "dc_external_containerd config"
    using start_containerd_ready [OF 3 that] emits_holds [OF emits_not_started [OF unattended_checks] 1]
      emits_holds [OF emits_not_started [OF unattended_host] 2] emits_holds [OF start_containerd_not_dockerd 3]
    by (intro exI [of _ "t1 @ t2 @ t3"] exI [of _ "t4 @ t5 @ t6 @ t7"]) (simp add: t)
  with start_checks_ok [OF 1] await_docker_ready [OF 6 assms(2)] show ?thesis by (simp add: t)
qed

text \<open>A start that succeeds exists: every step of it can answer well.\<close>

lemma reach_unit [simp]: "reach (p :: unit prog) ()"
  using reach_some [of p] by auto

lemma reach_seq: "reach p x \<Longrightarrow> reach (f x) r \<Longrightarrow> reach (then_do p f) r"
  by (auto simp: reach_then_do)

lemma reach_seq_any: "(\<And>x. reach (f x) r) \<Longrightarrow> reach (then_do p f) r"
  using reach_some [of p] by (auto simp: reach_then_do)

lemma reach_try: "reach p (Inr x) \<Longrightarrow> reach (f x) (Inr r) \<Longrightarrow> reach (try_do p f) (Inr r)"
  by (auto simp: reach_try_do_ok)

lemma reach_for_each: "(\<And>x. x \<in> set xs \<Longrightarrow> reach (f x) (Inr ())) \<Longrightarrow> reach (for_each xs f) (Inr ())"
  by (induction xs) (auto intro: reach_try)

lemma reach_poll: "0 < n \<Longrightarrow> reach p True \<Longrightarrow> reach (poll n p) True"
  by (cases n) (auto intro: reach_seq)

lemma reach_read_five [simp]: "reach (read_trimmed p) (Some ''5'')"
proof -
  have "trim ''5'' = ''5''" by (rule trim_plain) (simp add: plain_char_def code_of_def is_space_def)
  then show ?thesis by (auto simp: read_trimmed_def intro!: exI [of _ "Inr ''5''"])
qed

lemma reach_executable [simp]: "reach (core_is_executable p) True"
  by (auto simp: core_is_executable_def intro!: reach_and_also)

lemma reach_command [simp]: "reach (docker_command_success_null command args) True"
proof -
  have "succeeded (Inr \<lparr>out_code = Some 0, out_stdout = [], out_stderr = []\<rparr>)"
    by (simp add: succeeded_def out_success_def)
  then show ?thesis by (auto simp: docker_command_success_null_def)
qed

lemma reach_pid_running [simp]: "reach (pid_running_file p) True"
proof -
  have "parse_pid ''5'' = Some 5"
    by (simp add: parse_pid_def parse_uint_def digits_value_def digit_val_def is_digit_def code_of_def)
  then show ?thesis
    unfolding pid_running_file_def pid_from_file_def then_do_assoc
    by (intro reach_seq [OF reach_read_five])
      (auto simp: docker_pid_alive_def signal_pid_def intro!: reach_seq [of _ True] exI [of _ "Inr ()"])
qed

lemma reach_client_usable [simp]: "reach (supervisor_client_usable config) True"
  unfolding supervisor_client_usable_def Let_def
  by (rule reach_seq_any, rule reach_seq [OF reach_command], rule reach_seq_any) simp

lemma reach_server_running [simp]: "reach (supervisor_server_running config) True"
  unfolding supervisor_server_running_def by (rule reach_and_also) auto

lemma reach_supervisor [simp]:
  assumes "dc_use_supervisor config"
  shows "reach (ensure_supervisor_server config) True"
proof -
  have "reach (if dc_use_supervisor config then core_is_executable (dc_supervise config) else Ret False) True"
    using assms by simp
  then show ?thesis
    unfolding ensure_supervisor_server_def
    by (rule reach_seq) (auto intro: reach_seq [OF reach_server_running])
qed

lemma reach_checks:
  assumes "dc_use_supervisor config" "\<not> dc_use_chroot config"
  shows "reach (start_checks config) (Inr ())"
proof -
  have 1: "reach (require_start_executables config) (Inr ())"
    unfolding require_start_executables_def Let_def
    by (intro reach_for_each reach_seq [OF reach_executable]) simp
  have "reach (create_parent what path) (Inr ())" for what path
    by (cases "parent_path path") (auto simp: create_parent_def)
  then have 2: "reach (create_start_dirs config) (Inr ())"
    unfolding create_start_dirs_def by (intro reach_try reach_for_each) (auto intro!: reach_try)
  show ?thesis
    unfolding start_checks_def
    by (intro reach_try [OF 1] reach_try [OF 2] reach_seq_any)
      (simp add: assms reach_seq [OF reach_executable])
qed

lemma reach_host:
  assumes "dc_use_supervisor config"
  shows "reach (start_host config) (Inr ())"
proof -
  have "reach (write_native_resolv_conf config) (Inr ())"
    by (auto simp: write_native_resolv_conf_def Let_def intro!: reach_try)
  then have 1: "reach (prepare_native_root config) (Inr ())"
    unfolding prepare_native_root_def Let_def
    by (intro reach_try reach_for_each reach_seq_any) (auto intro!: reach_try)
  have 2: "reach (write_configs config) (Inr ())"
    by (auto simp: write_configs_def write_dockerd_config_def write_containerd_config_def Let_def intro!: reach_try
      split: option.split)
  show ?thesis
    unfolding start_host_def
    by (rule reach_try, simp add: 1, rule reach_seq_any, rule reach_seq [OF reach_supervisor [OF assms]])
      (auto intro!: reach_seq_any simp: 2)
qed

lemma reach_waits [simp]:
  "reach (wait_for_socket p) True" "reach (wait_for_containerd_api config) True" "reach (wait_for_docker_api config) True"
  by (auto simp: wait_for_socket_def wait_for_containerd_api_def wait_for_docker_api_def intro!: reach_poll)

lemma reach_containerd: "reach (start_containerd config) (Inr ())"
proof (cases "dc_external_containerd config")
  case False
  then show ?thesis
    unfolding start_containerd_def by (simp, intro reach_seq_any) simp
next
  case True
  have "reach (then_do (say_pid label p) (\<lambda>_. ok ())) (Inr ())" for label p
    by (rule reach_seq_any) simp
  moreover have "reach (then_do (println s) (\<lambda>_. ok ())) (Inr ())" for s
    by (rule reach_seq_any) simp
  ultimately show ?thesis
    using True unfolding start_containerd_def
    by (simp, intro reach_seq [OF reach_pid_running] reach_try)
      (auto intro!: reach_seq [OF reach_waits(1)] reach_seq_any [of _ _ "say_pid _ _"] reach_seq [OF reach_waits(2)])
qed

lemma reach_await: "reach (await_docker config) (Inr ())"
proof (cases "dc_docker_socket config")
  case None
  then show ?thesis by (simp add: await_docker_def)
next
  case (Some socket)
  show ?thesis
    unfolding await_docker_def Some option.case
    apply (rule reach_seq [OF reach_waits(1)])
    apply simp
    apply (rule reach_seq_any, rule reach_seq_any, rule reach_seq_any, rule reach_seq_any)
    apply (rule reach_seq [OF reach_waits(3)])
    apply (simp add: reach_seq_any)
    done
qed

lemma reach_start:
  assumes "dc_use_supervisor config" "\<not> dc_use_chroot config"
  shows "reach (start_runtime fuel e config extra) (Inr ())"
proof -
  have through: "reach p (Inr ()) \<Longrightarrow> reach (start_try p) (Inr ())" for p :: "unit result prog"
    by (auto simp: start_try_def map_err_def reach_then_do intro!: exI [of _ "Inr ()"])
  have daemon: "reach (run_docker_daemon fuel e config host extra) (Inr ())" for host
    unfolding run_docker_daemon_def
    by (rule reach_seq [OF reach_pid_running]) (auto intro!: reach_seq_any)
  show ?thesis
    unfolding start_runtime_def
    by (intro reach_try [OF through [OF reach_checks [OF assms]]] reach_try [OF through [OF reach_host [OF assms(1)]]]
        reach_try [OF through [OF reach_containerd]] reach_seq_any reach_try [OF daemon] reach_try [OF through [OF reach_await]]) simp
qed

theorem start_means_ready_witness:
  "\<exists>t. exec (start_runtime 1 (\<lambda>_. Unset) (docker_config_with (\<lambda>_. Unset) ''/a'') []) t = Some (Inr ())
     \<and> EAsk (IsSocket ''/a/var/run/docker.sock'') True \<in> set t"
proof -
  let ?config = "docker_config_with (\<lambda>_. Unset) ''/a''"
  have use: "dc_use_supervisor ?config" "\<not> dc_use_chroot ?config"
    by (simp_all add: docker_config_with_def Let_def env_var_def)
  have socket: "dc_docker_socket ?config = Some ''/a/var/run/docker.sock''" by code_simp
  obtain t where run: "exec (start_runtime 1 (\<lambda>_. Unset) ?config []) t = Some (Inr ())"
    using reach_start [OF use, of 1 "\<lambda>_. Unset" "[]"] unfolding reach_def by blast
  with start_means_ready [OF run socket] show ?thesis by blast
qed

end
