(* ===== verification/DaemonStart.thy ===== *)
theory DaemonStart
  imports DockerClaims SupSafety
begin

text \<open>
  The way of a daemon through two programs and four processes: \<open>achost-docker-runtime\<close> runs
  \<open>achost-supervise\<close> as a client, the server forks, the child is \<open>achost-supervise\<close> again, in
  launch mode, and that becomes the daemon.
\<close>

section \<open>Command lines\<close>

text \<open>The command line \<open>achost-docker-runtime\<close> asks the supervisor to start a daemon with.\<close>

definition launch_command :: "docker_config \<Rightarrow> string \<Rightarrow> string list \<Rightarrow> string list" where
  "launch_command config log_file argv =
     [dc_supervise config, ''--launch'', ''--log-file'', log_file, ''--''] @ argv"

lemma drop_daemon_args:
  "drop 9 (dc_supervise config # daemon_client_args config name pid_file log_file argv) = launch_command config log_file argv"
  by (simp add: daemon_client_args_def launch_command_def)

lemma parse_daemon_args:
  "sup_parse_args (dc_supervise config # daemon_client_args config name pid_file log_file argv) =
     Some (default_options\<lparr>so_pid_file := Some pid_file, so_socket_path := Some (dc_supervisor_socket config),
       so_name := name, so_command_index := Some 9, so_client_mode := True\<rparr>)"
  by (simp add: sup_parse_args_def daemon_client_args_def set_switch_def set_value_def default_options_def)

lemma client_main:
  assumes "sup_parse_args args = Some (default_options\<lparr>so_pid_file := Some pid_file, so_socket_path := Some socket,
       so_name := name, so_command_index := Some 9, so_client_mode := True\<rparr>)" "9 < length args"
  shows "sup_main fuel last_os_error args =
    then_do (send_client_request last_os_error socket pid_file name (drop 9 args)) (\<lambda>code. ok (Some code))"
  using assms
  by (simp add: sup_main_def mode_of_def client_mode_def command_of_def launch_only_def default_options_def)

lemma parse_launch_command:
  "sup_parse_args (launch_command config log_file argv) =
     Some (default_options\<lparr>so_launch_mode := True, so_launch_log_file := Some log_file, so_command_index := Some 5\<rparr>)"
  by (simp add: sup_parse_args_def launch_command_def set_switch_def set_value_def default_options_def)

lemma parse_server_args:
  "sup_parse_args (dc_supervise config # server_args config) =
     Some (default_options\<lparr>so_server_mode := True, so_socket_path := Some (dc_supervisor_socket config),
       so_pid_file := Some (dc_supervisor_pid config), so_native_root := Some (dc_native_root config)\<rparr>)"
  by (simp add: sup_parse_args_def server_args_def set_switch_def set_value_def default_options_def)

text \<open>The client request, the launch and the server are read as what they are meant to be.\<close>

lemma daemon_command_lines:
  assumes "argv \<noteq> []"
  shows "sup_main fuel last_os_error (dc_supervise config # daemon_client_args config name pid_file log_file argv) =
      then_do (send_client_request last_os_error (dc_supervisor_socket config) pid_file name (launch_command config log_file argv))
        (\<lambda>code. ok (Some code))
    \<and> sup_main fuel last_os_error (launch_command config log_file argv) =
      then_do (run_launch None None None (Some log_file) False argv) (\<lambda>code. ok code)
    \<and> sup_main fuel last_os_error (dc_supervise config # server_args config) =
      try_do (run_server fuel (dc_supervisor_socket config) (dc_supervisor_pid config) None (Some (dc_native_root config)))
        (\<lambda>code. ok (Some code))"
proof (intro conjI)
  have long: "9 < length (dc_supervise config # daemon_client_args config name pid_file log_file argv)"
      "5 < length (launch_command config log_file argv)"
    using assms by (simp_all add: daemon_client_args_def launch_command_def)
  show "sup_main fuel last_os_error (dc_supervise config # daemon_client_args config name pid_file log_file argv) =
      then_do (send_client_request last_os_error (dc_supervisor_socket config) pid_file name (launch_command config log_file argv))
        (\<lambda>code. ok (Some code))"
    using client_main [OF parse_daemon_args long(1)] unfolding drop_daemon_args .
  have argv: "drop 5 (launch_command config log_file argv) = argv" by (simp add: launch_command_def)
  show "sup_main fuel last_os_error (launch_command config log_file argv) =
      then_do (run_launch None None None (Some log_file) False argv) (\<lambda>code. ok code)"
    using long(2) by (simp add: sup_main_def parse_launch_command argv mode_of_def launch_mode_def command_of_def default_options_def)
  show "sup_main fuel last_os_error (dc_supervise config # server_args config) =
      try_do (run_server fuel (dc_supervisor_socket config) (dc_supervisor_pid config) None (Some (dc_native_root config)))
        (\<lambda>code. ok (Some code))"
    by (simp add: sup_main_def parse_server_args mode_of_def server_mode_def default_options_def Let_def)
qed

section \<open>Processes\<close>

lemma start_daemon_command_client:
  assumes "exec (start_daemon_command config name pid_file log_file argv) (d @ [ERun c (Inr out)]) = Some True"
  shows "cmd_program c = dc_supervise config \<and> cmd_args c = daemon_client_args config name pid_file log_file argv
    \<and> out_code out = Some 0"
proof -
  have "holds (\<lambda>t r. r \<longrightarrow> (\<exists>d x. t = d @ [ERun \<lparr>cmd_program = dc_supervise config,
             cmd_args = daemon_client_args config name pid_file log_file argv, cmd_env = [],
             cmd_stdin = InheritIn, cmd_out = InheritOut, cmd_timeout = None\<rparr> x] \<and> succeeded x))
    (start_daemon_command config name pid_file log_file argv)"
    unfolding start_daemon_command_def holds_then_do
    by (rule holds_mono [OF holds_True]) (auto simp: holds_then_do)
  with assms obtain d' x where "d @ [ERun c (Inr out)] = d' @ [ERun \<lparr>cmd_program = dc_supervise config,
             cmd_args = daemon_client_args config name pid_file log_file argv, cmd_env = [],
             cmd_stdin = InheritIn, cmd_out = InheritOut, cmd_timeout = None\<rparr> x]" "succeeded x"
    unfolding holds_exec by blast
  then show ?thesis by (auto simp: succeeded_def out_success_def)
qed

text \<open>
  A connection: the server's end reads the bytes the client wrote, in order, and the client
  reads all the bytes the server wrote.
\<close>

definition connected :: "string \<Rightarrow> nat \<Rightarrow> event list \<Rightarrow> nat \<Rightarrow> event list \<Rightarrow> bool" where
  "connected path k t stream u \<longleftrightarrow> ENum (ConnectStream path) (Inr k) \<in> set (take 1 t)
     \<and> runs_on (recv_step stream) u (sent k t) \<noteq> None \<and> EGet (RecvAll k) (Inr (sent stream u)) \<in> set t"

lemma receives_sends_nothing: "list_all (receives stream) t \<Longrightarrow> sent stream' t = []"
  by (induction t) (auto elim!: receives.elims)

text \<open>An accepted client means a child with the client's command and a pid file.\<close>

lemma accepted_child:
  assumes "exec (send_client_request e path pid_file name argv) t = Some 0" "exec (handle_client stream) u = Some ()"
    and link: "connected path k t stream u"
    and "list_all is_utf8 (name # pid_file # argv)" "argv \<noteq> []" "length argv \<le> MAX_ARGS"
  shows "\<exists>child. filter is_fork u = [ENum (Fork argv) (Inr child)]
    \<and> EAct (WriteFile pid_file (show_nat child @ [LF])) (Inr ()) \<in> set u"
proof -
  from client_sends [OF assms(1)] link have request: "sent k t = wire_request name pid_file argv"
    and short: "list_all (\<lambda>s. length s \<le> MAX_STRING) (name # pid_file # argv)" by (auto simp: connected_def)
  from short assms(4) have valid: "sendable name" "sendable pid_file" "list_all sendable argv"
    by (auto simp: sendable_def list_all_iff)
  from link request obtain buf where "runs_on (recv_step stream) u (wire_request name pid_file argv) = Some buf"
    by (auto simp: connected_def)
  from handle_client_decodes [OF assms(2) this valid assms(5,6)] obtain v w where u: "u = v @ w"
    and v: "list_all (receives stream) v" and w: "exec (start_child stream name pid_file argv) w = Some ()" by blast
  from link have "starts_with ''OK '' (sent stream u)"
    using client_hears [OF assms(1)] by (auto simp: connected_def)
  then have said: "starts_with ''OK '' (sent stream w)"
    using receives_sends_nothing [OF v] by (simp add: u)
  have "filter is_fork v = []" using v by (induction v) (auto elim!: receives.elims)
  with w said show ?thesis
    by (cases rule: start_child_cases) (auto simp: u starts_with_def split: if_splits)
qed

text \<open>What the child becomes, and what a launch that returns no exit code has done.\<close>

lemma exec_command_becomes:
  "holds (\<lambda>t r. r = None \<longrightarrow> t = [EAct (Exec argv) (Inr ())]) (exec_command argv)"
  by (auto simp: exec_command_def eprintln_def split: option.splits sum.splits)

lemma child_becomes:
  assumes "exec (child_main argv) t = Some None"
  shows "last t = EAct (Exec argv) (Inr ())"
proof -
  have "holds (\<lambda>t r. r = None \<longrightarrow> last t = EAct (Exec argv) (Inr ())) (child_main argv)"
    unfolding child_main_def holds_then_do holds.simps
    by (intro holds_mono [OF holds_True] allI holds_mono [OF exec_command_becomes]) simp
  with assms show ?thesis by (simp add: holds_exec)
qed

lemma launch_becomes:
  assumes "exec (run_launch None None None (Some log_file) False argv) t = Some None"
  shows "t = [EAct (RedirectOutput log_file) (Inr ()), EAct (Exec argv) (Inr ())]"
proof -
  have "holds (\<lambda>t r. r = None \<longrightarrow> t = [EAct (RedirectOutput log_file) (Inr ()), EAct (Exec argv) (Inr ())])
      (run_launch None None None (Some log_file) False argv)"
    by (auto simp: run_launch_def launch_root_def redirect_log_def io_context_def map_err_def try_do_def eprintln_def
        intro: holds_mono [OF exec_command_becomes] split: sum.splits)
  with assms show ?thesis by (simp add: holds_exec)
qed

text \<open>
  C38. A daemon that \<open>achost-docker-runtime\<close> reports as started is the daemon it asked for,
  through both programs and all processes: when \<open>start_daemon_command\<close> answers true, its
  client's exit code is that of \<open>achost-supervise\<close> run with the client's arguments, and server
  and client read what the other has written, then the server has forked exactly one child,
  for the launch command, and written its process id to the daemon's pid file; that child can
  only become \<open>achost-supervise\<close> with the launch command, and this can only become the
  daemon's own command line, after its output was sent to the daemon's log. The texts are
  UTF-8 and the daemon's command line has 1 to 123 arguments, the launch command five more.
\<close>

theorem daemon_runs_its_command:
  assumes start: "exec (start_daemon_command config name pid_file log_file argv) (d @ [ERun c (Inr out)]) = Some True"
    and client: "exec (sup_main fuel e (cmd_program c # cmd_args c)) t = Some (Inr (out_code out))"
    and server: "exec (handle_client stream) u = Some ()"
    and link: "connected (dc_supervisor_socket config) k t stream u"
    and utf8: "list_all is_utf8 (name # pid_file # launch_command config log_file argv)"
    and argc: "argv \<noteq> []" "length argv \<le> 123"
  shows "\<exists>child. filter is_fork u = [ENum (Fork (launch_command config log_file argv)) (Inr child)]
    \<and> EAct (WriteFile pid_file (show_nat child @ [LF])) (Inr ()) \<in> set u
    \<and> (\<forall>v. exec (child_main (launch_command config log_file argv)) v = Some None
        \<longrightarrow> last v = EAct (Exec (launch_command config log_file argv)) (Inr ()))
    \<and> (\<forall>w. exec (sup_main fuel' e' (launch_command config log_file argv)) w = Some (Inr None)
        \<longrightarrow> w = [EAct (RedirectOutput log_file) (Inr ()), EAct (Exec argv) (Inr ())])"
proof -
  from start_daemon_command_client [OF start] client
  have "exec (send_client_request e (dc_supervisor_socket config) pid_file name (launch_command config log_file argv)) t = Some 0"
    using daemon_command_lines [OF argc(1)] by (auto simp: exec_then_do)
  moreover have "launch_command config log_file argv \<noteq> []" "length (launch_command config log_file argv) \<le> MAX_ARGS"
    using argc(2) by (simp_all add: launch_command_def MAX_ARGS_def)
  ultimately obtain child where "filter is_fork u = [ENum (Fork (launch_command config log_file argv)) (Inr child)]"
    "EAct (WriteFile pid_file (show_nat child @ [LF])) (Inr ()) \<in> set u"
    using accepted_child [OF _ server link utf8] by blast
  moreover have "w = [EAct (RedirectOutput log_file) (Inr ()), EAct (Exec argv) (Inr ())]"
    if "exec (sup_main fuel' e' (launch_command config log_file argv)) w = Some (Inr None)" for w
    using that daemon_command_lines [OF argc(1)] by (intro launch_becomes) (auto simp: exec_then_do)
  ultimately show ?thesis using child_becomes by blast
qed

definition demo_docker :: docker_config where
  "demo_docker = (docker_config_with (\<lambda>_. Unset) ''/a'')
     \<lparr>dc_use_supervisor := True, dc_supervise := ''/b'', dc_supervisor_socket := ''/s'', dc_supervisor_pid := ''/q''\<rparr>"

definition demo_done :: cmd_output where
  "demo_done = \<lparr>out_code = Some 0, out_stdout = [], out_stderr = []\<rparr>"

definition demo_daemon_client :: cmd where
  "demo_daemon_client = \<lparr>cmd_program = ''/b'', cmd_args = daemon_client_args demo_docker ''d'' ''/p'' ''/l'' [''x''],
     cmd_env = [], cmd_stdin = InheritIn, cmd_out = InheritOut, cmd_timeout = None\<rparr>"

definition demo_words :: "string list" where
  "demo_words = [''/b'', ''--launch'', ''--log-file'', ''/l'', ''--'', ''x'']"

definition demo_wire :: "string list" where
  "demo_wire = [u32_bytes (length ''d''), ''d'', u32_bytes (length ''/p''), ''/p'', u32_bytes (length demo_words)]
     @ concat (map (\<lambda>w. [u32_bytes (length w), w]) demo_words)"

definition demo_asks :: "event list" where
  "demo_asks = [ENum (ConnectStream ''/s'') (Inr 3)] @ map (\<lambda>bytes. EAct (SendBytes 3 bytes) (Inr ())) demo_wire
     @ [EGet (RecvAll 3) (Inr (''OK d pid=9'' @ [LF])), EWarn (''OK d pid=9'' @ [LF])]"

definition demo_serves :: "event list" where
  "demo_serves = map (\<lambda>bytes. EGet (RecvBytes 5 (length bytes)) (Inr bytes)) demo_wire
     @ [ENum (Fork demo_words) (Inr 9), EAct (SetGroup 9 9) (Inr ()), EAct (WriteFile ''/p'' (''9'' @ [LF])) (Inr ()),
        EAct (SendBytes 5 (''OK d pid=9'' @ [LF])) (Inr ()), EWarn (''achost-supervise: started d pid=9'' @ [LF])]"

lemma demo_fields: "dc_use_supervisor demo_docker" "dc_supervise demo_docker = ''/b''"
    "dc_supervisor_socket demo_docker = ''/s''" "dc_supervisor_pid demo_docker = ''/q''"
  by (simp_all add: demo_docker_def)

lemma demo_launch: "launch_command demo_docker ''/l'' [''x''] = demo_words"
  by (simp add: launch_command_def demo_fields demo_words_def)

lemma demo_start_runs: "\<exists>d. exec (start_daemon_command demo_docker ''d'' ''/p'' ''/l'' [''x''])
    (d @ [ERun demo_daemon_client (Inr demo_done)]) = Some True"
proof -
  obtain d where "exec (ensure_supervisor_server demo_docker) d = Some True"
    using reach_supervisor [of demo_docker] by (auto simp: reach_def demo_fields)
  then show ?thesis
    unfolding start_daemon_command_def
    by (intro exI [of _ d] exec_then_doI [where x = True])
      (simp_all add: demo_daemon_client_def demo_done_def succeeded_def out_success_def demo_fields exec.simps)
qed

lemma demo_asks_runs: "exec (send_client_request show_io ''/s'' ''/p'' ''d'' demo_words) demo_asks = Some 0"
  by (simp add: demo_asks_def demo_wire_def demo_words_def send_client_request_def client_header_def client_response_def
      write_string_def write_u32_def try_do_def MAX_STRING_def exec.simps starts_with_def)
    (simp add: eval_nat_numeral)

lemma demo_serves_runs: "exec (handle_client 5) demo_serves = Some ()"
proof -
  have texts: "list_all is_utf8 demo_words" unfolding demo_words_def by code_simp
  then show ?thesis
    by (simp add: demo_serves_def demo_wire_def demo_words_def handle_client_def or_refuse_def read_string_def read_u32_def
        try_do_def Let_def MAX_STRING_def MAX_ARGS_def exec.simps start_child_def record_child_def fork_exec_def
        write_pid_file_def reply_def eprintln_def demo_text u32_roundtrip)
qed

theorem daemon_runs_its_command_witness:
  "\<exists>child. filter is_fork demo_serves = [ENum (Fork demo_words) (Inr child)]
    \<and> EAct (WriteFile ''/p'' (show_nat child @ [LF])) (Inr ()) \<in> set demo_serves
    \<and> (\<forall>w. exec (sup_main 1 show_io demo_words) w = Some (Inr None)
        \<longrightarrow> w = [EAct (RedirectOutput ''/l'') (Inr ()), EAct (Exec [''x'']) (Inr ())])"
proof -
  have main: "exec (sup_main 1 show_io (cmd_program demo_daemon_client # cmd_args demo_daemon_client)) demo_asks
      = Some (Inr (out_code demo_done))"
    using exec_then_doI [OF demo_asks_runs, of "\<lambda>code. ok (Some code)" "[]"]
      daemon_command_lines [of "[''x'']" 1 show_io demo_docker "''d''" "''/p''" "''/l''"]
    by (simp add: demo_daemon_client_def demo_done_def demo_launch demo_fields)
  have link: "connected (dc_supervisor_socket demo_docker) 3 demo_asks 5 demo_serves"
    by (simp add: connected_def demo_asks_def demo_serves_def demo_fields demo_wire_def demo_words_def recv_step_def)
  have texts: "list_all is_utf8 (''d'' # ''/p'' # launch_command demo_docker ''/l'' [''x''])"
    unfolding demo_launch demo_words_def by code_simp
  from demo_start_runs obtain d where start: "exec (start_daemon_command demo_docker ''d'' ''/p'' ''/l'' [''x''])
    (d @ [ERun demo_daemon_client (Inr demo_done)]) = Some True" by blast
  from daemon_runs_its_command [OF start main demo_serves_runs link texts, of 1 show_io] show ?thesis
    unfolding demo_launch by fastforce
qed

end
