(* ===== verification/WebText.thy ===== *)
theory WebText
  imports LxcHost Utf8
begin

text \<open>
  \<open>achost-webui-api\<close>: the checks of what a page may send, the arguments of
  \<open>docker run\<close>, the rows of the tables the tools print, and the answers as JSON values.
  A text is its bytes; the checks of the code read bytes or ASCII characters only.
\<close>

section \<open>Checks\<close>

definition valid_priority :: "string \<Rightarrow> string \<Rightarrow> string" where
  "valid_priority v default_value = (if v \<noteq> [] \<and> list_all is_digit v then v else default_value)"

definition valid_name :: "string \<Rightarrow> bool" where
  "valid_name v \<longleftrightarrow>
     v \<noteq> [] \<and> v \<noteq> ''.'' \<and> v \<noteq> ''..'' \<and> \<not> str_contains ''..'' v
     \<and> list_all (\<lambda>b. is_alnum b \<or> b \<in> {CHR ''_'', CHR ''.'', CHR ''-''}) v"

definition image_byte :: "char \<Rightarrow> bool" where
  "image_byte b \<longleftrightarrow> is_alnum b \<or> b \<in> {CHR ''_'', CHR ''.'', CHR ''/'', CHR '':'', CHR ''@'', CHR ''-''}"

definition valid_image :: "string \<Rightarrow> bool" where
  "valid_image v \<longleftrightarrow> v \<noteq> [] \<and> list_all image_byte v"

definition valid_network :: "string \<Rightarrow> bool" where
  "valid_network v \<longleftrightarrow> v = [] \<or> v \<in> {''bridge'', ''host'', ''none''} \<or> valid_name v"

definition port_byte :: "char \<Rightarrow> bool" where
  "port_byte b \<longleftrightarrow> is_digit b \<or> is_lower b \<or> b \<in> {CHR '':'', CHR ''/'', CHR ''.'', CHR ''-''}"

definition valid_port_item :: "string \<Rightarrow> bool" where
  "valid_port_item v \<longleftrightarrow> v \<noteq> [] \<and> CHR '':'' \<in> set v \<and> list_all port_byte v"

definition env_byte :: "char \<Rightarrow> bool" where
  "env_byte b \<longleftrightarrow> is_alnum b
     \<or> b \<in> {CHR ''_'', CHR ''='', CHR ''@'', CHR ''.'', CHR '','', CHR '':'', CHR ''/'', CHR ''+'', CHR ''-''}"

definition valid_env_item :: "string \<Rightarrow> bool" where
  "valid_env_item v \<longleftrightarrow>
     (case v of
        [] \<Rightarrow> False
      | first # _ \<Rightarrow> (is_alpha first \<or> first = CHR ''_'') \<and> CHR ''='' \<in> set v \<and> list_all env_byte v)"

definition mount_byte :: "char \<Rightarrow> bool" where
  "mount_byte b \<longleftrightarrow> is_alnum b
     \<or> b \<in> {CHR ''_'', CHR ''.'', CHR ''/'', CHR '':'', CHR ''@'', CHR '','', CHR ''+'', CHR ''='', CHR ''-''}"

definition valid_mount_item :: "string \<Rightarrow> bool" where
  "valid_mount_item v \<longleftrightarrow>
     (case split_once (CHR '':'') v of
        None \<Rightarrow> False
      | Some (left, right) \<Rightarrow>
          left \<noteq> [] \<and> right \<noteq> [] \<and> starts_with ''/'' left \<and> starts_with ''/'' right \<and> list_all mount_byte v)"

definition valid_csv :: "string \<Rightarrow> (string \<Rightarrow> bool) \<Rightarrow> string list option" where
  "valid_csv v validator =
     (if v = [] then Some []
      else let items = split_char (CHR '','') v in if list_all validator items then Some items else None)"

definition valid_android_path :: "string \<Rightarrow> bool" where
  "valid_android_path v \<longleftrightarrow> starts_with ''/'' v \<and> \<not> list_ex (\<lambda>b. b = NUL \<or> is_control b) v"

definition valid_sha256 :: "string \<Rightarrow> bool" where
  "valid_sha256 v \<longleftrightarrow> length v = 64 \<and> list_all is_hexdigit v"

definition safe_label :: "string \<Rightarrow> string" where
  "safe_label v = filter (\<lambda>c. is_alnum c \<or> c \<in> {CHR ''.'', CHR ''_'', CHR ''-''}) v"

definition valid_linux_user :: "string \<Rightarrow> bool" where
  "valid_linux_user v \<longleftrightarrow>
     (if v = [] \<or> length v > 64 then False
      else case v of
             [] \<Rightarrow> False
           | first # chars \<Rightarrow> (is_alpha first \<or> first = CHR ''_'')
               \<and> list_all (\<lambda>c. is_alnum c \<or> c \<in> {CHR ''_'', CHR ''-'', CHR ''.''}) chars)"

definition valid_password_value :: "string \<Rightarrow> bool" where
  "valid_password_value v \<longleftrightarrow>
     v \<noteq> [] \<and> \<not> list_ex (\<lambda>b. b = CHR '':'' \<or> b = NUL \<or> b = LF \<or> b = CR \<or> is_control b) v"

text \<open>What passes for a name or a user is what the callers of such a check rely on.\<close>

interpretation page_name: name_check valid_name
  by unfold_locales (auto simp: valid_name_def list_all_iff is_name_byte_def)

interpretation page_user: name_check valid_linux_user
  by unfold_locales (auto simp: valid_linux_user_def list_all_iff is_name_byte_def is_alnum_def
      split: list.splits if_splits)

section \<open>Configuration\<close>

record web_env =
  we_achost :: string
  we_bin :: string
  we_var :: string
  we_run :: string
  we_config :: string
  we_dockerd_pid :: string
  we_containerd_pid :: string
  we_dockerd_log :: string
  we_containerd_log :: string
  we_supervisor_log :: string
  we_docker_host :: string
  we_docker :: string
  we_common_bin :: string
  we_autostart_file :: string
  we_runtime_mode :: string
  we_cgroup_mode :: string
  we_use_chroot :: string
  we_chroot :: string
  we_native_root :: string
  we_dns_servers :: string
  we_bridge :: string
  we_return_rule_priority :: string
  we_source_rule_priority :: string
  we_base_present :: bool
  we_module_target :: string
  we_lxc_runtime :: string
  we_lxc_containers :: string
  we_lxc_bridge :: string
  we_lxc_subnet :: string

definition web_env_path :: "environment \<Rightarrow> string \<Rightarrow> string option" where
  "web_env_path e name = filter_opt (\<lambda>v. v \<noteq> []) (env_var e name)"

definition web_env_from :: "environment \<Rightarrow> string option \<Rightarrow> web_env" where
  "web_env_from e exe =
     (let exe_dir = unwrap_or ''.'' (Option.bind exe parent_path);
          place = (\<lambda>name d. unwrap_or d (web_env_path e name));
          var_or = (\<lambda>name d. unwrap_or d (env_var e name));
          achost = place ''ACHOST'' (unwrap_or ''/data/adb/achost'' (parent_path exe_dir));
          bin = place ''ACHOST_BIN'' exe_dir;
          var = place ''ACHOST_VAR'' (path_join achost ''var'');
          run_dir = place ''ACHOST_RUN'' (path_join var ''run'');
          log_dir = place ''ACHOST_LOG_DIR'' (path_join var ''log'');
          config = place ''ACHOST_CONFIG'' (path_join var ''config'');
          common = place ''ACHOST_COMMON'' achost;
          lxc_var = place ''ACHOST_LXC_VAR'' ''/data/adb/achost/lxc''
      in \<lparr>we_achost = achost, we_bin = bin, we_var = var, we_run = run_dir, we_config = config,
          we_dockerd_pid = place ''ACHOST_DOCKERD_PID'' (path_join run_dir ''dockerd.pid''),
          we_containerd_pid = place ''ACHOST_CONTAINERD_PID'' (path_join run_dir ''containerd.pid''),
          we_dockerd_log = place ''ACHOST_DOCKERD_LOG'' (path_join log_dir ''dockerd.log''),
          we_containerd_log = place ''ACHOST_CONTAINERD_LOG'' (path_join log_dir ''containerd.log''),
          we_supervisor_log = place ''ACHOST_SUPERVISOR_LOG'' (path_join log_dir ''achost-supervise.log''),
          we_docker_host = var_or ''DOCKER_HOST'' (''unix://'' @ from_utf8_lossy (path_join run_dir ''docker.sock'')),
          we_docker = path_join bin ''docker'',
          we_common_bin = place ''ACHOST_COMMON_BIN'' (path_join common ''bin''),
          we_autostart_file = path_join config ''docker.autostart'',
          we_runtime_mode = var_or ''ACHOST_RUNTIME_MODE'' [],
          we_cgroup_mode = var_or ''ACHOST_CGROUP_MODE'' [],
          we_use_chroot = var_or ''ACHOST_USE_CHROOT'' ''0'',
          we_chroot = place ''ACHOST_CHROOT'' (path_join var ''chroot''),
          we_native_root = place ''ACHOST_NATIVE_ROOT'' (path_join var ''native-root''),
          we_dns_servers = var_or ''ACHOST_DNS_SERVERS'' [],
          we_bridge = unwrap_or ''docker0'' (or_else (env_var e ''CONTAINER_BRIDGE'') (env_var e ''DOCKER_BRIDGE'')),
          we_return_rule_priority =
            valid_priority (var_or ''ACHOST_CONTAINER_RETURN_RULE_PRIORITY'' ''11999'') ''11999'',
          we_source_rule_priority =
            valid_priority (var_or ''ACHOST_CONTAINER_SOURCE_RULE_PRIORITY'' ''12000'') ''12000'',
          we_base_present = (env_var e ''ACHOST_BASE_ENV_PRESENT'' = Some ''1''),
          we_module_target = var_or ''ACHOST_MODULE_TARGET'' [],
          we_lxc_runtime = place ''ACHOST_LXC_RUNTIME'' (path_join bin ''achost-lxc-runtime''),
          we_lxc_containers = place ''ACHOST_LXC_CONTAINERS'' (path_join lxc_var ''containers''),
          we_lxc_bridge = var_or ''LXC_BRIDGE'' ''lxcbr0'',
          we_lxc_subnet = var_or ''LXC_SUBNET'' ''172.32.0.0/16''\<rparr>)"

definition docker_socket_path :: "web_env \<Rightarrow> string" where
  "docker_socket_path env =
     unwrap_or (path_join (we_run env) ''docker.sock'') (strip_prefix ''unix://'' (we_docker_host env))"

section \<open>Arguments of docker run\<close>

definition normalize_mount_item :: "web_env \<Rightarrow> string \<Rightarrow> string" where
  "normalize_mount_item env item =
     (let docker_socket = from_utf8_lossy (docker_socket_path env)
      in if item \<in> {''/var/run/docker.sock'', ''/run/docker.sock''} then docker_socket
         else case find_map (\<lambda>pre. strip_prefix pre item) [''/var/run/docker.sock:'', ''/run/docker.sock:''] of
                Some rest \<Rightarrow> docker_socket @ '':'' @ rest
              | None \<Rightarrow> item)"

definition flagged :: "string \<Rightarrow> string list \<Rightarrow> string list" where
  "flagged flag items = concat (map (\<lambda>item. [flag, item]) items)"

definition build_add_container_args ::
  "web_env \<Rightarrow> string \<Rightarrow> string \<Rightarrow> string \<Rightarrow> string \<Rightarrow> string \<Rightarrow> string \<Rightarrow> string list result" where
  "build_add_container_args env name image_name ports envs mounts network0 =
     (if \<not> valid_name name then Inl ''invalid container name''
      else if \<not> valid_image image_name then Inl ''invalid image name''
      else let network = (if network0 = [] then ''bridge'' else network0)
      in if \<not> valid_network network then Inl ''invalid network''
         else and_then (ok_or ''invalid port mapping'' (valid_csv ports valid_port_item)) (\<lambda>port_items.
              and_then (ok_or ''invalid environment entry'' (valid_csv envs valid_env_item)) (\<lambda>env_items.
              and_then (ok_or ''invalid bind mount'' (valid_csv mounts valid_mount_item)) (\<lambda>mount_items.
                Inr ([''run'', ''-d'', ''--name'', name]
                  @ (if network \<noteq> [] then [''--network'', network] else [])
                  @ flagged ''-p'' port_items @ flagged ''-e'' env_items
                  @ flagged ''-v'' (map (normalize_mount_item env) mount_items)
                  @ [image_name])))))"

section \<open>Rows\<close>

record container_item =
  ci_id :: string
  ci_name :: string
  ci_image :: string
  ci_status :: string
  ci_created :: string

record image_item =
  ii_repository :: string
  ii_tag :: string
  ii_id :: string
  ii_size :: string
  ii_created :: string

text \<open>\<open>splitn\<close> and \<open>resize\<close>: always \<open>count\<close> fields, the missing ones empty.\<close>

definition split_fields :: "string \<Rightarrow> nat \<Rightarrow> string list" where
  "split_fields line count =
     (let row = splitn count (CHR ''|'') line in take count (row @ replicate (count - length row) []))"

definition field :: "string list \<Rightarrow> nat \<Rightarrow> string" where
  "field row i = unwrap_or [] (nth_opt row i)"

definition parse_container_line :: "string \<Rightarrow> container_item option" where
  "parse_container_line line =
     (let row = split_fields line 5
      in if field row 0 \<noteq> []
         then Some \<lparr>ci_id = field row 0, ci_name = field row 1, ci_image = field row 2,
                ci_status = field row 3, ci_created = field row 4\<rparr>
         else None)"

definition parse_image_line :: "string \<Rightarrow> image_item option" where
  "parse_image_line line =
     (let row = split_fields line 5
      in if field row 2 \<noteq> []
         then Some \<lparr>ii_repository = field row 0, ii_tag = field row 1, ii_id = field row 2,
                ii_size = field row 3, ii_created = field row 4\<rparr>
         else None)"

definition nonempty_lines :: "string \<Rightarrow> string list" where
  "nonempty_lines v = filter (\<lambda>line. trim line \<noteq> []) (rust_lines v)"

definition resolv_nameservers :: "string \<Rightarrow> string" where
  "resolv_nameservers content =
     str_join '' '' (List.map_filter (\<lambda>line.
       case split_whitespace line of
         key # server # _ \<Rightarrow> if key = ''nameserver'' then Some server else None
       | _ \<Rightarrow> None) (rust_lines content))"

definition bridge_route_line :: "string \<Rightarrow> string" where
  "bridge_route_line out =
     unwrap_or [] (find (\<lambda>line. (case line of [] \<Rightarrow> False | c # _ \<Rightarrow> is_digit c) \<and> CHR ''/'' \<in> set line) (rust_lines out))"

definition bridge_subnet_value :: "string \<Rightarrow> string" where
  "bridge_subnet_value route = unwrap_or [] (nth_opt (split_whitespace route) 0)"

definition ip_rule_line :: "string \<Rightarrow> string \<Rightarrow> string \<Rightarrow> string" where
  "ip_rule_line priority needle out =
     unwrap_or [] (find (\<lambda>line. str_contains needle line \<and> nth_opt (split_whitespace line) 0 = Some (priority @ '':''))
       (rust_lines out))"

definition route_dev :: "string list \<Rightarrow> string" where
  "route_dev parts =
     unwrap_or [] (find_map (\<lambda>(a, b). if a = ''dev'' then Some b else None) (zip parts (drop 1 parts)))"

section \<open>Answers\<close>

record web_result =
  wr_ok :: bool
  wr_rc :: int
  wr_output :: string

abbreviation JNat :: "nat \<Rightarrow> json" where
  "JNat n \<equiv> JInt (int n)"

definition error_json :: "string \<Rightarrow> json" where
  "error_json message = JObj [(''ok'', JBool False), (''error'', JStr message)]"

definition action_json :: "string \<Rightarrow> web_result \<Rightarrow> json" where
  "action_json label r =
     JObj [(''ok'', JBool (wr_ok r)), (''action'', JStr label), (''rc'', JInt (wr_rc r)), (''output'', JStr (wr_output r))]"

fun json_get :: "string \<Rightarrow> json \<Rightarrow> json option" where
  "json_get key (JObj kvs) = map_of kvs key"
| "json_get key _ = None"

fun json_array :: "json \<Rightarrow> json list option" where
  "json_array (JArr xs) = Some xs"
| "json_array _ = None"

fun json_string :: "json \<Rightarrow> string option" where
  "json_string (JStr s) = Some s"
| "json_string _ = None"

fun json_bool :: "json \<Rightarrow> bool option" where
  "json_bool (JBool b) = Some b"
| "json_bool _ = None"

text \<open>\<open>Map::insert\<close>, and \<open>entry(key).or_insert(v)\<close>.\<close>

fun obj_insert :: "string \<Rightarrow> json \<Rightarrow> (string \<times> json) list \<Rightarrow> (string \<times> json) list" where
  "obj_insert key v [] = [(key, v)]"
| "obj_insert key v ((k, w) # kvs) = (if k = key then (k, v) # kvs else (k, w) # obj_insert key v kvs)"

definition obj_default :: "string \<Rightarrow> json \<Rightarrow> (string \<times> json) list \<Rightarrow> (string \<times> json) list" where
  "obj_default key v kvs = (if map_of kvs key = None then obj_insert key v kvs else kvs)"

text \<open>\<open>parse\<close> is \<open>serde_json::from_str\<close>.\<close>

definition parse_lxc_json_result :: "(string \<Rightarrow> json option) \<Rightarrow> web_result \<Rightarrow> json" where
  "parse_lxc_json_result parse r =
     (case parse (wr_output r) of
        Some v \<Rightarrow>
          if wr_ok r then v
          else (case v of
                  JObj kvs \<Rightarrow> JObj (obj_insert ''rc'' (JInt (wr_rc r)) (obj_default ''ok'' (JBool False) kvs))
                | _ \<Rightarrow> JObj [(''ok'', JBool False), (''rc'', JInt (wr_rc r)), (''result'', v)])
      | None \<Rightarrow>
          if wr_ok r then JObj [(''ok'', JBool False), (''error'', JStr (wr_output r))]
          else JObj [(''ok'', JBool False), (''rc'', JInt (wr_rc r)), (''error'', JStr (wr_output r))])"

end
