(* ===== verification/WebRun.thy ===== *)
theory WebRun
  imports WebText CoreNet
begin

text \<open>
  \<open>achost-webui-api\<close>: running a tool with a time limit and collecting what it printed. A
  child is named by the number the system gives it; \<open>ElapsedMs\<close> is the clock started with
  the wait, in whole milliseconds. The wait takes the number of rounds it may make; running
  out is \<open>StillRunning\<close>. The output of a child is its bytes.
\<close>

section \<open>Limits\<close>

definition DEFAULT_COMMAND_TIMEOUT_SECS :: nat where
  "DEFAULT_COMMAND_TIMEOUT_SECS = 120"

definition MAX_COMMAND_OUTPUT_BYTES :: nat where
  "MAX_COMMAND_OUTPUT_BYTES = 64 * 1024"

definition command_timeout_secs :: "environment \<Rightarrow> nat" where
  "command_timeout_secs e =
     unwrap_or DEFAULT_COMMAND_TIMEOUT_SECS
       (filter_opt (\<lambda>v. 5 \<le> v \<and> v \<le> 900)
         (Option.bind (env_var e ''ACHOST_WEBUI_COMMAND_TIMEOUT'') (parse_uint U64_BOUND)))"

definition action_timeout_secs :: "environment \<Rightarrow> string \<Rightarrow> nat" where
  "action_timeout_secs e label =
     (if label \<in> {''pull-image'', ''lxc-import-rootfs''} then 600
      else if label \<in> {''start-docker'', ''stop-docker'', ''add-container'', ''lxc-start'', ''lxc-stop'', ''lxc-force-stop''}
      then 180
      else if label = ''lxc-exec'' then 60
      else command_timeout_secs e)"

section \<open>Collecting\<close>

definition truncation_note :: string where
  "truncation_note = LF # ''[output truncated by achost-webui-api]''"

definition collected_text :: "cmd_output \<Rightarrow> bool \<Rightarrow> nat \<Rightarrow> string" where
  "collected_text out timed_out timeout =
     (let bytes = out_stdout out @ out_stderr out;
          truncated = length bytes > MAX_COMMAND_OUTPUT_BYTES;
          decoded = from_utf8_lossy (if truncated then take MAX_COMMAND_OUTPUT_BYTES bytes else bytes)
            @ (if truncated then truncation_note else [])
      in trim_trailing_newlines
           (if timed_out
            then decoded @ (if decoded \<noteq> [] then [LF] else [])
              @ ''command timed out after '' @ show_nat timeout @ ''s''
            else decoded))"

definition collected :: "cmd_output \<Rightarrow> bool \<Rightarrow> nat \<Rightarrow> web_result" where
  "collected out timed_out timeout =
     \<lparr>wr_ok = (\<not> timed_out \<and> out_success out),
      wr_rc = (if timed_out then 124 else unwrap_or 1 (out_code out)),
      wr_output = collected_text out timed_out timeout\<rparr>"

definition failed_result :: "string \<Rightarrow> web_result" where
  "failed_result message = \<lparr>wr_ok = False, wr_rc = 1, wr_output = message\<rparr>"

definition collect_child_output :: "nat \<Rightarrow> bool \<Rightarrow> nat \<Rightarrow> web_result prog" where
  "collect_child_output child timed_out timeout =
     then_do (gather child) (\<lambda>r.
       Ret (case r of Inr out \<Rightarrow> collected out timed_out timeout | Inl err \<Rightarrow> failed_result (show_io err)))"

section \<open>Waiting\<close>

fun wait_with_timeout :: "nat \<Rightarrow> string \<Rightarrow> nat \<Rightarrow> nat \<Rightarrow> (stop + web_result) prog" where
  "wait_with_timeout 0 program child timeout = fail StillRunning"
| "wait_with_timeout (Suc rounds) program child timeout =
     then_do (wait (TryWait child)) (\<lambda>r.
       case r of
         Reaped _ _ \<Rightarrow> then_do (collect_child_output child False timeout) ok
       | NotYet \<Rightarrow>
           then_do (query ElapsedMs) (\<lambda>ms.
             if ms \<ge> 1000 * timeout
             then then_do (act (KillChild child)) (\<lambda>_. then_do (collect_child_output child True timeout) ok)
             else then_do (sleep 100) (\<lambda>_. wait_with_timeout rounds program child timeout))
       | WaitError err \<Rightarrow>
           then_do (act (KillChild child)) (\<lambda>_. ok (failed_result (program @ '': '' @ show_io err))))"

definition run_program_timeout :: "nat \<Rightarrow> string \<Rightarrow> string list \<Rightarrow> nat \<Rightarrow> (stop + web_result) prog" where
  "run_program_timeout rounds program args timeout =
     then_do (num (SpawnChild program args False)) (\<lambda>r.
       case r of
         Inr child \<Rightarrow> wait_with_timeout rounds program child timeout
       | Inl err \<Rightarrow> ok (failed_result (show_io err)))"

definition run_program :: "nat \<Rightarrow> environment \<Rightarrow> string \<Rightarrow> string list \<Rightarrow> (stop + web_result) prog" where
  "run_program rounds e program args = run_program_timeout rounds program args (command_timeout_secs e)"

definition run_program_with_input ::
  "nat \<Rightarrow> environment \<Rightarrow> string \<Rightarrow> string list \<Rightarrow> string \<Rightarrow> (stop + web_result) prog" where
  "run_program_with_input rounds e program args input =
     then_do (num (SpawnChild program args True)) (\<lambda>r.
       case r of
         Inr child \<Rightarrow>
           then_do (act (SendToChild child input)) (\<lambda>w.
             case w of
               Inl err \<Rightarrow> then_do (act (KillChild child)) (\<lambda>_. ok (failed_result (show_io err)))
             | Inr _ \<Rightarrow> wait_with_timeout rounds program child (command_timeout_secs e))
       | Inl err \<Rightarrow> ok (failed_result (show_io err)))"

definition run_and_report ::
  "nat \<Rightarrow> environment \<Rightarrow> string \<Rightarrow> string \<Rightarrow> string list \<Rightarrow> (stop + json) prog" where
  "run_and_report rounds e label program args =
     try_do (run_program_timeout rounds program args (action_timeout_secs e label)) (\<lambda>r.
       ok (action_json label r))"

end
