(* ===== verification/WebApi.thy ===== *)
theory WebApi
  imports WebRun
begin

text \<open>
  \<open>achost-webui-api\<close>: the handlers of the Docker page and of the LXC page, \<open>dispatch\<close> and
  \<open>main\<close>. A handler answers with a JSON value, or with \<open>StillRunning\<close> when the wait for a
  tool has used up its rounds.
\<close>

text \<open>
  What surrounds the program: its environment, \<open>current_exe\<close>, and \<open>serde_json\<close>, whose
  \<open>to_string\<close> and \<open>from_str\<close> are parameters; the number of rounds of each wait.
\<close>

record web_host =
  wh_env :: environment
  wh_exe :: "string option"
  wh_show :: "json \<Rightarrow> string"
  wh_parse :: "string \<Rightarrow> json option"
  wh_rounds :: nat

abbreviation web_run :: "web_host \<Rightarrow> string \<Rightarrow> string list \<Rightarrow> (stop + web_result) prog" where
  "web_run h \<equiv> run_program (wh_rounds h) (wh_env h)"

abbreviation web_report :: "web_host \<Rightarrow> string \<Rightarrow> string \<Rightarrow> string list \<Rightarrow> (stop + json) prog" where
  "web_report h \<equiv> run_and_report (wh_rounds h) (wh_env h)"

definition LINUX_GUEST_PATH :: string where
  "LINUX_GUEST_PATH = ''/usr/local/sbin:/usr/local/bin:/usr/sbin:/usr/bin:/sbin:/bin''"

section \<open>State of the Docker runtime\<close>

text \<open>\<open>pid_t\<close> has 31 bits for a number without a sign.\<close>

definition pid_value :: "string \<Rightarrow> string prog" where
  "pid_value path =
     then_do (get (ReadText path)) (\<lambda>r.
       case r of
         Inl _ \<Rightarrow> Ret []
       | Inr content \<Rightarrow>
           let pid_text = trim content
           in if pid_text = [] \<or> \<not> list_all is_digit pid_text then Ret []
              else case parse_uint 2147483648 pid_text of
                     None \<Rightarrow> Ret []
                   | Some pid \<Rightarrow>
                       then_do (act (SendSignal (int pid) 0)) (\<lambda>k. Ret (if is_ok k then pid_text else [])))"

definition socket_present :: "web_env \<Rightarrow> bool prog" where
  "socket_present env =
     then_do (ask (IsSocket (docker_socket_path env))) (\<lambda>b.
       if b then Ret True else ask (IsSocket (path_join (we_run env) ''docker.sock'')))"

definition autostart_value :: "web_env \<Rightarrow> bool prog" where
  "autostart_value env =
     then_do (get (ReadText (we_autostart_file env))) (\<lambda>r.
       Ret (case r of Inl _ \<Rightarrow> False | Inr v \<Rightarrow> trim v = ''1''))"

definition docker_lines :: "web_host \<Rightarrow> web_env \<Rightarrow> string list \<Rightarrow> (stop + string list) prog" where
  "docker_lines h env args =
     try_do (web_run h (we_docker env) args) (\<lambda>r. ok (if wr_ok r then nonempty_lines (wr_output r) else []))"

definition count_docker_lines :: "web_host \<Rightarrow> web_env \<Rightarrow> string list \<Rightarrow> (stop + nat) prog" where
  "count_docker_lines h env args = try_do (docker_lines h env args) (\<lambda>ls. ok (length ls))"

definition count_unique_docker_lines :: "web_host \<Rightarrow> web_env \<Rightarrow> string list \<Rightarrow> (stop + nat) prog" where
  "count_unique_docker_lines h env args = try_do (docker_lines h env args) (\<lambda>ls. ok (length (remdups ls)))"

record docker_figures =
  df_server_version :: string
  df_cgroup_version :: string
  df_storage_driver :: string
  df_error :: "string option"
  df_total :: nat
  df_running :: nat
  df_images :: nat

definition no_figures :: docker_figures where
  "no_figures = \<lparr>df_server_version = [], df_cgroup_version = [], df_storage_driver = [], df_error = None,
     df_total = 0, df_running = 0, df_images = 0\<rparr>"

definition info_figures :: "web_result \<Rightarrow> docker_figures" where
  "info_figures info =
     (if wr_ok info \<and> wr_output info \<noteq> []
      then let row = split_char (CHR ''|'') (wr_output info)
           in no_figures\<lparr>df_server_version := field row 0, df_cgroup_version := field row 1,
                df_storage_driver := field row 2\<rparr>
      else if wr_output info \<noteq> [] then no_figures\<lparr>df_error := Some (wr_output info)\<rparr>
      else no_figures)"

definition collect_figures :: "web_host \<Rightarrow> web_env \<Rightarrow> (stop + docker_figures) prog" where
  "collect_figures h env =
     try_do (web_run h (we_docker env) [''info'', ''--format'', ''{{.ServerVersion}}|{{.CgroupVersion}}|{{.Driver}}''])
       (\<lambda>info.
     try_do (count_docker_lines h env [''ps'', ''-aq'']) (\<lambda>total.
     try_do (count_docker_lines h env [''ps'', ''-q'']) (\<lambda>running.
     try_do (count_unique_docker_lines h env [''images'', ''-q'']) (\<lambda>images.
       ok ((info_figures info)\<lparr>df_total := total, df_running := running, df_images := images\<rparr>)))))"

definition bridge_route_value :: "web_host \<Rightarrow> web_env \<Rightarrow> (stop + string) prog" where
  "bridge_route_value h env =
     try_do (web_run h ''ip'' [''-4'', ''route'', ''show'', ''dev'', we_bridge env, ''scope'', ''link'']) (\<lambda>r.
       ok (if wr_ok r then bridge_route_line (wr_output r) else []))"

definition ip_rule_value :: "web_host \<Rightarrow> string \<Rightarrow> string \<Rightarrow> (stop + string) prog" where
  "ip_rule_value h priority needle =
     (if needle = [] then ok []
      else try_do (web_run h ''ip'' [''rule'', ''show'']) (\<lambda>r.
             ok (if wr_ok r then ip_rule_line priority needle (wr_output r) else [])))"

definition cgroup_mount_value :: "string prog" where
  "cgroup_mount_value =
     then_do (find_do (\<lambda>path. ask (IsDir path)) [''/dev/memcg'', ''/sys/fs/cgroup/memory'', ''/sys/fs/cgroup''])
       (\<lambda>found. Ret (unwrap_or [] found))"

definition runtime_resolv_conf_path :: "web_env \<Rightarrow> string" where
  "runtime_resolv_conf_path env =
     path_join (if we_use_chroot env = ''1'' then we_chroot env else we_native_root env) ''etc/resolv.conf''"

definition resolv_conf_nameservers :: "string \<Rightarrow> string prog" where
  "resolv_conf_nameservers path =
     then_do (get (ReadText path)) (\<lambda>r. Ret (case r of Inl _ \<Rightarrow> [] | Inr content \<Rightarrow> resolv_nameservers content))"

definition uplink_by_route :: "web_host \<Rightarrow> (stop + string) prog" where
  "uplink_by_route h =
     try_do (web_run h ''ip'' [''route'', ''get'', ''1.1.1.1'']) (\<lambda>r.
       ok (if wr_ok r then route_dev (split_whitespace (wr_output r)) else []))"

definition uplink_value :: "web_host \<Rightarrow> web_env \<Rightarrow> (stop + string) prog" where
  "uplink_value h env =
     (let runtime_core = path_join (we_common_bin env) ''achost-runtime-core''
      in then_do (ask (Exists runtime_core)) (\<lambda>present.
           if \<not> present then uplink_by_route h
           else try_do (web_run h runtime_core [''detect-uplink'', ''1.1.1.1'']) (\<lambda>r.
                  if wr_ok r then ok (trim (wr_output r)) else uplink_by_route h)))"

definition route_status :: "string \<Rightarrow> string \<Rightarrow> string" where
  "route_status route return_rule =
     (if route = [] then ''missing-bridge'' else if return_rule = [] then ''missing-policy'' else ''ok'')"

section \<open>Status\<close>

record docker_state =
  st_dockerd_pid :: string
  st_containerd_pid :: string
  st_socket :: bool
  st_running :: bool
  st_figures :: docker_figures
  st_route :: string
  st_subnet :: string
  st_return_rule :: string
  st_source_rule :: string

definition docker_state_of :: "web_host \<Rightarrow> web_env \<Rightarrow> (stop + docker_state) prog" where
  "docker_state_of h env =
     then_do (pid_value (we_dockerd_pid env)) (\<lambda>dockerd_pid.
     then_do (pid_value (we_containerd_pid env)) (\<lambda>containerd_pid.
     then_do (socket_present env) (\<lambda>socket.
     let running = dockerd_pid \<noteq> [] \<and> socket
     in then_do (if running then ask (Exists (we_docker env)) else Ret False) (\<lambda>askable.
        try_do (if askable then collect_figures h env else ok no_figures) (\<lambda>figures.
        try_do (bridge_route_value h env) (\<lambda>route.
        let subnet = bridge_subnet_value route
        in try_do (if subnet = [] then ok []
                   else ip_rule_value h (we_return_rule_priority env) (''to '' @ subnet @ '' lookup main'')) (\<lambda>return_rule.
           try_do (if subnet = [] then ok []
                   else ip_rule_value h (we_source_rule_priority env) (''from '' @ subnet @ '' lookup'')) (\<lambda>source_rule.
             ok \<lparr>st_dockerd_pid = dockerd_pid, st_containerd_pid = containerd_pid, st_socket = socket,
                 st_running = running, st_figures = figures, st_route = route, st_subnet = subnet,
                 st_return_rule = return_rule, st_source_rule = source_rule\<rparr>))))))))"

definition status_value ::
  "web_env \<Rightarrow> docker_state \<Rightarrow> bool \<Rightarrow> string \<Rightarrow> string \<Rightarrow> string \<Rightarrow> json" where
  "status_value env st autostart cgroup_mount nameservers uplink =
     (let f = st_figures st
      in JObj ([
        (''ok'', JBool True), (''running'', JBool (st_running st)),
        (''status'', JStr (if st_running st then ''running'' else ''stopped'')),
        (''socket'', JBool (st_socket st)), (''autostart'', JBool autostart),
        (''base_present'', JBool (we_base_present env)), (''data_root'', JStr (from_utf8_lossy (we_var env))),
        (''autostart_file'', JStr (from_utf8_lossy (we_autostart_file env))),
        (''dockerd_pid'', JStr (st_dockerd_pid st)), (''containerd_pid'', JStr (st_containerd_pid st)),
        (''cgroup_version'', JStr (df_cgroup_version f)), (''configured_cgroup_mode'', JStr (we_cgroup_mode env)),
        (''cgroup_mount'', JStr cgroup_mount), (''runtime_mode'', JStr (we_runtime_mode env)),
        (''dns_servers'', JStr (we_dns_servers env)),
        (''resolv_conf'', JStr (from_utf8_lossy (runtime_resolv_conf_path env))),
        (''resolv_nameservers'', JStr nameservers), (''bridge'', JStr (we_bridge env)),
        (''bridge_subnet'', JStr (st_subnet st)), (''bridge_route'', JStr (st_route st)),
        (''route_status'', JStr (route_status (st_route st) (st_return_rule st))),
        (''return_policy_rule'', JStr (st_return_rule st)), (''source_policy_rule'', JStr (st_source_rule st)),
        (''uplink'', JStr uplink), (''storage_driver'', JStr (df_storage_driver f)),
        (''server_version'', JStr (df_server_version f)), (''containers_total'', JNat (df_total f)),
        (''containers_running'', JNat (df_running f)),
        (''containers_stopped'', JNat (df_total f - df_running f)), (''images'', JNat (df_images f))]
        @ (case df_error f of None \<Rightarrow> [] | Some err \<Rightarrow> [(''docker_error'', JStr err)])))"

definition status_json :: "web_host \<Rightarrow> web_env \<Rightarrow> (stop + json) prog" where
  "status_json h env =
     try_do (docker_state_of h env) (\<lambda>st.
     then_do (autostart_value env) (\<lambda>autostart.
     then_do cgroup_mount_value (\<lambda>cgroup_mount.
     then_do (resolv_conf_nameservers (runtime_resolv_conf_path env)) (\<lambda>nameservers.
     try_do (uplink_value h env) (\<lambda>uplink.
       ok (status_value env st autostart cgroup_mount nameservers uplink))))))"

definition settings_json :: "web_host \<Rightarrow> web_env \<Rightarrow> (stop + json) prog" where
  "settings_json h env =
     then_do (autostart_value env) (\<lambda>autostart.
       let shown = (\<lambda>p. JStr (from_utf8_lossy p))
       in ok (JObj [(''ok'', JBool True), (''autostart'', JBool autostart), (''autostart_file'', shown (we_autostart_file env)),
            (''data_root'', shown (we_var env)), (''module_root'', shown (we_achost env)),
            (''base_root'', JStr (unwrap_or (from_utf8_lossy (we_achost env)) (env_var (wh_env h) ''ACHOST_COMMON''))),
            (''dockerd_log'', shown (we_dockerd_log env)), (''containerd_log'', shown (we_containerd_log env)),
            (''supervisor_log'', shown (we_supervisor_log env))]))"

definition write_autostart :: "web_env \<Rightarrow> bool \<Rightarrow> unit io prog" where
  "write_autostart env enabled =
     try_do (act (CreateDirAll (we_config env))) (\<lambda>_.
       act (WriteFile (we_autostart_file env) ((if enabled then ''1'' else ''0'') @ [LF])))"

definition autostart_arg :: "string \<Rightarrow> bool option" where
  "autostart_arg v =
     (if v \<in> {''on'', ''1'', ''true''} then Some True
      else if v \<in> {''off'', ''0'', ''false''} then Some False else None)"

definition set_autostart :: "web_env \<Rightarrow> string \<Rightarrow> (stop + json) prog" where
  "set_autostart env v =
     (case autostart_arg v of
        None \<Rightarrow> ok (error_json ''invalid autostart value'')
      | Some enabled \<Rightarrow>
          then_do (write_autostart env enabled) (\<lambda>w.
            ok (case w of
                  Inl err \<Rightarrow> error_json (''could not write autostart setting: '' @ show_io err)
                | Inr _ \<Rightarrow> JObj [(''ok'', JBool True), (''autostart'', JBool enabled),
                    (''autostart_file'', JStr (from_utf8_lossy (we_autostart_file env)))])))"

text \<open>\<open>rc\<close> and \<open>output\<close> of \<open>check\<close>, after the script and after \<open>docker info\<close>.\<close>

definition check_script :: "web_host \<Rightarrow> web_env \<Rightarrow> (stop + (int \<times> string)) prog" where
  "check_script h env =
     (let validate = path_join (we_common_bin env) ''achost-container-validate.sh''
      in then_do (ask (Exists validate)) (\<lambda>present.
           if \<not> present then ok (0, [])
           else try_do (web_run h validate []) (\<lambda>r. ok (if wr_ok r then 0 else wr_rc r, wr_output r))))"

definition check_json :: "web_host \<Rightarrow> web_env \<Rightarrow> (stop + json) prog" where
  "check_json h env =
     try_do (check_script h env) (\<lambda>(rc, out).
     then_do (and_also (ask (Exists (we_docker env))) (socket_present env)) (\<lambda>askable.
     try_do (if \<not> askable then ok (rc, out)
             else try_do (web_run h (we_docker env) [''info'']) (\<lambda>r.
                    ok (if wr_ok r then rc else wr_rc r, out @ (if out \<noteq> [] then [LF] else []) @ wr_output r))) (\<lambda>(rc, out).
       ok (JObj [(''ok'', JBool (rc = 0)), (''rc'', JInt rc), (''output'', JStr out)]))))"

section \<open>Containers and images\<close>

definition container_json :: "container_item \<Rightarrow> json" where
  "container_json c =
     JObj [(''id'', JStr (ci_id c)), (''name'', JStr (ci_name c)), (''image'', JStr (ci_image c)),
       (''status'', JStr (ci_status c)), (''created'', JStr (ci_created c))]"

definition image_json :: "image_item \<Rightarrow> json" where
  "image_json i =
     JObj [(''repository'', JStr (ii_repository i)), (''tag'', JStr (ii_tag i)), (''id'', JStr (ii_id i)),
       (''size'', JStr (ii_size i)), (''created'', JStr (ii_created i))]"

definition list_containers_json :: "web_host \<Rightarrow> web_env \<Rightarrow> (stop + json) prog" where
  "list_containers_json h env =
     then_do (ask (Exists (we_docker env))) (\<lambda>present.
     if \<not> present then ok (error_json ''docker binary not found'')
     else then_do (socket_present env) (\<lambda>socket.
       if \<not> socket then ok (JObj [(''ok'', JBool True), (''containers'', JArr [])])
       else try_do (web_run h (we_docker env) [''ps'', ''-a'', ''--no-trunc'', ''--format'',
                ''{{.ID}}|{{.Names}}|{{.Image}}|{{.Status}}|{{.CreatedAt}}'']) (\<lambda>r.
              let items = (if wr_ok r then List.map_filter parse_container_line (rust_lines (wr_output r)) else [])
              in ok (JObj [(''ok'', JBool True), (''containers'', JArr (map container_json items))]))))"

definition list_images_json :: "web_host \<Rightarrow> web_env \<Rightarrow> (stop + json) prog" where
  "list_images_json h env =
     then_do (ask (Exists (we_docker env))) (\<lambda>present.
     if \<not> present then ok (error_json ''docker binary not found'')
     else then_do (socket_present env) (\<lambda>socket.
       if \<not> socket then ok (JObj [(''ok'', JBool True), (''images'', JArr [])])
       else try_do (web_run h (we_docker env) [''images'', ''--no-trunc'', ''--format'',
                ''{{.Repository}}|{{.Tag}}|{{.ID}}|{{.Size}}|{{.CreatedSince}}'']) (\<lambda>r.
              let items = (if wr_ok r then List.map_filter parse_image_line (rust_lines (wr_output r)) else [])
              in ok (JObj [(''ok'', JBool True), (''images'', JArr (map image_json items))]))))"

definition docker_target_action ::
  "web_host \<Rightarrow> web_env \<Rightarrow> string \<Rightarrow> string list \<Rightarrow> string \<Rightarrow> (stop + json) prog" where
  "docker_target_action h env label pre target =
     (if \<not> valid_name target then ok (error_json ''invalid container id or name'')
      else web_report h label (we_docker env) (pre @ [target]))"

definition container_logs :: "web_host \<Rightarrow> web_env \<Rightarrow> string \<Rightarrow> (stop + json) prog" where
  "container_logs h env target =
     (if \<not> valid_name target then ok (error_json ''invalid container id or name'')
      else web_report h ''container-logs'' (we_docker env) [''logs'', ''--tail'', ''200'', target])"

definition inspect_container :: "web_host \<Rightarrow> web_env \<Rightarrow> string \<Rightarrow> (stop + json) prog" where
  "inspect_container h env target =
     (if \<not> valid_name target then ok (error_json ''invalid container id or name'')
      else web_report h ''inspect-container'' (we_docker env) [''inspect'', target])"

definition pull_image :: "web_host \<Rightarrow> web_env \<Rightarrow> string \<Rightarrow> (stop + json) prog" where
  "pull_image h env image_name =
     (if \<not> valid_image image_name then ok (error_json ''invalid image name'')
      else web_report h ''pull-image'' (we_docker env) [''pull'', image_name])"

definition remove_image :: "web_host \<Rightarrow> web_env \<Rightarrow> string \<Rightarrow> (stop + json) prog" where
  "remove_image h env image_name =
     (if \<not> valid_image image_name then ok (error_json ''invalid image id or name'')
      else web_report h ''remove-image'' (we_docker env) [''rmi'', image_name])"

definition add_container ::
  "web_host \<Rightarrow> web_env \<Rightarrow> string \<Rightarrow> string \<Rightarrow> string \<Rightarrow> string \<Rightarrow> string \<Rightarrow> string \<Rightarrow> (stop + json) prog" where
  "add_container h env name image_name ports envs mounts network =
     (case build_add_container_args env name image_name ports envs mounts network of
        Inr args \<Rightarrow> web_report h ''add-container'' (we_docker env) args
      | Inl message \<Rightarrow> ok (error_json message))"

definition tail_text :: "nat \<Rightarrow> string \<Rightarrow> string" where
  "tail_text count content =
     (let ls = rust_lines content in str_join [LF] (drop (length ls - count) ls))"

definition tail_lines :: "string \<Rightarrow> nat \<Rightarrow> string prog" where
  "tail_lines path count =
     then_do (get (ReadText path)) (\<lambda>r. Ret (case r of Inl _ \<Rightarrow> [] | Inr content \<Rightarrow> tail_text count content))"

fun daemon_log_loop :: "string list \<Rightarrow> string \<Rightarrow> string prog" where
  "daemon_log_loop [] out = Ret out"
| "daemon_log_loop (path # paths) out =
     then_do (ask (Exists path)) (\<lambda>present.
       if \<not> present then daemon_log_loop paths out
       else then_do (tail_lines path 160) (\<lambda>chunk.
              daemon_log_loop paths
                (out @ LF # ''== daemon-logs: '' @ from_utf8_lossy path @ '' =='' @ LF # chunk)))"

definition daemon_logs :: "web_env \<Rightarrow> (stop + json) prog" where
  "daemon_logs env =
     then_do (daemon_log_loop [we_dockerd_log env, we_containerd_log env, we_supervisor_log env] []) (\<lambda>out.
       ok (JObj [(''ok'', JBool True), (''action'', JStr ''daemon-logs''), (''rc'', JInt 0), (''output'', JStr out)]))"

section \<open>LXC\<close>

definition run_lxc_json :: "web_host \<Rightarrow> web_env \<Rightarrow> string list \<Rightarrow> (stop + json) prog" where
  "run_lxc_json h env args =
     try_do (web_run h (we_lxc_runtime env) args) (\<lambda>r. ok (parse_lxc_json_result (wh_parse h) r))"

definition run_lxc_json_with_input :: "web_host \<Rightarrow> web_env \<Rightarrow> string list \<Rightarrow> string \<Rightarrow> (stop + json) prog" where
  "run_lxc_json_with_input h env args input =
     try_do (run_program_with_input (wh_rounds h) (wh_env h) (we_lxc_runtime env) args input) (\<lambda>r.
       ok (parse_lxc_json_result (wh_parse h) r))"

definition lxc_list :: "web_host \<Rightarrow> web_env \<Rightarrow> (stop + json) prog" where
  "lxc_list h env = run_lxc_json h env [''list'', ''--json'']"

definition lxc_status_value :: "web_env \<Rightarrow> json \<Rightarrow> json" where
  "lxc_status_value env listing =
     (let containers = unwrap_or [] (Option.bind (json_get ''containers'' listing) json_array);
          running = length (filter (\<lambda>item. Option.bind (json_get ''state'' item) json_string = Some ''RUNNING'') containers)
      in JObj [(''ok'', JBool (unwrap_or False (Option.bind (json_get ''ok'' listing) json_bool))),
          (''runtime'', JStr ''lxc''), (''module_target'', JStr (we_module_target env)),
          (''base_present'', JBool (we_base_present env)), (''data_root'', JStr (from_utf8_lossy (we_var env))),
          (''lxc_runtime'', JStr (from_utf8_lossy (we_lxc_runtime env))),
          (''lxc_containers'', JStr (from_utf8_lossy (we_lxc_containers env))),
          (''bridge'', JStr (we_lxc_bridge env)), (''bridge_subnet'', JStr (we_lxc_subnet env)),
          (''containers_total'', JNat (length containers)), (''containers_running'', JNat running),
          (''containers_stopped'', JNat (length containers - running)), (''containers'', JArr containers),
          (''error'', unwrap_or JNull (json_get ''error'' listing))])"

definition lxc_status_json :: "web_host \<Rightarrow> web_env \<Rightarrow> (stop + json) prog" where
  "lxc_status_json h env = try_do (lxc_list h env) (\<lambda>listing. ok (lxc_status_value env listing))"

definition lxc_named :: "string \<Rightarrow> (stop + json) prog \<Rightarrow> (stop + json) prog" where
  "lxc_named target p = (if \<not> valid_name target then ok (error_json ''invalid LXC container name'') else p)"

definition lxc_target_action :: "web_host \<Rightarrow> web_env \<Rightarrow> string \<Rightarrow> string \<Rightarrow> string \<Rightarrow> (stop + json) prog" where
  "lxc_target_action h env label command target =
     lxc_named target (web_report h label (we_lxc_runtime env) [command, target])"

definition lxc_force_stop :: "web_host \<Rightarrow> web_env \<Rightarrow> string \<Rightarrow> (stop + json) prog" where
  "lxc_force_stop h env target =
     lxc_named target (web_report h ''lxc-force-stop'' (we_lxc_runtime env) [''stop'', target, ''--force''])"

definition lxc_logs :: "web_host \<Rightarrow> web_env \<Rightarrow> string \<Rightarrow> (stop + json) prog" where
  "lxc_logs h env target =
     lxc_named target (web_report h ''lxc-logs'' (we_lxc_runtime env) [''logs'', target, ''--lines'', ''200''])"

definition lxc_set_autostart :: "web_host \<Rightarrow> web_env \<Rightarrow> string \<Rightarrow> string \<Rightarrow> (stop + json) prog" where
  "lxc_set_autostart h env target v =
     lxc_named target
       (if v \<notin> {''on'', ''off''} then ok (error_json ''invalid LXC autostart value'')
        else web_report h ''lxc-set-autostart'' (we_lxc_runtime env) [''set-autostart'', target, v])"

definition lxc_system_status :: "web_host \<Rightarrow> web_env \<Rightarrow> string \<Rightarrow> (stop + json) prog" where
  "lxc_system_status h env target =
     lxc_named target (run_lxc_json h env [''system-status'', target, ''--json''])"

definition lxc_generate_password :: "web_host \<Rightarrow> web_env \<Rightarrow> string \<Rightarrow> string \<Rightarrow> (stop + json) prog" where
  "lxc_generate_password h env target user =
     lxc_named target
       (if \<not> valid_linux_user user then ok (error_json ''invalid Linux user'')
        else run_lxc_json h env [''generate-password'', target, ''--user'', user, ''--json''])"

definition set_password_args :: "string \<Rightarrow> string \<Rightarrow> string list" where
  "set_password_args target user = [''set-password'', target, ''--user'', user, ''--stdin'', ''--json'']"

definition set_lxc_password_with_value ::
  "web_host \<Rightarrow> web_env \<Rightarrow> string \<Rightarrow> string \<Rightarrow> string \<Rightarrow> (stop + json) prog" where
  "set_lxc_password_with_value h env target user password =
     run_lxc_json_with_input h env (set_password_args target user) (password @ [LF])"

definition lxc_set_password :: "web_host \<Rightarrow> web_env \<Rightarrow> string \<Rightarrow> string \<Rightarrow> (stop + json) prog" where
  "lxc_set_password h env target user =
     lxc_named target
       (if \<not> valid_linux_user user then ok (error_json ''invalid Linux user'')
        else
          let password = unwrap_or [] (env_var (wh_env h) ''ACHOST_LXC_PASSWORD'')
          in then_do (act (RemoveEnv ''ACHOST_LXC_PASSWORD'')) (\<lambda>_.
               if \<not> valid_password_value password then ok (error_json ''invalid or empty password'')
               else set_lxc_password_with_value h env target user password))"

definition exec_args :: "string \<Rightarrow> string \<Rightarrow> string list" where
  "exec_args target command =
     [''exec'', target, ''--'', ''/bin/sh'', ''-c'', ''PATH='' @ LINUX_GUEST_PATH @ ''; export PATH; '' @ command]"

definition lxc_exec :: "web_host \<Rightarrow> web_env \<Rightarrow> string \<Rightarrow> string \<Rightarrow> (stop + json) prog" where
  "lxc_exec h env target command =
     lxc_named target
       (if trim command = [] then ok (error_json ''empty LXC exec command'')
        else web_report h ''lxc-exec'' (we_lxc_runtime env) (exec_args target command))"

definition import_request :: "string \<Rightarrow> string \<Rightarrow> string \<Rightarrow> string \<Rightarrow> string \<Rightarrow> string \<Rightarrow> string list" where
  "import_request name rootfs distro release arch sha256 =
     [''import-rootfs'', ''--name'', name, ''--rootfs-asset'', rootfs, ''--distro'', safe_label distro,
      ''--release'', safe_label release, ''--arch'', safe_label arch]
     @ (if sha256 \<noteq> [] then [''--sha256'', to_ascii_lowercase sha256] else [])"

definition lxc_import_rootfs ::
  "web_host \<Rightarrow> web_env \<Rightarrow> string \<Rightarrow> string \<Rightarrow> string \<Rightarrow> string \<Rightarrow> string \<Rightarrow> string \<Rightarrow> (stop + json) prog" where
  "lxc_import_rootfs h env name rootfs distro release arch sha256 =
     lxc_named name
       (if \<not> valid_android_path rootfs then ok (error_json ''invalid rootfs path'')
        else if sha256 \<noteq> [] \<and> \<not> valid_sha256 sha256 then ok (error_json ''invalid rootfs sha256'')
        else web_report h ''lxc-import-rootfs'' (we_lxc_runtime env)
               (import_request name rootfs distro release arch sha256))"

fun lxc_check_loop :: "web_host \<Rightarrow> web_env \<Rightarrow> string list \<Rightarrow> bool \<Rightarrow> string \<Rightarrow> (stop + (bool \<times> string)) prog" where
  "lxc_check_loop h env [] good out = ok (good, out)"
| "lxc_check_loop h env (command # commands) good out =
     try_do (web_run h (we_lxc_runtime env) [command]) (\<lambda>r.
       lxc_check_loop h env commands (good \<and> wr_ok r)
         (out @ (if out \<noteq> [] then [LF] else []) @ ''$ achost-lxc-runtime '' @ command @ LF # wr_output r))"

definition lxc_check :: "web_host \<Rightarrow> web_env \<Rightarrow> (stop + json) prog" where
  "lxc_check h env =
     try_do (lxc_check_loop h env [''write-configs'', ''validate-host'', ''validate-assets'', ''prepare-bridge''] True [])
       (\<lambda>(good, out).
         ok (JObj [(''ok'', JBool good), (''action'', JStr ''lxc-check''), (''output'', JStr out)]))"

section \<open>Dispatch\<close>

definition arg_or :: "string list \<Rightarrow> nat \<Rightarrow> string \<Rightarrow> string" where
  "arg_or args i d = unwrap_or d (nth_opt args i)"

definition dispatch_docker :: "web_host \<Rightarrow> web_env \<Rightarrow> string \<Rightarrow> string list \<Rightarrow> (stop + json) prog option" where
  "dispatch_docker h env command args =
     (let arg = (\<lambda>i. arg_or args i []); runtime = path_join (we_bin env) ''achost-docker-runtime''
      in if command = ''status'' \<and> we_module_target env = ''lxc'' then Some (lxc_status_json h env)
         else if command = ''status'' then Some (status_json h env)
         else if command = ''settings'' then Some (settings_json h env)
         else if command = ''set-autostart'' then Some (set_autostart env (arg 1))
         else if command = ''check'' then Some (check_json h env)
         else if command = ''start-docker'' then Some (web_report h ''start-docker'' runtime [''start''])
         else if command = ''stop-docker'' then Some (web_report h ''stop-docker'' runtime [''stop''])
         else if command = ''list-containers'' then Some (list_containers_json h env)
         else if command = ''add-container''
         then Some (add_container h env (arg 1) (arg 2) (arg 3) (arg 4) (arg 5) (arg_or args 6 ''bridge''))
         else if command = ''delete-container''
         then Some (docker_target_action h env ''delete-container'' [''rm'', ''-f''] (arg 1))
         else if command = ''start-container'' then Some (docker_target_action h env ''start'' [''start''] (arg 1))
         else if command = ''stop-container'' then Some (docker_target_action h env ''stop'' [''stop''] (arg 1))
         else if command = ''restart-container'' then Some (docker_target_action h env ''restart'' [''restart''] (arg 1))
         else if command = ''container-logs'' then Some (container_logs h env (arg 1))
         else if command = ''inspect-container'' then Some (inspect_container h env (arg 1))
         else if command = ''list-images'' then Some (list_images_json h env)
         else if command = ''pull-image'' then Some (pull_image h env (arg 1))
         else if command = ''remove-image'' then Some (remove_image h env (arg 1))
         else if command = ''daemon-logs'' then Some (daemon_logs env)
         else None)"

definition dispatch_lxc :: "web_host \<Rightarrow> web_env \<Rightarrow> string \<Rightarrow> string list \<Rightarrow> (stop + json) prog option" where
  "dispatch_lxc h env command args =
     (let arg = (\<lambda>i. arg_or args i [])
      in if command = ''lxc-status'' then Some (lxc_status_json h env)
         else if command = ''lxc-list'' then Some (lxc_list h env)
         else if command = ''lxc-start'' then Some (lxc_target_action h env ''lxc-start'' ''start'' (arg 1))
         else if command = ''lxc-stop'' then Some (lxc_target_action h env ''lxc-stop'' ''stop'' (arg 1))
         else if command = ''lxc-force-stop'' then Some (lxc_force_stop h env (arg 1))
         else if command = ''lxc-destroy'' then Some (lxc_target_action h env ''lxc-destroy'' ''destroy'' (arg 1))
         else if command = ''lxc-set-autostart'' then Some (lxc_set_autostart h env (arg 1) (arg 2))
         else if command = ''lxc-system-status'' then Some (lxc_system_status h env (arg 1))
         else if command = ''lxc-generate-password'' then Some (lxc_generate_password h env (arg 1) (arg 2))
         else if command = ''lxc-set-password'' then Some (lxc_set_password h env (arg 1) (arg 2))
         else if command = ''lxc-logs'' then Some (lxc_logs h env (arg 1))
         else if command = ''lxc-exec'' then Some (lxc_exec h env (arg 1) (arg 2))
         else if command = ''lxc-import-rootfs''
         then Some (lxc_import_rootfs h env (arg 1) (arg 2) (arg_or args 3 ''unknown'') (arg_or args 4 ''unknown'')
                (arg_or args 5 ''unknown'') (arg 6))
         else if command = ''lxc-check'' then Some (lxc_check h env)
         else None)"

definition web_dispatch :: "web_host \<Rightarrow> web_env \<Rightarrow> string list \<Rightarrow> (stop + json) prog" where
  "web_dispatch h env args =
     (case args of
        [] \<Rightarrow> ok (error_json ''unsupported command'')
      | command # _ \<Rightarrow>
          unwrap_or (ok (error_json ''unsupported command''))
            (or_else (dispatch_docker h env command args) (dispatch_lxc h env command args)))"

text \<open>\<open>to_string\<close> of a value cannot fail; the other arm is not reached.\<close>

definition web_main :: "web_host \<Rightarrow> string list \<Rightarrow> (stop + unit) prog" where
  "web_main h args =
     try_do (web_dispatch h (web_env_from (wh_env h) (wh_exe h)) args) (\<lambda>response.
       then_do (println (wh_show h response)) (\<lambda>_. ok ()))"

end
