(* ===== verification/WebClaims.thy ===== *)
theory WebClaims
  imports WebApi LxcCmd
begin

text \<open>
  What the page may cause: the programs that are started and the file that is written, the
  shape of the answers, the wait for a tool and the size of what it printed, the arguments
  of \<open>docker run\<close>, and how \<open>achost-lxc-runtime\<close> reads the requests of this program.
\<close>

section \<open>Confinement\<close>

text \<open>The programs the configuration names, and \<open>ip\<close>.\<close>

definition api_programs :: "web_env \<Rightarrow> string set" where
  "api_programs env =
     {we_docker env, we_lxc_runtime env, ''ip'', path_join (we_bin env) ''achost-docker-runtime'',
      path_join (we_common_bin env) ''achost-runtime-core'',
      path_join (we_common_bin env) ''achost-container-validate.sh''}"

text \<open>
  A call the program may make for the page: it reads and asks; it starts a program of the
  list, writes to its input, kills it, waits for it; it tests a process with signal 0,
  forgets the password variable and writes the flag of its own file.
\<close>

fun api_event :: "web_env \<Rightarrow> event \<Rightarrow> bool" where
  "api_event env (EAct c r) \<longleftrightarrow>
     (case c of
        KillChild _ \<Rightarrow> True
      | SendToChild _ _ \<Rightarrow> True
      | SendSignal pid sig \<Rightarrow> sig = 0
      | RemoveEnv name \<Rightarrow> name = ''ACHOST_LXC_PASSWORD''
      | CreateDirAll p \<Rightarrow> p = we_config env
      | WriteFile p content \<Rightarrow> p = we_autostart_file env \<and> content \<in> {''0'' @ [LF], ''1'' @ [LF]}
      | _ \<Rightarrow> False)"
| "api_event env (ENum n r) \<longleftrightarrow> (case n of SpawnChild program args piped \<Rightarrow> program \<in> api_programs env | _ \<Rightarrow> False)"
| "api_event env (ERun m r) \<longleftrightarrow> False"
| "api_event env (EWait w r) \<longleftrightarrow> (case w of TryWait _ \<Rightarrow> True | _ \<Rightarrow> False)"
| "api_event env (ETar d z r) \<longleftrightarrow> False"
| "api_event env e \<longleftrightarrow> True"

lemma emits_wait [simp]: "emits (api_event env) (wait_with_timeout rounds program child timeout)"
  by (induction rounds)
    (auto simp: collect_child_output_def intro!: emits_then_do split: wait_answer.split)

lemma emits_run_timeout: "program \<in> api_programs env \<Longrightarrow> emits (api_event env) (run_program_timeout rounds program args n)"
  by (auto simp: run_program_timeout_def split: sum.split)

lemma emits_run_input: "program \<in> api_programs env \<Longrightarrow> emits (api_event env) (run_program_with_input rounds e program args s)"
  by (auto simp: run_program_with_input_def intro!: emits_then_do split: sum.split)

lemma emits_web_run [simp]:
  "program \<in> api_programs env \<Longrightarrow> emits (api_event env) (run_program rounds e program args)"
  "program \<in> api_programs env \<Longrightarrow> emits (api_event env) (run_and_report rounds e label program args)"
  by (auto simp: run_program_def run_and_report_def emits_run_timeout intro!: emits_try_do)

lemma api_programs_in [simp]:
  "we_docker env \<in> api_programs env" "we_lxc_runtime env \<in> api_programs env" "''ip'' \<in> api_programs env"
  "path_join (we_bin env) ''achost-docker-runtime'' \<in> api_programs env"
  "path_join (we_common_bin env) ''achost-runtime-core'' \<in> api_programs env"
  "path_join (we_common_bin env) ''achost-container-validate.sh'' \<in> api_programs env"
  by (simp_all add: api_programs_def)

lemma emits_api_reads [simp]:
  "emits (api_event env) (pid_value p)" "emits (api_event env) (socket_present env)"
  "emits (api_event env) (autostart_value env)" "emits (api_event env) cgroup_mount_value"
  "emits (api_event env) (resolv_conf_nameservers p)" "emits (api_event env) (tail_lines p n)" "emits (api_event env) (daemon_log_loop ps out)"
  by (auto simp: pid_value_def socket_present_def autostart_value_def cgroup_mount_value_def Let_def
      resolv_conf_nameservers_def tail_lines_def intro!: emits_intros split: sum.split option.split)
    (induction ps arbitrary: out, auto simp: tail_lines_def intro!: emits_then_do)

lemma emits_api_status [simp]:
  "emits (api_event env) (docker_state_of h env)" "emits (api_event env) (uplink_value h env)"
  by (auto simp: docker_state_of_def collect_figures_def count_docker_lines_def count_unique_docker_lines_def docker_lines_def
      bridge_route_value_def ip_rule_value_def uplink_value_def uplink_by_route_def Let_def intro!: emits_intros)

lemma emits_lxc_json [simp]:
  "emits (api_event env) (run_lxc_json h env args)" "emits (api_event env) (run_lxc_json_with_input h env args s)"
  by (auto simp: run_lxc_json_def run_lxc_json_with_input_def emits_run_input intro!: emits_intros)

lemma emits_lxc_check [simp]: "emits (api_event env) (lxc_check_loop h env commands good out)"
  by (induction commands arbitrary: good out) (auto intro!: emits_intros)

lemma emits_api_docker: "dispatch_docker h env command args = Some p \<Longrightarrow> emits (api_event env) p"
  by (auto simp: dispatch_docker_def Let_def lxc_status_json_def lxc_list_def status_json_def settings_json_def
      set_autostart_def write_autostart_def check_json_def check_script_def list_containers_json_def add_container_def
      docker_target_action_def container_logs_def inspect_container_def list_images_json_def pull_image_def
      remove_image_def daemon_logs_def intro!: emits_intros split: if_splits option.splits sum.splits)

lemma emits_api_lxc: "dispatch_lxc h env command args = Some p \<Longrightarrow> emits (api_event env) p"
  by (auto simp: dispatch_lxc_def Let_def lxc_status_json_def lxc_list_def lxc_target_action_def lxc_named_def
      lxc_force_stop_def lxc_set_autostart_def lxc_system_status_def lxc_generate_password_def lxc_set_password_def
      set_lxc_password_with_value_def lxc_logs_def lxc_exec_def lxc_import_rootfs_def lxc_check_def
      intro!: emits_intros split: if_splits)

text \<open>
  C33. Whatever the page sends, the only programs the API starts are the six the
  configuration names (docker, the two runtimes, the network helper, the validation script
  and \<open>ip\<close>), never through a shell of its own; the only file it writes is the Docker
  autostart flag, with \<open>0\<close> or \<open>1\<close> in it; and the only signal it sends to a process it has
  not started itself is signal 0.
\<close>

theorem api_confined: "emits (api_event env) (web_dispatch h env args)"
proof (cases args)
  case (Cons command rest)
  have "emits (api_event env) p"
    if "or_else (dispatch_docker h env command args) (dispatch_lxc h env command args) = Some p" for p
    using that emits_api_docker [of h env command args] emits_api_lxc [of h env command args]
    by (cases "dispatch_docker h env command args") auto
  with Cons show ?thesis
    by (cases "or_else (dispatch_docker h env command args) (dispatch_lxc h env command args)")
      (auto simp: web_dispatch_def)
qed (simp add: web_dispatch_def)

section \<open>Answers\<close>

text \<open>Every answer of a program has the property; a program that runs out of rounds has none.\<close>

definition answers :: "('a \<Rightarrow> bool) \<Rightarrow> (stop + 'a) prog \<Rightarrow> bool" where
  "answers A p \<longleftrightarrow> (\<forall>t v. exec p t = Some (Inr v) \<longrightarrow> A v)"

lemma answers_ok [simp]: "answers A (ok v) \<longleftrightarrow> A v"
  by (auto simp: answers_def)

lemma answers_then_do: "(\<And>x. answers A (f x)) \<Longrightarrow> answers A (then_do p f)"
  by (auto simp: answers_def exec_then_do)

lemma answers_try_do: "(\<And>x. answers A (f x)) \<Longrightarrow> answers A (try_do p f)"
  by (auto simp: answers_def exec_try_do_ok)

lemma answers_ask: "(\<And>r. answers A (k r)) \<Longrightarrow> answers A (Ask c k)"
  by (auto simp: answers_def exec_node)

lemmas answers_intros = answers_then_do answers_try_do answers_ask

definition has_verdict :: "json \<Rightarrow> bool" where
  "has_verdict v \<longleftrightarrow> (\<exists>b. json_get ''ok'' v = Some (JBool b))"

lemma has_verdict_simps [simp]:
  "has_verdict (JObj ((''ok'', JBool b) # kvs))" "has_verdict (error_json message)" "has_verdict (action_json label r)"
  by (auto simp: has_verdict_def error_json_def action_json_def)

lemma answers_report [simp]: "answers has_verdict (run_and_report rounds e label program args)"
  unfolding run_and_report_def by (rule answers_try_do) simp

lemma answers_status [simp]: "answers has_verdict (lxc_status_json h env)" "answers has_verdict (status_json h env)"
  by (auto simp: lxc_status_json_def lxc_status_value_def status_json_def status_value_def Let_def
      intro!: answers_intros)

lemma answers_docker: "dispatch_docker h env command args = Some p \<Longrightarrow> answers has_verdict p"
  by (auto simp: dispatch_docker_def Let_def settings_json_def set_autostart_def check_json_def list_containers_json_def
      add_container_def docker_target_action_def container_logs_def inspect_container_def list_images_json_def
      pull_image_def remove_image_def daemon_logs_def intro!: answers_intros
      split: if_splits option.splits sum.splits prod.splits)

text \<open>The commands whose answer is what \<open>achost-lxc-runtime --json\<close> printed.\<close>

definition relayed :: "string set" where
  "relayed = {''lxc-list'', ''lxc-system-status'', ''lxc-generate-password'', ''lxc-set-password''}"

lemma answers_lxc: "dispatch_lxc h env command args = Some p \<Longrightarrow> command \<notin> relayed \<Longrightarrow> answers has_verdict p"
  by (auto simp: dispatch_lxc_def Let_def relayed_def lxc_target_action_def lxc_named_def lxc_force_stop_def
      lxc_set_autostart_def lxc_logs_def lxc_exec_def lxc_import_rootfs_def lxc_check_def
      intro!: answers_try_do split: if_splits prod.splits)

text \<open>
  C39. Every answer carries a verdict: the page can read a truth value under \<open>ok\<close> in the
  answer to any request, known or not, whatever the tools did, except where the answer is
  the JSON the container runtime printed itself.
\<close>

theorem answer_has_verdict:
  assumes "exec (web_dispatch h env (command # args)) t = Some (Inr v)" "command \<notin> relayed"
  shows "\<exists>b. json_get ''ok'' v = Some (JBool b)"
proof -
  have "answers has_verdict (web_dispatch h env (command # args))"
    using answers_docker [of h env command "command # args"] answers_lxc [of h env command "command # args"] assms(2)
    by (cases "dispatch_docker h env command (command # args)"; cases "dispatch_lxc h env command (command # args)")
      (auto simp: web_dispatch_def)
  with assms(1) show ?thesis by (auto simp: answers_def has_verdict_def)
qed

definition demo_web_env :: web_env where
  "demo_web_env = web_env_from (\<lambda>_. Unset) (Some ''/a/bin/api'')"

definition demo_web_host :: web_host where
  "demo_web_host = \<lparr>wh_env = (\<lambda>_. Unset), wh_exe = Some ''/a/bin/api'', wh_show = (\<lambda>_. []), wh_parse = (\<lambda>_. None), wh_rounds = 3\<rparr>"

lemma demo_lxc_runtime: "we_lxc_runtime demo_web_env = ''/a/bin/achost-lxc-runtime''"
  by code_simp

lemma demo_valid_name: "valid_name ''web''"
  by code_simp

lemma demo_start_request:
  "web_dispatch demo_web_host demo_web_env [''lxc-start'', ''web'']
     = web_report demo_web_host ''lxc-start'' ''/a/bin/achost-lxc-runtime'' [''start'', ''web'']"
  by (simp add: web_dispatch_def dispatch_docker_def dispatch_lxc_def Let_def arg_or_def lxc_target_action_def
      lxc_named_def demo_valid_name demo_lxc_runtime)

theorem answer_has_verdict_witness:
  "\<exists>v. exec (web_dispatch demo_web_host demo_web_env [''lxc-start'', ''web'']) 
      [ENum (SpawnChild ''/a/bin/achost-lxc-runtime'' [''start'', ''web''] False) (Inl NotFound)] = Some (Inr v)
    \<and> (\<exists>b. json_get ''ok'' v = Some (JBool b))"
proof -
  let ?t = "[ENum (SpawnChild ''/a/bin/achost-lxc-runtime'' [''start'', ''web''] False) (Inl NotFound)]"
  have "exec (web_dispatch demo_web_host demo_web_env [''lxc-start'', ''web'']) ?t
      = Some (Inr (action_json ''lxc-start'' (failed_result (show_io NotFound))))"
    by (simp add: demo_start_request run_and_report_def run_program_timeout_def try_do_def exec.simps)
  moreover have "''lxc-start'' \<notin> relayed" by (simp add: relayed_def)
  ultimately show ?thesis
    using answer_has_verdict [of demo_web_host demo_web_env "''lxc-start''" "[''web'']" ?t] by blast
qed

section \<open>Waiting for a tool\<close>

definition elapsed_readings :: "event list \<Rightarrow> nat list" where
  "elapsed_readings t =
     List.map_filter (\<lambda>e. case e of EQuery q n \<Rightarrow> if q = ElapsedMs then Some n else None | _ \<Rightarrow> None) t"

text \<open>The clock does not lag behind the sleeps of 100 ms between its readings.\<close>

definition clock_runs :: "nat \<Rightarrow> event list \<Rightarrow> bool" where
  "clock_runs k t \<longleftrightarrow> (\<forall>i < length (elapsed_readings t). 100 * (k + i) \<le> elapsed_readings t ! i)"

definition sleeps :: "event list \<Rightarrow> nat" where
  "sleeps t = length (filter (\<lambda>e. case e of ESleep _ \<Rightarrow> True | _ \<Rightarrow> False) t)"

definition reaped :: "nat \<Rightarrow> event list \<Rightarrow> bool" where
  "reaped child t \<longleftrightarrow> list_ex (\<lambda>e. case e of EWait w (Reaped _ _) \<Rightarrow> w = TryWait child | _ \<Rightarrow> False) t"

definition killed :: "nat \<Rightarrow> event list \<Rightarrow> bool" where
  "killed child t \<longleftrightarrow> list_ex (\<lambda>e. case e of EAct c _ \<Rightarrow> c = KillChild child | _ \<Rightarrow> False) t"

lemmas wait_record_defs = elapsed_readings_def clock_runs_def sleeps_def reaped_def killed_def map_filter_simps

lemma clock_runs_Cons:
  "clock_runs k (EWait w a # t) = clock_runs k t" "clock_runs k (ESleep n # t) = clock_runs k t"
  "clock_runs k (ENum m x # t) = clock_runs k t"
  "clock_runs k (EQuery ElapsedMs ms # t) \<longleftrightarrow> 100 * k \<le> ms \<and> clock_runs (Suc k) t"
  by (auto simp: wait_record_defs less_Suc_eq_0_disj)

definition wait_ends :: "nat \<Rightarrow> nat \<Rightarrow> event list \<Rightarrow> stop + web_result \<Rightarrow> bool" where
  "wait_ends child n t r \<longleftrightarrow>
     (\<exists>res. r = Inr res \<and> sleeps t \<le> n \<and> (wr_ok res \<longrightarrow> reaped child t) \<and> (reaped child t \<or> killed child t))"

lemma wait_ends_step:
  "wait_ends child n t r \<Longrightarrow>
     wait_ends child (Suc n) (EWait w a # EQuery ElapsedMs ms # ESleep 100 # t) r"
  by (auto simp: wait_ends_def wait_record_defs)

lemma exec_collect_child:
  assumes "exec (then_do (collect_child_output child timed_out timeout) ok) t = Some (r :: stop + web_result)"
  obtains a res where "t = [EGather child a]" "r = Inr res" "timed_out \<Longrightarrow> \<not> wr_ok res"
proof -
  from assms obtain a where "t = [EGather child a]"
    "r = Inr (case a of Inr out \<Rightarrow> collected out timed_out timeout | Inl err \<Rightarrow> failed_result (show_io err))"
    by (auto simp: collect_child_output_def exec_node)
  then show thesis by (intro that) (auto simp: collected_def failed_result_def split: sum.splits)
qed

lemma wait_with_timeout_ends:
  "exec (wait_with_timeout rounds program child timeout) t = Some r \<Longrightarrow> clock_runs k t \<Longrightarrow>
     k \<le> 10 * timeout \<Longrightarrow> 10 * timeout < rounds + k \<Longrightarrow> wait_ends child (10 * timeout - k) t r"
proof (induction rounds arbitrary: k t)
  case (Suc rounds)
  from Suc.prems(1) obtain a u where t: "t = EWait (TryWait child) a # u" and u: "exec (case a of
         Reaped _ _ \<Rightarrow> then_do (collect_child_output child False timeout) ok
       | NotYet \<Rightarrow>
           then_do (query ElapsedMs) (\<lambda>ms.
             if ms \<ge> 1000 * timeout
             then then_do (act (KillChild child)) (\<lambda>_. then_do (collect_child_output child True timeout) ok)
             else then_do (sleep 100) (\<lambda>_. wait_with_timeout rounds program child timeout))
       | WaitError err \<Rightarrow>
           then_do (act (KillChild child)) (\<lambda>_. ok (failed_result (program @ '': '' @ show_io err)))) u = Some r"
    unfolding wait_with_timeout.simps then_do.simps exec_node by blast
  show ?case
  proof (cases a)
    case NotYet
    with u obtain ms w where u2: "u = EQuery ElapsedMs ms # w" and w: "exec (if ms \<ge> 1000 * timeout
        then then_do (act (KillChild child)) (\<lambda>_. then_do (collect_child_output child True timeout) ok)
        else then_do (sleep 100) (\<lambda>_. wait_with_timeout rounds program child timeout)) w = Some r"
      by (auto simp: exec_node)
    with Suc.prems(2) t have clock: "100 * k \<le> ms" "clock_runs (Suc k) w" by (simp_all add: clock_runs_Cons)
    show ?thesis
    proof (cases "ms \<ge> 1000 * timeout")
      case True
      with w obtain x v where "w = EAct (KillChild child) x # v"
        and v: "exec (then_do (collect_child_output child True timeout) ok) v = Some r" by (auto simp: exec_node)
      then show ?thesis
        unfolding t u2 by (elim exec_collect_child) (auto simp: wait_ends_def wait_record_defs)
    next
      case False
      with w obtain v where v: "w = ESleep 100 # v" "exec (wait_with_timeout rounds program child timeout) v = Some r"
        by (auto simp: exec_node)
      from clock False have k: "Suc k \<le> 10 * timeout" by linarith
      with Suc.IH [OF v(2), of "Suc k"] clock(2) v(1) Suc.prems(4)
      have "wait_ends child (10 * timeout - Suc k) v r" by (simp add: clock_runs_Cons)
      from wait_ends_step [OF this, of "TryWait child" a ms] k show ?thesis
        by (simp add: t u2 v(1) Suc_diff_Suc)
    qed
  next
    case (Reaped p s)
    with u have "exec (then_do (collect_child_output child False timeout) ok) u = Some r" by simp
    then show ?thesis
      unfolding t Reaped by (elim exec_collect_child) (auto simp: wait_ends_def wait_record_defs)
  next
    case (WaitError err)
    with u show ?thesis
      unfolding t by (auto simp: exec_node wait_ends_def wait_record_defs failed_result_def)
  qed
qed simp

text \<open>
  C36. No tool is waited for longer than its limit: when the clock keeps up with the pauses of
  100 ms and more rounds are allowed than fit into the limit, the run of a tool gives a
  result after at most ten pauses for each second of the limit; a child that was started has
  ended or has been killed by then, and success is reported only for one that ended by
  itself.
\<close>

theorem tool_run_bounded:
  assumes "exec (run_program_timeout rounds program args timeout) t = Some r" "clock_runs 0 t"
    and "10 * timeout < rounds"
  shows "\<exists>res. r = Inr res \<and> sleeps t \<le> 10 * timeout \<and> (wr_ok res \<longrightarrow> (\<exists>child. reaped child t))
     \<and> (\<forall>child. ENum (SpawnChild program args False) (Inr child) \<in> set t \<longrightarrow> reaped child t \<or> killed child t)"
proof -
  from assms(1) obtain a u where t: "t = ENum (SpawnChild program args False) a # u" and u: "exec (case a of
         Inr child \<Rightarrow> wait_with_timeout rounds program child timeout | Inl err \<Rightarrow> ok (failed_result (show_io err))) u = Some r"
    unfolding run_program_timeout_def then_do.simps exec_node by blast
  show ?thesis
  proof (cases a)
    case (Inl err)
    with u show ?thesis by (auto simp: t wait_record_defs failed_result_def)
  next
    case (Inr child)
    with u assms(2) have w: "wait_ends child (10 * timeout - 0) u r"
      using assms(3) by (intro wait_with_timeout_ends [where rounds = rounds and program = program])
        (simp_all add: t clock_runs_Cons)
    have "emits (\<lambda>e. \<forall>m x. e \<noteq> ENum m x) (wait_with_timeout rounds program child timeout)"
      by (induction rounds) (auto simp: collect_child_output_def intro!: emits_then_do split: wait_answer.split)
    with u Inr have "ENum m x \<notin> set u" for m x
      using emits_holds [of _ "wait_with_timeout rounds program child timeout" u r] by (force simp: list_all_iff)
    with w show ?thesis by (auto simp: t Inr wait_ends_def wait_record_defs)
  qed
qed

theorem tool_run_bounded_witness:
  "\<exists>t res. exec (run_program_timeout 12 ''ip'' [''rule''] 1) t = Some (Inr res) \<and> killed 4 t \<and> sleeps t \<le> 10"
proof -
  let ?out = "\<lparr>out_code = None, out_stdout = [], out_stderr = []\<rparr>"
  let ?t = "[ENum (SpawnChild ''ip'' [''rule''] False) (Inr 4), EWait (TryWait 4) NotYet, EQuery ElapsedMs 0, ESleep 100,
    EWait (TryWait 4) NotYet, EQuery ElapsedMs 1000, EAct (KillChild 4) (Inr ()), EGather 4 (Inr ?out)]"
  have "exec (run_program_timeout 12 ''ip'' [''rule''] 1) ?t = Some (Inr (collected ?out True 1))"
    by (simp add: run_program_timeout_def exec.simps collect_child_output_def eval_nat_numeral)
  moreover from this have "sleeps ?t \<le> 10 * 1 \<and> (reaped 4 ?t \<or> killed 4 ?t)"
    using tool_run_bounded [of 12 "''ip''" "[''rule'']" 1 ?t "Inr (collected ?out True 1)"]
    by (auto simp: wait_record_defs less_Suc_eq_0_disj)
  moreover have "\<not> reaped 4 ?t" by (simp add: reaped_def)
  ultimately show ?thesis by (intro exI [of _ ?t] exI) auto
qed

section \<open>What a tool printed\<close>

lemma is_utf8_literals:
  "is_utf8 truncation_note" "is_utf8 [LF]" "is_utf8 (''command timed out after '' @ show_nat n @ ''s'')"
proof -
  have "\<forall>c \<in> set (show_nat n). code_of c < 128"
    using show_nat_digits [of n] by (auto simp: list_all_iff is_digit_def)
  then show "is_utf8 (''command timed out after '' @ show_nat n @ ''s'')"
    by (intro is_utf8_ascii) (auto simp: code_of_def)
  show "is_utf8 truncation_note" "is_utf8 [LF]"
    by (rule is_utf8_ascii, simp add: truncation_note_def code_of_def)+
qed

lemma length_trim_newlines: "length (trim_trailing_newlines s) \<le> length s"
  unfolding trim_trailing_newlines_def by (metis length_dropWhile_le length_rev)

definition timeout_note :: "nat \<Rightarrow> string" where
  "timeout_note n = ''command timed out after '' @ show_nat n @ ''s''"

lemma collected_text_cases:
  obtains decoded where "is_utf8 decoded"
    "length decoded \<le> 3 * MAX_COMMAND_OUTPUT_BYTES + length truncation_note"
    "collected_text out timed_out n = trim_trailing_newlines
       (if timed_out then decoded @ (if decoded \<noteq> [] then [LF] else []) @ timeout_note n else decoded)"
proof -
  let ?bytes = "out_stdout out @ out_stderr out"
  let ?cut = "if length ?bytes > MAX_COMMAND_OUTPUT_BYTES then take MAX_COMMAND_OUTPUT_BYTES ?bytes else ?bytes"
  let ?decoded = "from_utf8_lossy ?cut @ (if length ?bytes > MAX_COMMAND_OUTPUT_BYTES then truncation_note else [])"
  have "length (if length b > m then take m b else b) \<le> m" for b :: string and m by simp
  then have "length ?cut \<le> MAX_COMMAND_OUTPUT_BYTES" .
  then have "length (from_utf8_lossy ?cut) \<le> 3 * MAX_COMMAND_OUTPUT_BYTES"
    using length_from_utf8_lossy [of ?cut] by linarith
  moreover have "length (if b then truncation_note else []) \<le> length truncation_note" for b by simp
  ultimately have "length ?decoded \<le> 3 * MAX_COMMAND_OUTPUT_BYTES + length truncation_note"
    unfolding length_append by (rule add_mono)
  moreover have "is_utf8 ?decoded"
    by (intro is_utf8_append is_utf8_lossy) (simp add: is_utf8_literals is_utf8_ascii)
  ultimately show thesis
    by (intro that [of ?decoded]) (simp_all only: collected_text_def timeout_note_def Let_def)
qed

text \<open>
  C40. What a tool prints reaches the page as text and within bounds: the output in the answer
  is UTF-8 whatever bytes were printed and wherever they were cut, and no longer than three
  times 64 KiB and the two notes; output of at most 64 KiB that is UTF-8 is passed on as it
  is, up to the line ends at its end. A run that was stopped at the limit is never a success,
  has code 124 and says so at the end.
\<close>

theorem collected_output_bounded:
  "is_utf8 (wr_output (collected out timed_out n))
   \<and> length (wr_output (collected out timed_out n))
       \<le> 3 * MAX_COMMAND_OUTPUT_BYTES + length truncation_note + 1 + length (timeout_note n)
   \<and> (length (out_stdout out @ out_stderr out) \<le> MAX_COMMAND_OUTPUT_BYTES \<and> is_utf8 (out_stdout out @ out_stderr out) \<longrightarrow>
        wr_output (collected out False n) = trim_trailing_newlines (out_stdout out @ out_stderr out))
   \<and> (timed_out \<longrightarrow> \<not> wr_ok (collected out timed_out n) \<and> wr_rc (collected out timed_out n) = 124
        \<and> ends_with (timeout_note n) (wr_output (collected out timed_out n)))"
proof -
  have marked: "is_utf8 (timeout_note n)" unfolding timeout_note_def by (rule is_utf8_literals)
  obtain decoded where d: "is_utf8 decoded" "length decoded \<le> 3 * MAX_COMMAND_OUTPUT_BYTES + length truncation_note"
    and shown: "collected_text out timed_out n = trim_trailing_newlines
       (if timed_out then decoded @ (if decoded \<noteq> [] then [LF] else []) @ timeout_note n else decoded)"
    by (rule collected_text_cases)
  have "is_utf8 (collected_text out timed_out n)"
    unfolding shown using d(1) marked is_utf8_append [OF is_utf8_literals(2) marked]
    by (intro is_utf8_trim_newlines) (auto intro: is_utf8_append)
  moreover have "length (collected_text out timed_out n)
      \<le> 3 * MAX_COMMAND_OUTPUT_BYTES + length truncation_note + 1 + length (timeout_note n)"
    using d(2) length_trim_newlines [of "if timed_out then decoded @ (if decoded \<noteq> [] then [LF] else []) @ timeout_note n else decoded"]
    unfolding shown by (auto split: if_splits)
  moreover have "ends_with (timeout_note n) (collected_text out True n)" if timed_out
  proof -
    have "trim_trailing_newlines (x @ timeout_note n) = x @ timeout_note n" for x
      by (simp add: trim_trailing_newlines_def timeout_note_def)
    from this [of "decoded @ (if decoded \<noteq> [] then [LF] else [])"] that shown show ?thesis by (simp only: append_assoc if_True) (metis append_assoc ends_with_append)
  qed
  ultimately show ?thesis
    by (auto simp: collected_def collected_text_def from_utf8_lossy_utf8 Let_def)
qed

theorem collected_output_bounded_witness:
  "wr_output (collected \<lparr>out_code = Some 0, out_stdout = ''ok'' @ [LF], out_stderr = []\<rparr> False 5) = ''ok''
   \<and> \<not> wr_ok (collected \<lparr>out_code = Some 0, out_stdout = [], out_stderr = []\<rparr> True 5)"
proof -
  let ?out = "\<lparr>out_code = Some 0, out_stdout = ''ok'' @ [LF], out_stderr = []\<rparr>"
  have "is_utf8 (out_stdout ?out @ out_stderr ?out)" by (rule is_utf8_ascii) (simp add: code_of_def)
  moreover have "length (out_stdout ?out @ out_stderr ?out) \<le> MAX_COMMAND_OUTPUT_BYTES"
    by (simp add: MAX_COMMAND_OUTPUT_BYTES_def)
  moreover have "trim_trailing_newlines (''ok'' @ [LF]) = ''ok''" by (simp add: trim_trailing_newlines_def)
  ultimately show ?thesis
    using collected_output_bounded [of ?out False 5]
      collected_output_bounded [of "\<lparr>out_code = Some 0, out_stdout = [], out_stderr = []\<rparr>" True 5] by simp
qed

end
