(* ===== verification/WebRequests.thy ===== *)
theory WebRequests
  imports WebClaims LxcCmd
begin

text \<open>
  The requests of \<open>achost-webui-api\<close> at their receivers: the arguments of \<open>docker run\<close>, and
  the checks and requests of the LXC page against what \<open>achost-lxc-runtime\<close> accepts and
  does with them.
\<close>

section \<open>docker run\<close>

lemma valid_csv_Some:
  assumes "valid_csv v validator = Some items"
  shows "str_join '','' items = v" "\<forall>i \<in> set items. validator i \<and> CHR '','' \<notin> set i"
proof -
  show "str_join '','' items = v"
    using assms by (auto simp: valid_csv_def Let_def str_join_split_char split: if_splits)
  show "\<forall>i \<in> set items. validator i \<and> CHR '','' \<notin> set i"
    using assms by (auto simp: valid_csv_def Let_def list_all_iff dest: split_char_parts split: if_splits)
qed

lemma request_bytes_plain:
  "is_alnum c \<Longrightarrow> plain_char c" "image_byte c \<Longrightarrow> plain_char c" "port_byte c \<Longrightarrow> plain_char c"
  "env_byte c \<Longrightarrow> plain_char c" "mount_byte c \<Longrightarrow> plain_char c"
  by (auto simp: plain_char_def image_byte_def port_byte_def env_byte_def mount_byte_def is_space_def byte_defs)

text \<open>What a value from the page may be: one word without a comma.\<close>

definition one_value :: "string \<Rightarrow> bool" where
  "one_value v \<longleftrightarrow> word v \<and> CHR '','' \<notin> set v"

lemma one_value_name: "valid_name v \<Longrightarrow> one_value v" "valid_image v \<Longrightarrow> one_value v"
proof -
  assume "valid_name v"
  then show "one_value v"
    using page_name.plain page_name.nonempty page_name.lacks [of v "CHR '',''"]
    by (auto simp: one_value_def word_def is_name_byte_def byte_defs)
next
  assume "valid_image v"
  then show "one_value v"
    by (auto simp: one_value_def word_def valid_image_def list_all_iff request_bytes_plain)
      (auto simp: image_byte_def byte_defs)
qed

lemma one_value_items:
  "valid_port_item v \<Longrightarrow> CHR '','' \<notin> set v \<Longrightarrow> one_value v"
  "valid_env_item v \<Longrightarrow> CHR '','' \<notin> set v \<Longrightarrow> one_value v \<and> CHR ''='' \<in> set v \<and> \<not> starts_with ''-'' v"
  "valid_mount_item v \<Longrightarrow> CHR '','' \<notin> set v \<Longrightarrow> one_value v \<and> (\<exists>l r. v = ''/'' @ l @ '':/'' @ r \<and> CHR '':'' \<notin> set l)"
proof -
  show "valid_port_item v \<Longrightarrow> CHR '','' \<notin> set v \<Longrightarrow> one_value v"
    by (auto simp: one_value_def word_def valid_port_item_def list_all_iff request_bytes_plain)
  show "valid_env_item v \<Longrightarrow> CHR '','' \<notin> set v \<Longrightarrow> one_value v \<and> CHR ''='' \<in> set v \<and> \<not> starts_with ''-'' v"
    by (auto simp: one_value_def word_def valid_env_item_def list_all_iff request_bytes_plain is_alpha_def is_lower_def
        is_upper_def code_of_def split: list.splits)
  assume v: "valid_mount_item v" "CHR '','' \<notin> set v"
  then obtain a b where ab: "v = a @ CHR '':'' # b" "CHR '':'' \<notin> set a" "starts_with ''/'' a" "starts_with ''/'' b"
    "list_all mount_byte v"
    by (auto simp: valid_mount_item_def split_once_Some_iff split: option.splits)
  then obtain l r where "a = ''/'' @ l" "b = ''/'' @ r" by (auto simp: starts_with_iff)
  with ab v(2) show "one_value v \<and> (\<exists>l r. v = ''/'' @ l @ '':/'' @ r \<and> CHR '':'' \<notin> set l)"
    by (auto simp: one_value_def word_def list_all_iff request_bytes_plain)
qed

lemma normalize_mount_item_sock:
  assumes "CHR '':'' \<in> set v"
  shows "normalize_mount_item env v =
      (if starts_with ''/var/run/docker.sock:'' v \<or> starts_with ''/run/docker.sock:'' v
       then from_utf8_lossy (docker_socket_path env) @ dropWhile (\<lambda>c. c \<noteq> CHR '':'') v else v)"
proof -
  have strip: "strip_prefix p v = None \<longleftrightarrow> \<not> starts_with p v" for p
    by (simp add: strip_prefix_def starts_with_def)
  have bare: "v \<notin> {''/var/run/docker.sock'', ''/run/docker.sock''}" using assms by auto
  show ?thesis
  proof (cases "starts_with ''/var/run/docker.sock:'' v \<or> starts_with ''/run/docker.sock:'' v")
    case True
    then obtain rest where "v = ''/var/run/docker.sock:'' @ rest \<or> v = ''/run/docker.sock:'' @ rest"
      by (auto simp: starts_with_iff)
    then show ?thesis
      by (auto simp: normalize_mount_item_def Let_def strip_prefix_def)
  next
    case False
    then have "strip_prefix ''/var/run/docker.sock:'' v = None" "strip_prefix ''/run/docker.sock:'' v = None"
      by (simp_all add: strip)
    with False bare show ?thesis by (simp add: normalize_mount_item_def Let_def)
  qed
qed

text \<open>
  C35. The command line of \<open>docker run\<close> is the request and nothing else: the container's name
  and network come behind their flags, the ports, variables and mounts are the items of the
  three lists of the page, in order, each behind its flag, the image is last; every value is
  one word without a comma, a variable has a \<open>=\<close> and does not look like a flag, a mount
  joins two absolute paths. A mount of the Docker socket at its two usual places is replaced
  by the socket of this installation, any other is passed on as it is.
\<close>

theorem add_container_args:
  assumes "build_add_container_args env name image_name ports envs mounts network = Inr args"
  shows "\<exists>ps es ms.
    args = [''run'', ''-d'', ''--name'', name, ''--network'', if network = [] then ''bridge'' else network]
       @ flagged ''-p'' ps @ flagged ''-e'' es @ flagged ''-v'' (map (normalize_mount_item env) ms) @ [image_name]
    \<and> str_join '','' ps = ports \<and> str_join '','' es = envs \<and> str_join '','' ms = mounts
    \<and> list_all one_value (name # image_name # ps @ es @ ms)
    \<and> (\<forall>v \<in> set es. CHR ''='' \<in> set v \<and> \<not> starts_with ''-'' v)
    \<and> (\<forall>v \<in> set ms. (\<exists>l r. v = ''/'' @ l @ '':/'' @ r \<and> CHR '':'' \<notin> set l)
       \<and> normalize_mount_item env v =
           (if starts_with ''/var/run/docker.sock:'' v \<or> starts_with ''/run/docker.sock:'' v
            then from_utf8_lossy (docker_socket_path env) @ dropWhile (\<lambda>c. c \<noteq> CHR '':'') v else v))"
proof -
  let ?network = "if network = [] then ''bridge'' else network"
  from assms obtain ps es ms where lists: "valid_csv ports valid_port_item = Some ps"
      "valid_csv envs valid_env_item = Some es" "valid_csv mounts valid_mount_item = Some ms"
    and names: "valid_name name" "valid_image image_name"
    and args: "args = [''run'', ''-d'', ''--name'', name] @ (if ?network \<noteq> [] then [''--network'', ?network] else [])
       @ flagged ''-p'' ps @ flagged ''-e'' es @ flagged ''-v'' (map (normalize_mount_item env) ms) @ [image_name]"
    by (auto simp: build_add_container_args_def Let_def and_then_Inr split: if_splits)
  have ports: "list_all one_value ps"
    and envs: "\<forall>v \<in> set es. one_value v \<and> CHR ''='' \<in> set v \<and> \<not> starts_with ''-'' v"
    and mounts: "\<forall>v \<in> set ms. one_value v \<and> (\<exists>l r. v = ''/'' @ l @ '':/'' @ r \<and> CHR '':'' \<notin> set l)"
    using lists [THEN valid_csv_Some(2)] one_value_items by (auto simp: list_all_iff)
  have "\<forall>v \<in> set ms. normalize_mount_item env v =
      (if starts_with ''/var/run/docker.sock:'' v \<or> starts_with ''/run/docker.sock:'' v
       then from_utf8_lossy (docker_socket_path env) @ dropWhile (\<lambda>c. c \<noteq> CHR '':'') v else v)"
    using mounts by (intro ballI normalize_mount_item_sock) auto
  then show ?thesis
    using lists [THEN valid_csv_Some(1)] one_value_name(1) [OF names(1)] one_value_name(2) [OF names(2)] ports envs mounts
    by (rule_tac exI [of _ ps], rule_tac exI [of _ es], rule_tac exI [of _ ms]) (simp add: args list_all_iff ball_Un)
qed

theorem add_container_args_witness:
  "\<exists>ps es ms. [''run'', ''-d'', ''--name'', ''web'', ''--network'', ''bridge'', ''-p'', ''80:80'', ''-p'', ''81:81'', ''-e'', ''A=b'',
       ''-v'', ''/a/var/run/docker.sock:/s'', ''nginx'']
     = [''run'', ''-d'', ''--name'', ''web'', ''--network'', ''bridge''] @ flagged ''-p'' ps @ flagged ''-e'' es
       @ flagged ''-v'' (map (normalize_mount_item demo_web_env) ms) @ [''nginx'']
     \<and> str_join '','' ps = ''80:80,81:81'' \<and> str_join '','' ms = ''/run/docker.sock:/s''"
proof -
  have "build_add_container_args demo_web_env ''web'' ''nginx'' ''80:80,81:81'' ''A=b'' ''/run/docker.sock:/s'' []
      = Inr [''run'', ''-d'', ''--name'', ''web'', ''--network'', ''bridge'', ''-p'', ''80:80'', ''-p'', ''81:81'', ''-e'', ''A=b'',
          ''-v'', ''/a/var/run/docker.sock:/s'', ''nginx'']"
    by code_simp
  from add_container_args [OF this] show ?thesis by (simp only: if_True refl) blast
qed

section \<open>Requests to the container runtime\<close>

lemma name_bytes: "(\<lambda>b. is_alnum b \<or> b \<in> {CHR ''_'', CHR ''.'', CHR ''-''}) = is_name_byte"
  by (auto simp: is_name_byte_def fun_eq_iff)

text \<open>
  The page's checks are the runtime's: a container name, a guest user and a password pass the
  API exactly when they pass \<open>achost-lxc-runtime\<close>, and the label the API sends instead of
  the one the page gave passes unless nothing is left of it.
\<close>

lemma api_facts:
  "valid_name v \<longleftrightarrow> validate_container_name v = Inr ()"
  "valid_linux_user v \<longleftrightarrow> validate_linux_user v = Inr ()"
  "valid_password_value v \<longleftrightarrow> validate_password v = Inr ()"
  "validate_label (safe_label v) = Inr () \<longleftrightarrow> safe_label v \<noteq> []"
proof -
  have user: "(\<lambda>c. is_alnum c \<or> c \<in> {CHR ''_'', CHR ''-'', CHR ''.''}) = is_name_byte"
    by (auto simp: is_name_byte_def fun_eq_iff)
  show "valid_name v \<longleftrightarrow> validate_container_name v = Inr ()"
    unfolding valid_name_def validate_container_name_ok_iff name_bytes by (auto simp: str_contains_iff)
  show "valid_linux_user v \<longleftrightarrow> validate_linux_user v = Inr ()"
    unfolding valid_linux_user_def validate_linux_user_def user by (auto split: list.splits)
  show "valid_password_value v \<longleftrightarrow> validate_password v = Inr ()"
    by (simp add: valid_password_value_def validate_password_def)
  show "validate_label (safe_label v) = Inr () \<longleftrightarrow> safe_label v \<noteq> []"
    by (auto simp: validate_label_def safe_label_def list_all_iff is_name_byte_def)
qed

lemma sha256_accepted:
  assumes "valid_sha256 v"
  shows "normalize_sha256 (to_ascii_lowercase v) = Inr (to_ascii_lowercase v)"
proof -
  have hex: "list_all is_hexdigit (to_ascii_lowercase v)"
    using assms by (auto simp: valid_sha256_def to_ascii_lowercase_def list_all_iff)
  then have "trim (to_ascii_lowercase v) = to_ascii_lowercase v"
    by (intro trim_plain) (auto simp: list_all_iff is_hexdigit_def is_digit_def plain_char_def is_space_def)
  with hex assms show ?thesis
    by (simp add: normalize_sha256_def valid_sha256_def to_ascii_lowercase_idem)
qed

text \<open>
  C37. An import the page asks for is the import the runtime makes: its argument scanner
  accepts what the API sends, reads back the name, the asset, the three labels and the
  checksum, and then only asks whether the asset is a file.
\<close>

theorem import_request_understood:
  assumes "valid_name name" "safe_label distro \<noteq> []" "safe_label release \<noteq> []" "safe_label arch \<noteq> []"
    and "sha256 = [] \<or> valid_sha256 sha256"
  shows "parse_import_args (drop 1 (import_request name rootfs distro release arch sha256)) =
    then_do (ask (IsFile rootfs)) (\<lambda>is_file.
      if \<not> is_file then fail (''rootfs asset not found: '' @ rootfs)
      else ok \<lparr>ia_name = name, ia_asset = rootfs,
             ia_sha256 = (if sha256 = [] then None else Some (to_ascii_lowercase sha256)),
             ia_distro = safe_label distro, ia_release = safe_label release, ia_arch = safe_label arch\<rparr>)"
proof -
  have checks: "validate_container_name name = Inr ()" "validate_label (safe_label distro) = Inr ()"
      "validate_label (safe_label release) = Inr ()" "validate_label (safe_label arch) = Inr ()"
    using assms api_facts by auto
  have sha: "normalize_sha256 (to_ascii_lowercase sha256) = Inr (to_ascii_lowercase sha256)" if "sha256 \<noteq> []"
    using assms(5) that sha256_accepted by blast
  show ?thesis
    by (cases "sha256 = []") (simp_all add: parse_import_args_def import_request_def checks sha fun_eq_iff)
qed

theorem import_request_understood_witness:
  "parse_import_args (drop 1 (import_request ''web'' ''/d/a.tar'' ''alpine'' ''3.20'' ''arm64'' [])) =
    then_do (ask (IsFile ''/d/a.tar'')) (\<lambda>is_file.
      if \<not> is_file then fail (''rootfs asset not found: '' @ ''/d/a.tar'')
      else ok \<lparr>ia_name = ''web'', ia_asset = ''/d/a.tar'', ia_sha256 = None,
             ia_distro = ''alpine'', ia_release = ''3.20'', ia_arch = ''arm64''\<rparr>)"
proof -
  have "safe_label ''alpine'' = ''alpine''" "safe_label ''3.20'' = ''3.20''" "safe_label ''arm64'' = ''arm64''"
    by code_simp+
  then show ?thesis
    using import_request_understood [of "''web''" "''alpine''" "''3.20''" "''arm64''" "[]" "''/d/a.tar''"]
    by (simp add: demo_valid_name fun_eq_iff)
qed

lemma read_password_sent:
  assumes "valid_password_value password" "exec (try_do read_password_from_stdin f) p = Some r"
    and "\<And>x. EGet ReadStdin x \<in> set p \<Longrightarrow> x = Inr (password @ [LF])"
  shows "exec (f password) (drop 1 p) = Some r"
proof -
  have pw: "validate_password password = Inr ()" using assms(1) api_facts by simp
  have "password \<noteq> [] \<and> last password \<notin> {LF, CR}"
    using assms(1) by (auto simp: valid_password_value_def list_ex_iff)
  then have trimmed: "trim_trailing_newlines (password @ [LF]) = password"
    by (cases password rule: rev_cases) (simp_all add: trim_trailing_newlines_def)
  from assms(2) obtain x v where p: "p = EGet ReadStdin x # v"
    by (auto simp: read_password_from_stdin_def io_context_def map_err_def try_do_def exec_node)
  with assms(3) have "x = Inr (password @ [LF])" by simp
  with assms(2) p show ?thesis
    by (simp add: read_password_from_stdin_def io_context_def map_err_def try_do_def exec_node trimmed pw Let_def)
qed

text \<open>Starting a child and writing to its standard input.\<close>

fun hands_over :: "event \<Rightarrow> bool" where
  "hands_over (ENum (SpawnChild program args piped) r) \<longleftrightarrow> True"
| "hands_over (EAct (SendToChild child input) r) \<longleftrightarrow> True"
| "hands_over e \<longleftrightarrow> False"

lemma emits_wait_quiet: "emits (\<lambda>e. \<not> hands_over e) (wait_with_timeout n program child timeout)"
  by (induction n) (auto simp: collect_child_output_def intro!: emits_then_do split: wait_answer.splits)

text \<open>The one call of \<open>achost-lxc-runtime\<close> in a password request of the page.\<close>

lemma set_password_call:
  assumes "exec (web_dispatch h env [''lxc-set-password'', target, user]) t = Some answer"
    and "EAct (SendToChild child input) (Inr ()) \<in> set t"
  shows "valid_name target \<and> valid_linux_user user
    \<and> valid_password_value (unwrap_or [] (env_var (wh_env h) ''ACHOST_LXC_PASSWORD''))
    \<and> input = unwrap_or [] (env_var (wh_env h) ''ACHOST_LXC_PASSWORD'') @ [LF]
    \<and> filter hands_over t = [ENum (SpawnChild (we_lxc_runtime env)
         [''set-password'', target, ''--user'', user, ''--stdin'', ''--json''] True) (Inr child),
       EAct (SendToChild child input) (Inr ())]"
proof -
  let ?password = "unwrap_or [] (env_var (wh_env h) ''ACHOST_LXC_PASSWORD'')"
  have "web_dispatch h env [''lxc-set-password'', target, user] = lxc_set_password h env target user"
    by (simp add: web_dispatch_def dispatch_docker_def dispatch_lxc_def arg_or_def nth_opt_def Let_def)
  with assms(1) have run: "exec (lxc_set_password h env target user) t = Some answer" by simp
  have sent: "holds (\<lambda>t r. EAct (SendToChild child input) (Inr ()) \<in> set t \<longrightarrow> input = ?password @ [LF]
      \<and> filter hands_over t = [ENum (SpawnChild (we_lxc_runtime env)
           [''set-password'', target, ''--user'', user, ''--stdin'', ''--json''] True) (Inr child),
         EAct (SendToChild child input) (Inr ())])
    (set_lxc_password_with_value h env target user ?password)"
  proof -
    have quiet: "list_all (\<lambda>e. \<not> hands_over e) u \<Longrightarrow> EAct (SendToChild child input) x \<notin> set u \<and> filter hands_over u = []" for u x
      by (force simp: list_all_iff)
    show ?thesis
      unfolding set_lxc_password_with_value_def run_lxc_json_with_input_def run_program_with_input_def set_password_args_def
        holds_try_do holds_then_do
      by (auto intro!: holds_mono [OF emits_wait_quiet [unfolded emits_def]] dest!: quiet split: sum.split)
  qed
  have "valid_name target \<and> valid_linux_user user \<and> valid_password_value ?password
      \<and> (\<exists>x u. t = EAct (RemoveEnv ''ACHOST_LXC_PASSWORD'') x # u
           \<and> exec (set_lxc_password_with_value h env target user ?password) u = Some answer)"
    using run assms(2) by (auto simp: lxc_set_password_def lxc_named_def Let_def exec_node split: if_splits)
  with sent assms(2) show ?thesis by (auto simp: holds_exec)
qed

lemma emits_load_config: "emits probes (load_lxc_config h)"
  by (auto simp: load_lxc_config_def Let_def intro!: emits_then_do)

lemma emits_load_config_input: "emits (\<lambda>e. \<forall>x. e \<noteq> EGet ReadStdin x) (load_lxc_config h)"
  by (auto simp: load_lxc_config_def Let_def intro!: emits_then_do)

text \<open>What \<open>set-password\<close> does with the arguments and the input of such a call.\<close>

lemma run_set_password_change:
  assumes valid: "valid_linux_user user" "valid_password_value password" and name: "target \<noteq> ''--user''"
    and run: "exec (run_set_password h [target, ''--user'', user, ''--stdin'', ''--json'']) t = Some code"
    and stdin: "\<And>x. EGet ReadStdin x \<in> set t \<Longrightarrow> x = Inr (password @ [LF])"
  shows "\<exists>config v w x r. t = v @ [EGet ReadStdin (Inr (password @ [LF]))] @ w @ x \<and> exec (load_lxc_config h) v = Some config
    \<and> exec (set_container_password h config (if starts_with ''-'' target then user else target) user password) w = Some r
    \<and> list_all probes (v @ x) \<and> (code = 0 \<longleftrightarrow> r = Inr ())"
proof -
  let ?name = "if starts_with ''-'' target then user else target"
  let ?args = "[target, ''--user'', user, ''--stdin'', ''--json'']"
  have user: "\<not> starts_with ''-'' user"
    using valid(1) by (auto simp: valid_linux_user_def is_alpha_def is_lower_def is_upper_def code_of_def split: list.splits if_splits)
  have read: "first_non_flag ?args = Some ?name" "parse_option_value ?args ''--user'' = Some user"
      "has_flag ?args ''--stdin''" "has_flag ?args ''--json''"
    using user name by (auto simp: first_non_flag_def parse_option_value_def has_flag_def)
  let ?change = "\<lambda>config. try_do read_password_from_stdin (set_container_password h config ?name user)"
  from run obtain config u p q r where t: "t = u @ p @ q" and u: "exec (load_lxc_config h) u = Some config"
    and p: "exec (?change config) p = Some r"
    and q: "exec (case r of
        Inr _ \<Rightarrow> then_do (print_json h (JObj [(''ok'', JBool True), (''container'', JStr ?name), (''user'', JStr user)])) (\<lambda>_. Ret 0)
      | Inl err \<Rightarrow> report_error h True ''set-password'' err) q = Some code"
    unfolding run_set_password_def Let_def read option.case exec_then_do
    by (simp only: read if_False not_True_eq_False if_True exec_then_do option.case) blast
  have here: "EGet ReadStdin x \<in> set p \<Longrightarrow> x = Inr (password @ [LF])" for x using stdin t by simp
  obtain x p' where p': "p = EGet ReadStdin x # p'"
    using p by (auto simp: read_password_from_stdin_def io_context_def map_err_def try_do_def exec_node)
  with here have "p = [EGet ReadStdin (Inr (password @ [LF]))] @ p'" by simp
  moreover have "exec (set_container_password h config ?name user password) p' = Some r"
    using read_password_sent [OF valid(2) p here] p' by simp
  moreover have "code = 0 \<longleftrightarrow> r = Inr ()" "list_all probes q"
    using q by (auto simp: report_error_def print_json_def exec_then_do split: sum.split_asm)
  moreover note emits_holds [OF emits_load_config u]
  ultimately show ?thesis
    using t u by (intro exI [of _ config] exI [of _ u] exI [of _ p'] exI [of _ q] exI [of _ r]) simp
qed

text \<open>
  C34. A password the page sets arrives. When the API, asked to set the password of a user in a
  container, starts a child and writes to it, that is its only child; it is the container
  runtime, and what is written is the password the page has left in the environment and a
  line feed. When the runtime runs with the arguments it was started with and reads from its
  standard input what was written, it loads its configuration, reads the password and makes
  exactly one password change, with this configuration and with the container, the user and
  the password of the request; before and after it only asks and prints, and it exits with 0
  exactly when the change succeeded. The exception is a container whose name begins with a
  hyphen, which both programs accept: the runtime takes such a name for a flag and changes the
  password in the container that is called like the user (the name \<open>--user\<close> is left out).
\<close>

theorem set_password_request:
  assumes "exec (web_dispatch h env [''lxc-set-password'', target, user]) t = Some answer"
    and "ENum (SpawnChild program args piped) (Inr child) \<in> set t" "EAct (SendToChild child input) (Inr ()) \<in> set t"
    and "exec (dispatch lh args) u = Some code" "\<forall>x. EGet ReadStdin x \<in> set u \<longrightarrow> x = Inr input"
    and "target \<noteq> ''--user''"
  shows "program = we_lxc_runtime env
    \<and> filter hands_over t = [ENum (SpawnChild program args piped) (Inr child), EAct (SendToChild child input) (Inr ())]
    \<and> (\<exists>config v w x r. u = v @ [EGet ReadStdin (Inr input)] @ w @ x \<and> exec (load_lxc_config lh) v = Some config
        \<and> exec (set_container_password lh config (if starts_with ''-'' target then user else target) user
             (unwrap_or [] (env_var (wh_env h) ''ACHOST_LXC_PASSWORD''))) w = Some r
        \<and> list_all probes (v @ x) \<and> (code = 0 \<longleftrightarrow> r = Inr ()))"
proof -
  note call = set_password_call [OF assms(1,3)]
  have "ENum (SpawnChild program args piped) (Inr child) \<in> set (filter hands_over t)" using assms(2) by simp
  with call have args: "program = we_lxc_runtime env" "piped"
    "args = [''set-password'', target, ''--user'', user, ''--stdin'', ''--json'']" by auto
  with assms(4) have "exec (run_set_password lh [target, ''--user'', user, ''--stdin'', ''--json'']) u = Some code"
    by (simp add: dispatch_def)
  with call args run_set_password_change [OF _ _ assms(6) this] assms(5) show ?thesis by simp
qed

definition demo_password_host :: web_host where
  "demo_password_host = demo_web_host \<lparr>wh_env := (\<lambda>_. Unset)(''ACHOST_LXC_PASSWORD'' := Utf8 ''pw'')\<rparr>"

lemma demo_password: "unwrap_or [] (env_var (wh_env demo_password_host) ''ACHOST_LXC_PASSWORD'') = ''pw''"
  by (simp add: demo_password_host_def env_var_def)

theorem set_password_request_witness:
  "\<exists>u config v w x r. exec (dispatch demo_host [''set-password'', ''web'', ''--user'', ''root'', ''--stdin'', ''--json'']) u = Some 1
     \<and> u = v @ [EGet ReadStdin (Inr (''pw'' @ [LF]))] @ w @ x \<and> exec (load_lxc_config demo_host) v = Some config
     \<and> exec (set_container_password demo_host config ''web'' ''root'' ''pw'') w = Some r \<and> list_all probes (v @ x) \<and> r \<noteq> Inr ()"
proof -
  let ?args = "[''set-password'', ''web'', ''--user'', ''root'', ''--stdin'', ''--json'']"
  let ?program = "''/a/bin/achost-lxc-runtime''"
  have checks: "valid_name ''web''" "valid_linux_user ''root''" "valid_password_value ''pw''"
    "trim_trailing_newlines [CHR ''p'', CHR ''w'', LF] = ''pw''" "validate_password ''pw'' = Inr ()" "validate_container_name ''web'' = Inr ()"
    by code_simp+
  let ?t = "[EAct (RemoveEnv ''ACHOST_LXC_PASSWORD'') (Inr ()), ENum (SpawnChild ?program ?args True) (Inr 7),
    EAct (SendToChild 7 (''pw'' @ [LF])) (Inr ()), EWait (TryWait 7) (Reaped 7 0), EGather 7 (Inl NotFound)]"
  have web: "\<exists>answer. exec (web_dispatch demo_password_host demo_web_env [''lxc-set-password'', ''web'', ''root'']) ?t = Some answer"
    by (simp add: web_dispatch_def dispatch_docker_def dispatch_lxc_def arg_or_def nth_opt_def Let_def lxc_set_password_def
      lxc_named_def demo_password checks set_lxc_password_with_value_def run_lxc_json_with_input_def run_program_with_input_def
      set_password_args_def demo_lxc_runtime try_do_def exec.simps collect_child_output_def)
      (simp add: demo_password_host_def demo_web_host_def numeral_eq_Suc exec.simps collect_child_output_def)
  obtain v config where v: "exec (load_lxc_config demo_host) v = Some config"
    using exec_total [of "load_lxc_config demo_host"] by blast
  let ?p = "[EGet ReadStdin (Inr (''pw'' @ [LF])), EAsk (Exists (container_dir config ''web'')) False]"
  let ?q = "[ESay (h_json demo_host (JObj [(''ok'', JBool False), (''error'', JStr ''container not found: web'')]) @ [LF])]"
  have "exec (run_set_password demo_host (drop 1 ?args)) (v @ ?p @ ?q) = Some 1"
    unfolding run_set_password_def
    by (rule exec_then_doI [OF v])
      (simp add: first_non_flag_def parse_option_value_def has_flag_def Let_def exec.simps
        read_password_from_stdin_def io_context_def map_err_def try_do_def checks set_container_password_def
        validate_existing_container_def report_error_def print_json_def println_def)
  then have run: "exec (dispatch demo_host ?args) (v @ ?p @ ?q) = Some 1" by (simp add: dispatch_def)
  have "EGet ReadStdin x \<notin> set v" for x
    using emits_holds [OF emits_load_config_input v] by (force simp: list_all_iff)
  then have "\<forall>x. EGet ReadStdin x \<in> set (v @ ?p @ ?q) \<longrightarrow> x = Inr (''pw'' @ [LF])" by simp
  with web run show ?thesis
    using set_password_request [of demo_password_host demo_web_env "''web''" "''root''" ?t _ ?program ?args True 7
        "''pw'' @ [LF]" demo_host "v @ ?p @ ?q" 1]
    by (fastforce simp: demo_password starts_with_def)
qed

section \<open>Answers of the container runtime\<close>

lemma map_of_obj_insert: "map_of (obj_insert key v kvs) = (map_of kvs)(key \<mapsto> v)"
  by (induction kvs) auto

lemma map_of_obj_default:
  "map_of (obj_default key v kvs) k = (if k = key \<and> map_of kvs key = None then Some v else map_of kvs k)"
  by (simp add: obj_default_def map_of_obj_insert)

text \<open>
  A failed command is visible to the page: its answer has the exit code under \<open>rc\<close>, and of an
  object the command printed nothing else is changed, but for an \<open>ok\<close> that was missing. An
  object that claims \<open>ok\<close> keeps the claim.
\<close>

lemma failed_answer_keeps_report:
  assumes "\<not> wr_ok r"
  shows "json_get ''rc'' (parse_lxc_json_result parse r) = Some (JInt (wr_rc r))"
    and "parse (wr_output r) = Some (JObj kvs) \<Longrightarrow> key \<noteq> ''rc'' \<Longrightarrow>
      json_get key (parse_lxc_json_result parse r) =
        (if key = ''ok'' \<and> map_of kvs key = None then Some (JBool False) else map_of kvs key)"
  using assms
  by (auto simp: parse_lxc_json_result_def map_of_obj_insert map_of_obj_default split: option.split json.split)

end
