(* ===== verification/Spec2Isabelle.thy ===== *)
theory Spec2Isabelle
  imports LxcCmd CoreDaemon DaemonStart WebRequests
begin

text \<open>
  A verification development of ACHost, which runs Docker and LXC containers on Android. The
  program is five Rust binaries, each one file \<open>src/crates/<name>/src/main.rs\<close>:

  \<^item> \<open>achost-lxc-runtime\<close> imports root file systems and runs containers with the LXC tools;
  \<^item> \<open>achost-runtime-core\<close> keeps the host's side of the network in order: policy rules,
    packet filter, bridge, a watchdog that repairs them; it also protects the daemons from
    the memory killer;
  \<^item> \<open>achost-supervise\<close> is the server in its own mount namespace that starts the daemons, its
    client, and the launcher that puts a command into a root;
  \<^item> \<open>achost-docker-runtime\<close> starts and stops dockerd and containerd through the supervisor;
  \<^item> \<open>achost-webui-api\<close> is the program the WebUI calls, once for each request.

  They share no memory. They interact by command lines, exit codes, files (pid files, the
  containers' directories, \<open>/etc/shadow\<close> of a guest), the supervisor's socket and the
  kernel's tables; so the theorems that span binaries are about the texts one writes and the
  other reads.

  \<^bold>\<open>How code is modelled.\<close> A text or path is its bytes (\<open>Prelude\<close>, \<open>RustStr\<close>, \<open>Paths\<close>,
  \<open>Utf8\<close> model what is used of Rust's strings, numbers and paths; \<open>Paths\<close> also has the
  checks that keep an archive below its root). A function that only computes is a function. A
  function that talks to the system is a value of \<open>'a prog\<close> (\<open>Effects\<close>): the tree of its
  calls, for every answer of the system. \<open>exec p t = Some r\<close> says that \<open>t\<close> is a complete
  record of calls and answers of \<open>p\<close> and \<open>r\<close> its result; \<open>emits P p\<close> that all its calls
  satisfy \<open>P\<close>; \<open>holds\<close>, \<open>reach\<close> and \<open>accepts\<close> (a monitor that reads the calls in order, as for
  the mounts in \<open>SupSafety\<close> and the unmounts in \<open>DockerClaims\<close>) are the other judgements. The result of a fallible function is a sum, its
  error on the left. Words are used where widths matter (addresses, hashes, the packing of
  digests); numbers read from text carry the bound of their type.

  \<^bold>\<open>Theories and code.\<close>

  \<^item> \<open>achost-lxc-runtime\<close>: \<open>LxcText\<close> (validators, option scanners, configuration lines, tool
    output), \<open>LxcConfig\<close> (\<open>LxcConfig::from_env\<close>, container paths), \<open>LxcNet\<close> (addresses, guest
    network files), \<open>LxcCrypt\<close> (SHA-512 crypt and its
    reference, a line of the shadow file), \<open>LxcHost\<close> (commands,
    directories), \<open>LxcContainer\<close> (list, status, start, stop, destroy, autostart, exec,
    passwords and the shadow file, logs), \<open>LxcImport\<close> (arguments, tar extraction, installation;
    the proofs there follow the symbolic links of the root file system), \<open>LxcElf\<close> (ELF
    inspection), \<open>LxcCmd\<close> (subcommands, \<open>dispatch\<close>).
  \<^item> \<open>achost-runtime-core\<close>: \<open>CoreNet\<close> (configuration, parsers, uplink), \<open>CoreRules\<close> (policy
    rules, packet filter, \<open>net_reconcile\<close>), \<open>CoreWatch\<close> (watchdog, daemon protection, \<open>main\<close>);
    proofs in \<open>CoreTables\<close> (rules against a table), \<open>CoreSafety\<close> (dry runs, failures) and
    \<open>CoreDaemon\<close> (watchdog, protection).
  \<^item> \<open>achost-supervise\<close>: \<open>SupWire\<close> (wire format, children, \<open>handle_client\<close>,
    \<open>send_client_request\<close>), \<open>SupRoot\<close> (namespaces, roots, seccomp, \<open>run_launch\<close>), \<open>SupMain\<close>
    (server, supervised command, options, \<open>main\<close>); proofs in \<open>SupRequest\<close> (request round
    trip, answers) and \<open>SupSafety\<close> (order of mounts and commands, exit codes).
  \<^item> \<open>achost-docker-runtime\<close>: \<open>DockerConfig\<close>, \<open>DockerStop\<close> (processes, mounts, \<open>stop\<close>),
    \<open>DockerStart\<close> (native root, cgroups, supervisor, daemons, diagnostics), \<open>DockerMain\<close>
    (\<open>start\<close>, \<open>main\<close>); proofs in \<open>DockerClaims\<close>.
  \<^item> \<open>achost-webui-api\<close>: \<open>WebText\<close> (checks, configuration, arguments of \<open>docker run\<close>, rows,
    JSON answers), \<open>WebRun\<close> (tools with a time limit), \<open>WebApi\<close> (handlers, \<open>dispatch\<close>,
    \<open>main\<close>); proofs in \<open>WebClaims\<close> (confinement, verdicts, waiting, output) and \<open>WebRequests\<close>
    (the requests at docker and at \<open>achost-lxc-runtime\<close>).
  \<^item> What spans the binaries: \<open>DaemonStart\<close> follows a daemon from the Docker runtime through
    the supervisor's client, server and launcher to its own command line; this theory has the
    bridge's address against the containers' gateway.

  Records stand for the structs of the code, with a prefix for each (\<open>lc_\<close> \<open>LxcConfig\<close>, \<open>rc_\<close>
  \<open>RuntimeConfig\<close>, \<open>dc_\<close> \<open>DockerRuntimeConfig\<close>, \<open>ds_\<close> \<open>DockerStopConfig\<close>, \<open>so_\<close> \<open>Options\<close>,
  \<open>we_\<close> \<open>RuntimeEnv\<close>). Definitions have the names of the code, with a prefix where two
  binaries use the same name. A long function is cut into parts at its early returns; the
  parts are composed by the definition that has its name.

  \<^bold>\<open>Interfaces.\<close> Locales state what callers rely on: \<open>name_check\<close> (validators, interpreted on
  the checks of both the container runtime and the WebUI), \<open>text_setting\<close> (a setting in a
  text), the repair loops of \<open>CoreTables\<close> (interpreted on policy rules and on chains), and
  \<open>stream_codec\<close> (a value on a byte stream, interpreted on numbers and strings).

  \<^bold>\<open>Loops and fuel.\<close> Loops over data are structural. Loops that poll a bounded number of times
  are recursions on that number, as in the code. Loops the code does not bound take fuel and
  end in \<open>StillRunning\<close> when it is used up: the deletion loops of the packet filter and of
  policy rules (\<open>ensure_ip_rule_sets_rule\<close> and \<open>ensure_rule_exactly_once\<close> prove that one more
  than the number of matching rules is enough), the watchdog and the server, which run until
  they are told to stop, the supervision of a command (\<open>supervised_exit\<close> says what every round
  has done when the fuel ends), and the wait for a tool (\<open>tool_run_bounded\<close>: ten rounds for
  each second of the limit and one more are enough when the clock keeps up with the pauses).

  \<^bold>\<open>Parameters.\<close> Third-party crates are parameters of the model: the SHA-512 and SHA-256
  functions, \<open>serde_json\<close> (writing and reading a value), \<open>tar\<close> and \<open>flate2\<close> (the entries of an
  archive are answers of the system). The environment, the path of the program and the
  architecture are parameters too; the flags that signal handlers set are answers (\<open>Terminated\<close>,
  \<open>TakeSignal\<close>).

  \<^bold>\<open>Abstractions.\<close> \<open>fork\<close> answers the parent; the child's side is \<open>child_main\<close>. The wire format
  is little-endian, as on the devices. Opening a log for a daemon is an append of nothing.
  Output of commands that are run to their end is taken after \<open>from_utf8_lossy\<close>. Printing and
  sleeping are calls without an answer.

  \<^bold>\<open>Not modelled.\<close> The Python host tool (\<open>src/achost\<close>), the shell scripts (\<open>src/scripts\<close>,
  \<open>src/runtime\<close>), the TypeScript front end (\<open>src/webui\<close>), kernel configuration and patches, and
  the unit tests inside the binaries: other languages and programs, data, or no program code.
\<close>

section \<open>Across components\<close>

lemma parse_octet_uint: "parse_octet s = Some oct \<Longrightarrow> parse_uint U8_BOUND s = Some (unat oct)"
  by (cases s)
    (auto simp: parse_octet_def parse_uint_def Let_def is_digit_not_plus unsigned_of_nat take_bit_eq_mod
      split: if_splits)

text \<open>
  C16. The bridge and the containers agree on the gateway: for every subnet the container
  runtime can read, \<open>achost-runtime-core\<close> derives an address for the bridge, and it is the
  gateway, with the same prefix length, that the container runtime writes into the guests.
\<close>

theorem bridge_gateway_is_container_gateway:
  assumes "parse_ipv4_cidr (lc_subnet config) = Some (base, p)"
  shows "\<exists>g. bridge_gateway_cidr (lc_subnet config) = Some g
    \<and> parse_ipv4_cidr g = Some (ns_gateway (container_network_settings config name), p)
    \<and> ns_prefix (container_network_settings config name) = p"
proof -
  from container_address_shape [of config name] assms obtain a b c d where
    base: "base = Ipv4 a b c d" and gw: "ns_gateway (container_network_settings config name) = Ipv4 a b c 1"
    and pre: "ns_prefix (container_network_settings config name) = p" by auto
  from assms obtain addr ptext where split: "split_once (CHR ''/'') (lc_subnet config) = Some (addr, ptext)"
    and addr: "parse_ipv4 addr = Some (Ipv4 a b c d)" and p: "parse_uint U8_BOUND ptext = Some p" "p \<le> 32"
    unfolding base by (auto simp: parse_ipv4_cidr_def split: option.splits if_splits)
  from addr obtain s0 s1 s2 s3 where parts: "split_char (CHR ''.'') addr = [s0, s1, s2, s3]"
    and octets: "parse_octet s0 = Some a" "parse_octet s1 = Some b" "parse_octet s2 = Some c" "parse_octet s3 = Some d"
    by (auto simp: parse_ipv4_def split: list.splits option.splits)
  let ?g = "show_ipv4 (Ipv4 a b c 1) @ ''/'' @ ptext"
  have g: "bridge_gateway_cidr (lc_subnet config) = Some ?g"
    using octets [THEN parse_octet_uint] p
    by (simp add: bridge_gateway_cidr_def split parts show_octet_def)
  have "CHR ''/'' \<notin> set (show_ipv4 (Ipv4 a b c 1))" by (rule show_ipv4_no_char) simp_all
  then have "split_once (CHR ''/'') ?g = Some (show_ipv4 (Ipv4 a b c 1), ptext)"
    by (simp add: split_once_Some_iff)
  then have "parse_ipv4_cidr ?g = Some (Ipv4 a b c 1, p)"
    using p by (simp add: parse_ipv4_cidr_def parse_ipv4_show del: show_ipv4.simps)
  with g show ?thesis unfolding gw pre by (intro exI [of _ ?g] conjI) simp_all
qed

theorem bridge_gateway_is_container_gateway_witness:
  "\<exists>g. bridge_gateway_cidr ''172.32.0.0/16'' = Some g
     \<and> parse_ipv4_cidr g = Some (ns_gateway (container_network_settings (sample_config ''172.32.0.0/16'') ''web''), 16)"
proof -
  have p: "parse_ipv4_cidr ''172.32.0.0/16'' = Some (Ipv4 172 32 0 0, 16)" by code_simp
  have subnet: "lc_subnet (sample_config ''172.32.0.0/16'') = ''172.32.0.0/16''" by (simp add: sample_config_def)
  from bridge_gateway_is_container_gateway [of "sample_config ''172.32.0.0/16''" "Ipv4 172 32 0 0" 16 "''web''"] p
  show ?thesis unfolding subnet by blast
qed

end
